(* ===== verification/Prelude.thy ===== *)
theory Prelude
  imports Main "HOL-Library.Word" "HOL-Library.Monad_Syntax"
begin

text \<open>
  What the components share: the types of the C values, character buffers and the one
  library routine that writes them (\<open>snprintf\<close>), decimal conversion in both
  directions, and the little-endian layout of an \<open>int\<close> in a file.

  Undefined behaviour of the C program (an access outside a buffer, a null pointer, an
  uninitialised read, a spin that nobody can end) is the value \<^const>\<open>None\<close>; every
  definition that can run into it returns an \<open>option\<close>.
\<close>

named_theorems wrote_intros \<open>rules that compose writes to a packet\<close>

section \<open>Types\<close>

type_synonym epoch_t = "64 word"
type_synonym cbuf = "nat \<Rightarrow> char"
type_synonym addr = nat

abbreviation NUL :: char where
  "NUL \<equiv> CHR 0x00"

text \<open>\<open>BFSZ\<close>, the size of the small character buffers (inc/util.h).\<close>

definition BFSZ :: nat where
  "BFSZ = 128"

section \<open>Character buffers\<close>

definition write_str :: "cbuf \<Rightarrow> nat \<Rightarrow> string \<Rightarrow> cbuf" where
  "write_str b off s = (\<lambda>i. if off \<le> i \<and> i < off + length s then s ! (i - off) else b i)"

text \<open>The first \<open>n\<close> characters of a buffer.\<close>

definition text_of :: "cbuf \<Rightarrow> nat \<Rightarrow> string" where
  "text_of b n = map b [0..<n]"

text \<open>The C string a buffer of \<open>cap\<close> characters holds: up to its first NUL.\<close>

definition c_string :: "cbuf \<Rightarrow> nat \<Rightarrow> string" where
  "c_string b cap = takeWhile (\<lambda>c. c \<noteq> NUL) (text_of b cap)"

text \<open>
  \<open>snprintf(b + off, n, \<dots>)\<close> into a buffer of \<open>cap\<close> characters, \<open>s\<close> being the
  formatted text. The argument \<open>n\<close> is converted to \<open>size_t\<close>, so a negative
  difference becomes a huge bound. The call writes at most \<open>n - 1\<close> characters and a
  NUL, nothing when \<open>n\<close> is zero, and returns the length of the whole text.
\<close>

definition snprintf :: "nat \<Rightarrow> cbuf \<Rightarrow> nat \<Rightarrow> int \<Rightarrow> string \<Rightarrow> (cbuf \<times> nat) option" where
  "snprintf cap b off n s =
     (let k = nat (n mod 2 ^ 64) in
      if k = 0 then Some (b, length s)
      else let t = take (k - 1) s @ [NUL] in
        if off + length t \<le> cap then Some (write_str b off t, length s) else None)"

text \<open>
  A C string written by \<open>snprintf(dst, BFSZ, "%s", s)\<close> and read back: the text cut to
  \<open>BFSZ - 1\<close> characters.
\<close>

definition bf_cut :: "string \<Rightarrow> string" where
  "bf_cut s = take (BFSZ - 1) s"

lemma text_of_length [simp]: "length (text_of b n) = n"
  by (simp add: text_of_def)

lemma text_of_nth [simp]: "i < n \<Longrightarrow> text_of b n ! i = b i"
  by (simp add: text_of_def)

lemma text_of_0 [simp]: "text_of b 0 = []"
  by (simp add: text_of_def)

lemma text_of_Suc: "text_of b (Suc n) = text_of b n @ [b n]"
  by (simp add: text_of_def)

lemma take_text_of [simp]: "m \<le> n \<Longrightarrow> take m (text_of b n) = text_of b m"
  by (simp add: text_of_def take_map)

lemma text_of_write_before [simp]: "n \<le> off \<Longrightarrow> text_of (write_str b off s) n = text_of b n"
  by (auto simp: text_of_def write_str_def)

lemma text_of_write: "text_of (write_str b off s) (off + length s) = text_of b off @ s"
  by (rule nth_equalityI) (auto simp: nth_append write_str_def)

text \<open>A terminated write shows the text it added, and ends in the NUL.\<close>

lemma text_of_write_term:
  "text_of (write_str b off (s @ [NUL])) (off + length s) = text_of b off @ s"
proof -
  have "text_of (write_str b off (s @ [NUL])) (off + length s) =
      take (off + length s) (text_of (write_str b off (s @ [NUL])) (off + length (s @ [NUL])))"
    by simp
  also have "\<dots> = text_of b off @ s"
    by (subst text_of_write) simp
  finally show ?thesis .
qed

lemma write_term_end [simp]: "write_str b off (s @ [NUL]) (off + length s) = NUL"
  by (simp add: write_str_def nth_append)

text \<open>Two terminated writes, the second at the end of the first, are one write.\<close>

lemma write_write_term:
  "write_str (write_str b off (s @ [NUL])) (off + length s) (t @ [NUL]) =
   write_str b off (s @ t @ [NUL])"
  by (auto simp: write_str_def nth_append fun_eq_iff)

text \<open>Overwriting inside the visible text replaces exactly the characters written.\<close>

lemma text_of_overwrite:
  assumes "off + length s \<le> n"
  shows "text_of (write_str b off s) n =
    text_of b off @ s @ drop (off + length s) (text_of b n)"
  using assms
  by (intro nth_equalityI) (auto simp: nth_append write_str_def)

text \<open>A buffer whose visible text has no NUL and is terminated is that text as a C string.\<close>

lemma c_string_text:
  assumes "b n = NUL" "NUL \<notin> set (text_of b n)" "n < cap"
  shows "c_string b cap = text_of b n"
proof -
  have "text_of b cap = text_of b n @ b n # map b [Suc n..<cap]"
    using assms(3) upt_add_eq_append[of 0 n "cap - n"]
    by (simp add: text_of_def upt_rec)
  then have "c_string b cap = takeWhile (\<lambda>c. c \<noteq> NUL) (text_of b n @ b n # map b [Suc n..<cap])"
    by (simp add: c_string_def)
  also have "\<dots> = text_of b n @ takeWhile (\<lambda>c. c \<noteq> NUL) (b n # map b [Suc n..<cap])"
    using assms(2) by (intro takeWhile_append2) auto
  finally show ?thesis
    using assms(1) by simp
qed

text \<open>Within bounds \<open>snprintf\<close> adds the whole text; past the end it never returns safely.\<close>

lemma snprintf_fits:
  assumes "off + length s < cap" and "cap < 2 ^ 31"
  shows "snprintf cap b off (int cap - int off) s = Some (write_str b off (s @ [NUL]), length s)"
proof -
  have "(int cap - int off) mod 2 ^ 64 = int (cap - off)"
    using assms by simp
  then show ?thesis
    using assms by (simp add: snprintf_def Let_def)
qed

lemma snprintf_truncates:
  assumes "off \<le> cap" and "cap < 2 ^ 31" and "cap \<le> off + length s"
  shows "\<exists>b'. snprintf cap b off (int cap - int off) s = Some (b', length s)
    \<and> text_of b' off = text_of b off
    \<and> (off < cap \<longrightarrow> text_of b' (cap - 1) = text_of b off @ take (cap - off - 1) s \<and> b' (cap - 1) = NUL)"
proof (cases "off < cap")
  case False
  with assms show ?thesis by (simp add: snprintf_def)
next
  case True
  let ?t = "take (cap - off - 1) s"
  have k: "(int cap - int off) mod 2 ^ 64 = int (cap - off)"
    using assms by simp
  have len: "off + length ?t = cap - 1"
    using True assms(3) by simp
  have "snprintf cap b off (int cap - int off) s = Some (write_str b off (?t @ [NUL]), length s)"
    using True k assms(3) by (auto simp: snprintf_def Let_def nat_diff_distrib')
  moreover have "text_of (write_str b off (?t @ [NUL])) (cap - 1) = text_of b off @ ?t"
    using text_of_write_term[of b off ?t] unfolding len .
  moreover have "write_str b off (?t @ [NUL]) (cap - 1) = NUL"
    using write_term_end[of b off ?t] unfolding len .
  ultimately show ?thesis by simp
qed

lemma snprintf_past_end:
  assumes "cap < off" and "off < 2 ^ 31"
  shows "snprintf cap b off (int cap - int off) s = None"
proof -
  have "(int cap - int off) mod 2 ^ 64 = (int cap - int off + 2 ^ 64) mod 2 ^ 64"
    by simp
  also have "\<dots> = int cap - int off + 2 ^ 64"
    using assms by (intro mod_pos_pos_trivial) auto
  finally have "(int cap - int off) mod 2 ^ 64 = int cap - int off + 2 ^ 64" .
  then show ?thesis
    using assms by (simp add: snprintf_def Let_def)
qed

section \<open>Decimal numbers\<close>

definition digit :: "nat \<Rightarrow> char" where
  "digit d = char_of (48 + d)"

text \<open>The conversion \<open>%llu\<close> (and \<open>%lu\<close>, \<open>%hu\<close>) of a value.\<close>

fun show_nat :: "nat \<Rightarrow> string" where
  "show_nat n = (if n < 10 then [digit n] else show_nat (n div 10) @ [digit (n mod 10)])"

declare show_nat.simps [simp del]

definition show_ull :: "64 word \<Rightarrow> string" where
  "show_ull w = show_nat (unat w)"

text \<open>The conversion \<open>%20llu\<close>: right-justified in twenty columns.\<close>

definition show_ull20 :: "64 word \<Rightarrow> string" where
  "show_ull20 w = (let s = show_ull w in replicate (20 - length s) CHR '' '' @ s)"

text \<open>The value of a \<open>char\<close>, which is signed here.\<close>

definition schar :: "char \<Rightarrow> int" where
  "schar c = (let n = int (of_char c) in if n < 128 then n else n - 256)"

definition is_digit :: "char \<Rightarrow> bool" where
  "is_digit c \<longleftrightarrow> 48 \<le> (of_char c :: nat) \<and> (of_char c :: nat) \<le> 57"

lemma digit_values:
  "digit 0 = CHR ''0''" "digit 1 = CHR ''1''" "digit 2 = CHR ''2''" "digit 3 = CHR ''3''"
  "digit 4 = CHR ''4''" "digit 5 = CHR ''5''" "digit 6 = CHR ''6''" "digit 7 = CHR ''7''"
  "digit 8 = CHR ''8''" "digit 9 = CHR ''9''" "digit (Suc 0) = CHR ''1''"
  by (simp_all add: digit_def char_of_def bit_0)

lemma of_char_digit: "d < 10 \<Longrightarrow> (of_char (digit d) :: nat) = 48 + d"
  by (simp add: digit_def)

lemma is_digit_digit [simp]: "d < 10 \<Longrightarrow> is_digit (digit d)"
  by (simp add: is_digit_def of_char_digit)

lemma schar_digit: "d < 10 \<Longrightarrow> schar (digit d) = 48 + int d"
  by (simp add: schar_def digit_def Let_def)

lemma show_nat_digits: "c \<in> set (show_nat n) \<Longrightarrow> is_digit c"
proof (induction n rule: show_nat.induct)
  case (1 n)
  then show ?case
    by (subst (asm) (2) show_nat.simps) (auto split: if_splits)
qed

lemma digit_not_NUL: "is_digit c \<Longrightarrow> c \<noteq> NUL"
  by (auto simp: is_digit_def)

lemma show_nat_nonempty [simp]: "show_nat n \<noteq> []"
  by (subst show_nat.simps) simp

lemma length_show_nat: "n < 10 ^ k \<Longrightarrow> 0 < k \<Longrightarrow> length (show_nat n) \<le> k"
proof (induction n arbitrary: k rule: show_nat.induct)
  case (1 n)
  show ?case
  proof (cases "n < 10")
    case True
    with "1.prems" show ?thesis by (subst show_nat.simps) simp
  next
    case False
    with "1.prems" obtain m where k: "k = Suc m" and "0 < m"
      by (cases k; cases "k - 1") auto
    with "1.prems" have "n div 10 < 10 ^ m"
      by (simp add: less_mult_imp_div_less mult.commute)
    with "1.IH" False \<open>0 < m\<close> have "length (show_nat (n div 10)) \<le> m"
      by blast
    with False k show ?thesis by (subst show_nat.simps) simp
  qed
qed

lemma length_show_ull: "length (show_ull w) \<le> 20"
proof -
  have "unat w < 2 ^ 64"
    using unsigned_less[of w] by simp
  then have "unat w < 10 ^ 20" by simp
  then show ?thesis
    unfolding show_ull_def by (rule length_show_nat) simp
qed

lemma length_show_ull20 [simp]: "length (show_ull20 w) = 20"
  using length_show_ull[of w] by (simp add: show_ull20_def Let_def)

lemma show_ull_no_NUL [simp]: "NUL \<notin> set (show_ull w)"
  using show_nat_digits[of NUL "unat w"] digit_not_NUL[of NUL] by (auto simp: show_ull_def)

lemma show_ull20_no_NUL [simp]: "NUL \<notin> set (show_ull20 w)"
  by (simp add: show_ull20_def Let_def)

text \<open>
  Reading a decimal name back in 64-bit arithmetic, one \<open>char\<close> at a time, gives the
  number \<open>%llu\<close> printed.
\<close>

definition dec_step :: "64 word \<Rightarrow> char \<Rightarrow> 64 word" where
  "dec_step t c = t * 10 + word_of_int (schar c) - 48"

lemma dec_step_digit: "d < 10 \<Longrightarrow> dec_step t (digit d) = t * 10 + of_nat d"
  by (simp add: dec_step_def schar_digit)

lemma dec_read_show: "foldl dec_step 0 (show_nat n) = of_nat n"
proof (induction n rule: show_nat.induct)
  case (1 n)
  show ?case
  proof (cases "n < 10")
    case True
    then show ?thesis by (subst show_nat.simps) (simp add: dec_step_digit)
  next
    case False
    have "of_nat n = (of_nat (n div 10 * 10 + n mod 10) :: 64 word)"
      by simp
    also have "\<dots> = of_nat (n div 10) * 10 + of_nat (n mod 10)"
      by (simp only: of_nat_add of_nat_mult) simp
    finally have "of_nat n = (of_nat (n div 10) * 10 + of_nat (n mod 10) :: 64 word)" .
    moreover have "foldl dec_step 0 (show_nat n) = dec_step (of_nat (n div 10)) (digit (n mod 10))"
      using False "1.IH" by (subst show_nat.simps) simp
    ultimately show ?thesis
      by (simp add: dec_step_digit)
  qed
qed

lemma dec_read_show_ull: "foldl dec_step 0 (show_ull w) = w"
  by (simp add: show_ull_def dec_read_show)

section \<open>An int in a file\<close>

text \<open>The four bytes of an \<open>int\<close> as \<open>fwrite\<close> stores it (little-endian), and back.\<close>

definition int_bytes :: "32 word \<Rightarrow> string" where
  "int_bytes w = map (\<lambda>i. char_of (unat w div 256 ^ i)) [0..<4]"

definition bytes_int :: "string \<Rightarrow> 32 word" where
  "bytes_int s = of_nat (foldr (\<lambda>c n. of_char c + 256 * n) s 0)"

lemma length_int_bytes [simp]: "length (int_bytes w) = 4"
  by (simp add: int_bytes_def)

lemma bytes_int_bytes [simp]: "bytes_int (int_bytes w) = w"
proof -
  let ?n = "unat w"
  have "?n < 2 ^ 32"
    using unsigned_less[of w] by simp
  then have "?n div 16777216 mod 256 = ?n div 65536 div 256" and "?n div 65536 = ?n div 256 div 256"
    by (simp_all flip: div_mult2_eq)
  then have "?n mod 256 + 256 * (?n div 256 mod 256 + 256 * (?n div 65536 mod 256
      + 256 * (?n div 16777216 mod 256))) = ?n"
    by (simp only: mod_mult_div_eq)
  moreover have "[0..<4] = [0, 1, 2, 3::nat]"
    by (simp add: upt_rec)
  then have "foldr (\<lambda>c n. of_char c + 256 * n) (int_bytes w) 0 =
      ?n mod 256 + 256 * (?n div 256 mod 256 + 256 * (?n div 65536 mod 256
      + 256 * (?n div 16777216 mod 256)))"
    by (simp add: int_bytes_def)
  ultimately have "foldr (\<lambda>c n. of_char c + 256 * n) (int_bytes w) 0 = ?n"
    by (simp only:)
  then show ?thesis
    by (simp add: bytes_int_def)
qed

end
