(* ===== verification/Util.thy ===== *)
theory Util
  imports Prelude
begin

text \<open>
  The clock (src/util.c) and the machine the agent runs on. The readings of the clock, the
  success of each \<open>malloc\<close> and the outcome of each transfer are not determined by the
  program: they are functions of the number of readings made so far, which the state
  counts. The files are a map from names to contents; which names can be opened for
  writing is up to the machine.
\<close>

section \<open>Time\<close>

record timespec =
  tv_sec :: "64 word"
  tv_nsec :: "64 word"

definition MSPS :: "64 word" where
  "MSPS = 1000"

definition NSPMS :: "64 word" where
  "NSPMS = 1000000"

definition BPKB :: "64 word" where
  "BPKB = 1024"

definition epoch_of :: "timespec \<Rightarrow> epoch_t" where
  "epoch_of now = tv_sec now * MSPS + tv_nsec now div NSPMS"

section \<open>The machine\<close>

text \<open>
  The outcome of one \<open>curl_easy_perform\<close>: its code, the status of the response and the
  chunks of the body it handed to the write callback.
\<close>

record transfer =
  curl_code :: int
  status_code :: int
  chunks :: "string list"

text \<open>
  \<open>net n url body\<close> is the outcome of sending \<open>body\<close> to \<open>url\<close>; \<open>sent\<close> records every request
  made, with its URL and body.
\<close>

record machine =
  clock :: "nat \<Rightarrow> timespec"
  malloc_ok :: "nat \<Rightarrow> bool"
  readings :: nat
  net :: "nat \<Rightarrow> string \<Rightarrow> string \<Rightarrow> transfer"
  sent :: "(string \<times> string) list"
  files :: "string \<Rightarrow> string option"
  creatable :: "string \<Rightarrow> bool"

definition epoch_time :: "machine \<Rightarrow> epoch_t \<times> machine" where
  "epoch_time w = (epoch_of (clock w (readings w)), w\<lparr>readings := Suc (readings w)\<rparr>)"

definition malloc :: "machine \<Rightarrow> bool \<times> machine" where
  "malloc w = (malloc_ok w (readings w), w\<lparr>readings := Suc (readings w)\<rparr>)"

text \<open>
  The identifiers of the agent and of a target: the product of three readings, in 64 bits
  (src/metadata.c, src/plugin.c).
\<close>

definition fresh_id :: "machine \<Rightarrow> epoch_t \<times> machine" where
  "fresh_id w =
     (let (a, w1) = epoch_time w; (b, w2) = epoch_time w1; (c, w3) = epoch_time w2
      in (a * b * c, w3))"

text \<open>A reading of the clock that is in range: a time before the year 500 million, a proper nanosecond.\<close>

definition sane_time :: "timespec \<Rightarrow> bool" where
  "sane_time t \<longleftrightarrow> unat (tv_sec t) < 2 ^ 53 \<and> unat (tv_nsec t) < 10 ^ 9"

lemma epoch_of_unat:
  assumes "sane_time t"
  shows "unat (epoch_of t) = unat (tv_sec t) * 1000 + unat (tv_nsec t) div 1000000"
proof -
  have s: "unat (tv_sec t) * 1000 < 2 ^ 53 * 1000" and n: "unat (tv_nsec t) div 1000000 < 1000"
    using assms by (auto simp: sane_time_def)
  have a: "unat (tv_sec t * 1000) = unat (tv_sec t) * 1000"
    using s by (simp add: unat_mult_lem[THEN iffD1])
  have b: "unat (tv_nsec t div 1000000) = unat (tv_nsec t) div 1000000"
    by (simp add: unat_div_distrib)
  show ?thesis
    unfolding epoch_of_def MSPS_def NSPMS_def
    using a b s n by (subst unat_add_lem[THEN iffD1]) auto
qed

text \<open>
  A machine for concrete runs: the clock stands still, memory never runs out, every
  request is answered with status 202 and no body, and there are no files.
\<close>

definition sample_machine :: machine where
  "sample_machine =
     \<lparr>clock = (\<lambda>n. \<lparr>tv_sec = 1000, tv_nsec = 0\<rparr>), malloc_ok = (\<lambda>_. True), readings = 0,
      net = (\<lambda>_ _ _. \<lparr>curl_code = 0, status_code = 202, chunks = []\<rparr>), sent = [],
      files = (\<lambda>_. None), creatable = (\<lambda>_. True)\<rparr>"

lemma sample_machine_simps [simp]:
  "clock sample_machine n = \<lparr>tv_sec = 1000, tv_nsec = 0\<rparr>" "malloc_ok sample_machine n"
  "readings sample_machine = 0"
  "net sample_machine n url body = \<lparr>curl_code = 0, status_code = 202, chunks = []\<rparr>"
  "sent sample_machine = []" "files sample_machine name = None" "creatable sample_machine name"
  by (simp_all add: sample_machine_def)

section \<open>Properties\<close>

text \<open>
  A reading of the clock in range is the time in milliseconds, without wrap-around, so
  a later time never has a smaller reading.
\<close>

theorem epoch_of_monotone:
  assumes "sane_time t" "sane_time u"
    and "unat (tv_sec t) < unat (tv_sec u) \<or>
      unat (tv_sec t) = unat (tv_sec u) \<and> unat (tv_nsec t) \<le> unat (tv_nsec u)"
  shows "unat (epoch_of t) = unat (tv_sec t) * 1000 + unat (tv_nsec t) div 1000000
    \<and> epoch_of t \<le> epoch_of u"
proof -
  have n: "unat (tv_nsec t) div 1000000 < 1000"
    using assms(1) by (auto simp: sane_time_def)
  have "unat (tv_sec t) * 1000 + unat (tv_nsec t) div 1000000
      \<le> unat (tv_sec u) * 1000 + unat (tv_nsec u) div 1000000"
    using assms(3)
  proof
    assume "unat (tv_sec t) < unat (tv_sec u)"
    with n show ?thesis by linarith
  next
    assume "unat (tv_sec t) = unat (tv_sec u) \<and> unat (tv_nsec t) \<le> unat (tv_nsec u)"
    then show ?thesis by (simp add: div_le_mono)
  qed
  then show ?thesis
    using epoch_of_unat[OF assms(1)] epoch_of_unat[OF assms(2)] by (simp add: word_le_nat_alt)
qed

theorem epoch_of_monotone_witness:
  "unat (epoch_of \<lparr>tv_sec = 5, tv_nsec = 999999999\<rparr>) = 5999
   \<and> epoch_of \<lparr>tv_sec = 5, tv_nsec = 999999999\<rparr> \<le> epoch_of \<lparr>tv_sec = 6, tv_nsec = 0\<rparr>"
  using epoch_of_monotone[of "\<lparr>tv_sec = 5, tv_nsec = 999999999\<rparr>" "\<lparr>tv_sec = 6, tv_nsec = 0\<rparr>"]
  by (simp add: sane_time_def)

end
