(* ===== verification/Json.thy ===== *)
theory Json
  imports Prelude
begin

text \<open>
  The documents the agent sends, as values and as text. No part of the agent builds a
  document as a value: it appends text to a packet piece by piece. The values and their
  rendering here are the specification the pieces are proved to add up to.
\<close>

datatype json =
    JStr string
  | JNum string
  | JArr "json list"
  | JObj "(string \<times> json) list"

text \<open>The pieces of a list separated by commas.\<close>

fun commas :: "string list \<Rightarrow> string" where
  "commas [] = []"
| "commas [x] = x"
| "commas (x # y # zs) = x @ '','' @ commas (y # zs)"

definition dq :: "string \<Rightarrow> string" where
  "dq s = CHR 0x22 # s @ [CHR 0x22]"

fun jshow :: "json \<Rightarrow> string" where
  "jshow (JStr s) = dq s"
| "jshow (JNum s) = s"
| "jshow (JArr xs) = ''['' @ commas (map jshow xs) @ '']''"
| "jshow (JObj ms) = ''{'' @ commas (map (\<lambda>(k, v). dq k @ '':'' @ jshow v) ms) @ ''}''"

text \<open>One member, and the members of an object without its braces.\<close>

definition jmember :: "string \<times> json \<Rightarrow> string" where
  "jmember = (\<lambda>(k, v). dq k @ '':'' @ jshow v)"

definition jmembers :: "(string \<times> json) list \<Rightarrow> string" where
  "jmembers ms = commas (map jmember ms)"

lemma jshow_obj: "jshow (JObj ms) = ''{'' @ jmembers ms @ ''}''"
  by (simp add: jmembers_def jmember_def)

lemma commas_snoc:
  "commas (xs @ [x]) = (if xs = [] then x else commas xs @ '','' @ x)"
  by (induction xs rule: commas.induct) auto

lemma commas_append:
  "commas (xs @ ys) =
     (if xs = [] then commas ys else if ys = [] then commas xs else commas xs @ '','' @ commas ys)"
  by (induction xs rule: commas.induct) (auto simp: neq_Nil_conv)

lemma jmembers_append:
  "jmembers (ms @ ns) =
     (if ms = [] then jmembers ns else if ns = [] then jmembers ms
      else jmembers ms @ '','' @ jmembers ns)"
  by (simp add: jmembers_def commas_append)

lemma jmembers_Nil [simp]: "jmembers [] = []"
  by (simp add: jmembers_def)

lemma jmembers_Cons:
  "jmembers (m # ms) = jmember m @ (if ms = [] then [] else '','' @ jmembers ms)"
  by (cases ms) (simp_all add: jmembers_def)

lemma jmember_nonempty [simp]: "jmember m \<noteq> []"
  by (cases m) (simp add: jmember_def dq_def)

lemma jmembers_eq_Nil [simp]: "jmembers ms = [] \<longleftrightarrow> ms = []"
  by (cases ms) (auto simp: jmembers_Cons)

lemma jmember_num: "jmember (name, JNum s) = dq name @ '':'' @ s"
  by (simp add: jmember_def)

lemma jmember_obj: "jmember (name, JObj ms) = dq name @ '':{'' @ jmembers ms @ ''}''"
  unfolding jmember_def by (simp only: jshow_obj prod.case) simp

section \<open>The array loops\<close>

text \<open>
  The loop \<open>for(i = 0; i < k; i++) packet_append(pkt, "%s\<dots>", i ? "," : "", \<dots>)\<close>
  appends one piece per element: all but the first are preceded by a comma.
\<close>

fun elem_pieces :: "('a \<Rightarrow> string) \<Rightarrow> 'a list \<Rightarrow> string list" where
  "elem_pieces f [] = []"
| "elem_pieces f (x # xs) = f x # map (\<lambda>y. '','' @ f y) xs"

lemma concat_elem_pieces: "concat (elem_pieces f xs) = commas (map f xs)"
proof (cases xs)
  case (Cons x ys)
  have "f x @ concat (map (\<lambda>y. CHR '','' # f y) ys) = commas (f x # map f ys)"
    by (induction ys arbitrary: x) auto
  with Cons show ?thesis by simp
qed simp

section \<open>Escaping\<close>

text \<open>
  The sources print strings between quotes as they are, and so does \<^const>\<open>jshow\<close>. The language asks for
  more: a quote, a backslash and the control characters have to be escaped inside a string. \<open>jrender\<close>
  does that. The two agree on values whose strings and names need no escape, and the texts of the
  agent are JSON for these.
\<close>

definition hex :: "nat \<Rightarrow> char" where
  "hex d = ''0123456789abcdef'' ! d"

definition needs_escape :: "char \<Rightarrow> bool" where
  "needs_escape c \<longleftrightarrow> c = CHR 0x22 \<or> c = CHR 0x5C \<or> of_char c < (32 :: nat)"

definition escaped :: "char \<Rightarrow> string" where
  "escaped c =
     (if \<not> needs_escape c then [c]
      else if of_char c < (32 :: nat) then CHR 0x5C # ''u00'' @ [hex (of_char c div 16), hex (of_char c mod 16)]
      else [CHR 0x5C, c])"

definition jstring :: "string \<Rightarrow> string" where
  "jstring s = dq (concat (map escaped s))"

fun jrender :: "json \<Rightarrow> string" where
  "jrender (JStr s) = jstring s"
| "jrender (JNum s) = s"
| "jrender (JArr xs) = ''['' @ commas (map jrender xs) @ '']''"
| "jrender (JObj ms) = ''{'' @ commas (map (\<lambda>(k, v). jstring k @ '':'' @ jrender v) ms) @ ''}''"

definition plain :: "string \<Rightarrow> bool" where
  "plain s \<longleftrightarrow> (\<forall>c \<in> set s. \<not> needs_escape c)"

fun jplain :: "json \<Rightarrow> bool" where
  "jplain (JStr s) = plain s"
| "jplain (JNum s) = True"
| "jplain (JArr xs) = list_all jplain xs"
| "jplain (JObj ms) = list_all (\<lambda>(k, v). plain k \<and> jplain v) ms"

lemma jstring_plain: "plain s \<Longrightarrow> jstring s = dq s"
  by (induction s) (simp_all add: jstring_def plain_def escaped_def dq_def)

lemma jrender_plain: "jplain v \<Longrightarrow> jrender v = jshow v"
proof (induction v)
  case (JArr xs)
  then have "map jrender xs = map jshow xs" by (auto simp: list_all_iff)
  then show ?case by (simp del: map_eq_conv)
next
  case (JObj ms)
  have "map (\<lambda>(k, v). jstring k @ '':'' @ jrender v) ms = map (\<lambda>(k, v). dq k @ '':'' @ jshow v) ms"
    using JObj by (auto simp: list_all_iff jstring_plain)
  then show ?case by (simp del: map_eq_conv)
qed (simp_all add: jstring_plain)

text \<open>A name with a quote in it is written in a way that ends the string early.\<close>

lemma jshow_unescaped: "jshow (JStr [CHR 0x22]) \<noteq> jrender (JStr [CHR 0x22])"
  by (simp add: jstring_def escaped_def needs_escape_def dq_def)

end
