(* ===== verification/Packet.thy ===== *)
theory Packet
  imports Util Json
begin

text \<open>
  Packets (src/packet.c, inc/packet.h): the record, its life cycle, and the operations
  that append text to the payload, mark a rollback point and return to it.

  The payload is the array of \<open>PKTSZ\<close> characters as a function of the index, with every
  access checked against \<open>PKTSZ\<close>. The visible text of a packet is its first \<open>size\<close>
  characters.
\<close>

section \<open>The packet record\<close>

definition PKTSZ :: nat where
  "PKTSZ = 32768"

datatype packet_type = METRIC | REGISTER | ALERT

datatype packet_state = EMPTY | BEGIN | WROTE | READY | DONE | FREE

text \<open>The response codes of the server. The field itself holds any \<open>int\<close>.\<close>

definition EINVALLICENSE :: int where "EINVALLICENSE = 201"
definition ETARGETAUTHFAIL :: int where "ETARGETAUTHFAIL = 202"
definition EAGENTAUTHFAIL :: int where "EAGENTAUTHFAIL = 203"
definition ETARGETNOTFOUND :: int where "ETARGETNOTFOUND = 301"
definition ETARGETREG :: int where "ETARGETREG = 302"
definition ETARGETPCH :: int where "ETARGETPCH = 303"
definition ETARGETVER :: int where "ETARGETVER = 401"
definition EAGENTVER :: int where "EAGENTVER = 402"
definition ENOTSUPPORT :: int where "ENOTSUPPORT = 403"
definition EAGENTREG :: int where "EAGENTREG = 404"
definition EAGENTPCH :: int where "EAGENTPCH = 405"

text \<open>
  The fields \<open>size\<close>, \<open>rollback_point\<close> and \<open>attempt\<close> are of type \<open>int\<close> in the source and natural numbers here. The
  size is never negative and grows by one text at a time: once it has passed \<open>PKTSZ\<close>, the next append
  is undefined, so it stays far below \<open>2 ^ 31\<close> for every text that is. The number of attempts would need
  more than two thousand million transfers of one packet to leave its range.
\<close>

record packet =
  started :: epoch_t
  ptype :: packet_type
  pstate :: packet_state
  response :: int
  psize :: nat
  rollback_point :: nat
  attempt :: nat
  payload :: cbuf
  spin :: int
  pnext :: "addr option"

section \<open>Operations\<close>

definition packet_type_of :: "int \<Rightarrow> packet_type option" where
  "packet_type_of t =
     (if t = 0 then Some METRIC else if t = 1 then Some REGISTER
      else if t = 2 then Some ALERT else None)"

definition packet_alloc :: "int \<Rightarrow> machine \<Rightarrow> packet option \<times> machine" where
  "packet_alloc type w =
     (case packet_type_of type of
        None \<Rightarrow> (None, w)
      | Some t \<Rightarrow>
          (let (ok, w1) = malloc w in
           if \<not> ok then (None, w1)
           else (Some \<lparr>started = 0, ptype = t, pstate = EMPTY, response = 0, psize = 0,
                   rollback_point = 0, attempt = 0, payload = (\<lambda>_. NUL), spin = 0,
                   pnext = None\<rparr>, w1)))"

definition packet_append :: "string \<Rightarrow> packet \<Rightarrow> packet option" where
  "packet_append s p = do {
     (b, n) \<leftarrow> snprintf PKTSZ (payload p) (psize p) (int PKTSZ - int (psize p)) s;
     Some (p\<lparr>payload := b, psize := psize p + n\<rparr>)
   }"

text \<open>
  The spin lock of a packet: one thread alone can only take it when it is free; a thread
  that finds it taken and has nobody to release it never returns.
\<close>

definition packet_fetch :: "packet \<Rightarrow> (cbuf option \<times> packet) option" where
  "packet_fetch p =
     (if spin p \<noteq> 0 then None
      else Some (if pstate p = READY then Some (payload p) else None, p\<lparr>spin := 0\<rparr>))"

definition packet_change_state ::
  "packet \<Rightarrow> packet_state \<Rightarrow> packet_state \<Rightarrow> int \<times> packet" where
  "packet_change_state p from to =
     (if pstate p = from then (0, p\<lparr>pstate := to\<rparr>) else (-1, p))"

text \<open>
  The quotient is an integer, compared with \<open>PACKET_EXP\<close> (6.033) as a float; the
  comparison is the one of the thousandths.
\<close>

definition PACKET_EXP_thousandths :: nat where
  "PACKET_EXP_thousandths = 6033"

definition packet_expired :: "packet \<Rightarrow> machine \<Rightarrow> bool \<times> machine" where
  "packet_expired p w =
     (let (t, w1) = epoch_time w in
      (PACKET_EXP_thousandths \<le> 1000 * unat ((t - started p) div MSPS), w1))"

definition packet_transaction :: "packet \<Rightarrow> packet" where
  "packet_transaction p = p\<lparr>rollback_point := psize p\<rparr>"

definition packet_commit :: "packet \<Rightarrow> packet" where
  "packet_commit p = p\<lparr>rollback_point := psize p\<rparr>"

text \<open>\<open>pkt->size = n; pkt->payload[pkt->size] = '\0'\<close>\<close>

definition packet_cut :: "nat \<Rightarrow> packet \<Rightarrow> packet option" where
  "packet_cut n p =
     (if n < PKTSZ then Some (p\<lparr>psize := n, payload := (payload p)(n := NUL)\<rparr>) else None)"

definition packet_rollback :: "packet \<Rightarrow> packet option" where
  "packet_rollback p = packet_cut (rollback_point p) p"

text \<open>\<open>pkt->payload[pkt->size-1]\<close>\<close>

definition last_char :: "packet \<Rightarrow> char option" where
  "last_char p =
     (if 0 < psize p \<and> psize p \<le> PKTSZ then Some (payload p (psize p - 1)) else None)"

text \<open>
  A gathering function takes its module and a packet and returns an error code (0 is
  success), the module and the packet.
\<close>

type_synonym 'm gather_fun = "'m \<Rightarrow> packet \<Rightarrow> (int \<times> 'm \<times> packet) option"

definition packet_gather ::
  "string \<Rightarrow> 'm gather_fun \<Rightarrow> 'm \<Rightarrow> packet \<Rightarrow> (int \<times> 'm \<times> packet) option" where
  "packet_gather tag func m p = do {
     let rp = psize p;
     c \<leftarrow> last_char p;
     p1 \<leftarrow> packet_append ((if c = CHR ''}'' then '','' else []) @ dq tag @ '':{'') p;
     (res, m', p2) \<leftarrow> func m p1;
     if res \<noteq> 0 then do {
       p3 \<leftarrow> packet_cut rp p2;
       Some (res, m', p3)
     } else do {
       p3 \<leftarrow> packet_append ''}'' p2;
       Some (0, m', p3)
     }
   }"

section \<open>Writing within the bound\<close>

text \<open>The visible text, and a packet whose text was not cut.\<close>

definition ptext :: "packet \<Rightarrow> string" where
  "ptext p = text_of (payload p) (psize p)"

definition pkt_ok :: "packet \<Rightarrow> bool" where
  "pkt_ok p \<longleftrightarrow> psize p < PKTSZ \<and> payload p (psize p) = NUL"

definition room :: "packet \<Rightarrow> nat \<Rightarrow> bool" where
  "room p n \<longleftrightarrow> psize p + n < PKTSZ"

text \<open>
  \<open>wrote s p q\<close>: between \<open>p\<close> and \<open>q\<close> exactly \<open>s\<close> was added to the text, the packet is
  terminated, and no other field changed.
\<close>

definition wrote :: "string \<Rightarrow> packet \<Rightarrow> packet \<Rightarrow> bool" where
  "wrote s p q \<longleftrightarrow>
     pkt_ok q \<and> psize q = psize p + length s \<and> ptext q = ptext p @ s \<and>
     q\<lparr>psize := psize p, payload := payload p\<rparr> = p"

lemma PKTSZ_bound: "PKTSZ < 2 ^ 31"
  by (simp add: PKTSZ_def)

lemma length_ptext [simp]: "length (ptext p) = psize p"
  by (simp add: ptext_def)

lemma ptext_upd [simp]:
  "ptext (p\<lparr>started := t\<rparr>) = ptext p" "ptext (p\<lparr>ptype := ty\<rparr>) = ptext p"
  "ptext (p\<lparr>pstate := st\<rparr>) = ptext p" "ptext (p\<lparr>response := r\<rparr>) = ptext p"
  "ptext (p\<lparr>rollback_point := n\<rparr>) = ptext p" "ptext (p\<lparr>attempt := n\<rparr>) = ptext p"
  "ptext (p\<lparr>spin := i\<rparr>) = ptext p" "ptext (p\<lparr>pnext := a\<rparr>) = ptext p"
  by (simp_all add: ptext_def)

lemma pkt_ok_upd [simp]:
  "pkt_ok (p\<lparr>started := t\<rparr>) = pkt_ok p" "pkt_ok (p\<lparr>ptype := ty\<rparr>) = pkt_ok p"
  "pkt_ok (p\<lparr>pstate := st\<rparr>) = pkt_ok p" "pkt_ok (p\<lparr>response := r\<rparr>) = pkt_ok p"
  "pkt_ok (p\<lparr>rollback_point := n\<rparr>) = pkt_ok p" "pkt_ok (p\<lparr>attempt := n\<rparr>) = pkt_ok p"
  "pkt_ok (p\<lparr>spin := i\<rparr>) = pkt_ok p" "pkt_ok (p\<lparr>pnext := a\<rparr>) = pkt_ok p"
  by (simp_all add: pkt_ok_def)

lemma wrote_fields:
  assumes "wrote s p q"
  shows "pkt_ok q" "psize q = psize p + length s" "ptext q = ptext p @ s"
    "started q = started p" "ptype q = ptype p" "pstate q = pstate p"
    "response q = response p" "rollback_point q = rollback_point p"
    "attempt q = attempt p" "spin q = spin p" "pnext q = pnext p"
  using assms by (cases p; cases q; simp add: wrote_def)+

lemma wrote_refl: "pkt_ok p \<Longrightarrow> wrote [] p p"
  by (simp add: wrote_def)

lemma wrote_trans:
  assumes "wrote s p q" and "wrote t q r"
  shows "wrote (s @ t) p r"
  using assms by (cases p; cases q; cases r) (auto simp: wrote_def)

lemma wrote_room: "wrote s p q \<Longrightarrow> room q n = room p (length s + n)"
  by (simp add: room_def wrote_fields add.assoc)

lemma room_mono: "room p n \<Longrightarrow> m \<le> n \<Longrightarrow> room p m"
  by (simp add: room_def)

lemma packet_append_wrote:
  assumes "room p (length s)"
  obtains q where "packet_append s p = Some q" "wrote s p q"
proof -
  let ?q = "p\<lparr>payload := write_str (payload p) (psize p) (s @ [NUL]), psize := psize p + length s\<rparr>"
  have "packet_append s p = Some ?q"
    using assms PKTSZ_bound by (simp add: packet_append_def snprintf_fits room_def)
  moreover have "wrote s p ?q"
    using assms by (simp add: wrote_def pkt_ok_def room_def ptext_def text_of_write_term)
  ultimately show thesis ..
qed

text \<open>A run of appends.\<close>

fun append_all :: "string list \<Rightarrow> packet \<Rightarrow> packet option" where
  "append_all [] p = Some p"
| "append_all (s # ss) p = do { q \<leftarrow> packet_append s p; append_all ss q }"

lemma append_all_wrote:
  assumes "pkt_ok p" and "room p (length (concat ss))"
  shows "\<exists>q. append_all ss p = Some q \<and> wrote (concat ss) p q"
  using assms
proof (induction ss arbitrary: p)
  case Nil
  then show ?case by (simp add: wrote_refl)
next
  case (Cons s ss)
  have "room p (length s)"
    using Cons.prems(2) by (rule room_mono) simp
  then obtain q where q: "packet_append s p = Some q" "wrote s p q"
    by (rule packet_append_wrote)
  with Cons.prems have "pkt_ok q" "room q (length (concat ss))"
    by (simp_all add: wrote_fields wrote_room)
  from Cons.IH[OF this] obtain r where "append_all ss q = Some r" "wrote (concat ss) q r"
    by blast
  with q show ?case by (auto intro: wrote_trans)
qed

lemma append_all_single [simp]: "append_all [s] = packet_append s"
proof
  fix p
  have "append_all [] = Some" by (rule ext) simp
  then show "append_all [s] p = packet_append s p" by simp
qed

text \<open>An empty append on a terminated packet changes nothing.\<close>

lemma packet_append_Nil:
  assumes "pkt_ok p"
  shows "packet_append [] p = Some p"
proof -
  have "write_str (payload p) (psize p) [NUL] = payload p"
    using assms by (auto simp: write_str_def fun_eq_iff pkt_ok_def less_Suc_eq)
  then show ?thesis
    using assms snprintf_fits[of "psize p" "[]" PKTSZ] PKTSZ_bound
    by (simp add: packet_append_def pkt_ok_def)
qed

lemma append_all_append:
  "append_all (ss @ ts) p = do { q \<leftarrow> append_all ss p; append_all ts q }"
  by (induction ss arbitrary: p) (auto split: Option.bind_splits)

lemma last_char_ptext: "pkt_ok p \<Longrightarrow> ptext p \<noteq> [] \<Longrightarrow> last_char p = Some (last (ptext p))"
  by (cases "psize p") (auto simp: last_char_def pkt_ok_def ptext_def text_of_Suc)

text \<open>Cutting back to an earlier size shows the earlier text again.\<close>

lemma packet_cut_wrote:
  assumes "pkt_ok p" and "wrote s p q"
  shows "\<exists>r. packet_cut (psize p) q = Some r \<and> wrote [] p r"
proof -
  let ?r = "q\<lparr>psize := psize p, payload := (payload q)(psize p := NUL)\<rparr>"
  have size: "psize p < PKTSZ"
    using assms(1) by (simp add: pkt_ok_def)
  have "text_of (payload q) (psize p) = take (psize p) (ptext q)"
    using wrote_fields(2)[OF assms(2)] by (simp add: ptext_def)
  also have "\<dots> = ptext p"
    using wrote_fields(3)[OF assms(2)] by simp
  finally have "text_of (payload q) (psize p) = ptext p" .
  then have "ptext ?r = ptext p"
    by (simp add: ptext_def text_of_def)
  then have "wrote [] p ?r"
    using assms(2) size by (cases p; cases q) (simp add: wrote_def pkt_ok_def)
  with size show ?thesis
    by (simp add: packet_cut_def)
qed

section \<open>The contract of a gathering function\<close>

text \<open>
  What a gathering function promises to \<open>packet_gather\<close>: on a packet that has just been
  given an opening brace and has enough room, it returns its code and adds its text. The
  room it needs may exceed its text, since text that is rolled back needs room too.
\<close>

record 'm gspec =
  g_code :: "'m \<Rightarrow> int"
  g_out :: "'m \<Rightarrow> string"
  g_upd :: "'m \<Rightarrow> 'm"
  g_need :: "'m \<Rightarrow> nat"

locale gatherer =
  fixes f :: "'m gather_fun" and sp :: "'m gspec"
  assumes out_need: "length (g_out sp m) \<le> g_need sp m"
    and gathers: "pkt_ok p \<Longrightarrow> ptext p \<noteq> [] \<Longrightarrow> last (ptext p) = CHR ''{'' \<Longrightarrow>
      room p (g_need sp m) \<Longrightarrow>
      \<exists>q. f m p = Some (g_code sp m, g_upd sp m, q) \<and> wrote (g_out sp m) p q"
begin

lemma packet_gather_wrote:
  assumes ok: "pkt_ok p" "ptext p \<noteq> []" and space: "room p (length tag + 6 + g_need sp m)"
  shows "\<exists>q. packet_gather tag f m p = Some (g_code sp m, g_upd sp m, q) \<and>
    wrote (if g_code sp m = 0
           then (if last (ptext p) = CHR ''}'' then '','' else []) @ dq tag @ '':{'' @ g_out sp m @ ''}''
           else []) p q"
proof -
  let ?head = "(if last (ptext p) = CHR ''}'' then '','' else []) @ dq tag @ '':{''"
  have "room p (length ?head)"
    using space by (rule room_mono) (simp add: dq_def)
  then obtain p1 where p1: "packet_append ?head p = Some p1" "wrote ?head p p1"
    by (rule packet_append_wrote)
  have "room p1 (g_need sp m)"
    using space by (auto simp: wrote_room[OF p1(2)] dq_def elim!: room_mono)
  moreover have "pkt_ok p1" "ptext p1 \<noteq> []" "last (ptext p1) = CHR ''{''"
    using wrote_fields(1,3)[OF p1(2)] by simp_all
  ultimately obtain p2 where
    p2: "f m p1 = Some (g_code sp m, g_upd sp m, p2)" "wrote (g_out sp m) p1 p2"
    using gathers by blast
  have w2: "wrote (?head @ g_out sp m) p p2"
    using p1(2) p2(2) by (rule wrote_trans)
  note run = packet_gather_def last_char_ptext[OF ok] p1(1) p2(1)
  show ?thesis
  proof (cases "g_code sp m = 0")
    case False
    from packet_cut_wrote[OF ok(1) w2] obtain q
      where "packet_cut (psize p) p2 = Some q" "wrote [] p q" by blast
    with False show ?thesis by (simp add: run)
  next
    case True
    have "room p2 (length ''}'')"
      using space out_need[of m] by (auto simp: wrote_room[OF w2] dq_def elim!: room_mono)
    then obtain q where "packet_append ''}'' p2 = Some q" "wrote ''}'' p2 q"
      by (rule packet_append_wrote)
    with True wrote_trans[OF w2, of "''}''" q] show ?thesis by (simp add: run)
  qed
qed

text \<open>After text that does not end a section, no comma is written.\<close>

lemma packet_gather_first:
  assumes "pkt_ok p" "ptext p \<noteq> []" "last (ptext p) \<noteq> CHR ''}''"
    and "room p (length tag + 6 + g_need sp m)"
  shows "\<exists>q. packet_gather tag f m p = Some (g_code sp m, g_upd sp m, q) \<and>
    wrote (if g_code sp m = 0 then dq tag @ '':{'' @ g_out sp m @ ''}'' else []) p q"
  using packet_gather_wrote[OF assms(1,2,4)] assms(3) by (cases "g_code sp m = 0") auto

end

section \<open>Properties\<close>

text \<open>
  Within the bound, appending shows exactly the text added, keeps the packet
  terminated and touches no other field.
\<close>

theorem packet_append_exact:
  assumes "room p (length s)"
  shows "\<exists>q. packet_append s p = Some q \<and> ptext q = ptext p @ s \<and> pkt_ok q \<and>
    q\<lparr>psize := psize p, payload := payload p\<rparr> = p"
proof -
  obtain q where "packet_append s p = Some q" "wrote s p q"
    using assms by (rule packet_append_wrote)
  then show ?thesis by (auto simp: wrote_def)
qed

definition sample_packet :: packet where
  "sample_packet =
     \<lparr>started = 0, ptype = METRIC, pstate = READY, response = 0, psize = 2, rollback_point = 0,
      attempt = 0, payload = write_str (\<lambda>_. NUL) 0 ''{}'', spin = 0, pnext = None\<rparr>"

lemma sample_packet_simps [simp]:
  "pstate sample_packet = READY" "spin sample_packet = 0" "ptype sample_packet = METRIC"
  "psize sample_packet = 2" "pnext sample_packet = None" "attempt sample_packet = 0"
  "ptext sample_packet = ''{}''" "pkt_ok sample_packet"
  by (simp_all add: sample_packet_def pkt_ok_def PKTSZ_def write_str_def ptext_def text_of_def
      upt_rec)

theorem packet_append_exact_witness:
  "room sample_packet 3 \<and>
   (\<exists>q. packet_append ''abc'' sample_packet = Some q \<and> ptext q = ''{}abc'' \<and> pkt_ok q \<and>
     q\<lparr>psize := psize sample_packet, payload := payload sample_packet\<rparr> = sample_packet)"
proof -
  have r: "room sample_packet (length ''abc'')"
    by (simp add: room_def PKTSZ_def)
  show ?thesis
    using packet_append_exact[OF r] r by (simp add: numeral_3_eq_3)
qed

text \<open>
  C36: an append that does not fit is cut, but the size grows by the whole length; once the
  size has passed the end of the payload, the next append writes outside it, whatever it
  appends.
\<close>

theorem packet_append_overflow:
  assumes "psize p \<le> PKTSZ" and "PKTSZ < psize p + length s" and "psize p + length s < 2 ^ 31"
  shows "\<exists>q. packet_append s p = Some q \<and> psize q = psize p + length s \<and>
    (psize p < PKTSZ \<longrightarrow>
      text_of (payload q) (PKTSZ - 1) = ptext p @ take (PKTSZ - psize p - 1) s) \<and>
    (\<forall>t. packet_append t q = None)"
proof -
  obtain b where b: "snprintf PKTSZ (payload p) (psize p) (int PKTSZ - int (psize p)) s = Some (b, length s)"
    "psize p < PKTSZ \<longrightarrow>
      text_of b (PKTSZ - 1) = text_of (payload p) (psize p) @ take (PKTSZ - psize p - 1) s"
    using snprintf_truncates[OF assms(1) PKTSZ_bound, of s "payload p"] assms(2) by auto
  have "snprintf PKTSZ b (psize p + length s) (int PKTSZ - int (psize p + length s)) t = None" for t
    using assms(2,3) by (rule snprintf_past_end)
  with b show ?thesis
    by (auto simp: packet_append_def ptext_def)
qed

theorem packet_append_overflow_witness:
  "\<exists>q. packet_append ''a'' (sample_packet\<lparr>psize := PKTSZ\<rparr>) = Some q \<and> psize q = PKTSZ + 1 \<and>
    (\<forall>t. packet_append t q = None)"
proof -
  have "psize (sample_packet\<lparr>psize := PKTSZ\<rparr>) + length ''a'' < 2 ^ 31"
    by (simp add: PKTSZ_def)
  then show ?thesis
    using packet_append_overflow[of "sample_packet\<lparr>psize := PKTSZ\<rparr>" "''a''"] by simp
qed

text \<open>
  A packet expires when at least seven seconds have passed since it was started, in
  64-bit arithmetic.
\<close>

theorem packet_expired_seven_seconds:
  "fst (packet_expired p w) \<longleftrightarrow> 7000 \<le> unat (epoch_of (clock w (readings w)) - started p)"
proof -
  have "6033 \<le> 1000 * q \<longleftrightarrow> 7 \<le> q" for q :: nat
    by linarith
  then have "PACKET_EXP_thousandths \<le> 1000 * unat (d div MSPS) \<longleftrightarrow> 7000 \<le> unat d" for d
    by (simp add: PACKET_EXP_thousandths_def MSPS_def unat_div_distrib less_eq_div_iff_mult_less_eq)
  then show ?thesis
    by (simp add: packet_expired_def epoch_time_def)
qed

end
