(* ===== verification/Gather.thy ===== *)
theory Gather
  imports Packet
begin

unbundle bit_operations_syntax

text \<open>
  How a module composes its sections: a chain of \<open>packet_gather\<close> calls on the same
  packet, their codes combined with \<open>&\<close>. The chain is again a gathering function, and
  its contract follows from the contracts of its sections: the text it adds is the
  sections that succeeded, separated by commas.

  The codes a module returns are those of \<open>enum plugin_gather_error\<close> (inc/plugin.h).
\<close>

definition ENONE :: int where "ENONE = 0"
definition ENODATA :: int where "ENODATA = 1"
definition EPLUGUP :: int where "EPLUGUP = 2"
definition EPLUGDOWN :: int where "EPLUGDOWN = 3"

lemmas gather_codes = ENONE_def ENODATA_def EPLUGUP_def EPLUGDOWN_def

text \<open>The operands run from left to right; \<open>-1\<close> is the unit of \<open>&\<close>.\<close>

fun gather_all :: "(string \<times> 'm gather_fun) list \<Rightarrow> 'm gather_fun" where
  "gather_all [] m p = Some (-1, m, p)"
| "gather_all ((tag, f) # fs) m p = do {
     (r, m1, p1) \<leftarrow> packet_gather tag f m p;
     (r', m2, p2) \<leftarrow> gather_all fs m1 p1;
     Some (r AND r', m2, p2)
   }"

section \<open>The contract of a chain\<close>

definition section_text :: "string \<Rightarrow> string \<Rightarrow> string" where
  "section_text tag out = dq tag @ '':{'' @ out @ ''}''"

fun all_code :: "(string \<times> 'm gspec) list \<Rightarrow> 'm \<Rightarrow> int" where
  "all_code [] m = -1"
| "all_code ((tag, sp) # sps) m = g_code sp m AND all_code sps (g_upd sp m)"

fun all_upd :: "(string \<times> 'm gspec) list \<Rightarrow> 'm \<Rightarrow> 'm" where
  "all_upd [] m = m"
| "all_upd ((tag, sp) # sps) m = all_upd sps (g_upd sp m)"

fun all_sections :: "(string \<times> 'm gspec) list \<Rightarrow> 'm \<Rightarrow> string list" where
  "all_sections [] m = []"
| "all_sections ((tag, sp) # sps) m =
     (if g_code sp m = 0 then [section_text tag (g_out sp m)] else []) @ all_sections sps (g_upd sp m)"

fun all_need :: "(string \<times> 'm gspec) list \<Rightarrow> 'm \<Rightarrow> nat" where
  "all_need [] m = 0"
| "all_need ((tag, sp) # sps) m = length tag + 6 + g_need sp m + all_need sps (g_upd sp m)"

definition chain_spec :: "(string \<times> 'm gspec) list \<Rightarrow> 'm gspec" where
  "chain_spec sps = \<lparr>g_code = all_code sps, g_out = (\<lambda>m. commas (all_sections sps m)),
     g_upd = all_upd sps, g_need = all_need sps\<rparr>"

text \<open>The sections of a chain against their contracts, name by name.\<close>

definition sections_ok :: "(string \<times> 'm gather_fun) list \<Rightarrow> (string \<times> 'm gspec) list \<Rightarrow> bool" where
  "sections_ok fs sps \<longleftrightarrow>
     list_all2 (\<lambda>(t, f) (t', sp). t = t' \<and> gatherer f sp) fs sps"

lemma sections_ok_Nil [simp]: "sections_ok [] sps \<longleftrightarrow> sps = []"
  by (simp add: sections_ok_def)

lemma sections_ok_Cons [simp]:
  "sections_ok ((t, f) # fs) sps \<longleftrightarrow>
     (\<exists>sp sps'. sps = (t, sp) # sps' \<and> gatherer f sp \<and> sections_ok fs sps')"
  by (auto simp: sections_ok_def list_all2_Cons1)

lemma section_text_end [simp]: "section_text t out \<noteq> []" "last (section_text t out) = CHR ''}''"
  by (simp_all add: section_text_def)

lemma commas_last:
  "xs \<noteq> [] \<Longrightarrow> \<forall>x \<in> set xs. x \<noteq> [] \<and> last x = c \<Longrightarrow> commas xs \<noteq> [] \<and> last (commas xs) = c"
  by (induction xs rule: commas.induct) auto

lemma all_sections_ends: "x \<in> set (all_sections sps m) \<Longrightarrow> x \<noteq> [] \<and> last x = CHR ''}''"
  by (induction sps m rule: all_sections.induct) (auto split: if_splits)

text \<open>
  The text a chain adds, after any text: when that text ends in a closing brace, a comma
  precedes the first section that succeeds.
\<close>

definition chain_text :: "char \<Rightarrow> string list \<Rightarrow> string" where
  "chain_text c xs = (if c = CHR ''}'' \<and> xs \<noteq> [] then '','' @ commas xs else commas xs)"

lemma chain_text_Cons:
  "chain_text c (x # xs) = (if c = CHR ''}'' then '','' else []) @ x @ chain_text CHR ''}'' xs"
  by (cases xs) (simp_all add: chain_text_def)

lemma commas_length: "length (commas xs) \<le> (\<Sum>x\<leftarrow>xs. Suc (length x))"
  by (induction xs rule: commas.induct) auto

lemma all_sections_length:
  assumes "list_all (\<lambda>(t, sp). \<forall>m. length (g_out sp m) \<le> g_need sp m) sps"
  shows "(\<Sum>x\<leftarrow>all_sections sps m. Suc (length x)) \<le> all_need sps m"
  using assms
proof (induction sps m rule: all_sections.induct)
  case (2 tag sp sps m)
  then have "(\<Sum>x\<leftarrow>all_sections sps (g_upd sp m). Suc (length x)) \<le> all_need sps (g_upd sp m)"
    and "length (g_out sp m) \<le> g_need sp m"
    by simp_all
  then show ?case by (auto simp: section_text_def dq_def)
qed simp

lemma sections_ok_need:
  "sections_ok fs sps \<Longrightarrow> list_all (\<lambda>(t, sp). \<forall>m. length (g_out sp m) \<le> g_need sp m) sps"
proof (induction fs arbitrary: sps)
  case (Cons tf fs)
  then show ?case by (cases tf) (auto elim: gatherer.out_need)
qed simp

lemma gather_all_wrote:
  assumes "sections_ok fs sps"
    and "pkt_ok p" "ptext p \<noteq> []" "room p (all_need sps m)"
  shows "\<exists>q. gather_all fs m p = Some (all_code sps m, all_upd sps m, q) \<and>
    wrote (chain_text (last (ptext p)) (all_sections sps m)) p q"
  using assms
proof (induction fs arbitrary: sps m p)
  case Nil
  then show ?case by (auto simp: chain_text_def intro: wrote_refl)
next
  case (Cons tf fs)
  obtain t f where tf: "tf = (t, f)" by (cases tf)
  with Cons.prems(1) obtain sp sps' where
    sps: "sps = (t, sp) # sps'" and g: "gatherer f sp" and rest: "sections_ok fs sps'"
    by auto
  have space: "room p (length t + 6 + g_need sp m)"
    using Cons.prems(4) by (rule room_mono) (simp add: sps)
  let ?c = "last (ptext p)"
  let ?out = "if g_code sp m = 0 then (if ?c = CHR ''}'' then '','' else []) @
      section_text t (g_out sp m) else []"
  from gatherer.packet_gather_wrote[OF g Cons.prems(2,3) space] obtain q where
    q: "packet_gather t f m p = Some (g_code sp m, g_upd sp m, q)" "wrote ?out p q"
    unfolding section_text_def by blast
  have "length ?out \<le> length t + 6 + g_need sp m"
    using gatherer.out_need[OF g, of m] by (simp add: section_text_def dq_def)
  then have "room q (all_need sps' (g_upd sp m))"
    unfolding wrote_room[OF q(2)] using Cons.prems(4)
    by (elim room_mono) (simp add: sps)
  moreover have "pkt_ok q" "ptext q \<noteq> []"
    using wrote_fields(1,3)[OF q(2)] Cons.prems(3) by simp_all
  ultimately obtain r where
    r: "gather_all fs (g_upd sp m) q = Some (all_code sps' (g_upd sp m), all_upd sps' (g_upd sp m), r)"
      "wrote (chain_text (last (ptext q)) (all_sections sps' (g_upd sp m))) q r"
    using Cons.IH[OF rest] by blast
  have "?out @ chain_text (last (ptext q)) (all_sections sps' (g_upd sp m)) =
      chain_text ?c (all_sections sps m)"
    using wrote_fields(3)[OF q(2)] by (simp add: sps chain_text_Cons split: if_splits)
  with wrote_trans[OF q(2) r(2)] have "wrote (chain_text ?c (all_sections sps m)) p r"
    by simp
  with q(1) r(1) show ?case by (simp add: tf sps)
qed

lemma gather_all_gatherer:
  assumes "sections_ok fs sps"
  shows "gatherer (gather_all fs) (chain_spec sps)"
proof
  fix m
  show "length (g_out (chain_spec sps) m) \<le> g_need (chain_spec sps) m"
    using commas_length[of "all_sections sps m"]
      all_sections_length[OF sections_ok_need[OF assms], of m]
    by (simp add: chain_spec_def)
next
  fix p :: packet and m
  assume "pkt_ok p" "ptext p \<noteq> []" "last (ptext p) = CHR ''{''" "room p (g_need (chain_spec sps) m)"
  with gather_all_wrote[OF assms, of p m]
  show "\<exists>q. gather_all fs m p = Some (g_code (chain_spec sps) m, g_upd (chain_spec sps) m, q) \<and>
      wrote (g_out (chain_spec sps) m) p q"
    by (simp add: chain_spec_def chain_text_def)
qed

text \<open>With codes that are 0 or 1, a chain succeeds as soon as one section does.\<close>

lemma all_code_01:
  assumes "list_all (\<lambda>(t, sp). \<forall>m. g_code sp m \<in> {0, 1}) sps" and "sps \<noteq> []"
  shows "all_code sps m = (if all_sections sps m = [] then 1 else 0)"
  using assms
proof (induction sps m rule: all_sections.induct)
  case (2 tag sp sps m)
  have "g_code sp m \<in> {0, 1}" using 2 by simp
  with 2 show ?case by (cases "sps = []") auto
qed simp

section \<open>Sections with a fixed text\<close>

text \<open>The contract of a section whose code and text do not depend on the module.\<close>

definition const_spec :: "int \<Rightarrow> string \<Rightarrow> 'm gspec" where
  "const_spec c out = \<lparr>g_code = (\<lambda>_. c), g_out = (\<lambda>_. out), g_upd = (\<lambda>m. m), g_need = (\<lambda>_. length out)\<rparr>"

lemma const_spec_simps [simp]:
  "g_code (const_spec c out) m = c" "g_out (const_spec c out) m = out"
  "g_upd (const_spec c out) m = m" "g_need (const_spec c out) m = length out"
  by (simp_all add: const_spec_def)

lemma pieces_gatherer:
  fixes f :: "'m gather_fun"
  assumes "\<And>m p. f m p = do { q \<leftarrow> append_all ss p; Some (c, m, q) }"
  shows "gatherer f (const_spec c (concat ss))"
proof
  fix m :: 'm and p :: packet
  assume "pkt_ok p" "room p (g_need (const_spec c (concat ss)) m)"
  then obtain q where "append_all ss p = Some q" "wrote (concat ss) p q"
    using append_all_wrote[of p ss] by auto
  then show "\<exists>q. f m p = Some (g_code (const_spec c (concat ss)) m, g_upd (const_spec c (concat ss)) m, q) \<and>
      wrote (g_out (const_spec c (concat ss)) m) p q"
    by (simp add: assms)
qed simp

lemma nothing_gatherer: "gatherer (\<lambda>m p. Some (c, m, p)) (const_spec c [])"
  using pieces_gatherer[of "\<lambda>m p. Some (c, m, p)" "[]" c] by simp

definition code_of :: "'a list \<Rightarrow> int" where
  "code_of xs = (if xs = [] then ENODATA else ENONE)"

lemma jmembers_length: "length (jmembers ms) \<le> (\<Sum>m\<leftarrow>ms. Suc (length (jmember m)))"
  using commas_length[of "map jmember ms"] by (simp add: jmembers_def comp_def)

end
