(* ===== verification/Sender.thy ===== *)
theory Sender
  imports Packet
begin

text \<open>
  The sender (src/sender.c): one transfer handle per packet type, and \<open>post\<close>, which
  hands a packet's payload to the transfer library and reads the response code from the
  body of the answer.

  The transfer library is not part of the program. Whether a handle can be created and
  an option set are parameters; the outcome of a transfer is the machine's.
\<close>

section \<open>Handles\<close>

datatype curl_opt =
    CURLOPT_URL string
  | CURLOPT_POST
  | CURLOPT_TIMEOUT nat
  | CURLOPT_NOSIGNAL
  | CURLOPT_HTTPHEADER
  | CURLOPT_WRITEFUNCTION

text \<open>A handle is the null pointer, a live handle with the options set, or one cleaned up.\<close>

datatype handle = NullHandle | Live "curl_opt list" | Cleaned

record sender =
  curl :: handle
  lock :: int

type_synonym senders = "packet_type \<Rightarrow> sender"

definition URL :: "packet_type \<Rightarrow> string" where
  "URL t = (case t of
     METRIC \<Rightarrow> ''https://gate.maxgauge.com/v1/metrics''
   | REGISTER \<Rightarrow> ''https://gate.maxgauge.com/v1/agents''
   | ALERT \<Rightarrow> ''https://gate.maxgauge.com/v1/alert'')"

record curl_lib =
  slist_append_ok :: bool
  easy_init_ok :: "packet_type \<Rightarrow> bool"
  setopt_ok :: "packet_type \<Rightarrow> curl_opt \<Rightarrow> bool"

text \<open>The options are set one after the other until one is refused.\<close>

fun set_opts :: "(curl_opt \<Rightarrow> bool) \<Rightarrow> curl_opt list \<Rightarrow> curl_opt list \<Rightarrow> bool \<times> curl_opt list" where
  "set_opts ok done [] = (True, done)"
| "set_opts ok done (x # xs) = (if ok x then set_opts ok (done @ [x]) xs else (False, done))"

definition sender_opts :: "packet_type \<Rightarrow> curl_opt list" where
  "sender_opts t = [CURLOPT_URL (URL t), CURLOPT_POST, CURLOPT_TIMEOUT 30, CURLOPT_NOSIGNAL,
     CURLOPT_HTTPHEADER, CURLOPT_WRITEFUNCTION]"

definition sender_add_opt :: "curl_lib \<Rightarrow> packet_type \<Rightarrow> senders \<Rightarrow> int \<times> senders" where
  "sender_add_opt lib t sn =
     (if \<not> easy_init_ok lib t then (-1, sn(t := (sn t)\<lparr>curl := NullHandle\<rparr>))
      else let (ok, xs) = set_opts (setopt_ok lib t) [] (sender_opts t)
        in (if ok then 0 else -1, sn(t := (sn t)\<lparr>curl := Live xs\<rparr>)))"

definition cleanup :: "sender \<Rightarrow> sender" where
  "cleanup s = (case curl s of NullHandle \<Rightarrow> s | _ \<Rightarrow> s\<lparr>curl := Cleaned\<rparr>)"

definition sender_fini :: "senders \<Rightarrow> int \<times> senders" where
  "sender_fini sn = (0, \<lambda>t. cleanup (sn t))"

definition sender_init :: "curl_lib \<Rightarrow> senders \<Rightarrow> int \<times> senders" where
  "sender_init lib sn =
     (let fail = (\<lambda>s. (-1, snd (sender_fini s))) in
      if \<not> slist_append_ok lib then fail sn
      else let (r0, s0) = sender_add_opt lib METRIC sn in
      if r0 < 0 then fail s0
      else let (r1, s1) = sender_add_opt lib REGISTER s0 in
      if r1 < 0 then fail s1
      else let (r2, s2) = sender_add_opt lib ALERT s1 in
      if r2 < 0 then fail s2 else (0, s2))"

section \<open>Posting\<close>

text \<open>
  The write callback reads the body as a decimal number, in an \<open>int\<close>; a value that does
  not fit is undefined behaviour. It always returns 0.
\<close>

definition int_range :: "int \<Rightarrow> bool" where
  "int_range i \<longleftrightarrow> -(2 ^ 31) \<le> i \<and> i < 2 ^ 31"

fun callback_code :: "int \<Rightarrow> string \<Rightarrow> int option" where
  "callback_code code [] = Some code"
| "callback_code code (c # cs) =
     (if int_range (code * 10) \<and> int_range (code * 10 + (schar c - 48))
      then callback_code (code * 10 + (schar c - 48)) cs else None)"

definition callback :: "string \<Rightarrow> packet \<Rightarrow> (nat \<times> packet) option" where
  "callback ptr p = do { code \<leftarrow> callback_code 0 ptr; Some (0, p\<lparr>response := code\<rparr>) }"

fun callbacks :: "string list \<Rightarrow> packet \<Rightarrow> packet option" where
  "callbacks [] p = Some p"
| "callbacks (c # cs) p = do { (n, q) \<leftarrow> callback c p; callbacks cs q }"

definition transfer_ok :: "transfer \<Rightarrow> bool" where
  "transfer_ok t \<longleftrightarrow> curl_code t = 0 \<and> (status_code t = 202 \<or> status_code t = 200)"

text \<open>
  The payload is handed over as a C string, so a payload with no NUL at all is read past
  its end. On a null handle the library returns an error code and no request is made.
\<close>

definition post :: "senders \<Rightarrow> packet \<Rightarrow> machine \<Rightarrow> (int \<times> packet \<times> machine) option" where
  "post sn p w = do {
     (pl, q) \<leftarrow> packet_fetch (p\<lparr>attempt := Suc (attempt p)\<rparr>);
     case pl of
       None \<Rightarrow> Some (-1, q, w)
     | Some b \<Rightarrow>
         if NUL \<notin> set (text_of b PKTSZ) \<or> lock (sn (ptype q)) \<noteq> 0 then None
         else (case curl (sn (ptype q)) of
             Cleaned \<Rightarrow> None
           | NullHandle \<Rightarrow> Some (-1, q, w)
           | Live opts \<Rightarrow> do {
               let url = URL (ptype q);
               let body = c_string b PKTSZ;
               let t = net w (readings w) url body;
               q' \<leftarrow> callbacks (chunks t) q;
               Some (if transfer_ok t then 0 else -1, q',
                     w\<lparr>readings := Suc (readings w), sent := sent w @ [(url, body)]\<rparr>)
             })
   }"

section \<open>What the handles promise\<close>

text \<open>The state \<open>sender_init\<close> leaves behind when it succeeds, and what \<open>post\<close> needs.\<close>

definition senders_ready :: "senders \<Rightarrow> bool" where
  "senders_ready sn \<longleftrightarrow> (\<forall>t. curl (sn t) = Live (sender_opts t) \<and> lock (sn t) = 0)"

definition zero_senders :: senders where
  "zero_senders = (\<lambda>_. \<lparr>curl = NullHandle, lock = 0\<rparr>)"

lemma set_opts_all: "set_opts ok done xs = (True, ys) \<Longrightarrow> ys = done @ xs"
  by (induction xs arbitrary: "done") (fastforce split: if_splits)+

lemma sender_add_opt_ok:
  assumes "sender_add_opt lib t sn = (r, sn')" and "0 \<le> r"
  shows "sn' = sn(t := (sn t)\<lparr>curl := Live (sender_opts t)\<rparr>)"
  using assms set_opts_all[of "setopt_ok lib t" "[]" "sender_opts t"]
  by (auto simp: sender_add_opt_def split: if_splits prod.splits)

text \<open>
  What \<open>post\<close> does with a packet that is in order: one request, and the callback on the body of the answer,
  which is undefined when its number leaves the range of an \<open>int\<close>.
\<close>

lemma post_unfold:
  fixes w :: machine
  assumes "senders_ready sn" "pstate p = READY" "spin p = 0" "pkt_ok p" "NUL \<notin> set (ptext p)"
  defines "t \<equiv> net w (readings w) (URL (ptype p)) (ptext p)"
  shows "post sn p w = map_option
      (\<lambda>q. (if transfer_ok t then 0 else -1, q,
        w\<lparr>readings := Suc (readings w), sent := sent w @ [(URL (ptype p), ptext p)]\<rparr>))
      (callbacks (chunks t) (p\<lparr>attempt := Suc (attempt p)\<rparr>))"
proof -
  have body: "c_string (payload p) PKTSZ = ptext p"
    using assms(4,5) by (simp add: pkt_ok_def ptext_def c_string_text)
  have nul: "NUL \<in> set (text_of (payload p) PKTSZ)"
    using assms(4) nth_mem[of "psize p" "text_of (payload p) PKTSZ"] by (simp add: pkt_ok_def)
  have upd: "p\<lparr>attempt := Suc (attempt p), spin := 0\<rparr> = p\<lparr>attempt := Suc (attempt p)\<rparr>"
    using assms(3) by (cases p) simp
  show ?thesis
    using assms(1-3) nul
    by (cases "callbacks (chunks t) (p\<lparr>attempt := Suc (attempt p)\<rparr>)")
      (simp_all add: post_def packet_fetch_def senders_ready_def body upd Let_def t_def)
qed

lemma post_ready:
  assumes "senders_ready sn" "pstate p = READY" "spin p = 0" "pkt_ok p" "NUL \<notin> set (ptext p)"
    and "callbacks (chunks (net w (readings w) (URL (ptype p)) (ptext p)))
      (p\<lparr>attempt := Suc (attempt p)\<rparr>) = Some q"
  shows "post sn p w =
    Some (if transfer_ok (net w (readings w) (URL (ptype p)) (ptext p)) then 0 else -1, q,
      w\<lparr>readings := Suc (readings w), sent := sent w @ [(URL (ptype p), ptext p)]\<rparr>)"
  using post_unfold[OF assms(1-5), of w] assms(6) by simp

lemma callbacks_response:
  "callbacks cs p = Some q \<Longrightarrow> \<exists>r. q = p\<lparr>response := r\<rparr>"
proof (induction cs arbitrary: p)
  case Nil
  then show ?case by (intro exI[of _ "response p"]) simp
next
  case (Cons c cs)
  then show ?case
    by (fastforce simp: callback_def split: Option.bind_splits)
qed

text \<open>Whatever \<open>post\<close> does to a packet: one more attempt, maybe a response.\<close>

lemma post_frame:
  assumes "post sn p w = Some (r, q, w')"
  shows "\<exists>n. q = p\<lparr>attempt := Suc (attempt p), response := n, spin := 0\<rparr>"
    and "r = 0 \<or> r = -1" and "net w' = net w" and "malloc_ok w' = malloc_ok w"
    and "clock w' = clock w" and "files w' = files w" and "creatable w' = creatable w"
    and "r = 0 \<Longrightarrow> pstate p = READY \<and> sent w' = sent w @ [(URL (ptype p), c_string (payload p) PKTSZ)]"
proof -
  let ?p = "p\<lparr>attempt := Suc (attempt p), spin := 0\<rparr>"
  have "q = ?p \<or> (\<exists>cs. callbacks cs ?p = Some q)"
    using assms by (auto simp: post_def packet_fetch_def Let_def
        split: Option.bind_splits option.splits if_splits handle.splits)
  moreover have "?p = ?p\<lparr>response := response p\<rparr>"
    by simp
  ultimately have "\<exists>n. q = ?p\<lparr>response := n\<rparr>"
    using callbacks_response by metis
  then show "\<exists>n. q = p\<lparr>attempt := Suc (attempt p), response := n, spin := 0\<rparr>"
    by (cases p) simp
qed (use assms in \<open>auto simp: post_def packet_fetch_def Let_def
        split: Option.bind_splits option.splits if_splits handle.splits\<close>)

text \<open>Answers whose body, if any, is a number the callback can read.\<close>

definition readable_replies :: "machine \<Rightarrow> bool" where
  "readable_replies w \<longleftrightarrow>
     (\<forall>n url body. \<forall>c \<in> set (chunks (net w n url body)). callback_code 0 c \<noteq> None)"

lemma callbacks_total:
  "\<forall>c \<in> set cs. callback_code 0 c \<noteq> None \<Longrightarrow> \<exists>q. callbacks cs p = Some q"
  by (induction cs arbitrary: p) (auto simp: callback_def)

definition request :: "packet \<Rightarrow> string \<times> string" where
  "request p = (URL (ptype p), ptext p)"

text \<open>A packet that is ready and carries one C string.\<close>

definition sendable :: "packet \<Rightarrow> bool" where
  "sendable p \<longleftrightarrow> pkt_ok p \<and> NUL \<notin> set (ptext p) \<and> spin p = 0"

lemma post_sendable:
  assumes "senders_ready sn" "pstate p = READY" "sendable p" "readable_replies w"
  obtains r n w' where "post sn p w =
      Some (r, p\<lparr>attempt := Suc (attempt p), response := n\<rparr>, w')"
    "r = 0 \<or> r = -1" "sent w' = sent w @ [request p]" "net w' = net w"
    "r = 0 \<longleftrightarrow> transfer_ok (net w (readings w) (URL (ptype p)) (ptext p))"
proof -
  let ?t = "net w (readings w) (URL (ptype p)) (ptext p)"
  obtain q where q: "callbacks (chunks ?t) (p\<lparr>attempt := Suc (attempt p)\<rparr>) = Some q"
    using assms(4) callbacks_total[of "chunks ?t"] unfolding readable_replies_def by blast
  then obtain n where "q = p\<lparr>attempt := Suc (attempt p), response := n\<rparr>"
    by (auto dest: callbacks_response)
  with post_ready[OF assms(1,2) _ _ _ q] assms(3) show thesis
    by (intro that[of "if transfer_ok ?t then 0 else -1" n
          "w\<lparr>readings := Suc (readings w), sent := sent w @ [(URL (ptype p), ptext p)]\<rparr>"])
      (auto simp: sendable_def request_def)
qed

section \<open>Properties\<close>

text \<open>Reading back a number the server printed.\<close>

lemma callback_code_digit:
  assumes "d < 10" "0 \<le> c" "c * 10 + int d < 2 ^ 31"
  shows "callback_code c [digit d] = Some (c * 10 + int d)"
  using assms by (simp add: int_range_def schar_digit)

lemma callback_code_append:
  "callback_code c (xs @ ys) = do { c' \<leftarrow> callback_code c xs; callback_code c' ys }"
  by (induction xs arbitrary: c) auto

lemma callback_code_show: "n < 2 ^ 31 \<Longrightarrow> callback_code 0 (show_nat n) = Some (int n)"
proof (induction n rule: show_nat.induct)
  case (1 n)
  show ?case
  proof (cases "n < 10")
    case True
    with callback_code_digit[of n 0] show ?thesis by (subst show_nat.simps) simp
  next
    case False
    then have "callback_code 0 (show_nat (n div 10)) = Some (int (n div 10))"
      using "1.IH" "1.prems" by simp
    moreover have "int (n div 10) * 10 + int (n mod 10) = int n"
      by (metis div_mult_mod_eq of_nat_add of_nat_mult of_nat_numeral)
    moreover have "callback_code (int (n div 10)) [digit (n mod 10)] =
        Some (int (n div 10) * 10 + int (n mod 10))"
      using "1.prems" \<open>int (n div 10) * 10 + int (n mod 10) = int n\<close>
      by (intro callback_code_digit) auto
    ultimately show ?thesis
      using False by (subst show_nat.simps) (simp add: callback_code_append del: callback_code.simps(2))
  qed
qed

text \<open>
  C28: posting a ready packet makes exactly one request, with the packet's text as the body
  and the URL of its type; it succeeds exactly when the transfer does, counts the attempt,
  and a body that is a decimal number ends up as the response code.
\<close>

theorem post_sends_text:
  assumes "senders_ready sn" "pstate p = READY" "sendable p"
    and "t = net w (readings w) (URL (ptype p)) (ptext p)"
    and "chunks t = [] \<and> c = response p \<or> chunks t = [show_nat n] \<and> n < 2 ^ 31 \<and> c = int n"
  shows "post sn p w =
    Some (if curl_code t = 0 \<and> status_code t \<in> {200, 202} then 0 else -1,
      p\<lparr>attempt := Suc (attempt p), response := c\<rparr>,
      w\<lparr>readings := Suc (readings w), sent := sent w @ [(URL (ptype p), ptext p)]\<rparr>)"
proof -
  have "callbacks (chunks t) (p\<lparr>attempt := Suc (attempt p)\<rparr>) =
      Some (p\<lparr>attempt := Suc (attempt p), response := c\<rparr>)"
    using assms(5) by (auto simp: callback_def callback_code_show)
  then show ?thesis
    using assms(1-4) post_ready[of sn p w]
    by (auto simp: sendable_def transfer_ok_def)
qed

definition sample_senders :: senders where
  "sample_senders = (\<lambda>t. \<lparr>curl = Live (sender_opts t), lock = 0\<rparr>)"

lemma sample_senders_ready [simp]: "senders_ready sample_senders"
  by (simp add: senders_ready_def sample_senders_def)

lemma sample_packet_sendable [simp]: "sendable sample_packet"
  by (simp add: sendable_def)

lemma sample_readable [simp]: "readable_replies sample_machine"
  by (simp add: readable_replies_def)

theorem post_sends_text_witness:
  "post sample_senders sample_packet
     (sample_machine\<lparr>net := (\<lambda>_ _ _. \<lparr>curl_code = 23, status_code = 400, chunks = [show_nat 302]\<rparr>)\<rparr>) =
   Some (-1, sample_packet\<lparr>attempt := 1, response := ETARGETREG\<rparr>,
     sample_machine\<lparr>net := (\<lambda>_ _ _. \<lparr>curl_code = 23, status_code = 400, chunks = [show_nat 302]\<rparr>),
       readings := 1, sent := [(URL METRIC, ''{}'')]\<rparr>)"
  using post_sends_text[of sample_senders sample_packet
      "\<lparr>curl_code = 23, status_code = 400, chunks = [show_nat 302]\<rparr>"
      "sample_machine\<lparr>net := (\<lambda>_ _ _. \<lparr>curl_code = 23, status_code = 400, chunks = [show_nat 302]\<rparr>)\<rparr>"
      302 302]
  by (simp add: ETARGETREG_def)

text \<open>A library that aborts a transfer when the callback takes fewer bytes than it was given.\<close>

definition aborts_short_writes :: "machine \<Rightarrow> bool" where
  "aborts_short_writes w \<longleftrightarrow>
     (\<forall>n url body. (\<exists>c \<in> set (chunks (net w n url body)). \<exists>p q k.
        callback c p = Some (k, q) \<and> k < length c) \<longrightarrow> curl_code (net w n url body) \<noteq> 0)"

text \<open>A short text is read without overflow, whatever its characters are.\<close>

lemma int_range_near: "9 * \<bar>x\<bar> + 176 \<le> 176 * z \<Longrightarrow> z \<le> 10 ^ 8 \<Longrightarrow> int_range x"
  by (cases "0 \<le> x") (simp_all add: int_range_def)

lemma callback_code_defined:
  assumes "9 * \<bar>code\<bar> + 176 \<le> 176 * 10 ^ k" "k + length cs \<le> 8"
  shows "\<exists>r. callback_code code cs = Some r"
  using assms
proof (induction cs arbitrary: code k)
  case (Cons c cs)
  let ?d = "schar c - 48"
  obtain v where "schar c = (if v < 128 then v else v - 256)" "0 \<le> v" "v < 256"
    using nat_of_char_less_256[of c] unfolding schar_def Let_def by (metis of_nat_0_le_iff of_nat_less_numeral_iff)
  then have d: "\<bar>?d\<bar> \<le> 176" by auto
  then have "\<bar>code * 10 + ?d\<bar> \<le> 10 * \<bar>code\<bar> + 176" by (simp add: abs_le_iff) linarith
  moreover have "90 * \<bar>code\<bar> + 1760 \<le> 176 * 10 ^ Suc k" using Cons.prems(1) by simp
  moreover have "x \<le> 10 * y + 176 \<Longrightarrow> 90 * y + 1760 \<le> z \<Longrightarrow> 9 * x + 176 \<le> z" for x y z :: int by linarith
  ultimately have next_: "9 * \<bar>code * 10 + ?d\<bar> + 176 \<le> 176 * 10 ^ Suc k" by blast
  have step: "9 * \<bar>code * 10\<bar> + 176 \<le> 176 * 10 ^ Suc k"
    using \<open>90 * \<bar>code\<bar> + 1760 \<le> _\<close> by (simp add: abs_mult)
  have "(10::int) ^ Suc k \<le> 10 ^ 8" using Cons.prems(2) by (intro power_increasing) simp_all
  with next_ step have "int_range (code * 10)" "int_range (code * 10 + ?d)"
    by (blast intro: int_range_near)+
  moreover have "\<exists>r. callback_code (code * 10 + ?d) cs = Some r"
    using Cons.IH[OF next_] Cons.prems(2) by simp
  ultimately show ?case by simp
qed simp

lemma callbacks_defined:
  assumes "\<forall>c \<in> set cs. length c \<le> 8"
  shows "\<exists>q. callbacks cs p = Some q"
  using assms
proof (induction cs arbitrary: p)
  case (Cons c cs)
  then obtain r where "callback_code 0 c = Some r" using callback_code_defined[of 0 0 c] by auto
  with Cons show ?case by (simp add: callback_def)
qed simp

lemma callbacks_each:
  "callbacks cs p = Some q \<Longrightarrow> c \<in> set cs \<Longrightarrow> \<exists>p' q'. callback c p' = Some (0, q')"
  by (induction cs arbitrary: p) (auto simp: callback_def bind_eq_Some_conv)

text \<open>
  C37: the write callback tells the library that it took no byte. With a library that aborts a transfer whose
  callback takes less than it was given (the documented behaviour of \<open>CURLOPT_WRITEFUNCTION\<close>),
  \<open>post\<close> never succeeds for an answer with a body, be it a number, a text, JSON, in one piece or several,
  and whatever the status was: it fails with what the callback made of the body, or it is undefined where
  that leaves the range of an \<open>int\<close>. It does fail when no piece has more than eight characters; and
  a number in range arrives as the response code.
\<close>

theorem post_answer_with_body_fails:
  assumes "aborts_short_writes w" "senders_ready sn" "sendable p" "pstate p = READY"
    and "t = net w (readings w) (URL (ptype p)) (ptext p)"
    and "\<exists>c \<in> set (chunks t). c \<noteq> []"
  shows "(case callbacks (chunks t) (p\<lparr>attempt := Suc (attempt p)\<rparr>) of
        None \<Rightarrow> post sn p w = None
      | Some q \<Rightarrow> \<exists>w'. post sn p w = Some (-1, q, w')) \<and>
    ((\<forall>c \<in> set (chunks t). length c \<le> 8) \<longrightarrow> post sn p w \<noteq> None) \<and>
    (\<forall>n. chunks t = [show_nat n] \<and> n < 2 ^ 31 \<longrightarrow> (\<exists>q w'. post sn p w = Some (-1, q, w') \<and> response q = int n))"
proof -
  let ?p = "p\<lparr>attempt := Suc (attempt p)\<rparr>"
  have fails: "\<exists>w'. post sn p w = Some (-1, q, w')" if q: "callbacks (chunks t) ?p = Some q" for q
  proof -
    from assms(6) obtain c where c: "c \<in> set (chunks t)" "0 < length c" by auto
    with callbacks_each[OF q] have "curl_code t \<noteq> 0"
      using assms(1,5) unfolding aborts_short_writes_def by blast
    with q assms(2-5) post_ready[of sn p w q] show ?thesis by (simp add: sendable_def transfer_ok_def)
  qed
  moreover have "post sn p w = None" if "callbacks (chunks t) ?p = None"
    using that assms(2-5) post_unfold[of sn p w] by (simp add: sendable_def)
  moreover have "callbacks [show_nat n] ?p = Some (?p\<lparr>response := int n\<rparr>)" if "n < 2 ^ 31" for n
    using that by (simp add: callback_def callback_code_show)
  ultimately show ?thesis
    using callbacks_defined[of "chunks t" ?p] by (cases "callbacks (chunks t) ?p") fastforce+
qed

theorem post_answer_with_body_fails_witness:
  "\<exists>q w'. post sample_senders sample_packet
     (sample_machine\<lparr>net := (\<lambda>_ _ _. \<lparr>curl_code = 23, status_code = 200, chunks = [''{\"ok\":'', ''1}'']\<rparr>)\<rparr>) =
     Some (-1, q, w')"
proof -
  let ?t = "\<lparr>curl_code = 23, status_code = 200, chunks = [''{\"ok\":'', ''1}'']\<rparr>"
  let ?w = "sample_machine\<lparr>net := (\<lambda>_ _ _. ?t)\<rparr>"
  have "aborts_short_writes ?w" by (simp add: aborts_short_writes_def)
  from post_answer_with_body_fails[OF this sample_senders_ready sample_packet_sendable _ , of ?t] show ?thesis
    by (auto split: option.split_asm)
qed

text \<open>
  When \<open>sender_init\<close> succeeds, every handle is live with all its options set and
  unlocked; when it fails, no handle is left live.
\<close>

theorem sender_init_result:
  assumes "sender_init lib zero_senders = (r, sn)"
  shows "r = 0 \<and> senders_ready sn \<or> r = -1 \<and> (\<forall>t opts. curl (sn t) \<noteq> Live opts)"
proof -
  have cleaned: "curl (snd (sender_fini s) t) \<noteq> Live opts" for s t opts
    by (simp add: sender_fini_def cleanup_def split: handle.split)
  have three: "(\<forall>t. P t) \<longleftrightarrow> P METRIC \<and> P REGISTER \<and> P ALERT" for P
    by (metis packet_type.exhaust)
  show ?thesis
    using assms cleaned
    by (auto simp: sender_init_def Let_def senders_ready_def three zero_senders_def
        dest!: sender_add_opt_ok split: if_splits prod.splits)
qed

theorem sender_init_result_witness:
  "senders_ready (snd (sender_init
      \<lparr>slist_append_ok = True, easy_init_ok = (\<lambda>_. True), setopt_ok = (\<lambda>_ _. True)\<rparr> zero_senders))"
proof -
  let ?lib = "\<lparr>slist_append_ok = True, easy_init_ok = (\<lambda>_. True), setopt_ok = (\<lambda>_ _. True)\<rparr>"
  have "fst (sender_init ?lib zero_senders) = 0"
    by (simp add: sender_init_def sender_add_opt_def sender_opts_def)
  with sender_init_result[OF prod.collapse[symmetric], of ?lib] show ?thesis
    by auto
qed

end
