(* ===== verification/Unsent.thy ===== *)
theory Unsent
  imports Util
begin

text \<open>
  The files that keep what could not be sent (src/unsent.c): \<open>log/unsent\<close>, its older rotations
  \<open>log/unsent.0\<close> and \<open>log/unsent.1\<close>, and the one being sent. Only the initialisation is called by
  the agent; the rest is prepared for a sender that is not finished, so reading a file ends
  without a request.
\<close>

text \<open>Which calls on files succeed, and the state of the component.\<close>

record file_calls =
  can_remove :: "string \<Rightarrow> bool"
  can_rename :: bool
  can_open :: bool

record unsent =
  sending_fp :: "string option"
  json_loaded :: bool
  store :: "string \<Rightarrow> string option"

definition UNSENT_SENDING :: string where
  "UNSENT_SENDING = ''log/UNSENT_SENDING''"

definition UNSENT_BEGIN :: int where "UNSENT_BEGIN = -1"
definition UNSENT_END :: int where "UNSENT_END = 1"

definition unsent_file :: "int \<Rightarrow> string" where
  "unsent_file i =
     take 49 (if 0 \<le> i then ''log/unsent.'' @ show_nat (nat i) else ''log/unsent'')"

definition file_exist :: "string \<Rightarrow> unsent \<Rightarrow> bool" where
  "file_exist f u \<longleftrightarrow> store u f \<noteq> None"

text \<open>\<open>success |= remove(f)\<close> for a file that exists.\<close>

definition remove_file :: "file_calls \<Rightarrow> string \<Rightarrow> bool \<times> unsent \<Rightarrow> bool \<times> unsent" where
  "remove_file e f = (\<lambda>(failed, u).
     if file_exist f u then
       (if can_remove e f then (failed, u\<lparr>store := (store u)(f := None)\<rparr>) else (True, u))
     else (failed, u))"

definition unsent_clear :: "file_calls \<Rightarrow> unsent \<Rightarrow> int \<times> unsent" where
  "unsent_clear e u =
     (let (failed, u1) = fold (remove_file e)
        (map unsent_file [UNSENT_BEGIN..UNSENT_END] @ [UNSENT_SENDING]) (False, u)
      in (if failed then -1 else 0, u1))"

definition unsent_init :: "file_calls \<Rightarrow> unsent \<Rightarrow> int \<times> unsent" where
  "unsent_init e u = (let (r, u1) = unsent_clear e u in if r < 0 then (-1, u1) else (0, u1))"

text \<open>The loop from the oldest rotation down.\<close>

fun load_first :: "file_calls \<Rightarrow> int list \<Rightarrow> unsent \<Rightarrow> int \<times> unsent" where
  "load_first e [] u = (-1, u)"
| "load_first e (i # is) u =
     (case store u (unsent_file i) of
        None \<Rightarrow> load_first e is u
      | Some c \<Rightarrow>
          if \<not> can_rename e then (-1, u)
          else
            let u1 = u\<lparr>store := (store u)(unsent_file i := None, UNSENT_SENDING \<mapsto> c)\<rparr>
            in if can_open e then (0, u1\<lparr>sending_fp := Some c\<rparr>) else (-1, u1\<lparr>sending_fp := None\<rparr>))"

definition unsent_load :: "file_calls \<Rightarrow> unsent \<Rightarrow> int \<times> unsent" where
  "unsent_load e u =
     (if \<not> file_exist (unsent_file UNSENT_BEGIN) u \<and> \<not> file_exist (unsent_file 0) u then (-1, u)
      else load_first e (rev [UNSENT_BEGIN..UNSENT_END]) u)"

text \<open>Closing a file that is not open is undefined.\<close>

definition unsent_drop_sending :: "file_calls \<Rightarrow> unsent \<Rightarrow> unsent option" where
  "unsent_drop_sending e u =
     (if sending_fp u = None then None
      else Some (snd (remove_file e UNSENT_SENDING (False, u\<lparr>sending_fp := None, json_loaded := False\<rparr>))))"

text \<open>
  Sending: the file in progress is read to its end, which sends nothing, and dropped. The
  oldest rotation makes room by dropping the file in progress first.
\<close>

definition unsent_send :: "file_calls \<Rightarrow> unsent \<Rightarrow> unsent option" where
  "unsent_send e u = do {
     (go, u1) \<leftarrow>
       (if sending_fp u = None then
          (let (r, u1) = unsent_load e u in Some (0 \<le> r, u1))
        else if file_exist (unsent_file UNSENT_END) u then do {
          u1 \<leftarrow> unsent_drop_sending e u;
          let (r, u2) = unsent_load e u1;
          Some (0 \<le> r, u2)
        }
        else Some (True, u));
     if \<not> go then Some u1
     else unsent_drop_sending e (u1\<lparr>sending_fp := Some [], json_loaded := False\<rparr>)
   }"

section \<open>Properties\<close>

lemma unsent_files:
  "unsent_file UNSENT_BEGIN = ''log/unsent''" "unsent_file 0 = ''log/unsent.0''"
  "unsent_file UNSENT_END = ''log/unsent.1''"
  by (simp_all add: unsent_file_def UNSENT_BEGIN_def UNSENT_END_def show_nat.simps digit_values)

lemma unsent_range: "[UNSENT_BEGIN..UNSENT_END] = [UNSENT_BEGIN, 0, UNSENT_END]"
  by (simp add: UNSENT_BEGIN_def UNSENT_END_def upto.simps)

text \<open>
  Loading takes the oldest file, which is the one with the highest number, provided one of
  the two younger files exists; a lone \<open>log/unsent.1\<close> is never loaded.
\<close>

theorem unsent_load_oldest:
  assumes "can_rename e" "can_open e"
  shows "unsent_load e u =
    (if \<not> file_exist ''log/unsent'' u \<and> \<not> file_exist ''log/unsent.0'' u then (-1, u)
     else
       let f = (if file_exist ''log/unsent.1'' u then ''log/unsent.1''
                else if file_exist ''log/unsent.0'' u then ''log/unsent.0'' else ''log/unsent'')
       in (0, u\<lparr>store := (store u)(f := None, UNSENT_SENDING := store u f), sending_fp := store u f\<rparr>))"
  using assms
  by (auto simp: unsent_load_def unsent_range unsent_files file_exist_def Let_def split: option.split)

theorem unsent_load_oldest_witness:
  "fst (unsent_load \<lparr>can_remove = (\<lambda>_. True), can_rename = True, can_open = True\<rparr>
     \<lparr>sending_fp = None, json_loaded = False, store = [''log/unsent.1'' \<mapsto> ''{}'']\<rparr>) = -1"
  using unsent_load_oldest[of "\<lparr>can_remove = (\<lambda>_. True), can_rename = True, can_open = True\<rparr>"
      "\<lparr>sending_fp = None, json_loaded = False, store = [''log/unsent.1'' \<mapsto> ''{}'']\<rparr>"]
  by (simp add: file_exist_def)

end
