(* ===== verification/Cfloat.thy ===== *)
theory Cfloat
  imports Prelude
begin

text \<open>
  The floating-point values the agent handles: the ticks of the routines, single-precision
  constants multiplied by 1000 and cut to milliseconds, and the metrics it prints with a
  fixed number of decimals. A finite value is \<open>m / 2 ^ e\<close> with a sign; arithmetic rounds to
  the nearest value, ties to even.
\<close>

datatype cfloat = Fin bool nat nat | Inf bool | NaN bool

text \<open>The quotient of two numbers rounded to an integer, ties to even.\<close>

definition round_quot :: "nat \<Rightarrow> nat \<Rightarrow> nat" where
  "round_quot a b =
     (let q = a div b; r = 2 * (a mod b)
      in if r < b \<or> (r = b \<and> even q) then q else Suc q)"

lemma round_quot_exact: "0 < b \<Longrightarrow> round_quot (a * b) b = a"
  by (simp add: round_quot_def)

lemma round_quot_near:
  assumes "0 < b"
  shows "2 * (round_quot a b * b) \<le> 2 * a + b" and "2 * a \<le> 2 * (round_quot a b * b) + b"
proof -
  define q r where "q = a div b" and "r = a mod b"
  have a: "a = q * b + r" and r: "r < b"
    using assms by (simp_all add: q_def r_def)
  have "round_quot a b = (if 2 * r < b \<or> (2 * r = b \<and> even q) then q else Suc q)"
    by (simp add: round_quot_def q_def r_def Let_def)
  then show "2 * (round_quot a b * b) \<le> 2 * a + b" and "2 * a \<le> 2 * (round_quot a b * b) + b"
    using r by (auto simp: a algebra_simps)
qed

text \<open>The number of low bits a number of more than \<open>n\<close> bits has to lose.\<close>

function excess :: "nat \<Rightarrow> nat \<Rightarrow> nat" where
  "excess n x = (if x < 2 ^ n then 0 else Suc (excess n (x div 2)))"
  by pat_completeness auto
termination
proof (relation "measure snd")
  fix n x :: nat
  assume "\<not> x < 2 ^ n"
  then have "0 < x" by (cases x) auto
  then show "((n, x div 2), n, x) \<in> measure snd" by simp
qed simp

declare excess.simps [simp del]

lemma excess_0: "x < 2 ^ n \<Longrightarrow> excess n x = 0"
  by (subst excess.simps) simp

lemma excess_Suc: "\<not> x < 2 ^ n \<Longrightarrow> excess n x = Suc (excess n (x div 2))"
  by (subst excess.simps) simp

definition round_bits :: "nat \<Rightarrow> nat \<Rightarrow> nat" where
  "round_bits n x = (let k = excess n x in round_quot x (2 ^ k) * 2 ^ k)"

section \<open>Ticks\<close>

text \<open>
  A tick is a single-precision constant \<open>(m, e)\<close>. \<open>(epoch_t)(tick * MSPS)\<close> multiplies it by
  1000 in single precision and cuts the fraction.
\<close>

type_synonym f32 = "nat \<times> nat"

definition tick_ms :: "f32 \<Rightarrow> nat" where
  "tick_ms = (\<lambda>(m, e). round_bits 24 (m * 1000) div 2 ^ e)"

text \<open>The constant nearest to a decimal literal \<open>n / d\<close>.\<close>

definition nearest :: "f32 \<Rightarrow> nat \<Rightarrow> nat \<Rightarrow> bool" where
  "nearest = (\<lambda>(m, e) n d. m < 2 ^ 24 \<and> m = round_quot (n * 2 ^ e) d)"

section \<open>Printing\<close>

definition pad0 :: "nat \<Rightarrow> string \<Rightarrow> string" where
  "pad0 n s = replicate (n - length s) CHR ''0'' @ s"

text \<open>The conversion \<open>%.df\<close>.\<close>

fun show_fixed :: "nat \<Rightarrow> cfloat \<Rightarrow> string" where
  "show_fixed d (Fin neg m e) =
     (let q = round_quot (m * 10 ^ d) (2 ^ e)
      in (if neg then ''-'' else []) @ show_nat (q div 10 ^ d) @ ''.'' @ pad0 d (show_nat (q mod 10 ^ d)))"
| "show_fixed d (Inf neg) = (if neg then ''-inf'' else ''inf'')"
| "show_fixed d (NaN neg) = (if neg then ''-nan'' else ''nan'')"

text \<open>
  Dividing two integers in double precision. The quotient of two zeros is the default NaN of
  the x86 processors, whose sign bit is set.
\<close>

function lift52 :: "nat \<Rightarrow> nat \<Rightarrow> nat" where
  "lift52 a b = (if a = 0 \<or> 2 ^ 52 * b \<le> a then 0 else Suc (lift52 (2 * a) b))"
  by pat_completeness auto
termination
  by (relation "measure (\<lambda>(a, b). 2 ^ 52 * b - a)") auto

declare lift52.simps [simp del]

definition ddiv :: "64 word \<Rightarrow> 64 word \<Rightarrow> cfloat" where
  "ddiv x y =
     (let a = round_bits 53 (unat x); b = round_bits 53 (unat y)
      in if b = 0 then (if a = 0 then NaN True else Inf False)
         else
           let e = lift52 a b; k = excess 53 (a * 2 ^ e div b)
           in Fin False (round_quot (a * 2 ^ e) (b * 2 ^ k) * 2 ^ k) e)"

end
