(* ===== verification/Routine.thy ===== *)
theory Routine
  imports Util Cfloat
begin

text \<open>
  Routines (src/routine.c, inc/routine.h): a thread that waits for a ping, answers it, runs
  its task and notes when the next run is due. The first half models the record and its
  operations one after the other; the second half models the handshake between the thread
  and its caller as a step relation, one step per call of the thread library.
\<close>

section \<open>The record\<close>

record routine =
  alive :: bool
  rtick :: f32
  due :: epoch_t

text \<open>\<open>ok\<close>: the mutexes and the condition variables could be made.\<close>

definition routine_init :: "bool \<Rightarrow> routine \<Rightarrow> int \<times> routine" where
  "routine_init ok r =
     (let r1 = r\<lparr>alive := False, rtick := (3600, 0), due := 0\<rparr> in (if ok then 0 else -1, r1))"

text \<open>\<open>synced\<close>: the new thread signalled within a twentieth of a second.\<close>

definition routine_start :: "bool \<Rightarrow> routine \<Rightarrow> int \<times> routine" where
  "routine_start synced r = (if synced then 0 else -1, r\<lparr>alive := True, due := 0\<rparr>)"

definition routine_stop :: "routine \<Rightarrow> int \<times> routine" where
  "routine_stop r = (0, r\<lparr>alive := False\<rparr>)"

text \<open>The result is a truth value, 1 when both succeeded.\<close>

definition routine_restart :: "bool \<Rightarrow> routine \<Rightarrow> int \<times> routine" where
  "routine_restart synced r =
     (let (a, r1) = routine_stop r
      in if a = 0 then (let (b, r2) = routine_start synced r1 in (if b = 0 then 1 else 0, r2))
         else (0, r1))"

text \<open>
  Finalisation destroys the mutexes and the condition variables and then joins the thread; nothing
  stops the thread before. The calls are given by what they answer, or \<^const>\<open>None\<close> when they have no
  answer: a mutex that is locked or a condition somebody waits for must not be destroyed, and the join
  returns only when the thread ends.
\<close>

record fini_calls =
  destroy_ping_me :: "int option"
  destroy_pong_me :: "int option"
  destroy_ping :: "int option"
  destroy_pong :: "int option"
  join_thread :: "int option"

definition routine_fini :: "fini_calls \<Rightarrow> int option" where
  "routine_fini fc = do {
     a \<leftarrow> destroy_ping_me fc;
     if a < 0 then Some (-1) else do {
       b \<leftarrow> destroy_pong_me fc;
       if b < 0 then Some (-1) else do {
         c \<leftarrow> destroy_ping fc;
         if c < 0 then Some (-1) else do {
           d \<leftarrow> destroy_pong fc;
           if d < 0 then Some (-1) else join_thread fc
         }
       }
     }
   }"

text \<open>The thread library answers an error with a positive number, which the comparisons do not notice.\<close>

lemma routine_fini_unnoticed:
  "destroy_ping_me fc = Some a \<Longrightarrow> destroy_pong_me fc = Some b \<Longrightarrow> destroy_ping fc = Some c \<Longrightarrow>
   destroy_pong fc = Some d \<Longrightarrow> 0 \<le> a \<Longrightarrow> 0 \<le> b \<Longrightarrow> 0 \<le> c \<Longrightarrow> 0 \<le> d \<Longrightarrow> routine_fini fc = join_thread fc"
  by (simp add: routine_fini_def)

definition routine_alive :: "routine \<Rightarrow> bool" where
  "routine_alive r = alive r"

definition routine_overdue :: "routine \<Rightarrow> machine \<Rightarrow> bool \<times> machine" where
  "routine_overdue r w = (let (now, w1) = epoch_time w in (due r \<le> now, w1))"

text \<open>
  One turn of the loop: the task runs, and the next run is due one tick after the turn
  began. The tick is read after the task, which may have changed it.
\<close>

definition routine_turn ::
  "('s \<Rightarrow> machine \<Rightarrow> ('s \<times> machine) option) \<Rightarrow> ('s \<Rightarrow> f32) \<Rightarrow> routine \<Rightarrow> 's \<Rightarrow> machine \<Rightarrow>
   (routine \<times> 's \<times> machine) option" where
  "routine_turn run tick_of r s w = do {
     let (begin, w1) = epoch_time w;
     (s1, w2) \<leftarrow> run s w1;
     Some (r\<lparr>rtick := tick_of s1, due := begin + of_nat (tick_ms (tick_of s1))\<rparr>, s1, w2)
   }"

section \<open>The handshake\<close>

text \<open>
  The program counters of the thread (\<open>routine_main\<close>) and of its caller. The caller is in
  \<open>routine_start\<close> (\<open>S\<close>) or in \<open>routine_ping\<close> (\<open>P\<close>); waiting with a time limit ends with a
  signal (\<open>True\<close>) or with the limit (\<open>False\<close>). The thread library may also end a wait that
  nobody signalled, with the result of a signal: the waits of the source stand in no loop that tests
  for what they wait for, so these spurious returns are steps of their own.
\<close>

datatype thread_pc =
    T_lock_pong | T_lock_ping | T_hello | T_unlock_pong
  | T_loop | T_wait | T_woken | T_lock_pong2 | T_answer | T_unlock_pong2 | T_task

datatype caller_pc =
    S_sync | S_wait | S_woken bool | S_lock | S_unlock
  | Idle | P_signal | P_unlock | P_sync | P_wait | P_woken bool

text \<open>
  The mutexes are of the default kind, which do not remember who locked them. \<open>up\<close>
  says that \<open>routine_start\<close> returned success; \<open>pings\<close> counts the signals sent, \<open>runs\<close> the
  tasks begun. \<open>early\<close> says that the wait of \<open>routine_start\<close> ended spuriously, and \<open>spurious\<close>
  counts the spurious returns of the wait of the thread.
\<close>

record handshake =
  ping_me :: bool
  pong_me :: bool
  thread :: thread_pc
  caller :: caller_pc
  up :: bool
  pings :: nat
  runs :: nat
  early :: bool
  spurious :: nat

definition hs_init :: handshake where
  "hs_init = \<lparr>ping_me = False, pong_me = False, thread = T_lock_pong, caller = S_sync,
     up = False, pings = 0, runs = 0, early = False, spurious = 0\<rparr>"

definition signal_pong :: "caller_pc \<Rightarrow> caller_pc" where
  "signal_pong c = (case c of S_wait \<Rightarrow> S_woken True | P_wait \<Rightarrow> P_woken True | _ \<Rightarrow> c)"

definition signal_ping :: "thread_pc \<Rightarrow> thread_pc" where
  "signal_ping t = (if t = T_wait then T_woken else t)"

inductive hs_step :: "handshake \<Rightarrow> handshake \<Rightarrow> bool" where
  lock_pong: "thread s = T_lock_pong \<Longrightarrow> \<not> pong_me s \<Longrightarrow> hs_step s (s\<lparr>thread := T_lock_ping, pong_me := True\<rparr>)"
| lock_ping: "thread s = T_lock_ping \<Longrightarrow> \<not> ping_me s \<Longrightarrow> hs_step s (s\<lparr>thread := T_hello, ping_me := True\<rparr>)"
| hello: "thread s = T_hello \<Longrightarrow> hs_step s (s\<lparr>thread := T_unlock_pong, caller := signal_pong (caller s)\<rparr>)"
| unlock_pong: "thread s = T_unlock_pong \<Longrightarrow> hs_step s (s\<lparr>thread := T_loop, pong_me := False\<rparr>)"
| wait: "thread s = T_loop \<Longrightarrow> hs_step s (s\<lparr>thread := T_wait, ping_me := False\<rparr>)"
| wake: "thread s = T_woken \<Longrightarrow> \<not> ping_me s \<Longrightarrow> hs_step s (s\<lparr>thread := T_lock_pong2, ping_me := True\<rparr>)"
| lock_pong2: "thread s = T_lock_pong2 \<Longrightarrow> \<not> pong_me s \<Longrightarrow> hs_step s (s\<lparr>thread := T_answer, pong_me := True\<rparr>)"
| answer: "thread s = T_answer \<Longrightarrow> hs_step s (s\<lparr>thread := T_unlock_pong2, caller := signal_pong (caller s)\<rparr>)"
| unlock_pong2: "thread s = T_unlock_pong2 \<Longrightarrow> hs_step s (s\<lparr>thread := T_task, pong_me := False, runs := Suc (runs s)\<rparr>)"
| task_ends: "thread s = T_task \<Longrightarrow> hs_step s (s\<lparr>thread := T_loop\<rparr>)"
| start_sync: "caller s = S_sync \<Longrightarrow> hs_step s (s\<lparr>caller := S_wait, pong_me := False\<rparr>)"
| start_late: "caller s = S_wait \<Longrightarrow> hs_step s (s\<lparr>caller := S_woken False\<rparr>)"
| start_woken: "caller s = S_woken b \<Longrightarrow> \<not> pong_me s \<Longrightarrow>
    hs_step s (s\<lparr>caller := (if b then S_lock else Idle), pong_me := True\<rparr>)"
| start_lock: "caller s = S_lock \<Longrightarrow> \<not> ping_me s \<Longrightarrow> hs_step s (s\<lparr>caller := S_unlock, ping_me := True\<rparr>)"
| start_unlock: "caller s = S_unlock \<Longrightarrow> hs_step s (s\<lparr>caller := Idle, ping_me := False, up := True\<rparr>)"
| ping_busy: "caller s = Idle \<Longrightarrow> ping_me s \<Longrightarrow> hs_step s s"
| ping: "caller s = Idle \<Longrightarrow> \<not> ping_me s \<Longrightarrow> hs_step s (s\<lparr>caller := P_signal, ping_me := True\<rparr>)"
| ping_signal: "caller s = P_signal \<Longrightarrow>
    hs_step s (s\<lparr>caller := P_unlock, thread := signal_ping (thread s), pings := Suc (pings s)\<rparr>)"
| ping_unlock: "caller s = P_unlock \<Longrightarrow> hs_step s (s\<lparr>caller := P_sync, ping_me := False\<rparr>)"
| ping_sync: "caller s = P_sync \<Longrightarrow> hs_step s (s\<lparr>caller := P_wait, pong_me := False\<rparr>)"
| ping_late: "caller s = P_wait \<Longrightarrow> hs_step s (s\<lparr>caller := P_woken False\<rparr>)"
| ping_woken: "caller s = P_woken b \<Longrightarrow> \<not> pong_me s \<Longrightarrow> hs_step s (s\<lparr>caller := Idle, pong_me := True\<rparr>)"
| spurious_wake: "thread s = T_wait \<Longrightarrow> hs_step s (s\<lparr>thread := T_woken, spurious := Suc (spurious s)\<rparr>)"
| start_spurious: "caller s = S_wait \<Longrightarrow> hs_step s (s\<lparr>caller := S_woken True, early := True\<rparr>)"
| ping_spurious: "caller s = P_wait \<Longrightarrow> hs_step s (s\<lparr>caller := P_woken True\<rparr>)"

inductive hs_reach :: "handshake \<Rightarrow> bool" where
  init: "hs_reach hs_init"
| step: "hs_reach s \<Longrightarrow> hs_step s s' \<Longrightarrow> hs_reach s'"

text \<open>Who holds \<open>ping_me\<close>, and where the thread is before its first wait.\<close>

definition thread_holds :: "thread_pc \<Rightarrow> bool" where
  "thread_holds t \<longleftrightarrow> t \<in> {T_hello, T_unlock_pong, T_loop, T_lock_pong2, T_answer, T_unlock_pong2, T_task}"

definition caller_holds :: "caller_pc \<Rightarrow> bool" where
  "caller_holds c \<longleftrightarrow> c \<in> {S_unlock, P_signal, P_unlock}"

definition before_hello :: "thread_pc \<Rightarrow> bool" where
  "before_hello t \<longleftrightarrow> t \<in> {T_lock_pong, T_lock_ping, T_hello}"

text \<open>A run that a signal or a spurious return has brought about and that has not begun.\<close>

definition owed :: "thread_pc \<Rightarrow> nat" where
  "owed t = (if t \<in> {T_woken, T_lock_pong2, T_answer, T_unlock_pong2} then 1 else 0)"

definition hs_inv :: "handshake \<Rightarrow> bool" where
  "hs_inv s \<longleftrightarrow>
     (ping_me s \<longleftrightarrow> thread_holds (thread s) \<or> caller_holds (caller s)) \<and>
     \<not> (thread_holds (thread s) \<and> caller_holds (caller s)) \<and>
     (\<not> early s \<and> (up s \<or> caller s \<in> {S_woken True, S_lock, S_unlock}) \<longrightarrow> \<not> before_hello (thread s)) \<and>
     runs s + owed (thread s) \<le> pings s + spurious s"

lemmas hs_defs = thread_holds_def caller_holds_def before_hello_def owed_def signal_pong_def signal_ping_def

lemma hs_inv_step: "hs_step s s' \<Longrightarrow> hs_inv s \<Longrightarrow> hs_inv s'"
  by (induction rule: hs_step.induct)
    (auto simp: hs_inv_def hs_defs split: caller_pc.splits if_splits)

lemma hs_reach_inv: "hs_reach s \<Longrightarrow> hs_inv s"
proof (induction rule: hs_reach.induct)
  case init
  then show ?case by (simp add: hs_inv_def hs_init_def hs_defs)
next
  case (step s s')
  then show ?case by (blast intro: hs_inv_step)
qed

section \<open>Properties\<close>

text \<open>The shortest start: the thread is waiting and the caller has the answer.\<close>

definition hs_ready :: handshake where
  "hs_ready = \<lparr>ping_me = False, pong_me = True, thread = T_wait, caller = Idle, up = True,
     pings = 0, runs = 0, early = False, spurious = 0\<rparr>"

lemma hs_start_run:
  "hs_step\<^sup>*\<^sup>* (hs_init\<lparr>pings := n, runs := m, spurious := k\<rparr>) (hs_ready\<lparr>pings := n, runs := m, spurious := k\<rparr>)"
proof -
  let ?st = "\<lambda>pi po t c u. \<lparr>ping_me = pi, pong_me = po, thread = t, caller = c, up = u,
    pings = n, runs = m, early = False, spurious = k\<rparr>"
  have "hs_step (?st False False T_lock_pong S_sync False) (?st False False T_lock_pong S_wait False)"
    using hs_step.start_sync[of "?st False False T_lock_pong S_sync False"] by simp
  moreover have "hs_step (?st False False T_lock_pong S_wait False) (?st False True T_lock_ping S_wait False)"
    using hs_step.lock_pong[of "?st False False T_lock_pong S_wait False"] by simp
  moreover have "hs_step (?st False True T_lock_ping S_wait False) (?st True True T_hello S_wait False)"
    using hs_step.lock_ping[of "?st False True T_lock_ping S_wait False"] by simp
  moreover have "hs_step (?st True True T_hello S_wait False) (?st True True T_unlock_pong (S_woken True) False)"
    using hs_step.hello[of "?st True True T_hello S_wait False"] by (simp add: signal_pong_def)
  moreover have "hs_step (?st True True T_unlock_pong (S_woken True) False) (?st True False T_loop (S_woken True) False)"
    using hs_step.unlock_pong[of "?st True True T_unlock_pong (S_woken True) False"] by simp
  moreover have "hs_step (?st True False T_loop (S_woken True) False) (?st False False T_wait (S_woken True) False)"
    using hs_step.wait[of "?st True False T_loop (S_woken True) False"] by simp
  moreover have "hs_step (?st False False T_wait (S_woken True) False) (?st False True T_wait S_lock False)"
    using hs_step.start_woken[of "?st False False T_wait (S_woken True) False" True] by simp
  moreover have "hs_step (?st False True T_wait S_lock False) (?st True True T_wait S_unlock False)"
    using hs_step.start_lock[of "?st False True T_wait S_lock False"] by simp
  moreover have "hs_step (?st True True T_wait S_unlock False) (?st False True T_wait Idle True)"
    using hs_step.start_unlock[of "?st True True T_wait S_unlock False"] by simp
  ultimately have "hs_step\<^sup>*\<^sup>* (?st False False T_lock_pong S_sync False) (?st False True T_wait Idle True)"
    by (meson converse_rtranclp_into_rtranclp rtranclp.rtrancl_refl)
  then show ?thesis by (simp add: hs_init_def hs_ready_def)
qed

lemma hs_reach_steps: "hs_step\<^sup>*\<^sup>* s s' \<Longrightarrow> hs_reach s \<Longrightarrow> hs_reach s'"
  by (induction rule: rtranclp_induct) (auto intro: hs_reach.step)

lemma hs_ready_reach: "hs_reach hs_ready"
  using hs_reach_steps[OF hs_start_run[of 0 0 0]] hs_reach.init by (simp add: hs_init_def hs_ready_def)

text \<open>A start whose wait ends spuriously: the caller is up before the thread has taken a mutex.\<close>

definition hs_early :: handshake where
  "hs_early = hs_init\<lparr>caller := P_signal, ping_me := True, pong_me := True, up := True, early := True\<rparr>"

lemma hs_early_reach: "hs_reach hs_early"
proof -
  define s1 where "s1 = hs_init\<lparr>caller := S_wait, pong_me := False\<rparr>"
  define s2 where "s2 = s1\<lparr>caller := S_woken True, early := True\<rparr>"
  define s3 where "s3 = s2\<lparr>caller := (if True then S_lock else Idle), pong_me := True\<rparr>"
  define s4 where "s4 = s3\<lparr>caller := S_unlock, ping_me := True\<rparr>"
  define s5 where "s5 = s4\<lparr>caller := Idle, ping_me := False, up := True\<rparr>"
  define s6 where "s6 = s5\<lparr>caller := P_signal, ping_me := True\<rparr>"
  note defs = s1_def s2_def s3_def s4_def s5_def s6_def hs_init_def hs_early_def
  have "hs_step hs_init s1" unfolding s1_def by (rule hs_step.start_sync) (simp add: hs_init_def)
  moreover have "hs_step s1 s2" unfolding s2_def by (rule hs_step.start_spurious) (simp add: s1_def)
  moreover have "hs_step s2 s3" unfolding s3_def by (rule hs_step.start_woken) (simp_all add: defs)
  moreover have "hs_step s3 s4" unfolding s4_def by (rule hs_step.start_lock) (simp_all add: defs)
  moreover have "hs_step s4 s5" unfolding s5_def by (rule hs_step.start_unlock) (simp add: defs)
  moreover have "hs_step s5 s6" unfolding s6_def by (rule hs_step.ping) (simp_all add: defs)
  ultimately have "hs_reach s6" using hs_reach.init by (meson hs_reach.step)
  moreover have "s6 = hs_early" by (simp add: defs)
  ultimately show ?thesis by simp
qed



text \<open>
  A task runs at most once per ping and spurious return, however the two threads interleave and
  whichever of the waits run into their time limit.
\<close>

theorem routine_runs_per_ping:
  assumes "hs_reach s"
  shows "runs s \<le> pings s + spurious s"
  using hs_reach_inv[OF assms] by (simp add: hs_inv_def)

text \<open>The first wait of the thread returns spuriously, before the caller is back from its own.\<close>

lemma hs_unasked_run: "\<exists>s. hs_reach s \<and> pings s = 0 \<and> runs s = 1 \<and> thread s = T_task"
proof -
  let ?st = "\<lambda>pi po t c n k. \<lparr>ping_me = pi, pong_me = po, thread = t, caller = c, up = False,
    pings = 0, runs = n, early = False, spurious = k\<rparr>"
  let ?w = "S_woken True"
  have "hs_step (?st False False T_lock_pong S_sync 0 0) (?st False False T_lock_pong S_wait 0 0)"
    using hs_step.start_sync[of "?st False False T_lock_pong S_sync 0 0"] by simp
  moreover have "hs_step (?st False False T_lock_pong S_wait 0 0) (?st False True T_lock_ping S_wait 0 0)"
    using hs_step.lock_pong[of "?st False False T_lock_pong S_wait 0 0"] by simp
  moreover have "hs_step (?st False True T_lock_ping S_wait 0 0) (?st True True T_hello S_wait 0 0)"
    using hs_step.lock_ping[of "?st False True T_lock_ping S_wait 0 0"] by simp
  moreover have "hs_step (?st True True T_hello S_wait 0 0) (?st True True T_unlock_pong ?w 0 0)"
    using hs_step.hello[of "?st True True T_hello S_wait 0 0"] by (simp add: signal_pong_def)
  moreover have "hs_step (?st True True T_unlock_pong ?w 0 0) (?st True False T_loop ?w 0 0)"
    using hs_step.unlock_pong[of "?st True True T_unlock_pong ?w 0 0"] by simp
  moreover have "hs_step (?st True False T_loop ?w 0 0) (?st False False T_wait ?w 0 0)"
    using hs_step.wait[of "?st True False T_loop ?w 0 0"] by simp
  moreover have "hs_step (?st False False T_wait ?w 0 0) (?st False False T_woken ?w 0 1)"
    using hs_step.spurious_wake[of "?st False False T_wait ?w 0 0"] by simp
  moreover have "hs_step (?st False False T_woken ?w 0 1) (?st True False T_lock_pong2 ?w 0 1)"
    using hs_step.wake[of "?st False False T_woken ?w 0 1"] by simp
  moreover have "hs_step (?st True False T_lock_pong2 ?w 0 1) (?st True True T_answer ?w 0 1)"
    using hs_step.lock_pong2[of "?st True False T_lock_pong2 ?w 0 1"] by simp
  moreover have "hs_step (?st True True T_answer ?w 0 1) (?st True True T_unlock_pong2 ?w 0 1)"
    using hs_step.answer[of "?st True True T_answer ?w 0 1"] by (simp add: signal_pong_def)
  moreover have "hs_step (?st True True T_unlock_pong2 ?w 0 1) (?st True False T_task ?w 1 1)"
    using hs_step.unlock_pong2[of "?st True True T_unlock_pong2 ?w 0 1"] by simp
  ultimately have "hs_step\<^sup>*\<^sup>* (?st False False T_lock_pong S_sync 0 0) (?st True False T_task ?w 1 1)"
    by (meson converse_rtranclp_into_rtranclp rtranclp.rtrancl_refl)
  moreover have "hs_reach (?st False False T_lock_pong S_sync 0 0)"
    using hs_reach.init by (simp add: hs_init_def)
  ultimately show ?thesis by (intro exI[of _ "?st True False T_task ?w 1 1"]) (auto intro: hs_reach_steps)
qed

lemma hs_ping_run:
  assumes "thread s = T_wait" "caller s = Idle" "\<not> ping_me s"
  shows "\<exists>s1 s'. hs_step\<^sup>*\<^sup>* s s1 \<and> caller s1 = P_woken True \<and> hs_step\<^sup>*\<^sup>* s1 s' \<and>
    caller s' = Idle \<and> thread s' = T_task \<and> runs s' = Suc (runs s) \<and> pings s' = Suc (pings s)"
proof -
  define s1 where "s1 = s\<lparr>caller := P_signal, ping_me := True\<rparr>"
  define s2 where "s2 = s1\<lparr>caller := P_unlock, thread := signal_ping (thread s1), pings := Suc (pings s1)\<rparr>"
  define s3 where "s3 = s2\<lparr>caller := P_sync, ping_me := False\<rparr>"
  define s4 where "s4 = s3\<lparr>caller := P_wait, pong_me := False\<rparr>"
  define s5 where "s5 = s4\<lparr>thread := T_lock_pong2, ping_me := True\<rparr>"
  define s6 where "s6 = s5\<lparr>thread := T_answer, pong_me := True\<rparr>"
  define s7 where "s7 = s6\<lparr>thread := T_unlock_pong2, caller := signal_pong (caller s6)\<rparr>"
  define s8 where "s8 = s7\<lparr>thread := T_task, pong_me := False, runs := Suc (runs s7)\<rparr>"
  define s9 where "s9 = s8\<lparr>caller := Idle, pong_me := True\<rparr>"
  note defs = s1_def s2_def s3_def s4_def s5_def s6_def s7_def s8_def s9_def
  have "hs_step s s1" unfolding s1_def using assms(2,3) by (rule hs_step.ping)
  moreover have "hs_step s1 s2" unfolding s2_def by (rule hs_step.ping_signal) (simp add: s1_def)
  moreover have "hs_step s2 s3" unfolding s3_def by (rule hs_step.ping_unlock) (simp add: s2_def)
  moreover have "hs_step s3 s4" unfolding s4_def by (rule hs_step.ping_sync) (simp add: s3_def)
  moreover have "hs_step s4 s5"
    unfolding s5_def by (rule hs_step.wake) (simp_all add: defs signal_ping_def assms(1))
  moreover have "hs_step s5 s6"
    unfolding s6_def by (rule hs_step.lock_pong2) (simp_all add: defs)
  moreover have "hs_step s6 s7" unfolding s7_def by (rule hs_step.answer) (simp add: s6_def)
  ultimately have before: "hs_step\<^sup>*\<^sup>* s s7"
    by (meson converse_rtranclp_into_rtranclp rtranclp.rtrancl_refl)
  have "hs_step s7 s8" unfolding s8_def by (rule hs_step.unlock_pong2) (simp add: s7_def)
  moreover have "hs_step s8 s9"
    unfolding s9_def by (rule hs_step.ping_woken[where b = True]) (simp_all add: defs signal_pong_def)
  ultimately have "hs_step\<^sup>*\<^sup>* s7 s9"
    by (meson converse_rtranclp_into_rtranclp rtranclp.rtrancl_refl)
  moreover have "caller s7 = P_woken True" by (simp add: defs signal_pong_def)
  moreover have "caller s9 = Idle" "thread s9 = T_task" "runs s9 = Suc (runs s)" "pings s9 = Suc (pings s)"
    by (simp_all add: defs)
  ultimately show ?thesis using before by blast
qed

text \<open>
  C20: a ping of a waiting thread can complete: from every reachable state in which the thread
  waits and the caller is idle, steps lead through the answer to a state in which the ping
  has returned success and one more run of the task has begun.
\<close>

theorem routine_ping_completes:
  assumes "hs_reach s" "thread s = T_wait" "caller s = Idle"
  shows "\<exists>s1 s'. hs_step\<^sup>*\<^sup>* s s1 \<and> caller s1 = P_woken True \<and> hs_step\<^sup>*\<^sup>* s1 s' \<and>
    caller s' = Idle \<and> thread s' = T_task \<and> runs s' = Suc (runs s) \<and> pings s' = Suc (pings s)"
proof (rule hs_ping_run[OF assms(2,3)])
  show "\<not> ping_me s"
    using hs_reach_inv[OF assms(1)] assms(2,3) by (simp add: hs_inv_def hs_defs)
qed

theorem routine_ping_completes_witness:
  "\<exists>s'. hs_step\<^sup>*\<^sup>* hs_ready s' \<and> caller s' = Idle \<and> thread s' = T_task \<and> runs s' = 1"
proof -
  have "thread hs_ready = T_wait" "caller hs_ready = Idle" "runs hs_ready = 0"
    by (simp_all add: hs_ready_def)
  with routine_ping_completes[OF hs_ready_reach] show ?thesis
    by (metis One_nat_def rtranclp_trans)
qed


lemma hs_step_up: "hs_step s s' \<Longrightarrow> up s \<Longrightarrow> up s'"
  by (induction rule: hs_step.induct) auto

lemma hs_steps_up: "hs_step\<^sup>*\<^sup>* s s' \<Longrightarrow> up s \<Longrightarrow> up s'"
  by (induction rule: rtranclp_induct) (auto intro: hs_step_up)


text \<open>
  After a turn the routine is due again exactly one tick after the turn began, not
  after it ended: it is overdue at a time if and only if that time is at least the beginning
  plus the tick.
\<close>

theorem routine_turn_due:
  assumes "routine_turn run tick_of r s w = Some (r', s', w')"
    and "unat (epoch_of (clock w (readings w))) + tick_ms (tick_of s') < 2 ^ 64"
  shows "fst (routine_overdue r' v) \<longleftrightarrow>
    unat (epoch_of (clock w (readings w))) + tick_ms (tick_of s') \<le> unat (epoch_of (clock v (readings v)))"
proof -
  let ?b = "epoch_of (clock w (readings w))"
  have "due r' = ?b + of_nat (tick_ms (tick_of s'))"
    using assms(1) by (auto simp: routine_turn_def epoch_time_def bind_eq_Some_conv)
  moreover have "unat (?b + of_nat (tick_ms (tick_of s'))) = unat ?b + tick_ms (tick_of s')"
    using assms(2) by (simp add: unat_word_ariths unat_of_nat)
  ultimately show ?thesis
    by (simp add: routine_overdue_def epoch_time_def word_le_nat_alt)
qed

theorem routine_turn_due_witness:
  "\<exists>r' s' w'. routine_turn (\<lambda>s v. Some (Suc s, v)) (\<lambda>_. (21, 0)) \<lparr>alive = True, rtick = (3600, 0), due = 0\<rparr> 0 sample_machine =
      Some (r', s', w') \<and> \<not> fst (routine_overdue r' sample_machine)"
proof -
  let ?turn = "routine_turn (\<lambda>s v. Some (Suc s, v)) (\<lambda>_. (21, 0)) \<lparr>alive = True, rtick = (3600, 0), due = 0\<rparr> 0 sample_machine"
  have tick: "tick_ms (21, 0) = 21000"
    by (simp add: tick_ms_def round_bits_def excess_0 round_quot_def)
  obtain r' w' where run: "?turn = Some (r', 1, w')"
    by (simp add: routine_turn_def epoch_time_def)
  have "\<not> fst (routine_overdue r' sample_machine)"
    using routine_turn_due[OF run, of sample_machine]
    by (simp add: tick epoch_of_def MSPS_def NSPMS_def)
  with run show ?thesis by blast
qed

end
