(* ===== verification/Storage.thy ===== *)
theory Storage
  imports Sender Unsent Routine
begin

text \<open>
  The storage (src/storage.c): the list of packets shared by the plugins and the routine
  that sends them. The packets live in a store of addresses and are linked through their
  \<open>next\<close> fields, as in the source; a loop over the list that meets a dangling pointer, or
  a cycle, does not return.
\<close>

section \<open>The shared list\<close>

type_synonym heap = "addr \<Rightarrow> packet option"

record storage =
  heap :: heap
  brk :: addr
  packets :: "addr option"
  delay :: "3 word"
  tick :: nat

text \<open>\<open>STORAGE_TICK\<close>, and the tick of a routine, in seconds.\<close>

definition STORAGE_TICK :: nat where
  "STORAGE_TICK = 21"

text \<open>The first packet of the list that is done.\<close>

partial_function (option) find_done :: "heap \<Rightarrow> addr option \<Rightarrow> addr option option" where
  "find_done h r =
     (case r of
        None \<Rightarrow> Some None
      | Some a \<Rightarrow> do {
          p \<leftarrow> h a;
          if fst (packet_change_state p DONE EMPTY) = 0 then Some (Some a)
          else find_done h (pnext p)
        })"

definition reset_packet :: "packet_type \<Rightarrow> packet \<Rightarrow> packet" where
  "reset_packet t p =
     (snd (packet_change_state p DONE EMPTY))\<lparr>ptype := t, response := 0, psize := 0, attempt := 0,
       spin := 0\<rparr>"

definition type_number :: "packet_type \<Rightarrow> int" where
  "type_number t = (case t of METRIC \<Rightarrow> 0 | REGISTER \<Rightarrow> 1 | ALERT \<Rightarrow> 2)"

text \<open>
  A fresh packet goes to the front of the list, under the lock of the packet that was
  there. When there is none yet, the head is exchanged directly; a failed allocation then
  leaves the list empty and yields the null pointer. With a list in place, a failed
  allocation is dereferenced.
\<close>

definition get_packet ::
  "packet_type \<Rightarrow> storage \<Rightarrow> machine \<Rightarrow> (addr option \<times> storage \<times> machine) option" where
  "get_packet t s w = do {
     r \<leftarrow> find_done (heap s) (packets s);
     case r of
       Some a \<Rightarrow> do {
         p \<leftarrow> heap s a;
         Some (Some a, s\<lparr>heap := (heap s)(a \<mapsto> reset_packet t p)\<rparr>, w)
       }
     | None \<Rightarrow>
         let (new, w1) = packet_alloc (type_number t) w in
         (case packets s of
            None \<Rightarrow>
              (case new of
                 None \<Rightarrow> Some (None, s, w1)
               | Some p \<Rightarrow> Some (Some (brk s),
                   s\<lparr>heap := (heap s)(brk s \<mapsto> p), brk := Suc (brk s), packets := Some (brk s)\<rparr>, w1))
          | Some front \<Rightarrow> do {
              q \<leftarrow> heap s front;
              if spin q \<noteq> 0 then None
              else do {
                p \<leftarrow> new;
                Some (Some (brk s),
                  s\<lparr>heap := (heap s)(brk s \<mapsto> p\<lparr>pnext := Some front\<rparr>, front \<mapsto> q\<lparr>spin := 0\<rparr>),
                    brk := Suc (brk s), packets := Some (brk s)\<rparr>, w1)
              }
            })
   }"

section \<open>Sending\<close>

text \<open>\<open>(delay << 1) | !(delay << 1)\<close>, computed in an \<open>int\<close> and stored in three bits.\<close>

definition backoff :: "3 word \<Rightarrow> 3 word" where
  "backoff d = of_nat (let n = 2 * unat d in if n = 0 then 1 else n)"

definition set_packet :: "addr \<Rightarrow> packet \<Rightarrow> storage \<Rightarrow> storage" where
  "set_packet a p s = s\<lparr>heap := (heap s)(a \<mapsto> p)\<rparr>"

partial_function (option) storage_loop ::
  "senders \<Rightarrow> addr option \<Rightarrow> storage \<Rightarrow> machine \<Rightarrow> (int \<times> storage \<times> machine) option" where
  "storage_loop sn r s w =
     (case r of
        None \<Rightarrow> Some (0, s, w)
      | Some a \<Rightarrow> do {
          p \<leftarrow> heap s a;
          if pstate p = READY then do {
            (res, q, w1) \<leftarrow> post sn p w;
            if res < 0 then Some (-1, (set_packet a q s)\<lparr>delay := backoff (delay s)\<rparr>, w1)
            else storage_loop sn (pnext q)
              ((set_packet a (q\<lparr>pstate := DONE\<rparr>) s)\<lparr>delay := 1, tick := STORAGE_TICK * unat (1 :: 3 word)\<rparr>) w1
          } else storage_loop sn (pnext p) s w
        })"

definition storage_main ::
  "senders \<Rightarrow> storage \<Rightarrow> machine \<Rightarrow> (int \<times> storage \<times> machine) option" where
  "storage_main sn s w = storage_loop sn (packets s) s w"

text \<open>
  Initialisation: \<open>ok\<close> says whether \<open>routine_init\<close> could make the mutexes and condition
  variables. A failure of \<open>sender_init\<close> is only logged, and one of \<open>unsent_init\<close> is ignored.
\<close>

definition storage_init ::
  "bool \<Rightarrow> curl_lib \<Rightarrow> file_calls \<Rightarrow> senders \<times> storage \<times> unsent \<Rightarrow> int \<times> senders \<times> storage \<times> unsent" where
  "storage_init ok lib fc = (\<lambda>(sn, s, u).
     if \<not> ok then (-1, sn, s, u)
     else
       let (r, sn1) = sender_init lib sn; (r', u1) = unsent_init fc u
       in (0, sn1, s\<lparr>packets := None, delay := 1, tick := STORAGE_TICK\<rparr>, u1))"

text \<open>\<open>packet_free\<close> (src/packet.c) gives the memory of a packet back; a null pointer is left alone.\<close>

definition packet_free :: "addr option \<Rightarrow> heap \<Rightarrow> heap" where
  "packet_free r h = (case r of None \<Rightarrow> h | Some a \<Rightarrow> h(a := None))"

text \<open>
  Finalisation frees the packets of the list one by one, closes the senders and finalises the routine,
  whose result is dropped.
\<close>

partial_function (option) free_packets :: "addr option \<Rightarrow> heap \<Rightarrow> heap option" where
  "free_packets r h =
     (case r of None \<Rightarrow> Some h
      | Some a \<Rightarrow> do { p \<leftarrow> h a; free_packets (pnext p) (packet_free (Some a) h) })"

definition storage_fini :: "fini_calls \<Rightarrow> senders \<Rightarrow> storage \<Rightarrow> (int \<times> senders \<times> storage) option" where
  "storage_fini fc sn s = do {
     h \<leftarrow> free_packets (packets s) (heap s);
     let (_, sn1) = sender_fini sn;
     _ \<leftarrow> routine_fini fc;
     Some (0, sn1, s\<lparr>heap := h, packets := None\<rparr>)
   }"

section \<open>The list as a list\<close>

text \<open>\<open>chain h r as\<close>: following the \<open>next\<close> fields from \<open>r\<close> visits exactly \<open>as\<close> and ends.\<close>

fun chain :: "heap \<Rightarrow> addr option \<Rightarrow> addr list \<Rightarrow> bool" where
  "chain h r [] \<longleftrightarrow> r = None"
| "chain h r (a # as) \<longleftrightarrow> r = Some a \<and> (\<exists>p. h a = Some p \<and> chain h (pnext p) as)"

lemma chain_unique: "chain h r as \<Longrightarrow> chain h r bs \<Longrightarrow> as = bs"
proof (induction as arbitrary: r bs)
  case Nil
  then show ?case by (cases bs) auto
next
  case (Cons a as)
  then show ?case by (cases bs) auto
qed

lemma chain_suffix: "chain h r (as @ bs) \<Longrightarrow> \<exists>r'. chain h r' bs"
  by (induction as arbitrary: r) auto

lemma chain_hd_notin:
  assumes "chain h (Some a) (a # as)"
  shows "a \<notin> set as"
proof
  assume "a \<in> set as"
  then obtain xs ys where as: "as = xs @ a # ys"
    by (auto simp: in_set_conv_decomp)
  from assms have "chain h (Some a) ((a # xs) @ a # ys)"
    by (simp add: as)
  then obtain r where "chain h r (a # ys)"
    by (blast dest: chain_suffix)
  then have "chain h (Some a) (a # ys)"
    by simp
  from chain_unique[OF assms this] show False
    by (simp add: as)
qed

lemma chain_distinct: "chain h r as \<Longrightarrow> distinct as"
proof (induction as arbitrary: r)
  case (Cons a as)
  then have "a \<notin> set as" by (intro chain_hd_notin[of h]) simp
  with Cons show ?case by auto
qed simp

lemma chain_alloc: "chain h r as \<Longrightarrow> a \<in> set as \<Longrightarrow> \<exists>p. h a = Some p"
  by (induction as arbitrary: r) auto

text \<open>Writing a packet without touching its \<open>next\<close> field leaves the list as it is.\<close>

lemma chain_upd_same:
  "chain h r as \<Longrightarrow> h a = Some p \<Longrightarrow> pnext q = pnext p \<Longrightarrow> chain (h(a \<mapsto> q)) r as"
  by (induction as arbitrary: r) auto

lemma chain_upd_other: "chain h r as \<Longrightarrow> a \<notin> set as \<Longrightarrow> chain (h(a \<mapsto> q)) r as"
  by (induction as arbitrary: r) auto

lemma chain_free_other: "chain h r as \<Longrightarrow> a \<notin> set as \<Longrightarrow> chain (h(a := None)) r as"
  by (induction as arbitrary: r) auto

lemma find_done_chain:
  "chain h r as \<Longrightarrow>
   find_done h r = Some (List.find (\<lambda>a. \<exists>p. h a = Some p \<and> pstate p = DONE) as)"
proof (induction as arbitrary: r)
  case Nil
  then show ?case by (simp add: find_done.simps)
next
  case (Cons a as)
  then obtain p where p: "r = Some a" "h a = Some p" "chain h (pnext p) as"
    by auto
  with Cons.IH[OF p(3)] show ?case
    by (simp add: find_done.simps[of h "Some a"] packet_change_state_def)
qed

text \<open>
  The invariant of the storage: the list is finite and acyclic, addresses at or above
  \<open>brk\<close> are free, and no thread holds the lock of a packet.
\<close>

definition storage_inv :: "storage \<Rightarrow> addr list \<Rightarrow> bool" where
  "storage_inv s as \<longleftrightarrow>
     chain (heap s) (packets s) as \<and>
     (\<forall>a p. heap s a = Some p \<longrightarrow> a < brk s \<and> spin p = 0)"

lemma storage_inv_upd:
  assumes "storage_inv s as" "heap s a = Some p" "pnext q = pnext p" "spin q = 0"
  shows "storage_inv (set_packet a q s) as"
  using assms by (auto simp: storage_inv_def set_packet_def intro: chain_upd_same)

text \<open>The three outcomes of \<open>get_packet\<close> on a list that satisfies the invariant.\<close>

lemma storage_inv_find:
  "storage_inv s as \<Longrightarrow> find_done (heap s) (packets s) =
     Some (List.find (\<lambda>a. \<exists>p. heap s a = Some p \<and> pstate p = DONE) as)"
  by (simp add: storage_inv_def find_done_chain)

lemma get_packet_reuse:
  assumes inv: "storage_inv s as"
    and found: "List.find (\<lambda>a. \<exists>p. heap s a = Some p \<and> pstate p = DONE) as = Some a"
  obtains p where "heap s a = Some p" "pstate p = DONE" "a \<in> set as"
    "get_packet t s w = Some (Some a, set_packet a (reset_packet t p) s, w)"
    "storage_inv (set_packet a (reset_packet t p) s) as"
proof -
  from found obtain p where p: "heap s a = Some p" "pstate p = DONE" "a \<in> set as"
    by (auto simp: find_Some_iff)
  moreover have "get_packet t s w = Some (Some a, set_packet a (reset_packet t p) s, w)"
    using found p(1) by (simp add: get_packet_def storage_inv_find[OF inv] set_packet_def)
  moreover have "storage_inv (set_packet a (reset_packet t p) s) as"
    using inv p(1) by (rule storage_inv_upd) (simp_all add: reset_packet_def packet_change_state_def)
  ultimately show thesis ..
qed

definition new_packet :: "packet_type \<Rightarrow> addr option \<Rightarrow> packet" where
  "new_packet t r =
     \<lparr>started = 0, ptype = t, pstate = EMPTY, response = 0, psize = 0, rollback_point = 0,
      attempt = 0, payload = (\<lambda>_. NUL), spin = 0, pnext = r\<rparr>"

definition push_new :: "packet_type \<Rightarrow> storage \<Rightarrow> storage" where
  "push_new t s = s\<lparr>heap := (heap s)(brk s \<mapsto> new_packet t (packets s)), brk := Suc (brk s),
     packets := Some (brk s)\<rparr>"

lemma packet_alloc_type:
  "packet_alloc (type_number t) w =
     (if malloc_ok w (readings w) then Some (new_packet t None) else None,
      w\<lparr>readings := Suc (readings w)\<rparr>)"
  by (cases t)
    (simp_all add: packet_alloc_def packet_type_of_def type_number_def malloc_def new_packet_def)

lemma get_packet_fresh:
  assumes inv: "storage_inv s as"
    and none: "List.find (\<lambda>a. \<exists>p. heap s a = Some p \<and> pstate p = DONE) as = None"
    and mem: "malloc_ok w (readings w)"
  shows "get_packet t s w = Some (Some (brk s), push_new t s, w\<lparr>readings := Suc (readings w)\<rparr>)"
    and "storage_inv (push_new t s) (brk s # as)"
proof -
  have free: "heap s (brk s) = None"
    using inv by (cases "heap s (brk s)") (auto simp: storage_inv_def)
  have notin: "brk s \<notin> set as"
    using inv free by (auto simp: storage_inv_def dest: chain_alloc)
  show "storage_inv (push_new t s) (brk s # as)"
    using inv notin
    by (auto simp: push_new_def storage_inv_def new_packet_def intro: chain_upd_other less_SucI)
  show "get_packet t s w = Some (Some (brk s), push_new t s, w\<lparr>readings := Suc (readings w)\<rparr>)"
  proof (cases "packets s")
    case None
    then show ?thesis
      using none mem storage_inv_find[OF inv]
      by (simp add: get_packet_def packet_alloc_type push_new_def)
  next
    case (Some a)
    then obtain q where q: "heap s a = Some q"
      using inv by (cases as) (auto simp: storage_inv_def)
    then have "spin q = 0" and "a \<noteq> brk s"
      using inv free by (auto simp: storage_inv_def)
    then have "q\<lparr>spin := 0\<rparr> = q" by (cases q) simp
    with q \<open>a \<noteq> brk s\<close> have "(heap s)(brk s \<mapsto> p, a \<mapsto> q\<lparr>spin := 0\<rparr>) = (heap s)(brk s \<mapsto> p)" for p
      by (auto simp: fun_eq_iff)
    with Some q \<open>spin q = 0\<close> show ?thesis
      using none mem storage_inv_find[OF inv]
      by (simp add: get_packet_def packet_alloc_type push_new_def
          new_packet_def)
  qed
qed

section \<open>The interface to the plugins\<close>

text \<open>
  What a plugin relies on when it asks for a packet: it gets an empty packet of the type
  asked for, every other packet is untouched, and the packet was free or done before.
\<close>

locale packet_pool =
  fixes get :: "packet_type \<Rightarrow> 's \<Rightarrow> machine \<Rightarrow> (addr option \<times> 's \<times> machine) option"
    and look :: "'s \<Rightarrow> addr \<Rightarrow> packet option"
    and inv :: "'s \<Rightarrow> bool"
  assumes get_gives: "inv s \<Longrightarrow> malloc_ok w (readings w) \<Longrightarrow>
      \<exists>a p s' w'. get t s w = Some (Some a, s', w') \<and> inv s' \<and>
        look s' a = Some p \<and> pstate p = EMPTY \<and> ptype p = t \<and> psize p = 0 \<and> attempt p = 0 \<and>
        spin p = 0 \<and> (\<forall>b. b \<noteq> a \<longrightarrow> look s' b = look s b) \<and>
        (\<forall>q. look s a = Some q \<longrightarrow> pstate q = DONE) \<and>
        (w' = w \<or> w' = w\<lparr>readings := Suc (readings w)\<rparr>)"
begin

text \<open>A packet in use is never handed out again, and its contents survive the call.\<close>

lemma get_keeps_used:
  assumes "inv s" "malloc_ok w (readings w)" "look s b = Some q" "pstate q \<noteq> DONE"
    and "get t s w = Some (r, s', w')"
  shows "r \<noteq> Some b \<and> look s' b = Some q"
proof -
  from get_gives[OF assms(1,2), of t] obtain a where
    "r = Some a" "\<forall>b. b \<noteq> a \<longrightarrow> look s' b = look s b" "\<forall>q. look s a = Some q \<longrightarrow> pstate q = DONE"
    using assms(5) by auto
  with assms(3,4) show ?thesis by auto
qed

text \<open>Two packets taken one after the other are different.\<close>

lemma get_twice_distinct:
  assumes "inv s" "malloc_ok w (readings w)" "get t s w = Some (Some a, s', w')"
    and "malloc_ok w' (readings w')" "get t' s' w' = Some (Some b, s'', w'')"
  shows "a \<noteq> b"
proof -
  from get_gives[OF assms(1,2), of t] assms(3) obtain p where
    "inv s'" "look s' a = Some p" "pstate p = EMPTY"
    by auto
  from get_keeps_used[OF this(1) assms(4) this(2) _ assms(5)] this(3) show ?thesis
    by auto
qed

end

definition pool_inv :: "storage \<Rightarrow> bool" where
  "pool_inv s \<longleftrightarrow> (\<exists>as. storage_inv s as)"

interpretation pool: packet_pool get_packet heap pool_inv
proof
  fix s :: storage and w :: machine and t
  assume "pool_inv s" and mem: "malloc_ok w (readings w)"
  then obtain as where inv: "storage_inv s as"
    by (auto simp: pool_inv_def)
  show "\<exists>a p s' w'. get_packet t s w = Some (Some a, s', w') \<and> pool_inv s' \<and>
        heap s' a = Some p \<and> pstate p = EMPTY \<and> ptype p = t \<and> psize p = 0 \<and> attempt p = 0 \<and>
        spin p = 0 \<and> (\<forall>b. b \<noteq> a \<longrightarrow> heap s' b = heap s b) \<and>
        (\<forall>q. heap s a = Some q \<longrightarrow> pstate q = DONE) \<and>
        (w' = w \<or> w' = w\<lparr>readings := Suc (readings w)\<rparr>)"
  proof (cases "List.find (\<lambda>a. \<exists>p. heap s a = Some p \<and> pstate p = DONE) as")
    case (Some a)
    from get_packet_reuse[OF inv Some, of t w] obtain p where
      "heap s a = Some p" "pstate p = DONE"
      "get_packet t s w = Some (Some a, set_packet a (reset_packet t p) s, w)"
      "storage_inv (set_packet a (reset_packet t p) s) as"
      by metis
    then show ?thesis
      by (auto simp: pool_inv_def set_packet_def reset_packet_def packet_change_state_def)
  next
    case None
    have "heap s (brk s) = None"
      using inv by (cases "heap s (brk s)") (auto simp: storage_inv_def)
    with get_packet_fresh[OF inv None mem, of t] show ?thesis
      by (auto simp: pool_inv_def new_packet_def push_new_def)
  qed
qed

section \<open>What one round of sending does\<close>

text \<open>The round as a recursion over the list of addresses.\<close>

fun send_list :: "senders \<Rightarrow> addr list \<Rightarrow> storage \<Rightarrow> machine \<Rightarrow> (int \<times> storage \<times> machine) option" where
  "send_list sn [] s w = Some (0, s, w)"
| "send_list sn (a # as) s w = do {
     p \<leftarrow> heap s a;
     if pstate p = READY then do {
       (res, q, w1) \<leftarrow> post sn p w;
       if res < 0 then Some (-1, (set_packet a q s)\<lparr>delay := backoff (delay s)\<rparr>, w1)
       else send_list sn as ((set_packet a (q\<lparr>pstate := DONE\<rparr>) s)\<lparr>delay := 1, tick := STORAGE_TICK\<rparr>) w1
     } else send_list sn as s w
   }"

lemma set_packet_heap [simp]:
  "heap (set_packet a p s) = (heap s)(a \<mapsto> p)" "brk (set_packet a p s) = brk s"
  "packets (set_packet a p s) = packets s" "tick (set_packet a p s) = tick s"
  "delay (set_packet a p s) = delay s"
  by (simp_all add: set_packet_def)

lemma storage_loop_send_list:
  "chain (heap s) r as \<Longrightarrow> storage_loop sn r s w = send_list sn as s w"
proof (induction as arbitrary: r s w)
  case Nil
  then show ?case by (simp add: storage_loop.simps)
next
  case (Cons a as)
  then obtain p where p: "r = Some a" "heap s a = Some p" "chain (heap s) (pnext p) as"
    by auto
  have "a \<notin> set as"
    using Cons.prems chain_distinct by fastforce
  then have keep: "chain ((heap s)(a \<mapsto> q)) (pnext p) as" for q
    using p(3) by (simp add: chain_upd_other)
  show ?case
  proof (cases "pstate p = READY")
    case False
    with p Cons.IH[OF p(3)] show ?thesis
      by (subst storage_loop.simps) simp
  next
    case ready: True
    show ?thesis
    proof (cases "post sn p w")
      case None
      with p ready show ?thesis by (subst storage_loop.simps) simp
    next
      case (Some x)
      then obtain res q w1 where q: "post sn p w = Some (res, q, w1)"
        by (cases x) auto
      then have "pnext q = pnext p"
        using post_frame(1)[OF q] by auto
      moreover have "storage_loop sn (pnext p) s1 w1 = send_list sn as s1 w1"
        if "heap s1 = (heap s)(a \<mapsto> q\<lparr>pstate := DONE\<rparr>)" for s1
        by (rule Cons.IH) (unfold that, rule keep)
      ultimately show ?thesis
        using ready p q by (subst storage_loop.simps) simp
    qed
  qed
qed

lemma storage_main_send_list:
  "storage_inv s as \<Longrightarrow> storage_main sn s w = send_list sn as s w"
  by (simp add: storage_main_def storage_inv_def storage_loop_send_list)

definition readies :: "storage \<Rightarrow> addr list \<Rightarrow> addr list" where
  "readies s as = filter (\<lambda>a. \<exists>p. heap s a = Some p \<and> pstate p = READY) as"

text \<open>
  \<open>sent_prefix s w ks fs r s' w'\<close>: of the packets that were ready, \<open>ks\<close> were sent and are
  done, and the first of \<open>fs\<close>, if any, was sent without success and stays ready; nothing
  else changed, and these are the requests that were made, in this order.
\<close>

definition sent_prefix ::
  "storage \<Rightarrow> machine \<Rightarrow> addr list \<Rightarrow> addr list \<Rightarrow> int \<Rightarrow> storage \<Rightarrow> machine \<Rightarrow> bool" where
  "sent_prefix s w ks fs r s' w' \<longleftrightarrow>
     r = (if fs = [] then 0 else -1) \<and>
     (\<forall>a \<in> set ks. \<exists>p n. heap s a = Some p \<and>
        heap s' a = Some (p\<lparr>attempt := Suc (attempt p), response := n, pstate := DONE\<rparr>)) \<and>
     (\<forall>a \<in> set (take 1 fs). \<exists>p n. heap s a = Some p \<and>
        heap s' a = Some (p\<lparr>attempt := Suc (attempt p), response := n\<rparr>)) \<and>
     (\<forall>a. a \<notin> set ks \<and> a \<notin> set (take 1 fs) \<longrightarrow> heap s' a = heap s a) \<and>
     sent w' = sent w @ map (\<lambda>a. request (the (heap s a))) (ks @ take 1 fs)"

definition all_sendable :: "storage \<Rightarrow> addr list \<Rightarrow> bool" where
  "all_sendable s as \<longleftrightarrow>
     (\<forall>a \<in> set as. \<exists>p. heap s a = Some p \<and> (pstate p = READY \<longrightarrow> sendable p))"

lemma readies_upd_other:
  "a \<notin> set as \<Longrightarrow> heap s' = (heap s)(a \<mapsto> p) \<Longrightarrow> readies s' as = readies s as"
  by (auto simp: readies_def intro!: filter_cong)

lemma sent_prefix_Cons:
  assumes "sent_prefix s1 w1 ks fs r s' w'" and "heap s a = Some p"
    and "heap s1 = (heap s)(a \<mapsto> p\<lparr>attempt := Suc (attempt p), response := n, pstate := DONE\<rparr>)"
    and "a \<notin> set (ks @ fs)" and "sent w1 = sent w @ [request p]"
  shows "sent_prefix s w (a # ks) fs r s' w'"
proof -
  have eq: "heap s1 b = heap s b" if "b \<noteq> a" for b
    using that assms(3) by simp
  have ks: "b \<in> set ks \<Longrightarrow> b \<noteq> a" and fs: "b \<in> set (take 1 fs) \<Longrightarrow> b \<noteq> a" for b
    using assms(4) by (auto dest: in_set_takeD)
  note rest = assms(1)[unfolded sent_prefix_def]
  have req: "map (\<lambda>b. request (the (heap s1 b))) (ks @ take 1 fs) =
      map (\<lambda>b. request (the (heap s b))) (ks @ take 1 fs)"
    using eq ks fs by (intro map_cong refl) (metis Un_iff set_append)
  have "heap s' a = heap s1 a"
    using rest assms(4) ks fs by blast
  then have head: "heap s' a = Some (p\<lparr>attempt := Suc (attempt p), response := n, pstate := DONE\<rparr>)"
    using assms(3) by simp
  show ?thesis
    unfolding sent_prefix_def
  proof (intro conjI ballI allI impI)
    show "r = (if fs = [] then 0 else -1)"
      using rest by blast
    show "sent w' = sent w @ map (\<lambda>b. request (the (heap s b))) ((a # ks) @ take 1 fs)"
      using rest req assms(2,5) by simp
  next
    fix b assume "b \<in> set (a # ks)"
    then consider "b = a" | "b \<in> set ks" by auto
    then show "\<exists>p n. heap s b = Some p \<and>
        heap s' b = Some (p\<lparr>attempt := Suc (attempt p), response := n, pstate := DONE\<rparr>)"
      using rest head assms(2) eq[OF ks] by cases metis+
  next
    fix b assume "b \<in> set (take 1 fs)"
    with rest eq[OF fs] show "\<exists>p n. heap s b = Some p \<and>
        heap s' b = Some (p\<lparr>attempt := Suc (attempt p), response := n\<rparr>)"
      by metis
  next
    fix b assume "b \<notin> set (a # ks) \<and> b \<notin> set (take 1 fs)"
    with rest eq[of b] show "heap s' b = heap s b"
      by simp
  qed
qed

lemma send_list_sends:
  assumes "senders_ready sn" and "distinct as" "all_sendable s as" "readable_replies w"
  shows "\<exists>r s' w' ks fs. send_list sn as s w = Some (r, s', w') \<and>
    readies s as = ks @ fs \<and> sent_prefix s w ks fs r s' w' \<and>
    ((\<forall>n url body. transfer_ok (net w n url body)) \<longrightarrow> fs = [])"
  using assms(2-)
proof (induction as arbitrary: s w)
  case Nil
  then show ?case by (simp add: readies_def sent_prefix_def)
next
  case (Cons a as)
  from Cons.prems obtain p where p: "heap s a = Some p" "pstate p = READY \<longrightarrow> sendable p"
    by (auto simp: all_sendable_def)
  show ?case
  proof (cases "pstate p = READY")
    case False
    with Cons p show ?thesis by (auto simp: all_sendable_def readies_def)
  next
    case True
    with p(2) have "sendable p" by simp
    from post_sendable[OF assms(1) True this Cons.prems(3)] obtain r n w1 where
      post: "post sn p w = Some (r, p\<lparr>attempt := Suc (attempt p), response := n\<rparr>, w1)"
      and r: "r = 0 \<or> r = -1" and w1: "sent w1 = sent w @ [request p]" "net w1 = net w"
      and ok: "r = 0 \<longleftrightarrow> transfer_ok (net w (readings w) (URL (ptype p)) (ptext p))"
      by metis
    have ready: "readies s (a # as) = a # readies s as"
      using p True by (simp add: readies_def)
    show ?thesis
    proof (cases "r = 0")
      case False
      let ?s' = "(set_packet a (p\<lparr>attempt := Suc (attempt p), response := n\<rparr>) s)
        \<lparr>delay := backoff (delay s)\<rparr>"
      have "sent_prefix s w [] (a # readies s as) (-1) ?s' w1"
        using p w1 by (auto simp: sent_prefix_def)
      moreover have "send_list sn (a # as) s w = Some (-1, ?s', w1)"
        using False r p True post by simp
      moreover have "\<not> (\<forall>n url body. transfer_ok (net w n url body))"
        using False ok by blast
      ultimately show ?thesis
        using ready by (metis append_Nil)
    next
      case sent: True
      let ?s1 = "(set_packet a (p\<lparr>attempt := Suc (attempt p), response := n, pstate := DONE\<rparr>) s)
        \<lparr>delay := 1, tick := STORAGE_TICK\<rparr>"
      have "a \<notin> set as" using Cons.prems by simp
      then have same: "readies ?s1 as = readies s as"
        by (intro readies_upd_other) auto
      have "all_sendable ?s1 as" "readable_replies w1"
        using Cons.prems \<open>a \<notin> set as\<close> w1(2) by (auto simp: all_sendable_def readable_replies_def)
      moreover have "distinct as" using Cons.prems(1) by simp
      ultimately obtain r' s' w' ks fs where
        rec: "send_list sn as ?s1 w1 = Some (r', s', w')" "readies s as = ks @ fs"
          "sent_prefix ?s1 w1 ks fs r' s' w'"
          "(\<forall>n url body. transfer_ok (net w n url body)) \<longrightarrow> fs = []"
        using Cons.IH[of ?s1 w1] unfolding same w1(2) by blast
      have "a \<notin> set (ks @ fs)"
        using \<open>a \<notin> set as\<close> unfolding rec(2)[symmetric] by (simp add: readies_def)
      then have "sent_prefix s w (a # ks) fs r' s' w'"
        using rec(3) p(1) w1(1) by (intro sent_prefix_Cons[where ?s1.0 = ?s1]) auto
      moreover have "readies s (a # as) = (a # ks) @ fs"
        using ready rec(2) by simp
      moreover have "send_list sn (a # as) s w = Some (r', s', w')"
        using rec(1) sent p True post by simp
      ultimately show ?thesis using rec(4) by blast
    qed
  qed
qed

lemma send_list_inv:
  assumes "send_list sn bs s w = Some (r, s', w')" and "storage_inv s as"
  shows "storage_inv s' as"
  using assms
proof (induction bs arbitrary: s w)
  case (Cons b bs)
  from Cons.prems(1) obtain p where p: "heap s b = Some p"
    by (auto split: Option.bind_splits)
  show ?case
  proof (cases "pstate p = READY")
    case False
    with Cons p show ?thesis by simp
  next
    case True
    with Cons.prems(1) p obtain res q w1 where post: "post sn p w = Some (res, q, w1)"
      by (auto split: Option.bind_splits)
    then have q: "pnext q = pnext p" "spin q = 0"
      using post_frame(1)[OF post] by auto
    have "storage_inv (set_packet b q s) as" "storage_inv (set_packet b (q\<lparr>pstate := DONE\<rparr>) s) as"
      using storage_inv_upd[OF Cons.prems(2) p, of q]
        storage_inv_upd[OF Cons.prems(2) p, of "q\<lparr>pstate := DONE\<rparr>"] q by simp_all
    then have upd: "storage_inv ((set_packet b q s)\<lparr>delay := d\<rparr>) as"
      "storage_inv ((set_packet b (q\<lparr>pstate := DONE\<rparr>) s)\<lparr>delay := d, tick := n\<rparr>) as" for d n
      by (simp_all add: storage_inv_def)
    with Cons True p post show ?thesis
      by (auto split: if_splits)
  qed
qed simp

text \<open>A round that meets a packet it cannot send changes that packet and the delay only.\<close>

lemma send_list_fails:
  assumes "senders_ready sn" "all_sendable s as" "readable_replies w"
    and "\<forall>n url body. \<not> transfer_ok (net w n url body)" and "readies s as \<noteq> []"
  shows "\<exists>a p n w'. heap s a = Some p \<and> pstate p = READY \<and> sendable p \<and> net w' = net w \<and>
    send_list sn as s w = Some (-1, (set_packet a (p\<lparr>attempt := Suc (attempt p), response := n\<rparr>) s)
      \<lparr>delay := backoff (delay s)\<rparr>, w')"
  using assms(2,5)
proof (induction as)
  case (Cons a as)
  then obtain p where p: "heap s a = Some p" "pstate p = READY \<longrightarrow> sendable p"
    by (auto simp: all_sendable_def)
  show ?case
  proof (cases "pstate p = READY")
    case False
    with Cons p show ?thesis by (auto simp: all_sendable_def readies_def)
  next
    case True
    with p(2) have sp: "sendable p" by simp
    from post_sendable[OF assms(1) True sp assms(3)] obtain r n w1 where
      "post sn p w = Some (r, p\<lparr>attempt := Suc (attempt p), response := n\<rparr>, w1)"
      "r = 0 \<or> r = -1" "net w1 = net w"
      "r = 0 \<longleftrightarrow> transfer_ok (net w (readings w) (URL (ptype p)) (ptext p))"
      by metis
    with True sp p(1) assms(4) show ?thesis by fastforce
  qed
qed (simp add: readies_def)

fun storage_rounds :: "nat \<Rightarrow> senders \<Rightarrow> storage \<Rightarrow> machine \<Rightarrow> (storage \<times> machine) option" where
  "storage_rounds 0 sn s w = Some (s, w)"
| "storage_rounds (Suc n) sn s w = do {
     (r, s1, w1) \<leftarrow> storage_main sn s w;
     storage_rounds n sn s1 w1
   }"

definition stuck :: "senders \<Rightarrow> addr list \<Rightarrow> storage \<Rightarrow> machine \<Rightarrow> bool" where
  "stuck sn as s w \<longleftrightarrow>
     senders_ready sn \<and> storage_inv s as \<and> all_sendable s as \<and> readable_replies w \<and>
     readies s as \<noteq> [] \<and> (\<forall>n url body. \<not> transfer_ok (net w n url body))"

lemma storage_main_stuck:
  assumes "stuck sn as s w"
  shows "\<exists>s' w'. storage_main sn s w = Some (-1, s', w') \<and> stuck sn as s' w' \<and>
    delay s' = backoff (delay s) \<and> tick s' = tick s"
proof -
  note st = assms[unfolded stuck_def]
  obtain a p n w' where ap: "heap s a = Some p" "pstate p = READY" "sendable p" "net w' = net w"
    and run: "send_list sn as s w = Some (-1,
      (set_packet a (p\<lparr>attempt := Suc (attempt p), response := n\<rparr>) s)\<lparr>delay := backoff (delay s)\<rparr>, w')"
    using send_list_fails[of sn s as w] st by blast
  let ?s' = "(set_packet a (p\<lparr>attempt := Suc (attempt p), response := n\<rparr>) s)\<lparr>delay := backoff (delay s)\<rparr>"
  have "readies ?s' as = readies s as"
    using ap by (auto simp: readies_def intro!: filter_cong)
  moreover have "all_sendable ?s' as"
    using st ap by (auto simp: all_sendable_def sendable_def)
  moreover have "storage_inv ?s' as"
    using send_list_inv[OF run] st by blast
  moreover have "storage_main sn s w = Some (-1, ?s', w')"
    using run st storage_main_send_list[of s as] by simp
  ultimately show ?thesis
    using st ap(4) by (intro exI[of _ ?s'] exI[of _ w']) (simp add: stuck_def readable_replies_def)
qed

lemma backoff_values: "backoff 1 = 2" "backoff 2 = 4" "backoff 4 = 0" "backoff 0 = 1"
  by (simp_all add: backoff_def)

lemma backoff_cycle: "(backoff ^^ n) 1 = [1, 2, 4, 0] ! (n mod 4)"
proof (induction n)
  case (Suc n)
  have "n mod 4 < 4" by simp
  then consider "n mod 4 = 0" | "n mod 4 = 1" | "n mod 4 = 2" | "n mod 4 = 3" by linarith
  then show ?case
    by cases (simp_all add: Suc.IH mod_Suc backoff_values numeral_2_eq_2 numeral_3_eq_3)
qed simp

lemma free_packets_chain:
  "chain h r as \<Longrightarrow> free_packets r h = Some (\<lambda>a. if a \<in> set as then None else h a)"
proof (induction as arbitrary: r h)
  case Nil
  then show ?case by (simp add: free_packets.simps)
next
  case (Cons a as)
  then obtain p where p: "r = Some a" "h a = Some p" "chain h (pnext p) as"
    by auto
  have "a \<notin> set as"
    using Cons.prems chain_distinct by fastforce
  then have "chain (h(a := None)) (pnext p) as"
    using p(3) by (simp add: chain_free_other)
  then have rest: "free_packets (pnext p) (h(a := None)) =
      Some (\<lambda>x. if x \<in> set as then None else (h(a := None)) x)"
    by (rule Cons.IH)
  have "free_packets r h = free_packets (pnext p) (h(a := None))"
    using p by (subst free_packets.simps) (simp add: packet_free_def)
  also note rest
  also have "(\<lambda>x. if x \<in> set as then None else (h(a := None)) x) =
      (\<lambda>x. if x \<in> set (a # as) then None else h x)"
    by auto
  finally show ?case .
qed

section \<open>Properties\<close>

text \<open>
  C11: one round of the storage routine returns; it sends the ready packets in the order of
  the list, each once, marks those that were accepted as done, stops at the first failure,
  which stays ready, and changes no other packet. The list is intact afterwards, and when
  the network accepts everything nothing stays ready.
\<close>

theorem storage_main_sends:
  assumes "senders_ready sn" "storage_inv s as" "all_sendable s as" "readable_replies w"
  shows "\<exists>r s' w' ks fs. storage_main sn s w = Some (r, s', w') \<and> storage_inv s' as \<and>
    readies s as = ks @ fs \<and> sent_prefix s w ks fs r s' w' \<and>
    ((\<forall>n url body. transfer_ok (net w n url body)) \<longrightarrow> fs = [])"
proof -
  have "distinct as"
    using assms(2) by (auto simp: storage_inv_def chain_distinct)
  from send_list_sends[OF assms(1) this assms(3,4)] send_list_inv[OF _ assms(2)] show ?thesis
    unfolding storage_main_send_list[OF assms(2)] by metis
qed

definition sample_storage :: storage where
  "sample_storage =
     \<lparr>heap = [0 \<mapsto> sample_packet\<lparr>pnext := Some 1\<rparr>, 1 \<mapsto> sample_packet\<lparr>pstate := BEGIN\<rparr>], brk = 2,
      packets = Some 0, delay = 1, tick = STORAGE_TICK\<rparr>"

lemma sample_storage_inv: "storage_inv sample_storage [0, 1]"
  by (simp add: storage_inv_def sample_storage_def)

lemma sample_storage_sendable: "all_sendable sample_storage [0, 1]"
  by (simp add: all_sendable_def sample_storage_def sendable_def)

lemma sample_storage_readies: "readies sample_storage [0, 1] = [0]"
  by (simp add: readies_def sample_storage_def)

theorem storage_main_sends_witness:
  "\<exists>s' w' p. storage_main sample_senders sample_storage sample_machine = Some (0, s', w') \<and>
    heap s' 0 = Some p \<and> pstate p = DONE \<and> sent w' = [(URL METRIC, ''{}'')]"
proof -
  have "transfer_ok (net sample_machine n url body)" for n url body
    by (simp add: transfer_ok_def)
  then obtain r s' w' ks fs where
    run: "storage_main sample_senders sample_storage sample_machine = Some (r, s', w')"
      "readies sample_storage [0, 1] = ks @ fs"
      "sent_prefix sample_storage sample_machine ks fs r s' w'" "fs = []"
    using storage_main_sends[OF sample_senders_ready sample_storage_inv sample_storage_sendable
        sample_readable] by blast
  then have "ks = [0]" using sample_storage_readies by (metis append_Nil2)
  with run show ?thesis
    by (auto simp: sent_prefix_def sample_storage_def request_def)
qed

text \<open>
  C38: while every transfer fails, the delay runs through 1, 2, 4, 0 and starts again, since
  it has three bits; the tick of the routine stays at 21 seconds, because it is only set
  after a success. The rounds do not slow down.
\<close>

theorem storage_backoff_rounds:
  assumes "stuck sn as s w" and "delay s = 1" and "tick s = STORAGE_TICK"
  shows "\<exists>s' w'. storage_rounds n sn s w = Some (s', w') \<and>
    delay s' = [1, 2, 4, 0] ! (n mod 4) \<and> tick s' = STORAGE_TICK"
proof -
  have "\<exists>s' w'. storage_rounds n sn s w = Some (s', w') \<and> delay s' = (backoff ^^ n) (delay s) \<and>
      tick s' = tick s"
    using assms(1)
  proof (induction n arbitrary: s w)
    case (Suc n)
    from storage_main_stuck[OF Suc.prems] obtain s1 w1 where
      "storage_main sn s w = Some (-1, s1, w1)" "stuck sn as s1 w1"
      "delay s1 = backoff (delay s)" "tick s1 = tick s"
      by blast
    with Suc.IH[of s1 w1] show ?case by (auto simp: funpow_swap1)
  qed simp
  with assms(2,3) backoff_cycle[of n] show ?thesis by metis
qed

theorem storage_backoff_rounds_witness:
  "\<exists>s' w'. storage_rounds 3 sample_senders sample_storage
      (sample_machine\<lparr>net := (\<lambda>_ _ _. \<lparr>curl_code = 7, status_code = 0, chunks = []\<rparr>)\<rparr>) =
      Some (s', w') \<and> delay s' = 0 \<and> tick s' = STORAGE_TICK"
proof -
  let ?w = "sample_machine\<lparr>net := (\<lambda>_ _ _. \<lparr>curl_code = 7, status_code = 0, chunks = []\<rparr>)\<rparr>"
  have "stuck sample_senders [0, 1] sample_storage ?w"
    using sample_storage_inv sample_storage_sendable sample_storage_readies
    by (simp add: stuck_def readable_replies_def transfer_ok_def)
  from storage_backoff_rounds[OF this, of 3] show ?thesis
    by (simp add: sample_storage_def)
qed

text \<open>
  C13: asking for a packet gives an empty one of the type asked for. A packet that is done is
  reused, the first in the list; otherwise a new one becomes the head of the list. No other
  packet changes, so a packet in use is never handed out twice.
\<close>

theorem get_packet_result:
  assumes "storage_inv s as" and "malloc_ok w (readings w)"
  shows "\<exists>a p s' w' as'. get_packet t s w = Some (Some a, s', w') \<and> storage_inv s' as' \<and>
    heap s' a = Some p \<and> pstate p = EMPTY \<and> ptype p = t \<and> psize p = 0 \<and>
    (\<forall>b. b \<noteq> a \<longrightarrow> heap s' b = heap s b) \<and>
    (case List.find (\<lambda>b. \<exists>q. heap s b = Some q \<and> pstate q = DONE) as of
       Some b \<Rightarrow> a = b \<and> as' = as
     | None \<Rightarrow> heap s a = None \<and> as' = a # as)"
proof (cases "List.find (\<lambda>b. \<exists>q. heap s b = Some q \<and> pstate q = DONE) as")
  case (Some b)
  from get_packet_reuse[OF assms(1) Some, of t w] obtain p where
    "get_packet t s w = Some (Some b, set_packet b (reset_packet t p) s, w)"
    "storage_inv (set_packet b (reset_packet t p) s) as" "pstate p = DONE"
    by metis
  with Some show ?thesis
    by (auto simp: reset_packet_def packet_change_state_def)
next
  case None
  have "heap s (brk s) = None"
    using assms(1) by (cases "heap s (brk s)") (auto simp: storage_inv_def)
  with None get_packet_fresh[OF assms(1) None assms(2), of t] show ?thesis
    by (auto simp: push_new_def new_packet_def)
qed

theorem get_packet_result_witness:
  "\<exists>a s' w'. get_packet METRIC sample_storage sample_machine = Some (Some a, s', w') \<and>
    heap sample_storage a = None \<and> storage_inv s' [a, 0, 1]"
proof -
  have none: "List.find (\<lambda>b. \<exists>q. heap sample_storage b = Some q \<and> pstate q = DONE) [0, 1] = None"
    by (simp add: sample_storage_def)
  show ?thesis
    using get_packet_result[OF sample_storage_inv, of sample_machine METRIC]
    unfolding none by fastforce
qed

text \<open>
  A packet some plugin is filling, or one waiting to be sent, survives another plugin's
  request unchanged and is not what that plugin gets.
\<close>

theorem get_packet_keeps_used:
  assumes "pool_inv s" "malloc_ok w (readings w)" "heap s b = Some q" "pstate q \<noteq> DONE"
    and "get_packet t s w = Some (r, s', w')"
  shows "r \<noteq> Some b \<and> heap s' b = Some q"
  using assms by (rule pool.get_keeps_used)

theorem get_packet_keeps_used_witness:
  "\<exists>r s' w'. get_packet METRIC sample_storage sample_machine = Some (r, s', w') \<and>
    r \<noteq> Some 1 \<and> heap s' 1 = heap sample_storage 1"
proof -
  have inv: "pool_inv sample_storage"
    using sample_storage_inv by (auto simp: pool_inv_def)
  obtain r s' w' where get: "get_packet METRIC sample_storage sample_machine = Some (r, s', w')"
    using pool.get_gives[OF inv, of sample_machine METRIC] by auto
  have "heap sample_storage 1 = Some (sample_packet\<lparr>pstate := BEGIN\<rparr>)"
    by (simp add: sample_storage_def)
  from get_packet_keeps_used[OF inv _ this _ get] get this show ?thesis by simp
qed

text \<open>
  C29: finalising the storage frees every packet of the list exactly once and nothing else, follows no
  freed pointer, closes the senders, and only then finalises the routine. It returns 0, whatever
  the calls made for the routine answer, exactly when each of them has an answer: nothing has stopped
  the thread of the routine, so the last of them, the join, may wait for ever, and then so does this function.
\<close>

theorem storage_fini_frees:
  assumes "storage_inv s as"
  shows "storage_fini fc sn s = (case routine_fini fc of
      None \<Rightarrow> None
    | Some _ \<Rightarrow> Some (0, snd (sender_fini sn),
        s\<lparr>heap := (\<lambda>a. if a \<in> set as then None else heap s a), packets := None\<rparr>))"
  using assms free_packets_chain[of "heap s" "packets s" as]
  by (simp add: storage_fini_def storage_inv_def case_prod_unfold bind_map_option Option.bind_def
      split: option.split)

definition all_answer :: fini_calls where
  "all_answer = \<lparr>destroy_ping_me = Some 0, destroy_pong_me = Some 16, destroy_ping = Some 0,
     destroy_pong = Some 0, join_thread = Some 0\<rparr>"

theorem storage_fini_frees_witness:
  "\<exists>sn s'. storage_fini all_answer sample_senders sample_storage = Some (0, sn, s') \<and>
    heap s' 0 = None \<and> heap s' 1 = None \<and> packets s' = None \<and>
    storage_fini (all_answer\<lparr>join_thread := None\<rparr>) sample_senders sample_storage = None"
  using storage_fini_frees[OF sample_storage_inv, of _ sample_senders]
  by (simp add: routine_fini_def all_answer_def)

section \<open>The invariant under every outcome\<close>

lemma storage_inv_get:
  assumes "storage_inv s as" "get_packet t s w = Some (r, s', w')"
  shows "pool_inv s'"
proof (cases "List.find (\<lambda>b. \<exists>q. heap s b = Some q \<and> pstate q = DONE) as = None \<and> \<not> malloc_ok w (readings w)")
  case True
  with assms have "s' = s"
    by (auto simp: get_packet_def storage_inv_find packet_alloc_type bind_eq_Some_conv
        split: option.split_asm if_split_asm)
  with assms show ?thesis by (auto simp: pool_inv_def)
next
  case False
  then consider b where "List.find (\<lambda>b. \<exists>q. heap s b = Some q \<and> pstate q = DONE) as = Some b"
    | "List.find (\<lambda>b. \<exists>q. heap s b = Some q \<and> pstate q = DONE) as = None" "malloc_ok w (readings w)"
    by (cases "List.find (\<lambda>b. \<exists>q. heap s b = Some q \<and> pstate q = DONE) as") auto
  then show ?thesis
  proof cases
    case 1
    from get_packet_reuse[OF assms(1) 1, of t w] assms(2) show ?thesis
      by (auto simp: pool_inv_def)
  next
    case 2
    from get_packet_fresh[OF assms(1) 2, of t] assms(2) show ?thesis
      by (auto simp: pool_inv_def)
  qed
qed

lemma storage_inv_delay:
  "storage_inv (s\<lparr>delay := d, tick := t\<rparr>) as = storage_inv s as"
  "storage_inv (s\<lparr>delay := d\<rparr>) as = storage_inv s as"
  by (simp_all add: storage_inv_def)

lemma storage_inv_send:
  assumes "storage_inv s as" "send_list sn bs s w = Some (r, s', w')"
  shows "storage_inv s' as"
  using assms
proof (induction bs arbitrary: s w)
  case (Cons b bs)
  then obtain p where p: "heap s b = Some p" by (auto simp: bind_eq_Some_conv)
  show ?case
  proof (cases "pstate p = READY")
    case False
    with Cons p show ?thesis by simp
  next
    case True
    with Cons.prems(2) p obtain res q w1 where post: "post sn p w = Some (res, q, w1)"
      and rest: "if res < 0 then s' = (set_packet b q s)\<lparr>delay := backoff (delay s)\<rparr> else
        send_list sn bs ((set_packet b (q\<lparr>pstate := DONE\<rparr>) s)\<lparr>delay := 1, tick := STORAGE_TICK\<rparr>) w1 = Some (r, s', w')"
      by (auto simp: bind_eq_Some_conv split: if_split_asm)
    have "spin p = 0" using Cons.prems(1) p by (auto simp: storage_inv_def)
    then have "pnext q = pnext p" "spin q = 0" using post_frame(1)[OF post] by auto
    then have "storage_inv (set_packet b q s) as" "storage_inv (set_packet b (q\<lparr>pstate := DONE\<rparr>) s) as"
      using Cons.prems(1) p by (auto intro: storage_inv_upd)
    with rest Cons.IH[of "(set_packet b (q\<lparr>pstate := DONE\<rparr>) s)\<lparr>delay := 1, tick := STORAGE_TICK\<rparr>" w1] show ?thesis
      by (auto simp: storage_inv_delay split: if_split_asm)
  qed
qed simp

lemma storage_inv_fini:
  assumes "storage_inv s as" "storage_fini fc sn s = Some (r, sn', s')"
  shows "storage_inv s' []"
proof -
  have "chain (heap s) (packets s) as" "\<And>a p. heap s a = Some p \<Longrightarrow> a < brk s \<and> spin p = 0"
    using assms(1) by (auto simp: storage_inv_def)
  with assms(2) free_packets_chain[of "heap s" "packets s" as] show ?thesis
    by (auto simp: storage_fini_def case_prod_unfold storage_inv_def split: if_split_asm Option.bind_splits)
qed

text \<open>Freeing a packet that is still linked leaves a dangling pointer in the list.\<close>

lemma chain_sub: "chain h r as \<Longrightarrow> \<forall>a p. h a = Some p \<longrightarrow> h' a = Some p \<Longrightarrow> chain h' r as"
  by (induction as arbitrary: r) auto

lemma linked_free_breaks:
  assumes "storage_inv s as" "a \<in> set as"
  shows "\<not> pool_inv (s\<lparr>heap := (heap s)(a := None)\<rparr>)"
proof
  assume "pool_inv (s\<lparr>heap := (heap s)(a := None)\<rparr>)"
  then obtain bs where bs: "chain ((heap s)(a := None)) (packets s) bs"
    by (auto simp: pool_inv_def storage_inv_def)
  then have "chain (heap s) (packets s) bs"
    by (rule chain_sub) (auto split: if_split_asm)
  with assms(1) have "bs = as" by (auto simp: storage_inv_def dest: chain_unique)
  with bs assms(2) show False by (auto dest: chain_alloc)
qed

end
