(* ===== verification/Plugin.thy ===== *)
theory Plugin
  imports Gather Storage Cfloat
begin

text \<open>
  A plugin (src/plugin.c, inc/plugin.h): its record, the tasks its routine runs one after
  the other (prepare, register, gather, alert), the packets it fills, and the documents
  these packets carry.

  The module behind a plugin is not fixed: the functions the plugin calls through its
  record (\<open>prep\<close>, \<open>fini\<close>, \<open>gather\<close>, \<open>cmp\<close>) are fields of the model too. Preparing and
  gathering observe the world outside, so they may differ from one call to the next: they
  take the machine's count of readings.
\<close>

section \<open>The plugin record\<close>

text \<open>What the agent knows of itself (src/metadata.c).\<close>

record metadata =
  license :: string
  aid :: "64 word"
  agent_type :: string
  os :: string
  host :: string
  aip :: string

text \<open>
  The functions a module provides take an untyped pointer: null, to the structure of the module, or to
  something else. Finalising a module closes connections and frees memory.
\<close>

datatype 'm pointee = Null | Module 'm | Other_structure

datatype fini_call = Close_connection | Free_module

text \<open>The task of the plugin's routine, a pointer to one of these functions.\<close>

datatype task = Prep | Regr | Gather | Alert_up | Alert_down

record 'm plugin =
  ptick :: f32
  task :: task
  tid :: "64 word"
  tip :: "string option"
  target_type :: string
  working :: "addr option"
  oob :: "packet option"
  prep :: "(nat \<Rightarrow> 'm \<Rightarrow> int \<times> 'm) option"
  fini :: "('m pointee \<Rightarrow> (int \<times> fini_call list) option) option"
  gather :: "nat \<Rightarrow> 'm gather_fun"
  cmp :: "string \<Rightarrow> 'm \<Rightarrow> nat \<Rightarrow> int"
  module_size :: nat
  module_bytes :: "'m \<Rightarrow> string"
  module :: 'm

text \<open>The task a routine runs next; the routine of a plugin is part of its record.\<close>

definition routine_change_task :: "task \<Rightarrow> 'm plugin \<Rightarrow> 'm plugin" where
  [simp]: "routine_change_task t p = p\<lparr>task := t\<rparr>"

text \<open>
  \<open>plugin_init\<close> on an allocated plugin; \<open>routine_init\<close> reports whether the mutexes and
  condition variables could be made.
\<close>

definition plugin_init :: "bool \<Rightarrow> 'm plugin \<Rightarrow> int \<times> 'm plugin" where
  "plugin_init routine_ok p =
     (if \<not> routine_ok then (-1, p)
      else (0, routine_change_task Prep (p\<lparr>ptick := (3600, 0), tid := 0, working := None, oob := None\<rparr>)))"

section \<open>Registration\<close>

definition regr_head :: "metadata \<Rightarrow> string" where
  \<open>regr_head md =
     ''{"license":"'' @ license md @ ''","aid":'' @ show_ull (aid md) @ '',"tid":''\<close>

definition regr_tail :: "metadata \<Rightarrow> 'm plugin \<Rightarrow> string" where
  \<open>regr_tail md p =
     '',"agent_type":"'' @ agent_type md @ ''","target_type":"'' @ target_type p @
     ''","os":"'' @ os md @ ''","hostname":"'' @ host md @ ''","ip":"'' @ aip md @ ''"'' @
     (case tip p of None \<Rightarrow> [] | Some ip \<Rightarrow> '',"target_ip":"'' @ ip @ ''"'') @ ''}''\<close>

text \<open>The message built the first time, and the number patched into it afterwards.\<close>

definition regr_packet :: "metadata \<Rightarrow> 'm plugin \<Rightarrow> machine \<Rightarrow> (packet \<times> machine) option" where
  "regr_packet md p w = do {
     let (new, w1) = packet_alloc (type_number REGISTER) w;
     k \<leftarrow> new;
     k1 \<leftarrow> packet_append (regr_head md) (k\<lparr>pstate := READY\<rparr>);
     k2 \<leftarrow> packet_append (show_ull20 (tid p) @ regr_tail md p) (packet_transaction k1);
     Some (k2, w1)
   }"

definition patch_tid :: "64 word \<Rightarrow> packet \<Rightarrow> packet option" where
  "patch_tid t k =
     (let at = rollback_point k in
      if at + 21 \<le> PKTSZ
      then Some (k\<lparr>payload := (write_str (payload k) at (show_ull20 t @ [NUL]))(at + 20 := CHR '','')\<rparr>)
      else None)"

text \<open>The file that remembers a registered target: its name and contents.\<close>

definition res_name :: "64 word \<Rightarrow> string" where
  "res_name t = bf_cut (''res/'' @ show_ull t)"

definition res_contents :: "'m plugin \<Rightarrow> string" where
  "res_contents p =
     int_bytes (of_nat (length (target_type p))) @ target_type p @
     int_bytes (of_nat (module_size p)) @ take (module_size p) (module_bytes p (module p))"

text \<open>The result of \<open>fopen\<close> is not checked: a null file pointer is dereferenced.\<close>

definition plugin_regr ::
  "metadata \<Rightarrow> senders \<Rightarrow> 'm plugin \<Rightarrow> machine \<Rightarrow> (int \<times> 'm plugin \<times> machine) option" where
  "plugin_regr md sn p w = do {
     (p1, k, w1) \<leftarrow>
       (case oob p of
          None \<Rightarrow> do {
            let (t, w') = (if tid p = 0 then fresh_id w else (tid p, w));
            (k, w'') \<leftarrow> regr_packet md (p\<lparr>tid := t\<rparr>) w';
            Some (p\<lparr>tid := t\<rparr>, k, w'')
          }
        | Some k \<Rightarrow> do { k' \<leftarrow> patch_tid (tid p) k; Some (p, k', w) });
     (r, k1, w2) \<leftarrow> post sn k w1;
     if r < 0 then
       (if response k1 = ETARGETREG
        then let (t, w3) = fresh_id w2 in Some (-1, p1\<lparr>tid := t, oob := Some k1\<rparr>, w3)
        else Some (-1, p1\<lparr>oob := Some k1\<rparr>, w2))
     else
       let name = res_name (tid p1) in
       if \<not> creatable w2 name then None
       else Some (0, routine_change_task Gather (p1\<lparr>oob := None\<rparr>),
              w2\<lparr>files := (files w2)(name \<mapsto> res_contents p1)\<rparr>)
   }"

definition plugin_prep ::
  "metadata \<Rightarrow> senders \<Rightarrow> 'm plugin \<Rightarrow> machine \<Rightarrow> (int \<times> 'm plugin \<times> machine) option" where
  "plugin_prep md sn p w =
     (let (r, p1, w1) =
        (case prep p of
           None \<Rightarrow> (0, p, w)
         | Some f \<Rightarrow> let (r, m) = f (readings w) (module p)
                     in (r, p\<lparr>module := m\<rparr>, w\<lparr>readings := Suc (readings w)\<rparr>))
      in if r < 0 then Some (-1, p1, w1) else plugin_regr md sn (routine_change_task Regr p1) w1)"

section \<open>Alerts\<close>

definition alert_text :: "metadata \<Rightarrow> 64 word \<Rightarrow> string \<Rightarrow> string" where
  \<open>alert_text md t stat =
     ''{"license":"'' @ license md @ ''","tid":'' @ show_ull t @ '',"status":"'' @ stat @ ''"}''\<close>

definition plugin_alert ::
  "metadata \<Rightarrow> senders \<Rightarrow> string \<Rightarrow> 'm plugin \<Rightarrow> machine \<Rightarrow> (int \<times> 'm plugin \<times> machine) option" where
  "plugin_alert md sn stat p w = do {
     (k, w1) \<leftarrow>
       (case oob p of
          None \<Rightarrow> do {
            let (new, w') = packet_alloc (type_number ALERT) w;
            k \<leftarrow> new;
            k' \<leftarrow> packet_append (alert_text md (tid p) stat) (k\<lparr>pstate := READY\<rparr>);
            Some (k', w')
          }
        | Some k \<Rightarrow> Some (k, w));
     (r, k1, w2) \<leftarrow> post sn k w1;
     if r < 0 then Some (-1, p\<lparr>oob := Some k1\<rparr>, w2)
     else Some (0, routine_change_task Gather (p\<lparr>oob := None\<rparr>), w2)
   }"

definition plugin_alert_up ::
  "metadata \<Rightarrow> senders \<Rightarrow> 'm plugin \<Rightarrow> machine \<Rightarrow> (int \<times> 'm plugin \<times> machine) option" where
  "plugin_alert_up md sn p w = plugin_alert md sn ''up'' p w"

definition plugin_alert_down ::
  "metadata \<Rightarrow> senders \<Rightarrow> 'm plugin \<Rightarrow> machine \<Rightarrow> (int \<times> 'm plugin \<times> machine) option" where
  "plugin_alert_down md sn p w = plugin_alert md sn ''down'' p w"

section \<open>Gathering\<close>

definition metric_head :: "metadata \<Rightarrow> 64 word \<Rightarrow> string" where
  \<open>metric_head md t =
     ''{"license":"'' @ license md @ ''","tid":'' @ show_ull t @ '',"metrics":[''\<close>

definition stamp_text :: "epoch_t \<Rightarrow> string" where
  \<open>stamp_text t = ''{"timestamp":'' @ show_ull t @ '',''\<close>

text \<open>Opening the packet, and starting a record in it.\<close>

definition open_packet :: "metadata \<Rightarrow> 64 word \<Rightarrow> packet \<Rightarrow> packet option" where
  "open_packet md t k =
     (if pstate k = EMPTY
      then do { k1 \<leftarrow> packet_append (metric_head md t) k; Some (k1\<lparr>pstate := BEGIN\<rparr>) }
      else Some k)"

definition begin_record :: "epoch_t \<Rightarrow> packet \<Rightarrow> packet option" where
  "begin_record begin k = do {
     let k1 = (if pstate k = BEGIN then k\<lparr>started := begin\<rparr> else k);
     let k2 = packet_transaction k1;
     k3 \<leftarrow> (if pstate k2 = WROTE then packet_append '','' k2 else Some k2);
     packet_append (stamp_text begin) k3
   }"

text \<open>The four cases of the switch; a code outside the enumeration leaves the packet as it is.\<close>

definition end_record :: "int \<Rightarrow> task \<Rightarrow> packet \<Rightarrow> (task \<times> packet) option" where
  "end_record r t k =
     (if r = ENONE then do {
        k1 \<leftarrow> packet_append ''}'' k;
        Some (t, packet_commit (if pstate k1 = BEGIN then k1\<lparr>pstate := WROTE\<rparr> else k1))
      }
      else if r = ENODATA then do { k1 \<leftarrow> packet_rollback k; Some (t, k1) }
      else if r = EPLUGUP then do { k1 \<leftarrow> packet_rollback k; Some (Alert_up, k1) }
      else if r = EPLUGDOWN then do { k1 \<leftarrow> packet_rollback k; Some (Alert_down, k1) }
      else Some (t, k))"

text \<open>The end of a packet's time: closed and ready, or given back when nothing was written.\<close>

definition expire_packet :: "bool \<Rightarrow> packet \<Rightarrow> (bool \<times> packet) option" where
  "expire_packet expired k =
     (if \<not> expired then Some (True, k)
      else if pstate k = WROTE then do { k1 \<leftarrow> packet_append '']}'' k; Some (False, k1\<lparr>pstate := READY\<rparr>) }
      else Some (False, k\<lparr>pstate := DONE\<rparr>))"

text \<open>The part of \<open>plugin_gather\<close> that works on the packet \<open>k\<close> at address \<open>a\<close>.\<close>

definition gather_into ::
  "metadata \<Rightarrow> addr \<Rightarrow> packet \<Rightarrow> 'm plugin \<Rightarrow> storage \<Rightarrow> machine \<Rightarrow>
   (int \<times> 'm plugin \<times> storage \<times> machine) option" where
  "gather_into md a k p s w = do {
     k1 \<leftarrow> open_packet md (tid p) k;
     let (begin, w1) = epoch_time w;
     k2 \<leftarrow> begin_record begin k1;
     (code, m, k3) \<leftarrow> packet_gather ''values'' (gather p (readings w1)) (module p) k2;
     (t, k4) \<leftarrow> end_record code (task p) k3;
     let (expired, w2) = packet_expired k4 w1;
     (keep, k5) \<leftarrow> expire_packet expired k4;
     Some (0, (routine_change_task t p)\<lparr>module := m, working := (if keep then Some a else None)\<rparr>,
           set_packet a k5 s, w2)
   }"

definition plugin_gather ::
  "metadata \<Rightarrow> 'm plugin \<Rightarrow> storage \<Rightarrow> machine \<Rightarrow> (int \<times> 'm plugin \<times> storage \<times> machine) option" where
  "plugin_gather md p s w = do {
     (r, s1, w1) \<leftarrow> (case working p of None \<Rightarrow> get_packet METRIC s w | Some a \<Rightarrow> Some (Some a, s, w));
     a \<leftarrow> r;
     k \<leftarrow> heap s1 a;
     gather_into md a k p s1 w1
   }"

definition plugin_gather_phase :: "'m plugin \<Rightarrow> bool" where
  "plugin_gather_phase p \<longleftrightarrow> task p = Gather"

text \<open>
  Finalisation refuses a null pointer, calls the module's \<open>fini\<close> if there is one, and frees the
  packet in progress. The source hands \<open>fini\<close> the plugin and not its module.
\<close>

definition plugin_fini :: "'m plugin option \<Rightarrow> storage \<Rightarrow> (int \<times> storage) option" where
  "plugin_fini pl s =
     (case pl of
        None \<Rightarrow> Some (-1, s)
      | Some p \<Rightarrow> do {
          _ \<leftarrow> (case fini p of None \<Rightarrow> Some (0, []) | Some f \<Rightarrow> f Other_structure);
          Some (0, s\<lparr>heap := packet_free (working p) (heap s)\<rparr>)
        })"

text \<open>Running the current task.\<close>

definition plugin_task ::
  "metadata \<Rightarrow> senders \<Rightarrow> 'm plugin \<Rightarrow> storage \<Rightarrow> machine \<Rightarrow>
   (int \<times> 'm plugin \<times> storage \<times> machine) option" where
  "plugin_task md sn p s w =
     (let with_storage = map_option (\<lambda>(r, p', w'). (r, p', s, w')) in
      case task p of
        Prep \<Rightarrow> with_storage (plugin_prep md sn p w)
      | Regr \<Rightarrow> with_storage (plugin_regr md sn p w)
      | Alert_up \<Rightarrow> with_storage (plugin_alert_up md sn p w)
      | Alert_down \<Rightarrow> with_storage (plugin_alert_down md sn p w)
      | Gather \<Rightarrow> plugin_gather md p s w)"

section \<open>The document a metric packet carries\<close>

text \<open>
  The abstract state of a packet in progress is the list of its records. \<open>carries\<close> is the
  abstraction relation: the text is the head of the document and the records separated by
  commas, and the state of the packet says whether there is a record yet.
\<close>

definition record_text :: "epoch_t \<Rightarrow> string \<Rightarrow> string" where
  \<open>record_text t out = stamp_text t @ ''"values":{'' @ out @ ''}}''\<close>

definition carries :: "metadata \<Rightarrow> 64 word \<Rightarrow> string list \<Rightarrow> packet \<Rightarrow> bool" where
  "carries md t recs k \<longleftrightarrow>
     pkt_ok k \<and> ptext k = metric_head md t @ commas recs \<and>
     pstate k = (if recs = [] then BEGIN else WROTE)"

text \<open>What one call of the gathering function adds to the records.\<close>

definition add_record :: "int \<Rightarrow> string \<Rightarrow> string list \<Rightarrow> string list" where
  "add_record code rec recs = (if code = ENONE then recs @ [rec] else recs)"

definition next_task :: "int \<Rightarrow> task \<Rightarrow> task" where
  "next_task code t =
     (if code = EPLUGUP then Alert_up else if code = EPLUGDOWN then Alert_down else t)"

definition plugin_codes :: "int set" where
  "plugin_codes = {ENONE, ENODATA, EPLUGUP, EPLUGDOWN}"

text \<open>The fields that belong to the storage, which filling a packet never touches.\<close>

definition control :: "packet \<Rightarrow> packet_type \<times> int \<times> nat \<times> int \<times> addr option" where
  "control k = (ptype k, response k, attempt k, spin k, pnext k)"

lemma control_upd [simp]:
  "control (k\<lparr>started := t\<rparr>) = control k" "control (k\<lparr>pstate := st\<rparr>) = control k"
  "control (k\<lparr>rollback_point := n\<rparr>) = control k"
  by (simp_all add: control_def)

lemma control_wrote: "wrote s p q \<Longrightarrow> control q = control p"
  by (simp add: control_def wrote_fields)

lemma length_stamp: "length (stamp_text t) \<le> 34"
  using length_show_ull[of t] by (simp add: stamp_text_def)

lemma begin_record_wrote:
  fixes b :: epoch_t
  assumes "carries md t recs k" and "room k 35"
  defines "k1 \<equiv> k\<lparr>started := (if recs = [] then b else started k), rollback_point := psize k\<rparr>"
  shows "\<exists>k2. begin_record b k = Some k2 \<and>
    wrote ((if recs = [] then [] else '','') @ stamp_text b) k1 k2"
proof -
  have k1: "pkt_ok k1" "pstate k1 = pstate k" "psize k1 = psize k"
    using assms(1) by (simp_all add: k1_def carries_def)
  have start: "packet_transaction (if pstate k = BEGIN then k\<lparr>started := b\<rparr> else k) = k1"
    using assms(1) by (cases k) (auto simp: k1_def packet_transaction_def carries_def)
  have "room k1 (length (concat [if recs = [] then [] else '','', stamp_text b]))"
    using assms(2) length_stamp[of b] k1(3) by (auto simp: room_def)
  from append_all_wrote[OF k1(1) this] obtain k2 where
    run: "append_all [if recs = [] then [] else '','', stamp_text b] k1 = Some k2"
      and w: "wrote (concat [if recs = [] then [] else '','', stamp_text b]) k1 k2"
    by blast
  have "begin_record b k = Some k2"
    using run packet_append_Nil[OF k1(1)] assms(1) start
    by (cases "recs = []") (auto simp: begin_record_def k1(2) carries_def Let_def)
  with w show ?thesis by auto
qed

text \<open>
  One round on a packet in progress, up to the text of the record; \<open>k1\<close> is the packet with
  its time and its rollback point set.
\<close>

lemma record_values:
  fixes b :: epoch_t
  assumes c: "carries md t recs k" and g: "gatherer f sp" and space: "room k (50 + g_need sp m)"
  defines "k1 \<equiv> k\<lparr>started := (if recs = [] then b else started k), rollback_point := psize k\<rparr>"
    and "sep \<equiv> if recs = [] then [] else '',''"
  obtains k2 k3 where "begin_record b k = Some k2"
    "packet_gather ''values'' f m k2 = Some (g_code sp m, g_upd sp m, k3)"
    "wrote (sep @ stamp_text b @
       (if g_code sp m = 0 then dq ''values'' @ '':{'' @ g_out sp m @ ''}'' else [])) k1 k3"
proof -
  have "room k 35"
    using space by (rule room_mono) simp
  from begin_record_wrote[OF c this, of b] obtain k2 where
    k2: "begin_record b k = Some k2" "wrote (sep @ stamp_text b) k1 k2"
    unfolding k1_def sep_def by blast
  have last: "ptext k2 \<noteq> []" "last (ptext k2) = CHR '',''"
    using wrote_fields(3)[OF k2(2)] by (simp_all add: stamp_text_def)
  have "room k2 (length ''values'' + 6 + g_need sp m)"
    unfolding wrote_room[OF k2(2)] using space length_stamp[of b]
    by (auto simp: room_def k1_def sep_def)
  with gatherer.packet_gather_first[OF g wrote_fields(1)[OF k2(2)] last(1)] last(2) obtain k3 where
    k3: "packet_gather ''values'' f m k2 = Some (g_code sp m, g_upd sp m, k3)"
      "wrote (if g_code sp m = 0 then dq ''values'' @ '':{'' @ g_out sp m @ ''}'' else []) k2 k3"
    by fastforce
  with k2 wrote_trans[OF k2(2) k3(2)] show thesis
    by (intro that) simp_all
qed

text \<open>The two ends of a round: the record is kept, or the packet is as it was.\<close>

lemma end_record_kept:
  assumes "wrote (sep @ stamp_text b @ dq ''values'' @ '':{'' @ out @ ''}'') k1 k3"
    and "carries md t recs k1" and "sep = (if recs = [] then [] else '','')"
    and "room k1 (48 + length out)"
  shows "\<exists>k4. end_record ENONE tk k3 = Some (tk, k4) \<and>
    carries md t (recs @ [record_text b out]) k4 \<and>
    control k4 = control k1 \<and> started k4 = started k1 \<and> psize k4 \<le> psize k1 + 47 + length out"
proof -
  have "room k3 (length ''}'')"
    unfolding wrote_room[OF assms(1)] using assms(3,4) length_stamp[of b]
    by (auto simp: room_def dq_def)
  then obtain k4 where k4: "packet_append ''}'' k3 = Some k4" "wrote ''}'' k3 k4"
    by (rule packet_append_wrote)
  have w4: "wrote (sep @ record_text b out) k1 k4"
    using wrote_trans[OF assms(1) k4(2)] by (simp add: record_text_def dq_def)
  let ?k5 = "packet_commit (if pstate k4 = BEGIN then k4\<lparr>pstate := WROTE\<rparr> else k4)"
  have "end_record ENONE tk k3 = Some (tk, ?k5)"
    using k4(1) by (simp add: end_record_def)
  moreover have "carries md t (recs @ [record_text b out]) ?k5"
    using wrote_fields[OF w4] assms(2,3)
    by (auto simp: carries_def packet_commit_def commas_snoc)
  moreover have "control ?k5 = control k1" "started ?k5 = started k1"
    using control_wrote[OF w4] wrote_fields(4)[OF w4] by (simp_all add: packet_commit_def)
  moreover have "psize ?k5 \<le> psize k1 + 47 + length out"
    using wrote_fields(2)[OF w4] length_stamp[of b] assms(3)
    by (auto simp: packet_commit_def record_text_def)
  ultimately show ?thesis by blast
qed

lemma end_record_dropped:
  assumes "wrote s k1 k3" and "carries md t recs k1" and "rollback_point k1 = psize k1"
    and "code \<in> plugin_codes" "code \<noteq> ENONE"
  shows "\<exists>k4. end_record code tk k3 = Some (next_task code tk, k4) \<and> carries md t recs k4 \<and>
    control k4 = control k1 \<and> started k4 = started k1 \<and> psize k4 = psize k1"
proof -
  have "pkt_ok k1"
    using assms(2) by (simp add: carries_def)
  from packet_cut_wrote[OF this assms(1)] obtain k4 where
    k4: "packet_cut (psize k1) k3 = Some k4" "wrote [] k1 k4"
    by blast
  then have "packet_rollback k3 = Some k4"
    using wrote_fields(8)[OF assms(1)] assms(3) by (simp add: packet_rollback_def)
  then have "end_record code tk k3 = Some (next_task code tk, k4)"
    using assms(4,5) by (auto simp: end_record_def next_task_def plugin_codes_def gather_codes)
  with wrote_fields[OF k4(2)] control_wrote[OF k4(2)] assms(2) show ?thesis
    by (auto simp: carries_def)
qed

text \<open>One round on a packet in progress refines adding a record to the abstract list.\<close>

lemma record_cycle:
  fixes b :: epoch_t
  assumes c: "carries md t recs k" and g: "gatherer f sp" and codes: "g_code sp m \<in> plugin_codes"
    and space: "room k (50 + g_need sp m)"
  shows "\<exists>k2 k3 k4. begin_record b k = Some k2 \<and>
      packet_gather ''values'' f m k2 = Some (g_code sp m, g_upd sp m, k3) \<and>
      end_record (g_code sp m) tk k3 = Some (next_task (g_code sp m) tk, k4) \<and>
      carries md t (add_record (g_code sp m) (record_text b (g_out sp m)) recs) k4 \<and>
      control k4 = control k \<and> started k4 = (if recs = [] then b else started k) \<and>
      psize k4 + 2 < PKTSZ"
proof -
  define k1 where "k1 = k\<lparr>started := (if recs = [] then b else started k), rollback_point := psize k\<rparr>"
  have k1: "carries md t recs k1" "psize k1 = psize k" "rollback_point k1 = psize k1"
      "control k1 = control k" "started k1 = (if recs = [] then b else started k)"
    using c by (simp_all add: k1_def carries_def)
  have out: "length (g_out sp m) \<le> g_need sp m"
    using g by (rule gatherer.out_need)
  obtain k2 k3 where run: "begin_record b k = Some k2"
      "packet_gather ''values'' f m k2 = Some (g_code sp m, g_upd sp m, k3)"
    and w: "wrote ((if recs = [] then [] else '','') @ stamp_text b @
      (if g_code sp m = 0 then dq ''values'' @ '':{'' @ g_out sp m @ ''}'' else [])) k1 k3"
    using record_values[OF c g space, of b] unfolding k1_def by blast
  show ?thesis
  proof (cases "g_code sp m = ENONE")
    case True
    have "room k1 (48 + length (g_out sp m))"
      using space out k1(2) by (simp add: room_def)
    with True w k1(1) obtain k4 where
      "end_record (g_code sp m) tk k3 = Some (tk, k4)"
      "carries md t (recs @ [record_text b (g_out sp m)]) k4"
      "control k4 = control k1" "started k4 = started k1" "psize k4 \<le> psize k1 + 47 + length (g_out sp m)"
      using end_record_kept[of "if recs = [] then [] else '',''" b "g_out sp m" k1 k3 md t recs tk]
      by (auto simp: ENONE_def)
    with True run k1 space out show ?thesis
      by (auto simp: add_record_def next_task_def gather_codes room_def)
  next
    case False
    with end_record_dropped[OF w k1(1,3) codes False, of tk] run k1 space show ?thesis
      by (auto simp: add_record_def room_def)
  qed
qed

section \<open>One call of the gathering task\<close>

definition doc_text :: "metadata \<Rightarrow> 64 word \<Rightarrow> string list \<Rightarrow> string" where
  "doc_text md t recs = metric_head md t @ commas recs @ '']}''"

text \<open>
  What a packet is after a round that left \<open>recs\<close> in it: still in progress, or, when its
  time is over, the whole document waiting to be sent, or done when there is no record.
\<close>

definition after_round ::
  "metadata \<Rightarrow> 64 word \<Rightarrow> bool \<Rightarrow> string list \<Rightarrow> packet \<Rightarrow> bool" where
  "after_round md t expired recs k \<longleftrightarrow>
     (if \<not> expired then carries md t recs k
      else if recs \<noteq> [] then pstate k = READY \<and> pkt_ok k \<and> ptext k = doc_text md t recs
      else pstate k = DONE)"

definition is_expired :: "epoch_t \<Rightarrow> epoch_t \<Rightarrow> bool" where
  "is_expired now began \<longleftrightarrow> PACKET_EXP_thousandths \<le> 1000 * unat ((now - began) div MSPS)"

lemma packet_expired_eq:
  "packet_expired k w =
     (is_expired (epoch_of (clock w (readings w))) (started k), w\<lparr>readings := Suc (readings w)\<rparr>)"
  by (simp add: packet_expired_def epoch_time_def is_expired_def)

lemma expire_packet_after:
  assumes "carries md t recs k" and "psize k + 2 < PKTSZ"
  shows "\<exists>k'. expire_packet expired k = Some (\<not> expired, k') \<and> after_round md t expired recs k' \<and>
    control k' = control k"
proof (cases "expired \<and> recs \<noteq> []")
  case False
  with assms(1) show ?thesis
    by (auto simp: expire_packet_def after_round_def carries_def)
next
  case True
  have "room k (length '']}'')"
    using assms(2) by (simp add: room_def)
  then obtain k1 where "packet_append '']}'' k = Some k1" "wrote '']}'' k k1"
    by (rule packet_append_wrote)
  with True assms(1) wrote_fields[of "'']}''" k k1] control_wrote[of "'']}''" k k1] show ?thesis
    by (simp add: expire_packet_def after_round_def carries_def doc_text_def)
qed

lemma open_packet_carries:
  assumes "pstate k = EMPTY" "psize k = 0" "length (metric_head md t) < PKTSZ"
  shows "\<exists>k'. open_packet md t k = Some k' \<and> carries md t [] k' \<and> control k' = control k \<and>
    psize k' = length (metric_head md t)"
proof -
  have "room k (length (metric_head md t))"
    using assms by (simp add: room_def)
  then obtain k1 where k1: "packet_append (metric_head md t) k = Some k1" "wrote (metric_head md t) k k1"
    by (rule packet_append_wrote)
  have "ptext k = []"
    using assms(2) by (simp add: ptext_def)
  with k1 assms wrote_fields[OF k1(2)] control_wrote[OF k1(2)] show ?thesis
    by (simp add: open_packet_def carries_def)
qed

text \<open>
  \<open>opens md t k recs\<close>: the packet is in progress with these records, or it is empty and
  opening it gives one without records.
\<close>

definition opens :: "metadata \<Rightarrow> 64 word \<Rightarrow> string list \<Rightarrow> packet \<Rightarrow> bool" where
  "opens md t recs k \<longleftrightarrow>
     carries md t recs k \<or> (recs = [] \<and> pstate k = EMPTY \<and> psize k = 0)"

definition head_room :: "metadata \<Rightarrow> 64 word \<Rightarrow> packet \<Rightarrow> nat" where
  "head_room md t k = (if pstate k = EMPTY then length (metric_head md t) else 0)"

lemma open_packet_opens:
  assumes "opens md t recs k" and "room k (head_room md t k + n)"
  shows "\<exists>k'. open_packet md t k = Some k' \<and> carries md t recs k' \<and> control k' = control k \<and>
    room k' n \<and> (recs \<noteq> [] \<longrightarrow> k' = k)"
proof (cases "pstate k = EMPTY")
  case True
  with assms have "recs = []" "psize k = 0" "length (metric_head md t) < PKTSZ"
    by (auto simp: opens_def carries_def head_room_def room_def split: if_splits)
  with open_packet_carries[OF True this(2,3)] assms(2) True show ?thesis
    by (auto simp: room_def head_room_def)
next
  case False
  with assms show ?thesis
    by (auto simp: opens_def open_packet_def head_room_def)
qed

lemma gather_into_round:
  assumes start: "opens md (tid p) recs k"
    and g: "gatherer (gather p (Suc (readings w))) sp"
    and codes: "g_code sp (module p) \<in> plugin_codes"
    and space: "room k (head_room md (tid p) k + (50 + g_need sp (module p)))"
  defines "b \<equiv> epoch_of (clock w (readings w))"
    and "code \<equiv> g_code sp (module p)"
  defines "expired \<equiv> is_expired (epoch_of (clock w (Suc (readings w)))) (if recs = [] then b else started k)"
  shows "\<exists>k'. gather_into md a k p s w =
      Some (0, p\<lparr>task := next_task code (task p), module := g_upd sp (module p),
                working := (if expired then None else Some a)\<rparr>,
            set_packet a k' s, w\<lparr>readings := readings w + 2\<rparr>) \<and>
    after_round md (tid p) expired (add_record code (record_text b (g_out sp (module p))) recs) k' \<and>
    control k' = control k"
proof -
  obtain k1 where k1: "open_packet md (tid p) k = Some k1" "carries md (tid p) recs k1"
      "control k1 = control k" "room k1 (50 + g_need sp (module p))" "recs \<noteq> [] \<longrightarrow> k1 = k"
    using open_packet_opens[OF start space] by blast
  obtain k2 k3 k4 where run: "begin_record b k1 = Some k2"
      "packet_gather ''values'' (gather p (Suc (readings w))) (module p) k2 =
         Some (code, g_upd sp (module p), k3)"
      "end_record code (task p) k3 = Some (next_task code (task p), k4)"
    and c4: "carries md (tid p) (add_record code (record_text b (g_out sp (module p))) recs) k4"
      "control k4 = control k1" "started k4 = (if recs = [] then b else started k1)"
      "psize k4 + 2 < PKTSZ"
    using record_cycle[OF k1(2) g codes k1(4), of b "task p"] unfolding code_def by metis
  have exp: "packet_expired k4 (w\<lparr>readings := Suc (readings w)\<rparr>) =
      (expired, w\<lparr>readings := readings w + 2\<rparr>)"
    using c4(3) k1(5) by (auto simp: packet_expired_eq expired_def)
  obtain k' where "expire_packet expired k4 = Some (\<not> expired, k')"
    "after_round md (tid p) expired (add_record code (record_text b (g_out sp (module p))) recs) k'"
    "control k' = control k4"
    using expire_packet_after[OF c4(1,4)] by blast
  with run c4(2) k1(1,3) exp show ?thesis
    by (intro exI[of _ k']) (simp add: gather_into_def epoch_time_def b_def[symmetric])
qed

section \<open>The registration document\<close>

definition regr_text :: "metadata \<Rightarrow> 'm plugin \<Rightarrow> 64 word \<Rightarrow> string" where
  "regr_text md p t = regr_head md @ show_ull20 t @ regr_tail md p"

text \<open>
  A registration packet for the number \<open>t\<close>: the document is complete, and the rollback
  point is where the number starts.
\<close>

definition regr_form :: "metadata \<Rightarrow> 'm plugin \<Rightarrow> 64 word \<Rightarrow> packet \<Rightarrow> bool" where
  "regr_form md p t k \<longleftrightarrow>
     pkt_ok k \<and> ptext k = regr_text md p t \<and> rollback_point k = length (regr_head md) \<and>
     pstate k = READY \<and> ptype k = REGISTER \<and> spin k = 0"

definition regr_fits :: "metadata \<Rightarrow> 'm plugin \<Rightarrow> bool" where
  "regr_fits md p \<longleftrightarrow>
     length (regr_head md) + 20 + length (regr_tail md p) < PKTSZ \<and>
     NUL \<notin> set (regr_head md) \<and> NUL \<notin> set (regr_tail md p)"

lemma regr_tail_tid [simp]:
  "regr_tail md (p\<lparr>tid := t\<rparr>) = regr_tail md p" "regr_tail md (p\<lparr>oob := k\<rparr>) = regr_tail md p"
  "regr_tail md (p\<lparr>task := tk\<rparr>) = regr_tail md p" "regr_tail md (p\<lparr>module := m\<rparr>) = regr_tail md p"
  by (simp_all add: regr_tail_def)

lemma regr_form_tid [simp]:
  "regr_form md (p\<lparr>tid := t'\<rparr>) t k = regr_form md p t k"
  "regr_form md (p\<lparr>oob := k'\<rparr>) t k = regr_form md p t k"
  "regr_form md (p\<lparr>task := tk\<rparr>) t k = regr_form md p t k"
  by (simp_all add: regr_form_def regr_text_def)

lemma regr_fits_upd [simp]:
  "regr_fits md (p\<lparr>tid := t\<rparr>) = regr_fits md p" "regr_fits md (p\<lparr>oob := k\<rparr>) = regr_fits md p"
  "regr_fits md (p\<lparr>task := tk\<rparr>) = regr_fits md p"
  by (simp_all add: regr_fits_def)

lemma regr_packet_form:
  assumes "regr_fits md p" and "malloc_ok w (readings w)"
  shows "\<exists>k. regr_packet md p w = Some (k, w\<lparr>readings := Suc (readings w)\<rparr>) \<and>
    regr_form md p (tid p) k"
proof -
  let ?k = "(new_packet REGISTER None)\<lparr>pstate := READY\<rparr>"
  have "room ?k (length (regr_head md))"
    using assms(1) by (simp add: regr_fits_def room_def new_packet_def)
  then obtain k1 where k1: "packet_append (regr_head md) ?k = Some k1" "wrote (regr_head md) ?k k1"
    by (rule packet_append_wrote)
  have k1f: "psize k1 = length (regr_head md)" "ptext k1 = regr_head md"
    using wrote_fields(2,3)[OF k1(2)] by (simp_all add: new_packet_def ptext_def)
  let ?rest = "show_ull20 (tid p) @ regr_tail md p"
  have "room (packet_transaction k1) (length ?rest)"
    using assms(1) k1f by (simp add: regr_fits_def room_def packet_transaction_def)
  then obtain k2 where k2: "packet_append ?rest (packet_transaction k1) = Some k2"
      "wrote ?rest (packet_transaction k1) k2"
    by (rule packet_append_wrote)
  have "regr_form md p (tid p) k2"
    using wrote_fields[OF k2(2)] wrote_fields[OF k1(2)] k1f
    by (simp add: regr_form_def regr_text_def packet_transaction_def new_packet_def)
  with k1(1) k2(1) assms(2) show ?thesis
    by (simp add: regr_packet_def packet_alloc_type)
qed

lemma patch_write:
  assumes "length x = 20"
  shows "(write_str b at (x @ [NUL]))(at + 20 := c) = write_str b at (x @ [c])"
  using assms by (auto simp: write_str_def fun_eq_iff nth_append)

lemma regr_tail_Cons: "\<exists>rest. regr_tail md p = CHR '','' # rest"
  by (simp add: regr_tail_def)

lemma patch_tid_form:
  assumes "regr_fits md p" and "regr_form md p t k"
  shows "\<exists>k'. patch_tid t' k = Some k' \<and> regr_form md p t' k' \<and> attempt k' = attempt k \<and>
    response k' = response k"
proof -
  let ?at = "length (regr_head md)"
  obtain rest where tail: "regr_tail md p = CHR '','' # rest"
    using regr_tail_Cons by blast
  have at: "rollback_point k = ?at" and size: "psize k = ?at + 20 + length (regr_tail md p)"
    using assms(2) by (simp_all add: regr_form_def regr_text_def flip: length_ptext)
  let ?b = "write_str (payload k) ?at (show_ull20 t' @ [CHR '',''])"
  let ?k = "k\<lparr>payload := ?b\<rparr>"
  have "text_of (payload k) ?at = take ?at (ptext k)"
    using size by (simp add: ptext_def)
  also have "\<dots> = regr_head md"
    using assms(2) by (simp add: regr_form_def regr_text_def)
  finally have head: "text_of (payload k) ?at = regr_head md" .
  have "ptext ?k = regr_head md @ show_ull20 t' @ [CHR '',''] @ drop (?at + 21) (ptext k)"
    using size tail text_of_overwrite[of ?at "show_ull20 t' @ [CHR '','']" "psize k" "payload k"] head
    by (simp add: ptext_def)
  also have "drop (?at + 21) (ptext k) = rest"
    using assms(2) tail by (simp add: regr_form_def regr_text_def)
  finally have "ptext ?k = regr_text md p t'"
    by (simp add: regr_text_def tail)
  moreover have "pkt_ok ?k"
    using assms(2) size tail by (simp add: regr_form_def pkt_ok_def write_str_def)
  ultimately have "regr_form md p t' ?k"
    using assms(2) by (simp add: regr_form_def)
  moreover have "patch_tid t' k = Some ?k"
    using assms(1) tail by (simp add: patch_tid_def at patch_write regr_fits_def)
  ultimately show ?thesis by auto
qed

section \<open>One call of the registration task\<close>

definition fresh_number :: "machine \<Rightarrow> 64 word" where
  "fresh_number w = fst (fresh_id w)"

lemma fresh_id_machine: "fresh_id w = (fresh_number w, w\<lparr>readings := readings w + 3\<rparr>)"
  by (simp add: fresh_number_def fresh_id_def epoch_time_def Let_def)

text \<open>A plugin that has no registration under way, or one whose packet is in order.\<close>

definition regr_pending :: "metadata \<Rightarrow> 'm plugin \<Rightarrow> bool" where
  "regr_pending md p \<longleftrightarrow> (\<forall>k. oob p = Some k \<longrightarrow> (\<exists>t. regr_form md p t k))"

text \<open>The number this call registers under.\<close>

definition regr_number :: "'m plugin \<Rightarrow> machine \<Rightarrow> 64 word" where
  "regr_number p w = (if oob p = None \<and> tid p = 0 then fresh_number w else tid p)"

definition regr_packet_of ::
  "metadata \<Rightarrow> 'm plugin \<Rightarrow> machine \<Rightarrow> ('m plugin \<times> packet \<times> machine) option" where
  "regr_packet_of md p w =
     (case oob p of
        None \<Rightarrow> do {
          let (t, w') = (if tid p = 0 then fresh_id w else (tid p, w));
          (k, w'') \<leftarrow> regr_packet md (p\<lparr>tid := t\<rparr>) w';
          Some (p\<lparr>tid := t\<rparr>, k, w'')
        }
      | Some k \<Rightarrow> do { k' \<leftarrow> patch_tid (tid p) k; Some (p, k', w) })"

text \<open>How often the machine was read when the packet is allocated, and when it is posted.\<close>

definition regr_alloc :: "'m plugin \<Rightarrow> machine \<Rightarrow> nat" where
  "regr_alloc p w = (if oob p = None \<and> tid p = 0 then readings w + 3 else readings w)"

definition regr_posting :: "'m plugin \<Rightarrow> machine \<Rightarrow> nat" where
  "regr_posting p w = (if oob p = None then Suc (regr_alloc p w) else readings w)"

lemma regr_id:
  assumes "oob p = None"
  shows "(if tid p = 0 then fresh_id w else (tid p, w)) = (regr_number p w, w\<lparr>readings := regr_alloc p w\<rparr>)"
  using assms by (simp add: regr_number_def regr_alloc_def fresh_id_machine)

lemma regr_packet_of_form:
  assumes "regr_fits md p" "regr_pending md p" "oob p = None \<longrightarrow> malloc_ok w (regr_alloc p w)"
  shows "\<exists>k. regr_packet_of md p w = Some (p\<lparr>tid := regr_number p w\<rparr>, k, w\<lparr>readings := regr_posting p w\<rparr>) \<and>
    regr_form md p (regr_number p w) k"
proof (cases "oob p")
  case (Some k)
  with assms(2) obtain t where "regr_form md p t k"
    by (auto simp: regr_pending_def)
  from patch_tid_form[OF assms(1) this, of "tid p"] Some show ?thesis
    by (auto simp: regr_packet_of_def regr_number_def regr_posting_def)
next
  case None
  let ?t = "regr_number p w" and ?w = "w\<lparr>readings := regr_alloc p w\<rparr>"
  from assms None obtain k where
    "regr_packet md (p\<lparr>tid := ?t\<rparr>) ?w = Some (k, ?w\<lparr>readings := regr_posting p w\<rparr>)"
    "regr_form md p ?t k"
    using regr_packet_form[of md "p\<lparr>tid := ?t\<rparr>" ?w] by (auto simp: regr_posting_def)
  with None regr_id[OF None, of w] show ?thesis
    by (auto simp: regr_packet_of_def)
qed

lemma regr_packet_of_none:
  assumes "oob p = None" "\<not> malloc_ok w (regr_alloc p w)"
  shows "regr_packet_of md p w = None"
  using assms regr_id[OF assms(1), of w]
  by (simp add: regr_packet_of_def regr_packet_def packet_alloc_type)

lemma plugin_regr_alt:
  "plugin_regr md sn p w = do {
     (p1, k, w1) \<leftarrow> regr_packet_of md p w;
     (r, k1, w2) \<leftarrow> post sn k w1;
     if r < 0 then
       (if response k1 = ETARGETREG
        then let (t, w3) = fresh_id w2 in Some (-1, p1\<lparr>tid := t, oob := Some k1\<rparr>, w3)
        else Some (-1, p1\<lparr>oob := Some k1\<rparr>, w2))
     else
       let name = res_name (tid p1) in
       if \<not> creatable w2 name then None
       else Some (0, p1\<lparr>oob := None, task := Gather\<rparr>,
              w2\<lparr>files := (files w2)(name \<mapsto> res_contents p1)\<rparr>)
   }"
  unfolding plugin_regr_def regr_packet_of_def routine_change_task_def by (rule refl)

lemma regr_form_sendable: "regr_fits md p \<Longrightarrow> regr_form md p t k \<Longrightarrow> sendable k"
  by (simp add: regr_fits_def regr_form_def sendable_def regr_text_def)

lemma regr_form_posted [simp]:
  "regr_form md p t (k\<lparr>attempt := n, response := r\<rparr>) = regr_form md p t k"
  by (simp add: regr_form_def)

lemma res_contents_upd [simp]:
  "res_contents (p\<lparr>tid := t\<rparr>) = res_contents p"
  by (simp add: res_contents_def)

text \<open>
  Every attempt whose packet can be allocated sends the registration document for the number the plugin
  then has; a failed attempt leaves the registration pending, and only the answer that the target is
  already registered changes the number. The attempt is undefined when the packet cannot be
  allocated, and when the gate accepted it but the file cannot be created.
\<close>

definition regr_accepted :: "metadata \<Rightarrow> 'm plugin \<Rightarrow> machine \<Rightarrow> bool" where
  "regr_accepted md p w =
     transfer_ok (net w (regr_posting p w) (URL REGISTER) (regr_text md p (regr_number p w)))"

lemma plugin_regr_exact:
  assumes "regr_fits md p" "regr_pending md p" "senders_ready sn" "readable_replies w"
    and alloc: "oob p = None \<longrightarrow> malloc_ok w (regr_alloc p w)"
  defines "t \<equiv> regr_number p w"
  shows "if regr_accepted md p w \<and> \<not> creatable w (res_name t) then plugin_regr md sn p w = None
    else \<exists>r p' w'. plugin_regr md sn p w = Some (r, p', w') \<and>
      sent w' = sent w @ [(URL REGISTER, regr_text md p t)] \<and>
      (if regr_accepted md p w
       then r = 0 \<and> p' = p\<lparr>tid := t, oob := None, task := Gather\<rparr> \<and>
         files w' = (files w)(res_name t \<mapsto> res_contents p)
       else r = -1 \<and> task p' = task p \<and> regr_pending md p' \<and> files w' = files w \<and>
         (\<exists>k. oob p' = Some k \<and> (response k = ETARGETREG \<or> tid p' = t)))"
proof -
  let ?w = "w\<lparr>readings := regr_posting p w\<rparr>"
  obtain k where start: "regr_packet_of md p w = Some (p\<lparr>tid := t\<rparr>, k, ?w)"
    and k: "regr_form md p t k"
    using regr_packet_of_form[OF assms(1,2) alloc] unfolding t_def by blast
  have kf: "pstate k = READY" "ptype k = REGISTER" "ptext k = regr_text md p t"
    using k by (simp_all add: regr_form_def)
  have "readable_replies ?w"
    using assms(4) by (simp add: readable_replies_def)
  from post_sendable[OF assms(3) kf(1) regr_form_sendable[OF assms(1) k] this]
  obtain r c w2 where
    post: "post sn k ?w = Some (r, k\<lparr>attempt := Suc (attempt k), response := c\<rparr>, w2)"
    and r: "r = 0 \<or> r = -1" and sent: "sent w2 = sent ?w @ [request k]"
    and ok: "r = 0 \<longleftrightarrow> transfer_ok (net ?w (readings ?w) (URL (ptype k)) (ptext k))"
    by metis
  have ok: "regr_accepted md p w \<longleftrightarrow> r = 0"
    using ok kf by (simp add: regr_accepted_def t_def)
  have sent: "sent w2 = sent w @ [(URL REGISTER, regr_text md p t)]"
    using sent kf by (simp add: request_def)
  have frame: "files w2 = files w" "creatable w2 = creatable w"
    using post_frame(6,7)[OF post] by simp_all
  have "regr_pending md (p\<lparr>tid := t', oob := Some (k\<lparr>attempt := Suc (attempt k), response := c\<rparr>)\<rparr>)" for t'
    using k by (auto simp: regr_pending_def)
  with r ok start post sent frame show ?thesis
    by (auto simp: plugin_regr_alt fresh_id_machine Let_def)
qed

text \<open>With enough memory and a place for the file every attempt returns.\<close>

lemma plugin_regr_sends:
  assumes "regr_fits md p" "regr_pending md p" "\<forall>n. malloc_ok w n"
    and "senders_ready sn" "readable_replies w" "\<forall>t. creatable w (res_name t)"
  defines "t \<equiv> regr_number p w"
  shows "\<exists>r p' w'. plugin_regr md sn p w = Some (r, p', w') \<and>
    sent w' = sent w @ [(URL REGISTER, regr_text md p t)] \<and>
    (r = 0 \<and> p' = p\<lparr>tid := t, oob := None, task := Gather\<rparr> \<and>
       files w' = (files w)(res_name t \<mapsto> res_contents p)
     \<or> r = -1 \<and> task p' = task p \<and> regr_pending md p' \<and> files w' = files w \<and>
       (\<exists>k. oob p' = Some k \<and> (response k = ETARGETREG \<or> tid p' = t))) \<and>
    ((\<forall>n url body. transfer_ok (net w n url body)) \<longrightarrow> r = 0)"
proof -
  have "(\<forall>n url body. transfer_ok (net w n url body)) \<longrightarrow> regr_accepted md p w"
    by (simp add: regr_accepted_def)
  moreover have "\<exists>r p' w'. plugin_regr md sn p w = Some (r, p', w') \<and>
      sent w' = sent w @ [(URL REGISTER, regr_text md p t)] \<and>
      (if regr_accepted md p w
       then r = 0 \<and> p' = p\<lparr>tid := t, oob := None, task := Gather\<rparr> \<and>
         files w' = (files w)(res_name t \<mapsto> res_contents p)
       else r = -1 \<and> task p' = task p \<and> regr_pending md p' \<and> files w' = files w \<and>
         (\<exists>k. oob p' = Some k \<and> (response k = ETARGETREG \<or> tid p' = t)))"
    using plugin_regr_exact[OF assms(1,2,4,5)] assms(3,6) unfolding t_def by simp
  ultimately show ?thesis by metis
qed

section \<open>Alerts, and the tasks as a state machine\<close>

lemma packet_append_ptype: "packet_append s k = Some q \<Longrightarrow> ptype q = ptype k"
  by (auto simp: packet_append_def split: Option.bind_splits)

text \<open>The packet an alert posts: a new one, or the one that is pending.\<close>

definition alert_packet_of ::
  "metadata \<Rightarrow> string \<Rightarrow> 'm plugin \<Rightarrow> machine \<Rightarrow> (packet \<times> machine) option" where
  "alert_packet_of md stat p w =
     (case oob p of
        None \<Rightarrow> do {
          let (new, w') = packet_alloc (type_number ALERT) w;
          k \<leftarrow> new;
          k' \<leftarrow> packet_append (alert_text md (tid p) stat) (k\<lparr>pstate := READY\<rparr>);
          Some (k', w')
        }
      | Some k \<Rightarrow> Some (k, w))"

lemma plugin_alert_alt:
  "plugin_alert md sn stat p w = do {
     (k, w1) \<leftarrow> alert_packet_of md stat p w;
     (r, k1, w2) \<leftarrow> post sn k w1;
     if r < 0 then Some (-1, p\<lparr>oob := Some k1\<rparr>, w2)
     else Some (0, p\<lparr>oob := None, task := Gather\<rparr>, w2)
   }"
  unfolding plugin_alert_def alert_packet_of_def routine_change_task_def by (rule refl)

lemma alert_packet_type:
  assumes "alert_packet_of md stat p w = Some (k, w1)"
  shows "ptype k = (case oob p of None \<Rightarrow> ALERT | Some k' \<Rightarrow> ptype k')"
proof (cases "oob p")
  case None
  with assms show ?thesis
    by (auto simp: alert_packet_of_def packet_alloc_type new_packet_def
        bind_eq_Some_conv dest!: packet_append_ptype split: if_splits)
next
  case (Some k')
  with assms show ?thesis by (simp add: alert_packet_of_def)
qed

lemma alert_frame:
  assumes "plugin_alert md sn stat p w = Some (r, p', w')"
  shows "r = 0 \<and> p' = p\<lparr>oob := None, task := Gather\<rparr> \<or>
    r = -1 \<and> (\<exists>k. p' = p\<lparr>oob := Some k\<rparr> \<and> ptype k = (case oob p of None \<Rightarrow> ALERT | Some k' \<Rightarrow> ptype k'))"
proof -
  obtain k w1 res k1 w2 where k: "alert_packet_of md stat p w = Some (k, w1)"
    and post: "post sn k w1 = Some (res, k1, w2)"
    using assms by (auto simp: plugin_alert_alt bind_eq_Some_conv)
  have "ptype k1 = ptype k"
    using post_frame(1)[OF post] by auto
  with assms k post alert_packet_type[OF k] show ?thesis
    by (auto simp: plugin_alert_alt split: if_splits)
qed

text \<open>
  The type of the pending packet agrees with the task: only a registration is pending
  while the plugin prepares or registers, only an alert while it alerts, and nothing while
  it gathers.
\<close>

definition oob_ok :: "'m plugin \<Rightarrow> bool" where
  "oob_ok p \<longleftrightarrow>
     (case task p of
        Prep \<Rightarrow> oob p = None
      | Regr \<Rightarrow> (\<forall>k. oob p = Some k \<longrightarrow> ptype k = REGISTER)
      | Gather \<Rightarrow> oob p = None
      | _ \<Rightarrow> (\<forall>k. oob p = Some k \<longrightarrow> ptype k = ALERT))"

lemma regr_packet_type: "regr_packet md p w = Some (k, w1) \<Longrightarrow> ptype k = REGISTER"
  by (auto simp: regr_packet_def packet_alloc_type new_packet_def packet_transaction_def
      bind_eq_Some_conv dest!: packet_append_ptype split: if_splits)

lemma regr_packet_of_type:
  assumes "regr_packet_of md p w = Some (p1, k, w1)"
  shows "(\<exists>t. p1 = p\<lparr>tid := t\<rparr>) \<and> ptype k = (case oob p of None \<Rightarrow> REGISTER | Some k' \<Rightarrow> ptype k')"
proof (cases "oob p")
  case None
  obtain t w0 where "(if tid p = 0 then fresh_id w else (tid p, w)) = (t, w0)"
    by (rule prod.exhaust)
  with assms None show ?thesis
    by (auto simp: regr_packet_of_def bind_eq_Some_conv dest: regr_packet_type)
next
  case (Some k')
  with assms have "p1 = p" "ptype k = ptype k'"
    by (auto simp: regr_packet_of_def patch_tid_def Let_def bind_eq_Some_conv split: if_splits)
  with Some show ?thesis by (auto intro: exI[of _ "tid p"])
qed

lemma regr_frame:
  assumes "plugin_regr md sn p w = Some (r, p', w')"
    and "\<forall>k. oob p = Some k \<longrightarrow> ptype k = REGISTER"
  shows "r = 0 \<and> task p' = Gather \<and> oob p' = None \<and> working p' = working p \<or>
    r = -1 \<and> task p' = task p \<and> working p' = working p \<and> (\<exists>k. oob p' = Some k \<and> ptype k = REGISTER)"
proof -
  from assms(1) obtain p1 k w1 res k1 w2 where
    k: "regr_packet_of md p w = Some (p1, k, w1)" and post: "post sn k w1 = Some (res, k1, w2)"
    by (auto simp: plugin_regr_alt split: Option.bind_splits)
  obtain t where p1: "p1 = p\<lparr>tid := t\<rparr>" and "ptype k = REGISTER"
    using regr_packet_of_type[OF k] assms(2) by (auto split: option.splits)
  moreover have "ptype k1 = ptype k"
    using post_frame(1)[OF post] by auto
  moreover have "res = 0 \<or> res = -1"
    by (rule post_frame(2)[OF post])
  ultimately show ?thesis
    using assms(1) k post by (auto simp: plugin_regr_alt Let_def split: if_splits prod.splits)
qed

lemma end_record_task:
  "end_record r t k = Some (t', k') \<Longrightarrow> t' \<in> {t, Alert_up, Alert_down}"
  by (auto simp: end_record_def bind_eq_Some_conv split: if_splits)

lemma gather_into_frame:
  assumes "gather_into md a k p s w = Some (r, p', s', w')"
  shows "r = 0 \<and> oob p' = oob p \<and> tid p' = tid p \<and> task p' \<in> {task p, Alert_up, Alert_down}"
proof -
  obtain code k3 t m k4 where "end_record code (task p) k3 = Some (t, k4)"
    "r = 0" "oob p' = oob p" "tid p' = tid p" "task p' = t"
    using assms by (auto simp: gather_into_def bind_eq_Some_conv epoch_time_def packet_expired_eq)
  with end_record_task[OF this(1)] show ?thesis by simp
qed

lemma gather_frame:
  assumes "plugin_gather md p s w = Some (r, p', s', w')"
  shows "r = 0 \<and> oob p' = oob p \<and> tid p' = tid p \<and> task p' \<in> {task p, Alert_up, Alert_down}"
proof -
  obtain a k s1 w1 where "gather_into md a k p s1 w1 = Some (r, p', s', w')"
    using assms by (auto simp: plugin_gather_def bind_eq_Some_conv)
  then show ?thesis by (rule gather_into_frame)
qed

lemma prep_frame:
  assumes "plugin_prep md sn p w = Some (r, p', w')" and "oob p = None"
  shows "r = 0 \<and> task p' = Gather \<and> oob p' = None \<or>
    r = -1 \<and> (task p' = task p \<and> oob p' = None \<or>
      task p' = Regr \<and> (\<exists>k. oob p' = Some k \<and> ptype k = REGISTER))"
proof -
  obtain res :: int and m w1 where step: "plugin_prep md sn p w =
      (if res < 0 then Some (-1, p\<lparr>module := m\<rparr>, w1) else plugin_regr md sn (p\<lparr>task := Regr, module := m\<rparr>) w1)"
  proof (cases "prep p")
    case None
    have "p\<lparr>task := Regr, module := module p\<rparr> = p\<lparr>task := Regr\<rparr>" by (cases p) simp
    with None show ?thesis
      by (intro that[of 0 "module p" w]) (simp add: plugin_prep_def)
  next
    case (Some f)
    obtain res m where "f (readings w) (module p) = (res, m)" by (rule prod.exhaust)
    with Some show ?thesis
      by (intro that[of res m "w\<lparr>readings := Suc (readings w)\<rparr>"]) (cases p, simp add: plugin_prep_def)
  qed
  show ?thesis
  proof (cases "res < 0")
    case True
    with step assms show ?thesis by auto
  next
    case False
    with step assms(1) have "plugin_regr md sn (p\<lparr>task := Regr, module := m\<rparr>) w1 = Some (r, p', w')"
      by simp
    from regr_frame[OF this] assms(2) show ?thesis by auto
  qed
qed

text \<open>The runs of a plugin: any task, any machine at each step.\<close>

inductive plugin_step :: "metadata \<Rightarrow> senders \<Rightarrow> 'm plugin \<times> storage \<Rightarrow> 'm plugin \<times> storage \<Rightarrow> bool"
  for md sn where
  run: "plugin_task md sn p s w = Some (r, p', s', w') \<Longrightarrow> plugin_step md sn (p, s) (p', s')"

inductive plugin_reach :: "metadata \<Rightarrow> senders \<Rightarrow> 'm plugin \<Rightarrow> 'm plugin \<times> storage \<Rightarrow> bool"
  for md sn p0 where
  start: "plugin_init True p0 = (0, p) \<Longrightarrow> plugin_reach md sn p0 (p, s)"
| step: "plugin_reach md sn p0 c \<Longrightarrow> plugin_step md sn c c' \<Longrightarrow> plugin_reach md sn p0 c'"

inductive_cases plugin_stepE: "plugin_step md sn c c'"

lemma plugin_task_oob_ok:
  assumes "plugin_task md sn p s w = Some (r, p', s', w')" and "oob_ok p"
  shows "oob_ok p'"
proof (cases "task p")
  case Prep
  with assms prep_frame[of md sn p w r p' w'] show ?thesis
    by (auto simp: plugin_task_def oob_ok_def)
next
  case Regr
  with assms regr_frame[of md sn p w r p' w'] show ?thesis
    by (auto simp: plugin_task_def oob_ok_def)
next
  case Gather
  with assms gather_frame[of md p s w r p' s' w'] show ?thesis
    by (auto simp: plugin_task_def oob_ok_def)
next
  case Alert_up
  with assms alert_frame[of md sn "''up''" p w r p' w'] show ?thesis
    by (auto simp: plugin_task_def oob_ok_def plugin_alert_up_def split: option.splits)
next
  case Alert_down
  with assms alert_frame[of md sn "''down''" p w r p' w'] show ?thesis
    by (auto simp: plugin_task_def oob_ok_def plugin_alert_down_def split: option.splits)
qed

section \<open>The metric document as a value\<close>

definition record_json :: "epoch_t \<times> (string \<times> json) list \<Rightarrow> json" where
  "record_json = (\<lambda>(b, ms). JObj [(''timestamp'', JNum (show_ull b)), (''values'', JObj ms)])"

definition doc_json :: "metadata \<Rightarrow> 64 word \<Rightarrow> (epoch_t \<times> (string \<times> json) list) list \<Rightarrow> json" where
  "doc_json md t rs =
     JObj [(''license'', JStr (license md)), (''tid'', JNum (show_ull t)),
           (''metrics'', JArr (map record_json rs))]"

definition json_records :: "(epoch_t \<times> (string \<times> json) list) list \<Rightarrow> string list" where
  "json_records = map (\<lambda>(b, ms). record_text b (jmembers ms))"

lemma record_text_json: "record_text b (jmembers ms) = jshow (record_json (b, ms))"
  by (simp add: record_text_def stamp_text_def record_json_def dq_def jshow_obj[of ms]
      del: jshow.simps(4)) (simp add: jshow_obj jmembers_def jmember_def dq_def)

lemma doc_text_json: "doc_text md t (json_records rs) = jshow (doc_json md t rs)"
proof -
  have "json_records rs = map jshow (map record_json rs)"
    by (auto simp: json_records_def record_text_json)
  then show ?thesis
    by (simp add: doc_text_def metric_head_def doc_json_def dq_def)
qed

text \<open>The round that closes a packet, when its records are JSON.\<close>

lemma plugin_gather_expires:
  assumes "working p = Some a" "heap s a = Some k"
    and "opens md (tid p) (json_records rs) k" "gatherer (gather p (Suc (readings w))) sp"
    and "room k (head_room md (tid p) k + (50 + g_need sp (module p)))"
    and "g_code sp (module p) = ENONE" "g_out sp (module p) = jmembers ms"
    and "is_expired (epoch_of (clock w (Suc (readings w))))
           (if rs = [] then epoch_of (clock w (readings w)) else started k)"
  shows "\<exists>k'. plugin_gather md p s w = Some (0, p\<lparr>task := next_task ENONE (task p),
        module := g_upd sp (module p), working := None\<rparr>, set_packet a k' s, w\<lparr>readings := readings w + 2\<rparr>) \<and>
    pstate k' = READY \<and> pkt_ok k' \<and> control k' = control k \<and>
    ptext k' = jshow (doc_json md (tid p) (rs @ [(epoch_of (clock w (readings w)), ms)]))"
proof -
  let ?rs = "rs @ [(epoch_of (clock w (readings w)), ms)]"
  have codes: "g_code sp (module p) \<in> plugin_codes"
    using assms(6) by (simp add: plugin_codes_def)
  have nil: "json_records rs = [] \<longleftrightarrow> rs = []"
    by (simp add: json_records_def)
  have add: "add_record ENONE (record_text (epoch_of (clock w (readings w))) (jmembers ms)) (json_records rs) =
      json_records ?rs"
    by (simp add: add_record_def json_records_def)
  obtain k' where
    run: "plugin_gather md p s w = Some (0, p\<lparr>task := next_task ENONE (task p),
        module := g_upd sp (module p), working := None\<rparr>, set_packet a k' s, w\<lparr>readings := readings w + 2\<rparr>)"
    and k': "after_round md (tid p) True (json_records ?rs) k'" "control k' = control k"
    using gather_into_round[OF assms(3,4) codes assms(5), of a s] assms(1,2,6,7,8)
    unfolding nil add[symmetric] by (auto simp: plugin_gather_def)
  have "json_records ?rs \<noteq> []" by (simp add: json_records_def)
  with k'(1) have "pstate k' = READY \<and> pkt_ok k' \<and> ptext k' = doc_text md (tid p) (json_records ?rs)"
    by (simp add: after_round_def)
  with run k'(2) show ?thesis by (auto simp: doc_text_json)
qed

section \<open>Properties\<close>

text \<open>
  C7: a call of the gathering task on a packet in progress returns. When the module reports
  success its record is added to the packet, otherwise the packet is rolled back to exactly
  the records it had; the code decides the next task; the packet is closed and handed to
  the storage when its time is over, or given back when it has no record. No other packet
  changes and the list of packets is intact.
\<close>

theorem plugin_gather_continues:
  assumes "working p = Some a" "storage_inv s as" "heap s a = Some k"
    and "opens md (tid p) recs k" and "gatherer (gather p (Suc (readings w))) sp"
    and "g_code sp (module p) \<in> plugin_codes"
    and "room k (head_room md (tid p) k + (50 + g_need sp (module p)))"
  defines "b \<equiv> epoch_of (clock w (readings w))" and "code \<equiv> g_code sp (module p)"
  defines "expired \<equiv>
    is_expired (epoch_of (clock w (Suc (readings w)))) (if recs = [] then b else started k)"
  shows "\<exists>k' s' w'. plugin_gather md p s w =
      Some (0, p\<lparr>task := next_task code (task p), module := g_upd sp (module p),
                working := (if expired then None else Some a)\<rparr>, s', w') \<and>
    after_round md (tid p) expired (add_record code (record_text b (g_out sp (module p))) recs) k' \<and>
    heap s' = (heap s)(a \<mapsto> k') \<and> storage_inv s' as"
proof -
  from gather_into_round[OF assms(4-7), of a s] obtain k' where
    run: "gather_into md a k p s w =
      Some (0, p\<lparr>task := next_task code (task p), module := g_upd sp (module p),
                working := (if expired then None else Some a)\<rparr>,
            set_packet a k' s, w\<lparr>readings := readings w + 2\<rparr>)"
    and k': "after_round md (tid p) expired (add_record code (record_text b (g_out sp (module p))) recs) k'"
      "control k' = control k"
    unfolding b_def code_def expired_def by metis
  have "pnext k' = pnext k" "spin k' = 0"
    using k'(2) assms(2,3) by (auto simp: control_def storage_inv_def)
  with storage_inv_upd[OF assms(2,3), of k'] run k'(1) assms(1,3) show ?thesis
    by (intro exI[of _ k']) (simp add: plugin_gather_def)
qed

definition sample_gather :: "nat gather_fun" where
  \<open>sample_gather m k = do { k1 \<leftarrow> packet_append ''"x":1'' k; Some (0, Suc m, k1) }\<close>

definition sample_spec :: "nat gspec" where
  \<open>sample_spec = \<lparr>g_code = (\<lambda>_. 0), g_out = (\<lambda>_. ''"x":1''), g_upd = Suc, g_need = (\<lambda>_. 5)\<rparr>\<close>

lemma sample_gatherer: "gatherer sample_gather sample_spec"
proof
  fix m and k :: packet
  assume "room k (g_need sample_spec m)"
  then have "room k (length ''\"x\":1'')" by (simp add: sample_spec_def eval_nat_numeral)
  then obtain q where "packet_append ''\"x\":1'' k = Some q" "wrote ''\"x\":1'' k q"
    by (rule packet_append_wrote)
  then show "\<exists>q. sample_gather m k = Some (g_code sample_spec m, g_upd sample_spec m, q) \<and>
      wrote (g_out sample_spec m) k q"
    by (simp add: sample_gather_def sample_spec_def)
qed (simp add: sample_spec_def)

definition sample_metadata :: metadata where
  "sample_metadata = \<lparr>license = ''key'', aid = 7, agent_type = ''linux'', os = ''os'',
     host = ''h'', aip = ''127.0.0.1''\<rparr>"

definition sample_plugin :: "nat plugin" where
  "sample_plugin =
     \<lparr>ptick = (3600, 0), task = Gather, tid = 5, tip = None, target_type = ''os'', working = Some 1, oob = None,
      prep = None, fini = None, gather = (\<lambda>_. sample_gather), cmp = (\<lambda>_ _ _. 0),
      module_size = 1, module_bytes = (\<lambda>_. ''m''), module = 0\<rparr>"

text \<open>A storage whose second packet is new.\<close>

definition sample_storage1 :: storage where
  "sample_storage1 =
     \<lparr>heap = [0 \<mapsto> sample_packet\<lparr>pnext := Some 1\<rparr>, 1 \<mapsto> new_packet METRIC None], brk = 2,
      packets = Some 0, delay = 1, tick = STORAGE_TICK\<rparr>"

lemma sample_storage1_facts:
  "storage_inv sample_storage1 [0, 1]" "heap sample_storage1 1 = Some (new_packet METRIC None)"
  by (simp_all add: storage_inv_def sample_storage1_def new_packet_def)

lemma sample_plugin_simps [simp]:
  "task sample_plugin = Gather" "tid sample_plugin = 5" "working sample_plugin = Some 1"
  "oob sample_plugin = None" "gather sample_plugin n = sample_gather" "module sample_plugin = 0"
  "prep sample_plugin = None" "tip sample_plugin = None"
  by (simp_all add: sample_plugin_def)

lemma sample_start: "opens md t [] (new_packet METRIC None)"
  by (simp add: opens_def new_packet_def)

lemma sample_room: "room (new_packet METRIC r) (head_room sample_metadata 5 (new_packet METRIC r) + 55)"
  by (simp add: room_def head_room_def new_packet_def metric_head_def sample_metadata_def PKTSZ_def
      show_ull_def show_nat.simps)

theorem plugin_gather_continues_witness:
  "\<exists>p' s' w' k. plugin_gather sample_metadata sample_plugin sample_storage1 sample_machine =
      Some (0, p', s', w') \<and> working p' = Some 1 \<and> task p' = Gather \<and> heap s' 1 = Some k \<and>
      ptext k = metric_head sample_metadata 5 @ record_text (epoch_of \<lparr>tv_sec = 1000, tv_nsec = 0\<rparr>) ''\"x\":1''"
proof -
  have g: "gatherer (gather sample_plugin (Suc (readings sample_machine))) sample_spec"
    using sample_gatherer by simp
  have codes: "g_code sample_spec (module sample_plugin) \<in> plugin_codes"
    by (simp add: sample_spec_def plugin_codes_def gather_codes)
  have room: "room (new_packet METRIC None) (head_room sample_metadata (tid sample_plugin)
      (new_packet METRIC None) + (50 + g_need sample_spec (module sample_plugin)))"
    using sample_room by (simp add: sample_spec_def)
  have young: "\<not> is_expired t t" for t
    by (simp add: is_expired_def PACKET_EXP_thousandths_def)
  show ?thesis
    using plugin_gather_continues[OF _ sample_storage1_facts sample_start g codes room] young
    by (auto simp: after_round_def carries_def add_record_def next_task_def sample_spec_def gather_codes)
qed

text \<open>
  A plugin without a packet in progress takes one from the storage and starts the
  document with this round's record. The packet was free or already sent, so no packet of
  another plugin changes.
\<close>

theorem plugin_gather_opens:
  assumes "working p = None" "pool_inv s" "\<forall>n. malloc_ok w n"
    and "\<forall>n > readings w. gatherer (gather p n) (sp n)"
    and "\<forall>n > readings w. g_code (sp n) (module p) \<in> plugin_codes"
    and "\<forall>n > readings w. length (metric_head md (tid p)) + 50 + g_need (sp n) (module p) < PKTSZ"
  shows "\<exists>a k' p' s' w' n b m expired. plugin_gather md p s w = Some (0, p', s', w') \<and>
    readings w < n \<and> w' = w\<lparr>readings := m\<rparr> \<and>
    after_round md (tid p) expired
      (add_record (g_code (sp n) (module p)) (record_text b (g_out (sp n) (module p))) []) k' \<and>
    heap s' a = Some k' \<and> ptype k' = METRIC \<and> (\<forall>c. c \<noteq> a \<longrightarrow> heap s' c = heap s c) \<and>
    (\<forall>q. heap s a = Some q \<longrightarrow> pstate q = DONE) \<and> pool_inv s' \<and>
    p' = p\<lparr>task := next_task (g_code (sp n) (module p)) (task p), module := g_upd (sp n) (module p),
            working := (if expired then None else Some a)\<rparr>"
proof -
  obtain a k s1 w1 where get: "get_packet METRIC s w = Some (Some a, s1, w1)" and "pool_inv s1"
    and k: "heap s1 a = Some k" "pstate k = EMPTY" "ptype k = METRIC" "psize k = 0"
    and others: "\<forall>c. c \<noteq> a \<longrightarrow> heap s1 c = heap s c" "\<forall>q. heap s a = Some q \<longrightarrow> pstate q = DONE"
      "w1 = w \<or> w1 = w\<lparr>readings := Suc (readings w)\<rparr>"
    using pool.get_gives[OF assms(2), of w METRIC] assms(3) by blast
  from \<open>pool_inv s1\<close> obtain as where inv: "storage_inv s1 as"
    by (auto simp: pool_inv_def)
  let ?n = "Suc (readings w1)"
  have later: "readings w < ?n" and "w1\<lparr>readings := readings w1 + 2\<rparr> = w\<lparr>readings := readings w1 + 2\<rparr>"
    using others(3) by auto
  note laws = assms(4-6)[rule_format, OF later]
  have "opens md (tid p) [] k" using k by (simp add: opens_def)
  moreover have "room k (head_room md (tid p) k + (50 + g_need (sp ?n) (module p)))"
    using laws(3) k by (simp add: room_def head_room_def)
  ultimately obtain k' b expired where
    run: "gather_into md a k p s1 w1 =
      Some (0, p\<lparr>task := next_task (g_code (sp ?n) (module p)) (task p),
                module := g_upd (sp ?n) (module p), working := (if expired then None else Some a)\<rparr>,
            set_packet a k' s1, w1\<lparr>readings := readings w1 + 2\<rparr>)"
    and k': "after_round md (tid p) expired
      (add_record (g_code (sp ?n) (module p)) (record_text b (g_out (sp ?n) (module p))) []) k'"
      "control k' = control k"
    using gather_into_round[of md p "[]" k w1 "sp ?n" a s1] laws(1,2) by blast
  have same: "pnext k' = pnext k" "spin k' = 0" "ptype k' = METRIC"
    using k'(2) k inv by (auto simp: control_def storage_inv_def)
  have "plugin_gather md p s w = gather_into md a k p s1 w1"
    using assms(1) get k(1) by (simp add: plugin_gather_def)
  note result = this[unfolded run]
  have "pool_inv (set_packet a k' s1)"
    using storage_inv_upd[OF inv k(1) same(1,2)] by (auto simp: pool_inv_def)
  moreover have "\<forall>c. c \<noteq> a \<longrightarrow> heap (set_packet a k' s1) c = heap s c"
    using others(1) by simp
  ultimately show ?thesis
    using result k'(1) same(3) others(2) later \<open>w1\<lparr>readings := _\<rparr> = _\<close>
    by (intro exI[of _ a] exI[of _ k'] exI conjI) (assumption | rule refl | simp)+
qed

theorem plugin_gather_opens_witness:
  "\<exists>p' s' w'. plugin_gather sample_metadata (sample_plugin\<lparr>working := None\<rparr>) sample_storage sample_machine =
      Some (0, p', s', w') \<and> heap s' 1 = heap sample_storage 1 \<and> pool_inv s'"
proof -
  let ?p = "sample_plugin\<lparr>working := None\<rparr>"
  have inv: "pool_inv sample_storage"
    using sample_storage_inv by (auto simp: pool_inv_def)
  have "g_code sample_spec (module ?p) \<in> plugin_codes"
    by (simp add: sample_spec_def plugin_codes_def gather_codes)
  moreover have "length (metric_head sample_metadata (tid ?p)) + 50 + g_need sample_spec (module ?p) < PKTSZ"
    by (simp add: sample_spec_def metric_head_def sample_metadata_def PKTSZ_def show_ull_def show_nat.simps)
  ultimately obtain a p' s' w' where
    "plugin_gather sample_metadata ?p sample_storage sample_machine = Some (0, p', s', w')"
    "\<forall>c. c \<noteq> a \<longrightarrow> heap s' c = heap sample_storage c" "pool_inv s'"
    "\<forall>q. heap sample_storage a = Some q \<longrightarrow> pstate q = DONE"
    using plugin_gather_opens[OF _ inv, of ?p sample_machine "\<lambda>_. sample_spec" sample_metadata]
      sample_gatherer by auto
  then show ?thesis
    by (cases "a = 1") (auto simp: sample_storage_def)
qed

text \<open>
  C6: when a packet's time is over and it has records, the text handed to the sender is the
  rendering of the JSON document with the licence, the target's number and one entry per
  successful round, in the order of the rounds.
\<close>

theorem plugin_gather_document:
  assumes "working p = Some a" "storage_inv s as" "heap s a = Some k"
    and "opens md (tid p) (json_records rs) k" "gatherer (gather p (Suc (readings w))) sp"
    and "room k (head_room md (tid p) k + (50 + g_need sp (module p)))"
    and "g_code sp (module p) = ENONE" "g_out sp (module p) = jmembers ms"
    and "is_expired (epoch_of (clock w (Suc (readings w))))
           (if rs = [] then epoch_of (clock w (readings w)) else started k)"
  shows "\<exists>k' p' s' w'. plugin_gather md p s w = Some (0, p', s', w') \<and> working p' = None \<and>
    heap s' a = Some k' \<and> pstate k' = READY \<and>
    ptext k' = jshow (doc_json md (tid p) (rs @ [(epoch_of (clock w (readings w)), ms)]))"
  using plugin_gather_expires[OF assms(1,3-9)] by auto

text \<open>A machine whose clock jumps by eight seconds after the first reading.\<close>

definition late_machine :: machine where
  "late_machine = sample_machine\<lparr>clock := (\<lambda>n. \<lparr>tv_sec = (if n = 0 then 1000 else 1008), tv_nsec = 0\<rparr>)\<rparr>"

text \<open>With it, the sample plugin's first round closes its packet.\<close>

lemma late_facts:
  "gatherer (gather sample_plugin (Suc (readings late_machine))) sample_spec"
  "opens sample_metadata (tid sample_plugin) (json_records []) (new_packet METRIC None)"
  "room (new_packet METRIC None) (head_room sample_metadata (tid sample_plugin)
     (new_packet METRIC None) + (50 + g_need sample_spec (module sample_plugin)))"
  "g_code sample_spec (module sample_plugin) = ENONE"
  "g_out sample_spec (module sample_plugin) = jmembers [(''x'', JNum ''1'')]"
  "is_expired (epoch_of (clock late_machine (Suc (readings late_machine))))
     (if ([] :: (epoch_t \<times> (string \<times> json) list) list) = []
      then epoch_of (clock late_machine (readings late_machine)) else started (new_packet METRIC None))"
  using sample_gatherer sample_start sample_room
  by (simp_all add: json_records_def sample_spec_def gather_codes jmembers_def jmember_def dq_def
      is_expired_def late_machine_def epoch_of_def PACKET_EXP_thousandths_def MSPS_def NSPMS_def)

lemma late_document:
  "jshow (doc_json sample_metadata 5 ([] @ [(epoch_of (clock late_machine (readings late_machine)), [(''x'', JNum ''1'')])])) =
     ''{\"license\":\"key\",\"tid\":5,\"metrics\":[{\"timestamp\":1000000,\"values\":{\"x\":1}}]}''"
  by (simp add: doc_json_def record_json_def sample_metadata_def late_machine_def epoch_of_def
      MSPS_def NSPMS_def show_ull_def show_nat.simps digit_values dq_def)

theorem plugin_gather_document_witness:
  "\<exists>k' p' s' w'. plugin_gather sample_metadata sample_plugin sample_storage1 late_machine =
      Some (0, p', s', w') \<and> heap s' 1 = Some k' \<and> pstate k' = READY \<and>
      ptext k' = ''{\"license\":\"key\",\"tid\":5,\"metrics\":[{\"timestamp\":1000000,\"values\":{\"x\":1}}]}''"
  using plugin_gather_document[OF _ sample_storage1_facts late_facts(2,1,3-6)] late_document by auto

definition regr_json :: "metadata \<Rightarrow> 'm plugin \<Rightarrow> 64 word \<Rightarrow> json" where
  "regr_json md p t =
     JObj ([(''license'', JStr (license md)), (''aid'', JNum (show_ull (aid md))),
        (''tid'', JNum (show_ull20 t)), (''agent_type'', JStr (agent_type md)),
        (''target_type'', JStr (target_type p)), (''os'', JStr (os md)),
        (''hostname'', JStr (host md)), (''ip'', JStr (aip md))] @
       (case tip p of None \<Rightarrow> [] | Some ip \<Rightarrow> [(''target_ip'', JStr ip)]))"

lemma regr_text_json: "regr_text md p t = jshow (regr_json md p t)"
  by (cases "tip p") (simp_all add: regr_text_def regr_json_def regr_head_def regr_tail_def dq_def)


definition fresh_plugin :: "nat plugin" where
  "fresh_plugin = sample_plugin\<lparr>tid := 0, working := None, oob := None, task := Prep\<rparr>"

lemma fresh_plugin_facts:
  "regr_fits sample_metadata (fresh_plugin\<lparr>task := Regr\<rparr>)"
  "regr_pending sample_metadata (fresh_plugin\<lparr>task := Regr\<rparr>)"
  by (simp_all add: regr_fits_def regr_pending_def fresh_plugin_def sample_plugin_def regr_head_def
      regr_tail_def sample_metadata_def PKTSZ_def show_ull_def show_nat.simps digit_values)


text \<open>
  C9: along every run of a plugin from its initialisation the pending packet has the type
  its task posts: nothing is pending while the plugin prepares or gathers, and a retry never
  sends a registration as an alert or an alert as a registration.
\<close>

theorem plugin_reach_pending:
  assumes "plugin_reach md sn p0 c"
  shows "oob_ok (fst c)"
  using assms
proof (induction rule: plugin_reach.induct)
  case (start p s)
  then show ?case by (auto simp: plugin_init_def oob_ok_def)
next
  case (step c c')
  then show ?case
    by (auto elim!: plugin_stepE dest: plugin_task_oob_ok)
qed

theorem plugin_reach_pending_witness:
  "\<exists>p' s'. plugin_reach sample_metadata sample_senders sample_plugin (p', s') \<and>
    task p' \<in> {Regr, Gather} \<and> oob_ok p'"
proof -
  let ?md = sample_metadata and ?sn = sample_senders
  have first: "plugin_reach ?md ?sn sample_plugin (fresh_plugin, sample_storage)"
    by (rule plugin_reach.start) (simp add: plugin_init_def fresh_plugin_def sample_plugin_def)
  obtain r p' w' where run:
    "plugin_regr ?md ?sn (fresh_plugin\<lparr>task := Regr\<rparr>) sample_machine = Some (r, p', w')"
    and t: "task p' \<in> {Regr, Gather}"
    using plugin_regr_sends[OF fresh_plugin_facts, of sample_machine sample_senders] by auto
  then have "plugin_task ?md ?sn fresh_plugin sample_storage sample_machine = Some (r, p', sample_storage, w')"
    by (simp add: plugin_task_def plugin_prep_def fresh_plugin_def)
  then have "plugin_step ?md ?sn (fresh_plugin, sample_storage) (p', sample_storage)"
    by (rule plugin_step.run)
  with first have "plugin_reach ?md ?sn sample_plugin (p', sample_storage)"
    by (rule plugin_reach.step)
  with t plugin_reach_pending[OF this] show ?thesis by auto
qed

text \<open>The tasks of a registered plugin.\<close>

definition registered :: "'m plugin \<Rightarrow> bool" where
  "registered p \<longleftrightarrow> task p \<in> {Gather, Alert_up, Alert_down}"

lemma plugin_task_registered:
  assumes "plugin_task md sn p s w = Some (r, p', s', w')" "registered p"
  shows "registered p' \<and> tid p' = tid p"
proof (cases "task p")
  case Gather
  with assms gather_frame[of md p s w r p' s' w'] show ?thesis
    by (auto simp: plugin_task_def registered_def)
next
  case Alert_up
  with assms alert_frame[of md sn "''up''" p w r p' w'] show ?thesis
    by (auto simp: plugin_task_def registered_def plugin_alert_up_def)
next
  case Alert_down
  with assms alert_frame[of md sn "''down''" p w r p' w'] show ?thesis
    by (auto simp: plugin_task_def registered_def plugin_alert_down_def)
qed (use assms(2) in \<open>simp_all add: registered_def\<close>)

text \<open>
  C10: a registered plugin stays registered and keeps its number, whatever its tasks meet.
\<close>

theorem plugin_stays_registered:
  assumes "(plugin_step md sn)\<^sup>*\<^sup>* c c'" "registered (fst c)"
  shows "registered (fst c') \<and> tid (fst c') = tid (fst c)"
  using assms
proof (induction rule: rtranclp_induct)
  case (step c1 c2)
  then show ?case
    by (auto elim!: plugin_stepE dest: plugin_task_registered)
qed simp

theorem plugin_stays_registered_witness:
  "\<exists>p' s'. (plugin_step sample_metadata sample_senders)\<^sup>*\<^sup>* (sample_plugin, sample_storage1) (p', s') \<and>
    heap s' 1 \<noteq> heap sample_storage1 1 \<and> registered p' \<and> tid p' = 5"
proof -
  have g: "gatherer (gather sample_plugin (Suc (readings sample_machine))) sample_spec"
    using sample_gatherer by simp
  have codes: "g_code sample_spec (module sample_plugin) \<in> plugin_codes"
    by (simp add: sample_spec_def plugin_codes_def gather_codes)
  have room: "room (new_packet METRIC None) (head_room sample_metadata (tid sample_plugin)
      (new_packet METRIC None) + (50 + g_need sample_spec (module sample_plugin)))"
    using sample_room by (simp add: sample_spec_def)
  obtain k' p' w' where run: "gather_into sample_metadata 1 (new_packet METRIC None) sample_plugin
      sample_storage1 sample_machine = Some (0, p', set_packet 1 k' sample_storage1, w')"
    and "pstate k' \<noteq> EMPTY"
    using gather_into_round[OF sample_start g codes room, of 1 sample_storage1]
    by (fastforce simp: after_round_def carries_def split: if_splits)
  then have differs: "k' \<noteq> new_packet METRIC None"
    by (auto simp: new_packet_def)
  have "plugin_task sample_metadata sample_senders sample_plugin sample_storage1 sample_machine =
      Some (0, p', set_packet 1 k' sample_storage1, w')"
    using run sample_storage1_facts(2) by (simp add: plugin_task_def plugin_gather_def)
  then have "(plugin_step sample_metadata sample_senders)\<^sup>*\<^sup>* (sample_plugin, sample_storage1)
      (p', set_packet 1 k' sample_storage1)"
    by (intro r_into_rtranclp plugin_step.run)
  moreover from plugin_stays_registered[OF this] have "registered p' \<and> tid p' = 5"
    by (simp add: registered_def)
  moreover have "heap (set_packet 1 k' sample_storage1) 1 \<noteq> heap sample_storage1 1"
    unfolding sample_storage1_facts(2) using differs by simp
  ultimately show ?thesis by blast
qed

end
