(* ===== verification/Scan.thy ===== *)
theory Scan
  imports Prelude
begin

text \<open>
  The conversions of the \<open>scanf\<close> family the agent uses, on the text still to be read:
  \<open>%s\<close>, \<open>%[^c]\<close> with a width, \<open>%u\<close>, \<open>%lu\<close>, \<open>%llu\<close> and literal text.
\<close>

definition newline :: char where
  "newline = CHR 0x0A"

definition isspace :: "char \<Rightarrow> bool" where
  "isspace c \<longleftrightarrow> c = CHR '' '' \<or> 9 \<le> (of_char c :: nat) \<and> (of_char c :: nat) \<le> 13"

text \<open>\<open>%s\<close>: the next word, and the text after it.\<close>

definition scan_s :: "string \<Rightarrow> (string \<times> string) option" where
  "scan_s s =
     (let t = dropWhile isspace s; word = takeWhile (\<lambda>c. \<not> isspace c) t
      in if word = [] then None else Some (word, drop (length word) t))"

text \<open>\<open>%n[^c]\<close>: one to \<open>n\<close> characters other than \<open>c\<close>, blanks included.\<close>

definition scan_until :: "nat \<Rightarrow> char \<Rightarrow> string \<Rightarrow> (string \<times> string) option" where
  "scan_until n c s =
     (let t = take n (takeWhile (\<lambda>d. d \<noteq> c) s)
      in if t = [] then None else Some (t, drop (length t) s))"

text \<open>
  \<open>%lu\<close> and \<open>%llu\<close>: blanks, a sign, digits. Too large a number is cut to the largest value;
  a minus sign negates modulo \<open>2 ^ 64\<close>.
\<close>

definition digits_value :: "string \<Rightarrow> nat" where
  "digits_value ds = foldl (\<lambda>v c. v * 10 + (of_char c - 48)) 0 ds"

definition scan_ull :: "string \<Rightarrow> (64 word \<times> string) option" where
  "scan_ull s =
     (let t = dropWhile isspace s;
          neg = (take 1 t = ''-'');
          u = (if take 1 t = ''-'' \<or> take 1 t = ''+'' then tl t else t);
          ds = takeWhile is_digit u;
          v = digits_value ds
      in if ds = [] then None
         else if 2 ^ 64 \<le> v then Some (- 1, drop (length ds) u)
         else Some (if neg then - of_nat v else of_nat v, drop (length ds) u))"

text \<open>\<open>%u\<close> stores the low 32 bits.\<close>

definition scan_u :: "string \<Rightarrow> (32 word \<times> string) option" where
  "scan_u s = map_option (\<lambda>(v, r). (ucast v, r)) (scan_ull s)"

text \<open>Literal text of a format: a blank matches any run of blanks.\<close>

fun scan_lit :: "string \<Rightarrow> string \<Rightarrow> string option" where
  "scan_lit [] s = Some s"
| "scan_lit (f # fs) s =
     (if isspace f then scan_lit fs (dropWhile isspace s)
      else case s of [] \<Rightarrow> None | c # cs \<Rightarrow> if c = f then scan_lit fs cs else None)"

section \<open>Reading back what was printed\<close>

lemma digit_not_space: "is_digit c \<Longrightarrow> \<not> isspace c"
  by (auto simp: is_digit_def isspace_def)

lemma digits_value_snoc: "digits_value (ds @ [c]) = digits_value ds * 10 + (of_char c - 48)"
  by (simp add: digits_value_def)

lemma digits_value_show: "digits_value (show_nat n) = n"
proof (induction n rule: show_nat.induct)
  case (1 n)
  show ?case
  proof (cases "n < 10")
    case True
    then show ?thesis
      by (subst show_nat.simps) (simp add: digits_value_def of_char_digit)
  next
    case False
    with 1 show ?thesis
      by (subst show_nat.simps) (simp add: digits_value_snoc of_char_digit)
  qed
qed

lemma scan_ull_show:
  assumes "n < 2 ^ 64" "s = [] \<or> \<not> is_digit (hd s)"
  shows "scan_ull (show_nat n @ s) = Some (of_nat n, s)"
proof -
  have d: "\<forall>c \<in> set (show_nat n). is_digit c" by (auto dest: show_nat_digits)
  have ne: "show_nat n \<noteq> []" by (subst show_nat.simps) simp
  then obtain c t where c: "show_nat n = c # t" by (cases "show_nat n") auto
  with d have c': "is_digit c" by simp
  have first: "dropWhile isspace (show_nat n @ s) = show_nat n @ s"
    using c c' by (simp add: digit_not_space)
  have sign: "take 1 (show_nat n @ s) \<noteq> ''-''" "take 1 (show_nat n @ s) \<noteq> ''+''"
    using c c' by (auto simp: is_digit_def)
  have "takeWhile is_digit (show_nat n @ s) = show_nat n"
    using d assms(2) by (cases s) (auto simp: takeWhile_append2)
  with first sign ne assms(1) show ?thesis
    by (simp add: scan_ull_def digits_value_show Let_def del: show_nat.simps)
qed

end
