(* ===== verification/Sparser.thy ===== *)
theory Sparser
  imports Plugin Scan
begin

text \<open>
  The parser of the plugin configuration (src/sparser.c): \<open>fgets\<close> cuts the file into lines
  of at most 127 characters, \<open>sscanf\<close> takes the first character and the next word of each,
  and a four-state machine loads one plugin per section. The dynamic loader is a parameter:
  which libraries can be opened and which loading function a library exports.
\<close>

section \<open>Reading lines\<close>

text \<open>What \<open>fgets(line, BFSZ, f)\<close> stores, for the text not read yet.\<close>

definition fgets_line :: "string \<Rightarrow> string" where
  "fgets_line s =
     (let l = takeWhile (\<lambda>c. c \<noteq> newline) s
      in if length l < length s \<and> Suc (length l) \<le> BFSZ - 1 then l @ [newline] else take (BFSZ - 1) s)"

lemma fgets_line_pos: "s \<noteq> [] \<Longrightarrow> 0 < length (fgets_line s)"
  by (simp add: fgets_line_def Let_def BFSZ_def)

function fgets_lines :: "string \<Rightarrow> string list" where
  "fgets_lines [] = []"
| "fgets_lines (c # s) =
     fgets_line (c # s) # fgets_lines (drop (length (fgets_line (c # s))) (c # s))"
  by pat_completeness auto
termination
  by (relation "measure length") (use fgets_line_pos in \<open>auto simp del: length_greater_0_conv\<close>)

text \<open>
  \<open>sscanf(line, "%c%s", &first, remain)\<close>. An argument that is not assigned keeps an
  indeterminate value, so reading it is undefined.
\<close>

definition scan_line :: "string \<Rightarrow> (char \<times> string option) option" where
  "scan_line line =
     (case takeWhile (\<lambda>c. c \<noteq> NUL) line of
        [] \<Rightarrow> None
      | c # r \<Rightarrow>
          let word = takeWhile (\<lambda>c. \<not> isspace c) (dropWhile isspace r)
          in Some (c, if word = [] then None else Some word))"

text \<open>
  A stream is the lines still to be read, and whether it ends with a read error. The last
  line meets the end of the file when it is neither full nor terminated.
\<close>

record stream =
  stream_lines :: "string list"
  broken :: bool

definition meets_end :: "string \<Rightarrow> bool" where
  "meets_end l \<longleftrightarrow> l = [] \<or> last l \<noteq> newline \<and> length l < BFSZ - 1"

fun skip_until :: "bool \<Rightarrow> string list \<Rightarrow> char \<Rightarrow> int \<times> string list" where
  "skip_until bad [] c = (if bad then 1 else 2, [])"
| "skip_until bad (l # ls) c =
     (if take 1 l = [c] then (if meets_end l then 2 else 0, ls) else skip_until bad ls c)"

lemma skip_until_shorter: "(r, rest) = skip_until bad ls c \<Longrightarrow> length rest < Suc (length ls)"
  by (induction ls) (auto split: if_splits)

section \<open>The parser\<close>

type_synonym 'm loader = "'m plugin \<Rightarrow> string list \<Rightarrow> machine \<Rightarrow> (int \<times> 'm plugin \<times> machine) option"

text \<open>
  The surroundings of the parser: the dynamic loader, whether the routine's mutexes can be
  made, zeroed memory of the size of a plugin, and the length of the caller's array.
\<close>

record 'm surroundings =
  dl_open :: "string \<Rightarrow> bool"
  dl_load :: "string \<Rightarrow> string \<Rightarrow> 'm loader option"
  dl_cmp :: "string \<Rightarrow> string \<Rightarrow> bool"
  routine_ok :: bool
  blank :: "'m plugin"
  max_plugins :: nat

datatype parser_status = NONE | PLUG | NAME | VAL

record 'm parser =
  status :: parser_status
  args :: "string list"
  loader :: "'m loader option"
  loaded :: "'m plugin list"

definition dl_name :: "string \<Rightarrow> string" where
  "dl_name t = bf_cut (''/usr/lib/plugins/lib'' @ t @ ''.so'')"

definition load_name :: "string \<Rightarrow> string" where
  "load_name t = bf_cut (''load_'' @ t @ ''_module'')"

definition cmp_name :: "string \<Rightarrow> string" where
  "cmp_name t = bf_cut (t @ ''_module_cmp'')"

text \<open>The loading function of a type, when its library has both symbols.\<close>

definition find_loader :: "'m surroundings \<Rightarrow> string \<Rightarrow> 'm loader option" where
  "find_loader e t =
     (if \<not> dl_open e (dl_name t) then None
      else if dl_cmp e (dl_name t) (cmp_name t) then dl_load e (dl_name t) (load_name t) else None)"

text \<open>The end of a section: a new plugin is initialised, loaded and stored.\<close>

definition finish_section ::
  "'m surroundings \<Rightarrow> 'm parser \<Rightarrow> machine \<Rightarrow> ('m parser \<times> machine) option" where
  "finish_section e s w = do {
     let (ok, w1) = malloc w;
     if \<not> ok then None
     else
       let (r, p) = plugin_init (routine_ok e) (blank e) in
       if r < 0 then Some (s\<lparr>status := NONE\<rparr>, w1)
       else do {
         ld \<leftarrow> loader s;
         (r1, p1, w2) \<leftarrow> ld p (args s) w1;
         if r1 < 0 then Some (s\<lparr>status := NONE\<rparr>, w2)
         else if length (loaded s) < max_plugins e
           then Some (s\<lparr>status := NONE, loaded := loaded s @ [p1]\<rparr>, w2)
           else None
       }
   }"

definition push_arg :: "string \<Rightarrow> 'm parser \<Rightarrow> 'm parser option" where
  "push_arg a s = (if length (args s) < 10 then Some (s\<lparr>status := VAL, args := args s @ [a]\<rparr>) else None)"

text \<open>What one line makes of the parser: go on, skip the rest of the section, or give up.\<close>

datatype 'm move = Go "'m parser" machine | Skip "'m parser" | Fail

definition parse_line ::
  "'m surroundings \<Rightarrow> 'm parser \<Rightarrow> string \<Rightarrow> machine \<Rightarrow> 'm move option" where
  "parse_line e s line w = do {
     (first, remain) \<leftarrow> scan_line line;
     if first = newline \<or> first = CHR ''#'' then Some (Go s w)
     else if first = CHR ''<'' then
       (if status s \<noteq> NONE then Some Fail
        else do {
          t \<leftarrow> remain;
          let s1 = s\<lparr>args := [], status := PLUG\<rparr>;
          case find_loader e (bf_cut t) of
            None \<Rightarrow> Some (Skip s1)
          | Some ld \<Rightarrow> Some (Go (s1\<lparr>loader := Some ld\<rparr>) w)
        })
     else if first = CHR ''-'' then
       (if status s = PLUG then do {
          v \<leftarrow> remain;
          if take 3 v = ''OFF'' then Some (Skip s)
          else if take 2 v \<noteq> ''ON'' then Some Fail
          else Some (Go s w)
        }
        else if status s = NAME \<or> status s = VAL then do {
          v \<leftarrow> remain;
          s1 \<leftarrow> push_arg (bf_cut v) s;
          Some (Go s1 w)
        }
        else Some Fail)
     else if first = CHR ''!'' then
       (if status s \<noteq> PLUG then Some Fail else Some (Go (s\<lparr>status := NAME\<rparr>) w))
     else if first = CHR ''>'' then
       (if status s \<noteq> VAL \<and> status s \<noteq> PLUG then Some Fail
        else do { (s1, w1) \<leftarrow> finish_section e s w; Some (Go s1 w1) })
     else Some Fail
   }"

text \<open>
  The loop. A section that is skipped up to a read error gives up as well; an end of the
  file is only logged.
\<close>

function sparse_loop ::
  "'m surroundings \<Rightarrow> bool \<Rightarrow> 'm parser \<Rightarrow> string list \<Rightarrow> machine \<Rightarrow>
   (int \<times> 'm plugin list \<times> machine) option" where
  "sparse_loop e bad s [] w = Some (int (length (loaded s)), loaded s, w)"
| "sparse_loop e bad s (l # ls) w =
     (case parse_line e s l w of
        None \<Rightarrow> None
      | Some Fail \<Rightarrow> Some (-1, loaded s, w)
      | Some (Go s1 w1) \<Rightarrow> sparse_loop e bad s1 ls w1
      | Some (Skip s1) \<Rightarrow>
          let (r, rest) = skip_until bad ls (CHR ''>'') in
          if r = 1 then Some (-1, loaded s1, w)
          else sparse_loop e bad (s1\<lparr>status := NONE\<rparr>) rest w)"
  by pat_completeness auto
termination
  by (relation "measure (\<lambda>(e, bad, s, ls, w). length ls)")
    (auto dest: skip_until_shorter)

text \<open>\<open>sparse\<close>: the file may be missing, and may end with a read error.\<close>

definition sparse ::
  "'m surroundings \<Rightarrow> stream option \<Rightarrow> machine \<Rightarrow> (int \<times> 'm plugin list \<times> machine) option" where
  "sparse e file w =
     (case file of
        None \<Rightarrow> Some (-1, [], w)
      | Some f \<Rightarrow>
          sparse_loop e (broken f) \<lparr>status = NONE, args = [], loader = None, loaded = []\<rparr>
            (stream_lines f) w)"

section \<open>Writing a configuration\<close>

text \<open>
  A section of the configuration as a value, and its lines. A plugin with arguments names
  them once and lists them.
\<close>

record conf_section =
  cs_type :: string
  cs_on :: bool
  cs_args :: "string list"

definition write_section :: "conf_section \<Rightarrow> string list" where
  "write_section c =
     (CHR ''<'' # cs_type c @ [newline]) #
     ((if cs_on c then ''- ON'' else ''- OFF'') @ [newline]) #
     (if cs_args c = [] then [] else (''!TARGET'' @ [newline]) #
        map (\<lambda>a. ''- '' @ a @ [newline]) (cs_args c)) @
     [''>'' @ [newline]]"

definition plain_word :: "string \<Rightarrow> bool" where
  "plain_word t \<longleftrightarrow> t \<noteq> [] \<and> (\<forall>c \<in> set t. \<not> isspace c \<and> c \<noteq> NUL) \<and> length t + 3 < BFSZ"

definition section_ok :: "conf_section \<Rightarrow> bool" where
  "section_ok c \<longleftrightarrow> plain_word (cs_type c) \<and> (\<forall>a \<in> set (cs_args c). plain_word a) \<and> length (cs_args c) \<le> 10"

text \<open>What loading the sections one after the other gives.\<close>

fun load_sections ::
  "'m surroundings \<Rightarrow> 'm plugin list \<Rightarrow> conf_section list \<Rightarrow> machine \<Rightarrow> ('m plugin list \<times> machine) option" where
  "load_sections e ps [] w = Some (ps, w)"
| "load_sections e ps (c # cs) w =
     (case find_loader e (cs_type c) of
        None \<Rightarrow> load_sections e ps cs w
      | Some ld \<Rightarrow>
          if \<not> cs_on c then load_sections e ps cs w
          else do {
            let (ok, w1) = malloc w;
            if \<not> ok then None
            else if \<not> routine_ok e then load_sections e ps cs w1
            else do {
              (r, p, w2) \<leftarrow> ld (snd (plugin_init True (blank e))) (cs_args c) w1;
              if r < 0 then load_sections e ps cs w2
              else if length ps < max_plugins e then load_sections e (ps @ [p]) cs w2
              else None
            }
          })"

lemma isspace_newline [simp]: "isspace newline"
  by (simp add: isspace_def newline_def)

lemma newline_not_NUL [simp]: "newline \<noteq> NUL"
  by (simp add: newline_def)

lemma word_newline: "plain_word t \<Longrightarrow> newline \<notin> set t"
  unfolding plain_word_def using isspace_newline by blast

lemma takeWhile_word: "plain_word t \<Longrightarrow> takeWhile (\<lambda>c. \<not> isspace c) (t @ newline # s) = t"
  by (subst takeWhile_append2) (auto simp: plain_word_def)

lemma dropWhile_word: "plain_word t \<Longrightarrow> dropWhile isspace (t @ s) = t @ s"
  by (cases t) (auto simp: plain_word_def)

lemma takeWhile_no_NUL:
  "NUL \<notin> set t \<Longrightarrow> takeWhile (\<lambda>c. c \<noteq> NUL) t = t"
  by (auto simp: takeWhile_eq_all_conv)

lemma scan_word:
  assumes "plain_word t" "c \<noteq> NUL"
  shows "scan_line (c # t @ [newline]) = Some (c, Some t)"
    and "scan_line (c # CHR '' '' # t @ [newline]) = Some (c, Some t)"
proof -
  have "NUL \<notin> set t" and t2: "t \<noteq> []"
    using assms(1) unfolding plain_word_def by blast+
  then have t1: "NUL \<notin> set (t @ [newline])"
    by (simp add: newline_def)
  show "scan_line (c # t @ [newline]) = Some (c, Some t)"
    and "scan_line (c # CHR '' '' # t @ [newline]) = Some (c, Some t)"
    using assms t2 takeWhile_word[OF assms(1), of "[]"]
    by (simp_all add: scan_line_def takeWhile_no_NUL[OF t1] dropWhile_word isspace_def[of "CHR '' ''"])
qed

lemma bf_cut_word: "plain_word t \<Longrightarrow> bf_cut t = t"
  unfolding plain_word_def bf_cut_def by (intro take_all) linarith

lemma word_switch: "plain_word ''ON''" "plain_word ''OFF''" "plain_word ''TARGET''"
  by (simp_all add: plain_word_def isspace_def BFSZ_def)

lemma scan_close: "scan_line (''>'' @ [newline]) = Some (CHR ''>'', None)"
  by (simp add: scan_line_def)

section \<open>Loading what was written\<close>

definition section_start :: "'m parser \<Rightarrow> bool" where
  "section_start s \<longleftrightarrow> status s = NONE"

lemma parse_open:
  assumes "plain_word t" "status s = NONE"
  shows "parse_line e s (CHR ''<'' # t @ [newline]) w =
    Some (case find_loader e t of
            None \<Rightarrow> Skip (s\<lparr>args := [], status := PLUG\<rparr>)
          | Some ld \<Rightarrow> Go (s\<lparr>args := [], status := PLUG, loader := Some ld\<rparr>) w)"
  using assms scan_word(1)[of t "CHR ''<''"]
  by (simp add: parse_line_def newline_def bf_cut_word split: option.split)

lemma parse_switch:
  assumes "status s = PLUG"
  shows "parse_line e s (''- ON'' @ [newline]) w = Some (Go s w)"
    and "parse_line e s (''- OFF'' @ [newline]) w = Some (Skip s)"
  using assms scan_word(2)[OF word_switch(1), of "CHR ''-''"] scan_word(2)[OF word_switch(2), of "CHR ''-''"]
  by (simp_all add: parse_line_def newline_def)

lemma parse_args_head:
  assumes "status s = PLUG"
  shows "parse_line e s (''!TARGET'' @ [newline]) w = Some (Go (s\<lparr>status := NAME\<rparr>) w)"
  using assms scan_word(1)[OF word_switch(3), of "CHR ''!''"]
  by (simp add: parse_line_def newline_def)

lemma parse_arg:
  assumes "plain_word a" "status s = NAME \<or> status s = VAL" "length (args s) < 10"
  shows "parse_line e s (''- '' @ a @ [newline]) w =
    Some (Go (s\<lparr>status := VAL, args := args s @ [a]\<rparr>) w)"
  using assms scan_word(2)[of a "CHR ''-''"]
  by (auto simp: parse_line_def newline_def push_arg_def bf_cut_word)

lemma sparse_args:
  assumes "\<forall>a \<in> set as. plain_word a" "status s = NAME \<or> status s = VAL"
    and "length (args s) + length as \<le> 10"
  shows "sparse_loop e bad s (map (\<lambda>a. ''- '' @ a @ [newline]) as @ ls) w =
    sparse_loop e bad (if as = [] then s else s\<lparr>status := VAL, args := args s @ as\<rparr>) ls w"
  using assms
proof (induction as arbitrary: s)
  case (Cons a as)
  then show ?case
    using Cons.IH[of "s\<lparr>status := VAL, args := args s @ [a]\<rparr>"] parse_arg[of a s e w] by simp
qed simp

lemma parse_close:
  assumes "status s = VAL \<or> status s = PLUG"
  shows "parse_line e s (''>'' @ [newline]) w =
    map_option (\<lambda>(s1, w1). Go s1 w1) (finish_section e s w)"
  using assms
  by (auto simp: parse_line_def newline_def scan_close[unfolded newline_def, simplified]
      map_option_case split: option.splits)

lemma skip_section:
  assumes "\<forall>l \<in> set ls. take 1 l \<noteq> ''>''"
  shows "skip_until bad (ls @ (''>'' @ [newline]) # rest) (CHR ''>'') = (0, rest)"
  using assms by (induction ls) (auto simp: meets_end_def)

definition section_body :: "conf_section \<Rightarrow> string list" where
  "section_body c =
     (if cs_args c = [] then [] else (''!TARGET'' @ [newline]) #
        map (\<lambda>a. ''- '' @ a @ [newline]) (cs_args c))"

lemma section_body_no_close: "\<forall>l \<in> set (section_body c). take 1 l \<noteq> ''>''"
  by (auto simp: section_body_def)

lemma write_section_body:
  "write_section c = (CHR ''<'' # cs_type c @ [newline]) #
     ((if cs_on c then ''- ON'' else ''- OFF'') @ [newline]) # section_body c @ [''>'' @ [newline]]"
  by (simp add: write_section_def section_body_def)

text \<open>A whole section: skipped, or loaded with its arguments.\<close>

lemma sparse_body:
  assumes "section_ok c" "status s = PLUG" "args s = []"
  shows "sparse_loop e bad s (section_body c @ ls) w =
    sparse_loop e bad (s\<lparr>status := if cs_args c = [] then PLUG else VAL, args := cs_args c\<rparr>) ls w"
proof (cases "cs_args c = []")
  case True
  with assms(2,3) have "s = s\<lparr>status := PLUG, args := cs_args c\<rparr>" by (cases s) simp
  with True show ?thesis by (simp add: section_body_def)
next
  case False
  then show ?thesis
    using sparse_args[of "cs_args c" "s\<lparr>status := NAME\<rparr>" e bad ls w] parse_args_head[OF assms(2), of e w]
      assms(1,3)
    by (simp add: section_body_def section_ok_def)
qed

lemma sparse_section_skipped:
  assumes "section_ok c" "status s = NONE" "find_loader e (cs_type c) = None \<or> \<not> cs_on c"
  shows "\<exists>s1. status s1 = NONE \<and> loaded s1 = loaded s \<and>
    sparse_loop e bad s (write_section c @ ls) w = sparse_loop e bad s1 ls w"
proof (cases "find_loader e (cs_type c)")
  case None
  have "\<forall>l \<in> set (((if cs_on c then ''- ON'' else ''- OFF'') @ [newline]) # section_body c). take 1 l \<noteq> ''>''"
    using section_body_no_close by auto
  from skip_section[OF this, of bad ls] None show ?thesis
    using parse_open[of "cs_type c" s e w] assms(1,2)
    by (intro exI[of _ "s\<lparr>args := [], status := NONE\<rparr>"]) (simp add: write_section_body section_ok_def)
next
  case (Some ld)
  let ?s = "s\<lparr>args := [], status := PLUG, loader := Some ld\<rparr>"
  have "sparse_loop e bad s (write_section c @ ls) w =
      sparse_loop e bad ?s ((''- OFF'' @ [newline]) # section_body c @ (''>'' @ [newline]) # ls) w"
    using parse_open[of "cs_type c" s e w] Some assms by (simp add: write_section_body section_ok_def)
  also have "\<dots> = sparse_loop e bad (?s\<lparr>status := NONE\<rparr>) ls w"
    using parse_switch(2)[of ?s e w] skip_section[OF section_body_no_close, of bad c ls] by simp
  finally show ?thesis by (intro exI[of _ "?s\<lparr>status := NONE\<rparr>"]) simp
qed

lemma sparse_section_loaded:
  assumes "section_ok c" "status s = NONE" "find_loader e (cs_type c) = Some ld" "cs_on c"
  shows "sparse_loop e bad s (write_section c @ ls) w =
    (case finish_section e (s\<lparr>status := if cs_args c = [] then PLUG else VAL, args := cs_args c,
        loader := Some ld\<rparr>) w of
       None \<Rightarrow> None | Some (s1, w1) \<Rightarrow> sparse_loop e bad s1 ls w1)"
proof -
  let ?s = "s\<lparr>args := [], status := PLUG, loader := Some ld\<rparr>"
  let ?t = "s\<lparr>status := if cs_args c = [] then PLUG else VAL, args := cs_args c, loader := Some ld\<rparr>"
  have t: "?s\<lparr>status := if cs_args c = [] then PLUG else VAL, args := cs_args c\<rparr> = ?t"
    by (cases s) simp
  have "sparse_loop e bad s (write_section c @ ls) w =
      sparse_loop e bad ?s ((''- ON'' @ [newline]) # section_body c @ (''>'' @ [newline]) # ls) w"
    using parse_open[of "cs_type c" s e w] assms by (simp add: write_section_body section_ok_def)
  also have "\<dots> = sparse_loop e bad ?s (section_body c @ (''>'' @ [newline]) # ls) w"
    using parse_switch(1)[of ?s e w] by simp
  also have "\<dots> = sparse_loop e bad ?t ((''>'' @ [newline]) # ls) w"
    using sparse_body[OF assms(1), of ?s e bad "(''>'' @ [newline]) # ls" w] unfolding t by simp
  finally show ?thesis
    using parse_close[of ?t e w] by (simp split: option.split)
qed

lemma sparse_sections:
  assumes "\<forall>c \<in> set cs. section_ok c" "status s = NONE"
  shows "sparse_loop e bad s (concat (map write_section cs)) w =
    map_option (\<lambda>(ps, w'). (int (length ps), ps, w')) (load_sections e (loaded s) cs w)"
  using assms
proof (induction cs arbitrary: s w)
  case (Cons c cs)
  show ?case
  proof (cases "find_loader e (cs_type c) = None \<or> \<not> cs_on c")
    case True
    with sparse_section_skipped[of c s e bad "concat (map write_section cs)" w] Cons
    obtain s1 where "status s1 = NONE" "loaded s1 = loaded s"
      "sparse_loop e bad s (concat (map write_section (c # cs))) w =
         sparse_loop e bad s1 (concat (map write_section cs)) w"
      by auto
    moreover have "load_sections e (loaded s) (c # cs) w = load_sections e (loaded s) cs w"
      using True by (auto split: option.split)
    ultimately show ?thesis using Cons.IH[of s1 w] Cons.prems by simp
  next
    case False
    then obtain ld where ld: "find_loader e (cs_type c) = Some ld" "cs_on c"
      by auto
    have IH: "sparse_loop e bad s1 (concat (map write_section cs)) w1 =
        map_option (\<lambda>(ps, w'). (int (length ps), ps, w')) (load_sections e (loaded s1) cs w1)"
      if "status s1 = NONE" for s1 w1
      using Cons that by simp
    show ?thesis
      using sparse_section_loaded[OF _ _ ld, of s bad "concat (map write_section cs)" w] Cons.prems ld
      by (auto simp: finish_section_def plugin_init_def IH Let_def split: prod.split option.split Option.bind_split)
  qed
qed simp

section \<open>From the text of the file to its lines\<close>

definition short_line :: "string \<Rightarrow> bool" where
  "short_line l \<longleftrightarrow> (\<exists>b. l = b @ [newline] \<and> newline \<notin> set b \<and> length l < BFSZ)"

lemma fgets_line_short: "short_line l \<Longrightarrow> fgets_line (l @ s) = l"
proof -
  assume "short_line l"
  then obtain b where b: "l = b @ [newline]" "newline \<notin> set b" "length l < BFSZ"
    by (auto simp: short_line_def)
  have "takeWhile (\<lambda>c. c \<noteq> newline) (b @ newline # s) = b"
    using b(2) by (subst takeWhile_append2) auto
  with b show ?thesis by (simp add: fgets_line_def)
qed

lemma fgets_lines_concat: "\<forall>l \<in> set ls. short_line l \<Longrightarrow> fgets_lines (concat ls) = ls"
proof (induction ls)
  case (Cons l ls)
  then have short: "short_line l" by simp
  then obtain c t where l: "l = c # t" by (cases l) (auto simp: short_line_def)
  have "fgets_lines (concat (l # ls)) =
      fgets_line (l @ concat ls) # fgets_lines (drop (length (fgets_line (l @ concat ls))) (l @ concat ls))"
    by (simp add: l)
  with Cons fgets_line_short[OF short] show ?case by simp
qed simp

lemma word_line:
  "plain_word t \<Longrightarrow> length pre \<le> 2 \<Longrightarrow> newline \<notin> set pre \<Longrightarrow> short_line (pre @ t @ [newline])"
  unfolding short_line_def using word_newline[of t]
  by (intro exI[of _ "pre @ t"]) (auto simp: plain_word_def simp del: BFSZ_def)

lemma write_section_short:
  assumes "section_ok c" "l \<in> set (write_section c)"
  shows "short_line l"
proof -
  note words = word_line[OF word_switch(1), of "''- ''"] word_line[OF word_switch(2), of "''- ''"]
    word_line[OF word_switch(3), of "''!''"] word_line[of _ "''<''"] word_line[of _ "''- ''"]
  have "short_line (''>'' @ [newline])"
    by (simp add: short_line_def newline_def BFSZ_def)
  with assms words show ?thesis
    by (auto simp: write_section_def section_ok_def newline_def split: if_splits)
qed

section \<open>Comments\<close>

definition comment_line :: "string \<Rightarrow> bool" where
  "comment_line l \<longleftrightarrow> take 1 l = [newline] \<or> take 1 l = ''#''"

lemma parse_comment: "comment_line l \<Longrightarrow> parse_line e s l w = Some (Go s w)"
  by (cases l) (auto simp: comment_line_def parse_line_def scan_line_def Let_def newline_def)

lemma skip_until_comments:
  assumes "c \<noteq> newline" "c \<noteq> CHR ''#''"
  shows "skip_until bad (filter (\<lambda>l. \<not> comment_line l) ls) c =
    (fst (skip_until bad ls c), filter (\<lambda>l. \<not> comment_line l) (snd (skip_until bad ls c)))"
  using assms by (induction ls) (auto simp: comment_line_def)

lemma sparse_loop_comments:
  "sparse_loop e bad s (filter (\<lambda>l. \<not> comment_line l) ls) w = sparse_loop e bad s ls w"
proof (induction e bad s ls w rule: sparse_loop.induct)
  case (2 e bad s l ls w)
  show ?case
  proof (cases "comment_line l")
    case True
    with 2(1) show ?thesis by (simp add: parse_comment)
  next
    case False
    have skip: "skip_until bad (filter (\<lambda>l. \<not> comment_line l) ls) (CHR ''>'') =
      (fst (skip_until bad ls (CHR ''>'')),
       filter (\<lambda>l. \<not> comment_line l) (snd (skip_until bad ls (CHR ''>''))))"
      by (rule skip_until_comments) (simp_all add: newline_def)
    obtain r rest where "skip_until bad ls (CHR ''>'') = (r, rest)"
      by (rule prod.exhaust)
    with False 2 skip show ?thesis
      by (auto split: option.split move.split)
  qed
qed simp

section \<open>Properties\<close>

text \<open>
  C26: reading back a configuration loads what was written. The text consists of the lines of
  the sections, with comments and blank lines anywhere between or inside them; the result
  is the number of plugins, and the plugins are those of the sections that are on and whose
  library is there, each loaded with its section's arguments, in the order of the file.
\<close>

theorem sparse_reads_sections:
  assumes "\<forall>l \<in> set ls. short_line l" "\<forall>c \<in> set cs. section_ok c"
    and "filter (\<lambda>l. \<not> comment_line l) ls = concat (map write_section cs)"
  shows "sparse e (Some \<lparr>stream_lines = fgets_lines (concat ls), broken = bad\<rparr>) w =
    map_option (\<lambda>(ps, w'). (int (length ps), ps, w')) (load_sections e [] cs w)"
proof -
  let ?s = "\<lparr>status = NONE, args = [], loader = None, loaded = []\<rparr>"
  have "sparse_loop e bad ?s ls w = sparse_loop e bad ?s (concat (map write_section cs)) w"
    using sparse_loop_comments[of e bad ?s ls w] assms(3) by simp
  with sparse_sections[OF assms(2), of ?s e bad w] fgets_lines_concat[OF assms(1)] show ?thesis
    by (simp add: sparse_def)
qed

text \<open>One library, which loads the sample plugin and remembers the number of arguments.\<close>

definition sample_loader :: "nat loader" where
  "sample_loader p as w = Some (0, sample_plugin\<lparr>module := length as\<rparr>, w)"

definition sample_surroundings :: "nat surroundings" where
  "sample_surroundings =
     \<lparr>dl_open = (\<lambda>n. n = dl_name ''os'' \<or> n = dl_name ''mysql''), dl_load = (\<lambda>_ _. Some sample_loader),
      dl_cmp = (\<lambda>_ _. True), routine_ok = True, blank = sample_plugin, max_plugins = 5\<rparr>"

definition sample_sections :: "conf_section list" where
  "sample_sections =
     [\<lparr>cs_type = ''os'', cs_on = True, cs_args = []\<rparr>, \<lparr>cs_type = ''jvm'', cs_on = False, cs_args = []\<rparr>,
      \<lparr>cs_type = ''mysql'', cs_on = True, cs_args = [''localhost/3306/root/snyo'']\<rparr>]"

lemma sample_sections_ok: "\<forall>c \<in> set sample_sections. section_ok c"
  by (simp add: sample_sections_def section_ok_def plain_word_def isspace_def BFSZ_def)

theorem sparse_reads_sections_witness:
  "sparse sample_surroundings
     (Some \<lparr>stream_lines = fgets_lines (concat ((''# OS #'' @ [newline]) # [newline] #
        concat (map write_section sample_sections))), broken = False\<rparr>) sample_machine =
   Some (2, [sample_plugin\<lparr>module := 0\<rparr>, sample_plugin\<lparr>module := 1\<rparr>], sample_machine\<lparr>readings := 2\<rparr>)"
proof -
  let ?ls = "(''# OS #'' @ [newline]) # [newline] # concat (map write_section sample_sections)"
  have "short_line (''# OS #'' @ [newline])" "short_line [newline]"
    by (simp_all add: short_line_def newline_def BFSZ_def)
  moreover have "\<forall>l \<in> set (concat (map write_section sample_sections)). short_line l"
    using write_section_short sample_sections_ok by auto
  ultimately have short: "\<forall>l \<in> set ?ls. short_line l"
    by simp
  have "filter (\<lambda>l. \<not> comment_line l) ?ls = concat (map write_section sample_sections)"
    by (simp add: sample_sections_def write_section_def comment_line_def newline_def)
  from sparse_reads_sections[OF short sample_sections_ok this, of sample_surroundings False sample_machine]
  show ?thesis
    by (simp add: sample_sections_def find_loader_def sample_surroundings_def dl_name_def bf_cut_def
        BFSZ_def malloc_def sample_loader_def eval_nat_numeral)
qed

lemma load_sections_all:
  assumes "\<forall>c \<in> set cs. cs_on c \<and> (\<exists>ld. find_loader e (cs_type c) = Some ld \<and>
      (\<forall>p as w. \<exists>r q. ld p as w = Some (r, q, w) \<and> 0 \<le> r))"
    and "routine_ok e" "\<forall>n. malloc_ok w n" "length ps \<le> max_plugins e"
  shows "load_sections e ps cs w = None \<longleftrightarrow> max_plugins e < length ps + length cs"
  using assms
proof (induction cs arbitrary: ps w)
  case (Cons c cs)
  from Cons.prems(1) obtain ld where ld: "find_loader e (cs_type c) = Some ld" "cs_on c"
    "\<forall>p as w. \<exists>r q. ld p as w = Some (r, q, w) \<and> 0 \<le> r"
    by auto
  let ?w = "w\<lparr>readings := Suc (readings w)\<rparr>"
  from ld(3) obtain r q where "ld (snd (plugin_init True (blank e))) (cs_args c) ?w = Some (r, q, ?w)" "0 \<le> r"
    by blast
  with ld Cons.prems have "load_sections e ps (c # cs) w =
      (if length ps < max_plugins e then load_sections e (ps @ [q]) cs ?w else None)"
    by (simp add: malloc_def)
  with Cons.IH[of ?w "ps @ [q]"] Cons.prems show ?case
    by auto
qed simp

text \<open>
  C39: the array of plugins is not protected. When every section loads, parsing is undefined,
  because it writes past the end of the caller's array, exactly when there are more sections
  than the array has places.
\<close>

theorem sparse_array_bound:
  assumes "\<forall>c \<in> set cs. section_ok c"
    and "\<forall>c \<in> set cs. cs_on c \<and> (\<exists>ld. find_loader e (cs_type c) = Some ld \<and>
      (\<forall>p as w. \<exists>r q. ld p as w = Some (r, q, w) \<and> 0 \<le> r))"
    and "routine_ok e" "\<forall>n. malloc_ok w n"
  shows "sparse e (Some \<lparr>stream_lines = fgets_lines (concat (concat (map write_section cs))), broken = False\<rparr>) w
      = None \<longleftrightarrow> max_plugins e < length cs"
proof -
  have short: "\<forall>l \<in> set (concat (map write_section cs)). short_line l"
    using write_section_short assms(1) by auto
  then show ?thesis
    using sparse_sections[OF assms(1), of "\<lparr>status = NONE, args = [], loader = None, loaded = []\<rparr>" e False w]
      load_sections_all[OF assms(2-4), of "[]"] fgets_lines_concat[OF short]
    by (simp add: sparse_def)
qed

theorem sparse_array_bound_witness:
  "sparse sample_surroundings
     (Some \<lparr>stream_lines = fgets_lines (concat (concat (map write_section
        (replicate 6 \<lparr>cs_type = ''os'', cs_on = True, cs_args = []\<rparr>)))), broken = False\<rparr>) sample_machine = None"
proof -
  let ?c = "\<lparr>cs_type = ''os'', cs_on = True, cs_args = []\<rparr>"
  have "find_loader sample_surroundings ''os'' = Some sample_loader"
    by (simp add: find_loader_def sample_surroundings_def)
  then have all: "\<forall>c \<in> set (replicate 6 ?c). cs_on c \<and>
      (\<exists>ld. find_loader sample_surroundings (cs_type c) = Some ld \<and>
        (\<forall>p as w. \<exists>r q. ld p as w = Some (r, q, w) \<and> 0 \<le> r))"
    by (simp add: sample_loader_def)
  have ok: "\<forall>c \<in> set (replicate 6 ?c). section_ok c"
    by (simp add: section_ok_def plain_word_def isspace_def BFSZ_def)
  from sparse_array_bound[OF ok all, of sample_machine] show ?thesis
    by (simp add: sample_surroundings_def)
qed

end
