(* ===== verification/Scheduler.thy ===== *)
theory Scheduler
  imports Routine Plugin
begin

text \<open>
  The scheduler (src/scheduler.c): a routine whose task looks at the table of plugins and
  pings those that are due; a plugin that gathers and does not take the ping is restarted.
\<close>

definition SCHEDULER_TICK :: f32 where
  "SCHEDULER_TICK = (2222981, 22)"

definition scheduler_init :: "bool \<Rightarrow> routine \<Rightarrow> int \<times> routine" where
  "scheduler_init ok r =
     (let (a, r1) = routine_init ok r
      in if a < 0 then (-1, r1) else (0, r1\<lparr>rtick := SCHEDULER_TICK\<rparr>))"

text \<open>\<open>scheduler_fini\<close> only finalises the routine; its result is dropped.\<close>

definition scheduler_fini :: "fini_calls \<Rightarrow> unit option" where
  "scheduler_fini fc = do { _ \<leftarrow> routine_fini fc; Some () }"

text \<open>An entry of the table, and what the scheduler does to it.\<close>

type_synonym 'm entry = "(routine \<times> 'm plugin) option"

datatype action = Ping nat | Restart nat

text \<open>
  How the routines answer in one round: whether the ping of plugin \<open>i\<close> succeeds, and whether
  a restarted thread signals in time. The rounds modelled are those whose restarts return; a restart
  can also block the scheduler (theory \<open>Restart\<close>).
\<close>

record answers =
  ping_ok :: "nat \<Rightarrow> bool"
  sync_ok :: "nat \<Rightarrow> bool"

fun scheduler_loop ::
  "answers \<Rightarrow> nat \<Rightarrow> 'm entry list \<Rightarrow> machine \<Rightarrow> action list \<times> 'm entry list \<times> machine" where
  "scheduler_loop an i [] w = ([], [], w)"
| "scheduler_loop an i (None # es) w = ([], None # es, w)"
| "scheduler_loop an i (Some (r, p) # es) w =
     (let (over, w1) = (if routine_alive r then routine_overdue r w else (False, w));
          stuck = over \<and> \<not> ping_ok an i \<and> plugin_gather_phase p;
          r1 = (if stuck then snd (routine_restart (sync_ok an i) r) else r);
          (acts, es1, w2) = scheduler_loop an (Suc i) es w1
      in ((if over then [Ping i] else []) @ (if stuck then [Restart i] else []) @ acts,
          Some (r1, p) # es1, w2))"

text \<open>
  The task: the first \<open>pluginc\<close> entries, as far as there are plugins. The count may be
  negative, then the loop does not run.
\<close>

definition scheduler_main ::
  "answers \<Rightarrow> int \<Rightarrow> 'm entry list \<Rightarrow> machine \<Rightarrow> action list \<times> 'm entry list \<times> machine" where
  "scheduler_main an pluginc table w =
     (let (acts, es, w1) = scheduler_loop an 0 (take (nat pluginc) table) w
      in (acts, es @ drop (nat pluginc) table, w1))"

section \<open>What a round does\<close>

definition is_alive :: "'m entry \<Rightarrow> bool" where
  "is_alive e = (case e of None \<Rightarrow> False | Some (r, p) \<Rightarrow> alive r)"

text \<open>The clock is read once for every plugin that is alive, in order.\<close>

definition due_now :: "'m entry list \<Rightarrow> machine \<Rightarrow> nat \<Rightarrow> bool" where
  "due_now es w i =
     (case es ! i of
        None \<Rightarrow> False
      | Some (r, p) \<Rightarrow> alive r \<and>
          due r \<le> epoch_of (clock w (readings w + length (filter is_alive (take i es)))))"

definition reached :: "'m entry list \<Rightarrow> nat \<Rightarrow> bool" where
  "reached es i \<longleftrightarrow> i < length es \<and> (\<forall>j \<le> i. es ! j \<noteq> None)"

definition stuck_now :: "answers \<Rightarrow> 'm entry list \<Rightarrow> machine \<Rightarrow> nat \<Rightarrow> nat \<Rightarrow> bool" where
  "stuck_now an es w k i \<longleftrightarrow> due_now es w i \<and> \<not> ping_ok an (k + i) \<and>
     (\<exists>r p. es ! i = Some (r, p) \<and> task p = Gather)"

lemma reached_Cons:
  "reached (e # es) i \<longleftrightarrow> e \<noteq> None \<and> (case i of 0 \<Rightarrow> True | Suc j \<Rightarrow> reached es j)"
proof (cases i)
  case (Suc j)
  have "(\<forall>k \<le> Suc j. (e # es) ! k \<noteq> None) \<longleftrightarrow> e \<noteq> None \<and> (\<forall>k \<le> j. es ! k \<noteq> None)"
    by (metis Suc_le_mono le0 nth_Cons_0 nth_Cons_Suc not0_implies_Suc)
  with Suc show ?thesis by (auto simp: reached_def)
qed (simp add: reached_def)

lemma due_now_Cons:
  "due_now (Some (r, p) # es) w 0 \<longleftrightarrow> alive r \<and> due r \<le> epoch_of (clock w (readings w))"
  "due_now (Some (r, p) # es) w (Suc i) \<longleftrightarrow>
     due_now es (if alive r then w\<lparr>readings := Suc (readings w)\<rparr> else w) i"
  by (auto simp: due_now_def is_alive_def split: option.split)

lemma stuck_now_Cons:
  "stuck_now an (Some (r, p) # es) w k 0 \<longleftrightarrow>
     alive r \<and> due r \<le> epoch_of (clock w (readings w)) \<and> \<not> ping_ok an k \<and> task p = Gather"
  "stuck_now an (Some (r, p) # es) w k (Suc i) \<longleftrightarrow>
     stuck_now an es (if alive r then w\<lparr>readings := Suc (readings w)\<rparr> else w) (Suc k) i"
  by (auto simp: stuck_now_def due_now_Cons)

lemma restart_entry: "snd (routine_restart b r) = r\<lparr>alive := True, due := 0\<rparr>"
  by (simp add: routine_restart_def routine_stop_def routine_start_def)

lemma scheduler_loop_acts:
  assumes "scheduler_loop an k es w = (acts, es', w')"
  shows "length es' = length es \<and>
    (\<forall>i. Ping i \<in> set acts \<longleftrightarrow> k \<le> i \<and> reached es (i - k) \<and> due_now es w (i - k)) \<and>
    (\<forall>i. Restart i \<in> set acts \<longleftrightarrow> k \<le> i \<and> reached es (i - k) \<and> stuck_now an es w k (i - k)) \<and>
    (\<forall>i < length es. es' ! i =
       (if reached es i \<and> stuck_now an es w k i
        then map_option (\<lambda>(r, p). (r\<lparr>alive := True, due := 0\<rparr>, p)) (es ! i) else es ! i))"
  using assms
proof (induction an k es w arbitrary: acts es' w' rule: scheduler_loop.induct)
  case (3 an k r p es w)
  define w1 where "w1 = (if alive r then w\<lparr>readings := Suc (readings w)\<rparr> else w)"
  define over where "over = (alive r \<and> due r \<le> epoch_of (clock w (readings w)))"
  obtain acts1 es1 w2 where rest: "scheduler_loop an (Suc k) es w1 = (acts1, es1, w2)"
    by (rule prod_cases3)
  have step: "(if routine_alive r then routine_overdue r w else (False, w)) = (over, w1)"
    by (simp add: routine_alive_def routine_overdue_def epoch_time_def over_def w1_def)
  note IH = "3.IH"[OF step[symmetric] refl refl refl, of acts1 es1 w2, OF rest]
  have run: "acts = (if over then [Ping k] else []) @
      (if over \<and> \<not> ping_ok an k \<and> task p = Gather then [Restart k] else []) @ acts1"
    "es' = Some (if over \<and> \<not> ping_ok an k \<and> task p = Gather then r\<lparr>alive := True, due := 0\<rparr> else r, p) # es1"
    using "3.prems" step rest
    by (auto simp: Let_def plugin_gather_phase_def restart_entry)
  have idx: "k \<le> i \<and> Q (i - k) \<longleftrightarrow> (i = k \<and> Q 0) \<or> (Suc k \<le> i \<and> Q (Suc (i - Suc k)))" for i Q
    by (cases "i = k") (auto simp: Suc_diff_Suc Suc_le_eq)
  have zero: "due_now (Some (r, p) # es) w 0 = over"
    "stuck_now an (Some (r, p) # es) w k 0 = (over \<and> \<not> ping_ok an k \<and> task p = Gather)"
    by (auto simp: due_now_Cons stuck_now_Cons over_def)
  have suc: "due_now (Some (r, p) # es) w (Suc i) = due_now es w1 i"
    "stuck_now an (Some (r, p) # es) w k (Suc i) = stuck_now an es w1 (Suc k) i" for i
    by (simp_all add: due_now_Cons stuck_now_Cons w1_def)
  have "Ping i \<in> set acts \<longleftrightarrow> k \<le> i \<and> reached (Some (r, p) # es) (i - k) \<and> due_now (Some (r, p) # es) w (i - k)" for i
    unfolding idx[where Q = "\<lambda>j. reached (Some (r, p) # es) j \<and> due_now (Some (r, p) # es) w j"]
    using IH by (auto simp: run(1) reached_Cons zero suc)
  moreover have "Restart i \<in> set acts \<longleftrightarrow>
      k \<le> i \<and> reached (Some (r, p) # es) (i - k) \<and> stuck_now an (Some (r, p) # es) w k (i - k)" for i
    unfolding idx[where Q = "\<lambda>j. reached (Some (r, p) # es) j \<and> stuck_now an (Some (r, p) # es) w k j"]
    using IH by (auto simp: run(1) reached_Cons zero suc)
  moreover have "es' ! i =
       (if reached (Some (r, p) # es) i \<and> stuck_now an (Some (r, p) # es) w k i
        then map_option (\<lambda>(r, p). (r\<lparr>alive := True, due := 0\<rparr>, p)) ((Some (r, p) # es) ! i)
        else (Some (r, p) # es) ! i)" if "i < length (Some (r, p) # es)" for i
    using IH that by (cases i) (simp_all add: run(2) reached_Cons zero suc)
  ultimately show ?case
    using IH by (simp add: run(2))
qed (auto simp: reached_def)

section \<open>Properties\<close>

text \<open>
  C25: a round pings exactly the plugins in front of the first free entry that are alive and
  due, restarts exactly those of them that gather and did not take the ping, and changes no
  other entry. A restarted plugin is alive and due at once; a plugin that still prepares or
  registers is never restarted.
\<close>

theorem scheduler_main_result:
  assumes "scheduler_main an (int n) table w = (acts, table', w')" and "n \<le> length table"
  shows "length table' = length table \<and>
    (\<forall>i. Ping i \<in> set acts \<longleftrightarrow> i < n \<and> reached table i \<and> due_now table w i) \<and>
    (\<forall>i. Restart i \<in> set acts \<longleftrightarrow> i < n \<and> reached table i \<and> stuck_now an table w 0 i) \<and>
    (\<forall>i < length table. table' ! i =
       (if Restart i \<in> set acts
        then map_option (\<lambda>(r, p). (r\<lparr>alive := True, due := 0\<rparr>, p)) (table ! i) else table ! i))"
proof -
  let ?es = "take n table"
  obtain es' where run: "scheduler_loop an 0 ?es w = (acts, es', w')" "table' = es' @ drop n table"
    using assms(1) by (auto simp: scheduler_main_def split: prod.splits)
  note res = scheduler_loop_acts[OF run(1)]
  have reach: "reached ?es i \<longleftrightarrow> i < n \<and> reached table i" for i
    using assms(2) by (auto simp: reached_def)
  have now: "due_now ?es w i = due_now table w i" "stuck_now an ?es w 0 i = stuck_now an table w 0 i"
    if "i < n" for i
  proof -
    have "take i ?es = take i table" "?es ! i = table ! i"
      using that by (simp_all add: min_absorb1)
    then show "due_now ?es w i = due_now table w i" "stuck_now an ?es w 0 i = stuck_now an table w 0 i"
      unfolding due_now_def stuck_now_def by (simp_all only:)
  qed
  have len: "length es' = n"
    using res assms(2) by simp
  have "table' ! i = (if Restart i \<in> set acts
        then map_option (\<lambda>(r, p). (r\<lparr>alive := True, due := 0\<rparr>, p)) (table ! i) else table ! i)"
    if "i < length table" for i
    using that res assms(2) now
    by (cases "i < n") (auto simp: run(2) nth_append len reach)
  with res reach now assms(2) len show ?thesis
    by (auto simp: run(2))
qed

definition sample_table :: "nat entry list" where
  "sample_table =
     [Some (\<lparr>alive = True, rtick = (3600, 0), due = 0\<rparr>, sample_plugin),
      Some (\<lparr>alive = True, rtick = (3600, 0), due = 2000000\<rparr>, sample_plugin), None, None, None]"

theorem scheduler_main_result_witness:
  "\<exists>acts table' w'. scheduler_main \<lparr>ping_ok = (\<lambda>_. False), sync_ok = (\<lambda>_. True)\<rparr> (int 2) sample_table sample_machine =
      (acts, table', w') \<and> Ping 0 \<in> set acts \<and> Restart 0 \<in> set acts \<and> Ping 1 \<notin> set acts"
proof -
  let ?an = "\<lparr>ping_ok = (\<lambda>_ :: nat. False), sync_ok = (\<lambda>_. True)\<rparr>"
  obtain acts table' w' where run: "scheduler_main ?an (int 2) sample_table sample_machine = (acts, table', w')"
    by (rule prod_cases3)
  have "2 \<le> length sample_table" by (simp add: sample_table_def)
  note res = scheduler_main_result[OF run this]
  have "reached sample_table 0" "due_now sample_table sample_machine 0" "stuck_now ?an sample_table sample_machine 0 0"
    "\<not> due_now sample_table sample_machine 1"
    by (simp_all add: reached_def sample_table_def due_now_def stuck_now_def is_alive_def epoch_of_def
        MSPS_def NSPMS_def)
  with res run show ?thesis by auto
qed

end
