(* ===== verification/Metadata.thy ===== *)
theory Metadata
  imports Plugin Scan
begin

text \<open>
  What the agent finds out about itself when it starts (src/metadata.c): the system's name,
  the host's name and address, its number, which it keeps in a file, and the licence key. What the
  system answers is an observation; the files are those of the machine.
\<close>

record meta_obs =
  mo_os :: "string option"
  mo_hostname :: "string option"
  mo_address :: "string \<Rightarrow> string option"
  mo_pid :: nat

text \<open>
  \<open>fscanf(os_pipe, "%50[^\n]\n", os)\<close> stores up to 50 characters and a terminator in a buffer of
  50; storing the full width is undefined.
\<close>

definition get_os :: "meta_obs \<Rightarrow> metadata \<Rightarrow> (int \<times> metadata) option" where
  "get_os ob md =
     (case mo_os ob of
        None \<Rightarrow> Some (-1, md)
      | Some out \<Rightarrow>
          (case scan_until 50 newline out of
             None \<Rightarrow> Some (-1, md)
           | Some (t, _) \<Rightarrow>
               if length t < 50 then Some (0, md\<lparr>os := takeWhile (\<lambda>c. c \<noteq> NUL) t\<rparr>) else None))"

definition get_host :: "meta_obs \<Rightarrow> metadata \<Rightarrow> int \<times> metadata" where
  "get_host ob md =
     (case mo_hostname ob of None \<Rightarrow> (-1, md) | Some h \<Rightarrow> (0, md\<lparr>host := h\<rparr>))"

definition get_ip :: "meta_obs \<Rightarrow> metadata \<Rightarrow> int \<times> metadata" where
  "get_ip ob md =
     (case mo_address ob (host md) of None \<Rightarrow> (-1, md) | Some a \<Rightarrow> (0, md\<lparr>aip := take 16 a\<rparr>))"

definition get_type :: "metadata \<Rightarrow> int \<times> metadata" where
  "get_type md = (0, md\<lparr>agent_type := take 19 ''ubuntu_1.0''\<rparr>)"

definition aid_path :: string where
  "aid_path = ''/etc/maxgaugeair/etc/.aid''"

definition license_path :: string where
  "license_path = ''/etc/maxgaugeair/config/license''"

definition pid_path :: string where
  "pid_path = ''/etc/maxgaugeair/etc/.pid''"

definition get_aid :: "metadata \<Rightarrow> machine \<Rightarrow> int \<times> metadata \<times> machine" where
  "get_aid md w =
     (case (do { f \<leftarrow> files w aid_path; scan_ull f }) of
        Some (v, _) \<Rightarrow> (0, md\<lparr>aid := v\<rparr>, w)
      | None \<Rightarrow>
          let (v, w1) = fresh_id w in
          if \<not> creatable w1 aid_path then (-1, md\<lparr>aid := v\<rparr>, w1)
          else (0, md\<lparr>aid := v\<rparr>, w1\<lparr>files := (files w1)(aid_path \<mapsto> show_ull v @ [newline])\<rparr>))"

text \<open>
  \<open>fscanf(license_fd, "%[^:]:%*[:^\t^ ]%s", tmp, license)\<close>: a name, a colon, at least one
  separator, and the key. The set after the star is a positive one; neither string has a width,
  so a long one is written past the end of its buffer.
\<close>

definition separator :: "char \<Rightarrow> bool" where
  "separator c \<longleftrightarrow> c \<in> {CHR '':'', CHR ''^'', CHR 0x09, CHR '' ''}"

definition scan_license :: "string \<Rightarrow> string option option" where
  "scan_license f =
     (let tmp = takeWhile (\<lambda>c. c \<noteq> CHR '':'') f; r = drop (length tmp) f
      in if tmp = [] then Some None
         else if 1000 \<le> length tmp then None
         else case r of
           [] \<Rightarrow> Some None
         | c # s \<Rightarrow>
             if takeWhile separator s = [] then Some None
             else case scan_s (dropWhile separator s) of
               None \<Rightarrow> Some None
             | Some (key, _) \<Rightarrow> if length key < 99 then Some (Some key) else None)"

definition get_license :: "metadata \<Rightarrow> machine \<Rightarrow> (int \<times> metadata) option" where
  "get_license md w =
     (case files w license_path of
        None \<Rightarrow> Some (-1, md)
      | Some f \<Rightarrow> do {
          k \<leftarrow> scan_license f;
          Some (case k of None \<Rightarrow> (-1, md) | Some key \<Rightarrow> (0, md\<lparr>license := takeWhile (\<lambda>c. c \<noteq> NUL) key\<rparr>))
        })"

definition get_pid :: "meta_obs \<Rightarrow> machine \<Rightarrow> int \<times> machine" where
  "get_pid ob w =
     (if \<not> creatable w pid_path then (-1, w)
      else (0, w\<lparr>files := (files w)(pid_path \<mapsto> show_nat (mo_pid ob))\<rparr>))"

text \<open>The calls in order; the first failure ends the initialisation.\<close>

definition meta_init :: "meta_obs \<Rightarrow> metadata \<Rightarrow> machine \<Rightarrow> (int \<times> metadata \<times> machine) option" where
  "meta_init ob md w = do {
     (a, md1) \<leftarrow> get_os ob md;
     if a < 0 then Some (-1, md1, w) else
     let (b, md2) = get_host ob md1 in
     if b < 0 then Some (-1, md2, w) else
     let (c, md3) = get_ip ob md2 in
     if c < 0 then Some (-1, md3, w) else
     let (d, md4) = get_type md3 in
     if d < 0 then Some (-1, md4, w) else
     let (e, md5, w1) = get_aid md4 w in
     if e < 0 then Some (-1, md5, w1) else do {
       (f, md6) \<leftarrow> get_license md5 w1;
       if f < 0 then Some (-1, md6, w1) else
       let (g, w2) = get_pid ob w1 in
       Some (if g < 0 then -1 else 0, md6, w2)
     }
   }"

section \<open>Properties\<close>

lemma get_aid_cases:
  assumes "get_aid md w = (0, md1, w1)"
  shows "\<exists>f r. files w1 aid_path = Some f \<and> scan_ull f = Some (aid md1, r)"
proof (cases "do { f \<leftarrow> files w aid_path; scan_ull f }")
  case None
  obtain v w0 where fresh: "fresh_id w = (v, w0)" by (rule prod.exhaust)
  with assms None have "files w1 aid_path = Some (show_ull v @ [newline])" "aid md1 = v"
    by (auto simp: get_aid_def split: if_splits)
  moreover have "scan_ull (show_nat (unat v) @ [newline]) = Some (of_nat (unat v), [newline])"
    using unsigned_less[of v, where 'a = nat]
    by (intro scan_ull_show) (simp_all add: is_digit_def newline_def)
  ultimately show ?thesis
    by (simp add: show_ull_def del: show_nat.simps)
next
  case (Some x)
  then obtain f where "files w aid_path = Some f" "scan_ull f = Some x"
    by (auto simp: bind_eq_Some_conv)
  with assms Some show ?thesis by (cases x) (auto simp: get_aid_def)
qed

text \<open>
  The agent keeps its number. Once \<open>get_aid\<close> has succeeded, every later start that finds
  the file it left, with any clock, gets the same number and leaves the file alone.
\<close>

theorem get_aid_persists:
  assumes "get_aid md w = (0, md1, w1)" "files v aid_path = files w1 aid_path"
  shows "\<exists>md2. get_aid md' v = (0, md2, v) \<and> aid md2 = aid md1"
  using get_aid_cases[OF assms(1)] assms(2) by (auto simp: get_aid_def)

theorem get_aid_persists_witness:
  "\<exists>md1 w1 md2. get_aid sample_metadata sample_machine = (0, md1, w1) \<and>
    get_aid sample_metadata (late_machine\<lparr>files := files w1\<rparr>) = (0, md2, late_machine\<lparr>files := files w1\<rparr>) \<and>
    aid md2 = aid md1"
proof -
  obtain a md1 w1 where run: "get_aid sample_metadata sample_machine = (a, md1, w1)"
    by (rule prod_cases3)
  then have first: "get_aid sample_metadata sample_machine = (0, md1, w1)"
    by (auto simp: get_aid_def fresh_id_machine)
  from get_aid_persists[OF first, of "late_machine\<lparr>files := files w1\<rparr>" sample_metadata] first
  show ?thesis by auto
qed

text \<open>
  A system whose name has fifty characters or more overflows the buffer: the width of the
  scan leaves no room for the terminator.
\<close>

theorem get_os_overflow:
  assumes "mo_os ob = Some out" "newline \<notin> set (take 50 out)" "50 \<le> length out"
  shows "get_os ob md = None"
proof -
  have "\<forall>c \<in> set (take 50 out). c \<noteq> newline" using assms(2) by blast
  then have "takeWhile (\<lambda>c. c \<noteq> newline) out = take 50 out @ takeWhile (\<lambda>c. c \<noteq> newline) (drop 50 out)"
    using takeWhile_append2[of "take 50 out" "\<lambda>c. c \<noteq> newline" "drop 50 out"] by auto
  then have "take 50 (takeWhile (\<lambda>c. c \<noteq> newline) out) = take 50 out"
    using assms(3) by simp
  moreover have "out \<noteq> []" using assms(3) by auto
  ultimately show ?thesis
    using assms by (simp add: get_os_def scan_until_def Let_def)
qed

theorem get_os_overflow_witness:
  "get_os \<lparr>mo_os = Some (replicate 50 CHR ''x''), mo_hostname = None, mo_address = (\<lambda>_. None), mo_pid = 1\<rparr>
     sample_metadata = None"
  by (rule get_os_overflow[where out = "replicate 50 CHR ''x''"]) (simp_all add: newline_def)

end
