(* ===== verification/Daemon.thy ===== *)
theory Daemon
  imports Prelude
begin

text \<open>
  Making the process a daemon (src/daemon.c). The two forks split the process: in each case the
  model follows the process in which \<open>fork\<close> returned the given number. A process ends or
  returns from \<open>daemonize\<close> with a code, in a new condition.
\<close>

record process =
  leader :: bool
  cwd :: string
  hup_ignored :: bool
  std_null :: bool

datatype outcome = Exits | Returns int process

record daemon_obs =
  fork1 :: int
  setsid_ok :: bool
  fork2 :: int
  chdir_ok :: bool

definition daemonize :: "daemon_obs \<Rightarrow> process \<Rightarrow> outcome" where
  "daemonize ob p =
     (if fork1 ob > 0 then Exits
      else if fork1 ob < 0 then Returns (-1) p
      else if \<not> setsid_ok ob then Returns (-2) p
      else
        let p1 = p\<lparr>leader := True\<rparr> in
        if fork2 ob > 0 then Exits
        else if fork2 ob < 0 then Returns (-3) p1
        else
          let p2 = p1\<lparr>leader := False\<rparr> in
          if \<not> chdir_ok ob then Returns (-4) p2
          else Returns 0 (p2\<lparr>cwd := ''/'', hup_ignored := True, std_null := True\<rparr>))"

section \<open>Properties\<close>

text \<open>
  \<open>daemonize\<close> returns success only in the grandchild. The process that goes on is not a session
  leader, so it cannot acquire a terminal, works in the root directory and has no standard
  streams; the process that called it and the first child never go on successfully.
\<close>

theorem daemonize_success:
  "daemonize ob p = Returns 0 q \<longleftrightarrow>
     fork1 ob = 0 \<and> setsid_ok ob \<and> fork2 ob = 0 \<and> chdir_ok ob \<and>
     q = p\<lparr>leader := False, cwd := ''/'', hup_ignored := True, std_null := True\<rparr>"
  by (cases p) (auto simp: daemonize_def Let_def)

end
