(* ===== verification/Sleep.thy ===== *)
theory Sleep
  imports Util Cfloat
begin

text \<open>
  Sleeping (src/util.c, \<open>snyo_sleep\<close>): the seconds, any single-precision value, are split into
  whole seconds and nanoseconds, cut towards zero. The difference to the whole seconds is exact; the two
  products are rounded to single precision and the last one is cut.
\<close>

section \<open>Rounding\<close>

lemma round_quot_mono:
  assumes "0 < b" "x \<le> y"
  shows "round_quot x b \<le> round_quot y b"
proof (cases "x div b = y div b")
  case True
  then have "x mod b \<le> y mod b"
    using assms(2) by (metis add_le_cancel_left div_mult_mod_eq)
  with True show ?thesis by (auto simp: round_quot_def Let_def)
next
  case False
  then have "x div b < y div b"
    using div_le_mono[OF assms(2), of b] by simp
  then show ?thesis by (simp add: round_quot_def Let_def)
qed

lemma round_quot_scale: "0 < c \<Longrightarrow> round_quot (x * c) (b * c) = round_quot x b"
  by (simp add: round_quot_def Let_def div_mult_mult2 mod_mult_mult2 mult.assoc[symmetric])

lemma excess_bound: "x < 2 ^ (n + excess n x)"
proof (induction n x rule: excess.induct)
  case (1 n x)
  show ?case
  proof (cases "x < 2 ^ n")
    case False
    with 1 have "x div 2 < 2 ^ (n + excess n (x div 2))" by blast
    then show ?thesis using False by (simp add: excess_Suc)
  qed (simp add: excess_0)
qed

lemma excess_least: "0 < excess n x \<Longrightarrow> 2 ^ (n + excess n x - 1) \<le> x"
proof (induction n x rule: excess.induct)
  case (1 n x)
  show ?case
  proof (cases "x < 2 ^ n")
    case True
    with 1 show ?thesis by (simp add: excess_0)
  next
    case False
    show ?thesis
    proof (cases "excess n (x div 2) = 0")
      case True
      with False show ?thesis by (simp add: excess_Suc)
    next
      case pos: False
      with 1 False have "2 ^ (n + excess n (x div 2) - 1) \<le> x div 2" by blast
      then have "2 * 2 ^ (n + excess n (x div 2) - 1) \<le> x" by linarith
      moreover obtain j where "excess n (x div 2) = Suc j" using pos not0_implies_Suc by blast
      ultimately show ?thesis using False by (simp add: excess_Suc)
    qed
  qed
qed

lemma excess_mono: "x \<le> y \<Longrightarrow> excess n x \<le> excess n y"
proof (rule ccontr)
  assume le: "x \<le> y" and "\<not> excess n x \<le> excess n y"
  then have less: "excess n y \<le> excess n x - 1" "0 < excess n x" by auto
  then have "2 ^ (n + excess n y) \<le> (2::nat) ^ (n + excess n x - 1)"
    by (intro power_increasing) auto
  with excess_least[OF less(2)] excess_bound[of y n] le show False by linarith
qed

lemma round_bits_mono:
  assumes "0 < n" "x \<le> y"
  shows "round_bits n x \<le> round_bits n y"
proof (cases "excess n x = excess n y")
  case True
  then show ?thesis
    using round_quot_mono[of "2 ^ excess n y" x y] assms(2) by (simp add: round_bits_def Let_def)
next
  case False
  let ?k = "excess n x" and ?l = "excess n y"
  have less: "?k < ?l" using False excess_mono[OF assms(2), of n] by simp
  have "round_quot x (2 ^ ?k) \<le> round_quot (2 ^ n * 2 ^ ?k) (2 ^ ?k)"
    using excess_bound[of x n] by (intro round_quot_mono) (simp_all add: power_add)
  then have "round_bits n x \<le> 2 ^ n * 2 ^ ?k"
    by (simp add: round_bits_def Let_def round_quot_exact)
  also have "\<dots> \<le> 2 ^ (n - 1) * 2 ^ ?l"
    unfolding power_add[symmetric] using less assms(1) by (intro power_increasing) auto
  also have "\<dots> = round_quot (2 ^ (n - 1) * 2 ^ ?l) (2 ^ ?l) * 2 ^ ?l"
    by (simp add: round_quot_exact)
  also have "\<dots> \<le> round_quot y (2 ^ ?l) * 2 ^ ?l"
  proof -
    have "2 ^ (n - 1) * 2 ^ ?l \<le> y"
      using excess_least[of n y] less assms(1) by (simp add: power_add[symmetric])
    then show ?thesis by (simp add: round_quot_mono)
  qed
  finally show ?thesis by (simp add: round_bits_def Let_def)
qed

lemma round_bits_double: "round_bits n (2 * x) = 2 * round_bits n x"
proof (cases "2 * x < 2 ^ n")
  case True
  then show ?thesis by (simp add: round_bits_def excess_0 round_quot_def)
next
  case False
  then have "excess n (2 * x) = Suc (excess n x)" by (simp add: excess_Suc)
  with round_quot_scale[of 2 x "2 ^ excess n x"] show ?thesis
    by (simp add: round_bits_def Let_def mult.commute)
qed

lemma round_bits_scale: "round_bits n (x * 2 ^ k) = round_bits n x * 2 ^ k"
proof (induction k)
  case (Suc k)
  have "round_bits n (x * 2 ^ Suc k) = round_bits n (2 * (x * 2 ^ k))" by (simp add: ac_simps)
  with Suc show ?case by (simp add: round_bits_double)
qed simp

section \<open>The pause\<close>

text \<open>The nanoseconds of a fraction \<open>m / 2 ^ e\<close> of a second, as a numerator over \<open>2 ^ e\<close>.\<close>

definition nanos :: "nat \<Rightarrow> nat" where
  "nanos m = round_bits 24 (round_bits 24 (m * 1000000) * 1000)"

text \<open>
  The single-precision values: at most 24 significant bits, a unit of at least \<open>2 ^ -149\<close>, less than
  \<open>2 ^ 128\<close>; and the infinities and what is not a number.
\<close>

definition single :: "cfloat \<Rightarrow> bool" where
  "single x = (case x of Fin neg m e \<Rightarrow> round_bits 24 m = m \<and> e \<le> 149 \<and> m < 2 ^ (e + 128) | _ \<Rightarrow> True)"

text \<open>
  What \<open>nanosleep\<close> is asked for; its answer is not used. Cutting a value that \<open>time_t\<close>, a signed integer
  of 64 bits, cannot hold is undefined.
\<close>

definition snyo_sleep :: "cfloat \<Rightarrow> timespec option" where
  "snyo_sleep sec =
     (case sec of
        Fin neg m e \<Rightarrow>
          let n = m div 2 ^ e; f = nanos (m mod 2 ^ e) div 2 ^ e in
          if (if neg then 2 ^ 63 < n else 2 ^ 63 \<le> n) then None
          else Some (if neg then \<lparr>tv_sec = - of_nat n, tv_nsec = - of_nat f\<rparr>
                     else \<lparr>tv_sec = of_nat n, tv_nsec = of_nat f\<rparr>)
      | _ \<Rightarrow> None)"

lemma nanos_mono: "x \<le> y \<Longrightarrow> nanos x \<le> nanos y"
  unfolding nanos_def by (intro round_bits_mono mult_right_mono) simp_all

lemma nanos_scale: "nanos (m * 2 ^ k) = nanos m * 2 ^ k"
proof -
  have "round_bits 24 (m * 2 ^ k * 1000000) * 1000 = round_bits 24 (m * 1000000) * 1000 * 2 ^ k"
    using round_bits_scale[of 24 "m * 1000000" k] by (simp add: ac_simps)
  from arg_cong[OF this, of "round_bits 24"] show ?thesis
    unfolding round_bits_scale nanos_def .
qed

text \<open>The largest fraction below one second has 24 bits.\<close>

lemma nanos_top: "nanos (2 ^ 24 - 1) = 999999936 * 2 ^ 24"
proof -
  have "excess 24 ((2 ^ 24 - 1) * 1000000) = 20"
    by (simp add: excess_Suc excess_0)
  then have "round_bits 24 ((2 ^ 24 - 1) * 1000000) = 15999999 * 2 ^ 20"
    by (simp add: round_bits_def round_quot_def)
  moreover have "excess 24 (15999999 * 2 ^ 20 * 1000 :: nat) = 30"
    by (simp add: excess_Suc excess_0)
  ultimately show ?thesis by (simp add: nanos_def round_bits_def round_quot_def)
qed

lemma nanos_bound:
  assumes "m < 2 ^ 24" "m < 2 ^ e"
  shows "nanos m div 2 ^ e \<le> 999999936"
proof (cases "e \<le> 24")
  case True
  have "m * 2 ^ (24 - e) \<le> 2 ^ 24 - 1"
  proof -
    have "Suc m * 2 ^ (24 - e) \<le> 2 ^ e * 2 ^ (24 - e)" using assms(2) by (intro mult_right_mono) auto
    also have "\<dots> = 2 ^ 24" using True by (simp add: power_add[symmetric])
    finally have "m * 2 ^ (24 - e) + 2 ^ (24 - e) \<le> 2 ^ 24" by simp
    moreover have "1 \<le> (2::nat) ^ (24 - e)" by simp
    ultimately show ?thesis by linarith
  qed
  from nanos_mono[OF this] have "nanos m * 2 ^ (24 - e) \<le> 999999936 * 2 ^ e * 2 ^ (24 - e)"
    using True unfolding nanos_scale nanos_top by (simp add: mult.assoc power_add[symmetric])
  then have "nanos m \<le> 999999936 * 2 ^ e" by simp
  then show ?thesis by (simp add: div_le_mono[of _ "999999936 * 2 ^ e" "2 ^ e", simplified])
next
  case False
  then have "(2::nat) ^ 24 \<le> 2 ^ e" by (intro power_increasing) auto
  moreover have "nanos m \<le> 999999936 * 2 ^ 24"
    using nanos_mono[of m "2 ^ 24 - 1"] assms(1) unfolding nanos_top by simp
  ultimately have "nanos m \<le> 999999936 * 2 ^ e"
    by (meson mult_le_mono2 order_trans)
  then show ?thesis by (simp add: div_le_mono[of _ "999999936 * 2 ^ e" "2 ^ e", simplified])
qed

text \<open>A fraction of a value of 24 significant bits keeps fewer than a thousand million nanoseconds.\<close>

lemma nanos_fraction:
  assumes "round_bits 24 m = m"
  shows "nanos (m mod 2 ^ e) div 2 ^ e \<le> 999999936"
proof -
  define k where "k = excess 24 m"
  define q where "q = round_quot m (2 ^ k)"
  have m: "m = q * 2 ^ k" using assms by (simp add: round_bits_def k_def q_def Let_def)
  have "m < 2 ^ 24 * 2 ^ k"
    using excess_bound[of m 24] by (simp only: k_def power_add)
  then have "q * 2 ^ k < 2 ^ 24 * 2 ^ k" by (simp only: m[symmetric])
  then have q: "q < 2 ^ 24" by simp
  show ?thesis
  proof (cases "e \<le> k")
    case True
    then have "m mod 2 ^ e = 0" by (auto simp: m le_imp_power_dvd intro: dvd_mult)
    then show ?thesis by (simp add: nanos_def round_bits_def excess_0 round_quot_def)
  next
    case False
    then have e: "(2::nat) ^ e = 2 ^ (e - k) * 2 ^ k" by (simp add: power_add[symmetric])
    have "q mod 2 ^ (e - k) < 2 ^ 24" using q mod_less_eq_dividend[of q "2 ^ (e - k)"] by linarith
    then have "nanos (q mod 2 ^ (e - k)) div 2 ^ (e - k) \<le> 999999936" by (rule nanos_bound) simp
    moreover have "m mod 2 ^ e = q mod 2 ^ (e - k) * 2 ^ k" unfolding m e by (simp add: mult_mod_left)
    ultimately show ?thesis by (simp add: nanos_scale e)
  qed
qed

lemma sint_of_small: "n < 2 ^ 63 \<Longrightarrow> sint (of_nat n :: 64 word) = int n"
  by (simp add: signed_of_nat signed_take_bit_int_eq_self)

lemma sint_neg_small:
  assumes "n \<le> 2 ^ 63"
  shows "sint (- of_nat n :: 64 word) = - int n"
proof -
  have "(- of_nat n :: 64 word) = word_of_int (- int n)" by simp
  moreover have "sint (word_of_int (- int n) :: 64 word) = - int n"
    using assms by (subst sint_sbintrunc') (simp add: signed_take_bit_int_eq_self)
  ultimately show ?thesis by simp
qed

section \<open>Properties\<close>

text \<open>The call is not refused for its argument.\<close>

definition accepted :: "timespec \<Rightarrow> bool" where
  "accepted ts \<longleftrightarrow> 0 \<le> sint (tv_sec ts) \<and> 0 \<le> sint (tv_nsec ts) \<and> sint (tv_nsec ts) < 10 ^ 9"

text \<open>
  C31: which pause every single-precision value gives. A number whose whole part \<open>time_t\<close> can hold gives
  this part as seconds and, whatever the rounding does, fewer than a thousand million nanoseconds, both
  with the sign of the number: so every such number from zero on is a proper pause, and a negative one
  is refused unless all of it is cut away. A larger number, an infinity or what is not a number is undefined.
\<close>

theorem snyo_sleep_proper:
  assumes "single x"
  shows "case x of
      Fin neg m e \<Rightarrow>
        (let n = m div 2 ^ e; f = nanos (m mod 2 ^ e) div 2 ^ e; signed = (\<lambda>k. if neg then - int k else int k) in
         f < 10 ^ 9 \<and>
         (case snyo_sleep x of
            None \<Rightarrow> (if neg then 2 ^ 63 < n else 2 ^ 63 \<le> n)
          | Some ts \<Rightarrow> sint (tv_sec ts) = signed n \<and> sint (tv_nsec ts) = signed f \<and>
              (accepted ts \<longleftrightarrow> \<not> neg \<or> n = 0 \<and> f = 0)))
    | _ \<Rightarrow> snyo_sleep x = None"
proof (cases x)
  case (Fin neg m e)
  define n f where "n = m div 2 ^ e" and "f = nanos (m mod 2 ^ e) div 2 ^ e"
  have "f \<le> 999999936"
    unfolding f_def using assms Fin by (intro nanos_fraction) (simp add: single_def)
  then have f: "f < 10 ^ 9" "f < 2 ^ 63" "f \<le> 2 ^ 63" by simp_all
  show ?thesis
  proof (cases neg)
    case True
    with Fin f sint_neg_small[of n] sint_neg_small[of f] show ?thesis
      by (simp add: snyo_sleep_def accepted_def n_def[symmetric] f_def[symmetric] Let_def)
  next
    case False
    with Fin f sint_of_small[of n] sint_of_small[of f] show ?thesis
      by (simp add: snyo_sleep_def accepted_def n_def[symmetric] f_def[symmetric] Let_def)
  qed
qed (simp_all add: snyo_sleep_def)

text \<open>The pause of the main loop (src/agent.c), and the time it asks for.\<close>

definition AGENT_PAUSE :: f32 where
  "AGENT_PAUSE = (9395241, 27)"

lemma agent_pause_nearest: "nearest AGENT_PAUSE 7 100"
  by (simp add: nearest_def AGENT_PAUSE_def round_quot_def)

lemma agent_pause_nanos: "nanos 9395241 div 2 ^ 27 = 70000000"
proof -
  have "excess 24 (9395241 * 1000000) = 20"
    by (simp add: excess_Suc excess_0)
  then have "round_bits 24 (9395241 * 1000000) = 8960000 * 2 ^ 20"
    by (simp add: round_bits_def round_quot_def)
  moreover have "excess 24 (8960000 * 2 ^ 20 * 1000 :: nat) = 30"
    by (simp add: excess_Suc excess_0)
  ultimately show ?thesis by (simp add: nanos_def round_bits_def round_quot_def)
qed

lemma half_second_nanos: "nanos 1 = 1000000000"
proof -
  have "round_bits 24 1000000 = 1000000" by (simp add: round_bits_def excess_0 round_quot_def)
  moreover have "excess 24 (1000000000 :: nat) = 6" by (simp add: excess_Suc excess_0)
  ultimately show ?thesis by (simp add: nanos_def round_bits_def round_quot_def)
qed

theorem snyo_sleep_proper_witness:
  "(\<exists>ts. snyo_sleep (Fin False 9395241 27) = Some ts \<and> sint (tv_nsec ts) = 70000000 \<and> accepted ts) \<and>
   (\<exists>ts. snyo_sleep (Fin True 1 1) = Some ts \<and> \<not> accepted ts)"
proof -
  have "single (Fin False 9395241 27)" "single (Fin True 1 1)"
    by (simp_all add: single_def round_bits_def excess_0 round_quot_def)
  from this[THEN snyo_sleep_proper] agent_pause_nanos half_second_nanos show ?thesis
    by (auto simp: Let_def split: option.split_asm)
qed

end
