(* ===== verification/Agent.thy ===== *)
theory Agent
  imports Sparser Scheduler Metadata Daemon Sleep
begin

text \<open>
  The main program (src/agent.c): it becomes a daemon, reads its metadata and configuration,
  gives back to every plugin the number it was registered under, starts the scheduler, the
  storage and the plugins, and then pings the scheduler and the storage for ever.
\<close>

section \<open>Restoring the numbers\<close>

text \<open>
  \<open>fread(dst, 1, size, fp)\<close> with a signed size, which is converted to an unsigned one: the
  number of bytes wanted, what is read of them, and the rest.
\<close>

definition wanted :: "32 word \<Rightarrow> nat" where
  "wanted sz = unat (scast sz :: 64 word)"

definition fread :: "nat \<Rightarrow> string \<Rightarrow> string \<times> string" where
  "fread n s = (take n s, drop n s)"

text \<open>The plugin the file belongs to: the first of its type whose module agrees.\<close>

fun match_plugin :: "string \<Rightarrow> string \<Rightarrow> nat \<Rightarrow> 64 word \<Rightarrow> 'm plugin list \<Rightarrow> 'm plugin list" where
  "match_plugin ty bytes n t [] = []"
| "match_plugin ty bytes n t (p # ps) =
     (if target_type p = ty \<and> cmp p bytes (module p) n = 0 then p\<lparr>tid := t\<rparr> # ps
      else p # match_plugin ty bytes n t ps)"

text \<open>
  One entry of the directory. A file that is cut short is left alone; a type of 128 characters
  or more is written past its buffer. The number is read off the file's name.
\<close>

definition restore_file ::
  "string \<Rightarrow> 'm plugin list \<Rightarrow> machine \<Rightarrow> ('m plugin list \<times> machine) option" where
  "restore_file d_name ps w =
     (let path = bf_cut (''res/'' @ d_name); keep = Some (ps, w)
      in case files w path of
           None \<Rightarrow> keep
         | Some f \<Rightarrow>
             let (b1, f1) = fread 4 f in
             if length b1 \<noteq> 4 then keep
             else
               let n1 = wanted (bytes_int b1); (ty, f2) = fread n1 f1 in
               if BFSZ < length ty then None
               else if length ty \<noteq> n1 then keep
               else if BFSZ \<le> n1 then None
               else
                 let (b2, f3) = fread 4 f2 in
                 if length b2 \<noteq> 4 then keep
                 else
                   let n2 = wanted (bytes_int b2); (ok, w1) = malloc w; (bytes, f4) = fread n2 f3 in
                   if \<not> ok \<and> bytes \<noteq> [] then None
                   else if length bytes \<noteq> n2 then Some (ps, w1)
                   else
                     Some (match_plugin (takeWhile (\<lambda>c. c \<noteq> NUL) ty) bytes n2 (foldl dec_step 0 d_name) ps,
                           w1\<lparr>files := (files w1)(path := None)\<rparr>))"

text \<open>The directory: an entry has an inode number and a name.\<close>

definition skipped :: "nat \<times> string \<Rightarrow> bool" where
  "skipped = (\<lambda>(ino, d_name). ino = 0 \<or> d_name = ''.'' \<or> d_name = ''..'')"

fun restore_dir ::
  "(nat \<times> string) list \<Rightarrow> 'm plugin list \<Rightarrow> machine \<Rightarrow> ('m plugin list \<times> machine) option" where
  "restore_dir [] ps w = Some (ps, w)"
| "restore_dir (d # ds) ps w =
     (if skipped d then restore_dir ds ps w
      else do { (ps1, w1) \<leftarrow> restore_file (snd d) ps w; restore_dir ds ps1 w1 })"

section \<open>Starting\<close>

record 'm agent =
  pluginc :: int
  table :: "'m entry list"
  sch :: routine
  st :: routine
  stor :: storage
  snd_all :: senders
  uns :: unsent
  md_all :: metadata

text \<open>What the outside answers while the agent starts.\<close>

record 'm boot_obs =
  b_daemon :: daemon_obs
  b_zlog :: bool
  b_meta :: meta_obs
  b_conf :: "stream option"
  b_around :: "'m surroundings"
  b_dir :: "(nat \<times> string) list option"
  b_routine :: bool
  b_curl :: curl_lib
  b_files :: file_calls
  b_sync :: "nat \<Rightarrow> bool"

datatype 'm boot = Exit int | Up "'m agent" machine

definition MAX_PLUGINS :: nat where
  "MAX_PLUGINS = 5"

text \<open>
  A plugin's routine has the tick its loading function set; starting it makes it alive and due.
\<close>

definition idle_plugin :: "'m plugin \<Rightarrow> 'm entry" where
  "idle_plugin p = Some (\<lparr>alive = False, rtick = ptick p, due = 0\<rparr>, p)"

definition start_plugin :: "bool \<Rightarrow> 'm entry \<Rightarrow> 'm entry" where
  "start_plugin sync = map_option (\<lambda>(r, p). (snd (routine_start sync r), p))"

fun start_plugins :: "(nat \<Rightarrow> bool) \<Rightarrow> nat \<Rightarrow> 'm entry list \<Rightarrow> 'm entry list" where
  "start_plugins sync i [] = []"
| "start_plugins sync i (e # es) = start_plugin (sync i) e # start_plugins sync (Suc i) es"

definition blank_routine :: routine where
  "blank_routine = \<lparr>alive = False, rtick = (0, 0), due = 0\<rparr>"

definition blank_storage :: storage where
  "blank_storage = \<lparr>heap = (\<lambda>_. None), brk = 0, packets = None, delay = 0, tick = 0\<rparr>"

text \<open>
  The plugins the parser stored; only the first \<open>pluginc\<close> are looked at. Whether the scheduler
  and the storage could be initialised or started in time is not checked.
\<close>

definition boot_routines ::
  "'m boot_obs \<Rightarrow> int \<Rightarrow> 'm plugin list \<Rightarrow> metadata \<Rightarrow> unsent \<Rightarrow> 'm agent" where
  "boot_routines ob n ps md u =
     (let (r1, sch1) = scheduler_init (b_routine ob) blank_routine;
          (r2, st1) = routine_init (b_routine ob) blank_routine;
          (r3, sn1, stor1, u1) = storage_init (b_routine ob) (b_curl ob) (b_files ob) (zero_senders, blank_storage, u);
          es = map idle_plugin ps @ replicate (MAX_PLUGINS - length ps) None
      in \<lparr>pluginc = n,
          table = start_plugins (b_sync ob) 2 (take (nat n) es) @ drop (nat n) es,
          sch = snd (routine_start (b_sync ob 0) sch1),
          st = snd (routine_start (b_sync ob 1) (if b_routine ob then st1\<lparr>rtick := (STORAGE_TICK, 0)\<rparr> else st1)),
          stor = stor1, snd_all = sn1, uns = u1, md_all = md\<rparr>)"

definition agent_boot ::
  "'m boot_obs \<Rightarrow> process \<Rightarrow> metadata \<Rightarrow> unsent \<Rightarrow> machine \<Rightarrow> 'm boot option" where
  "agent_boot ob proc md u w =
     (case daemonize (b_daemon ob) proc of
        Exits \<Rightarrow> Some (Exit 0)
      | Returns r q \<Rightarrow>
          if r < 0 then Some (Exit 1)
          else if \<not> b_zlog ob then Some (Exit 1)
          else do {
            (m, md1, w1) \<leftarrow> meta_init (b_meta ob) md w;
            if m < 0 then Some (Exit 1)
            else do {
              (n, ps, w2) \<leftarrow> sparse (b_around ob) (b_conf ob) w1;
              if n = 0 then Some (Exit 1)
              else do {
                (ps1, w3) \<leftarrow>
                  (case b_dir ob of
                     None \<Rightarrow> Some (take (nat n) ps, w2)
                   | Some ds \<Rightarrow> restore_dir ds (take (nat n) ps) w2);
                Some (Up (boot_routines ob n (ps1 @ drop (nat n) ps) md1 u) w3)
              }
            }
          })"

section \<open>The main loop\<close>

text \<open>
  What the scheduler's routine answers in a turn: whether it takes the ping, and what becomes of a restart,
  \<^const>\<open>None\<close> when it never returns (theory \<open>Restart\<close>), else whether the new thread signals in time.
\<close>

record turn_obs =
  sch_ping :: bool
  sch_restart :: "bool option"

text \<open>A turn of the loop finds the condition false, is stuck in a restart, or goes on.\<close>

datatype 'm turn = Ends | Blocks | Goes "'m agent" machine

text \<open>
  One turn of the loop. The scheduler is restarted when it does not take a ping, the storage is not. The
  pause at the end of the turn (\<open>AGENT_PAUSE\<close>) only lets time pass, and what the clock shows is up to
  the machine.
\<close>

definition agent_turn :: "turn_obs \<Rightarrow> 'm agent \<Rightarrow> machine \<Rightarrow> 'm turn" where
  "agent_turn ob a w =
     (if routine_alive (sch a) \<and> routine_alive (st a) then
        let (o1, w1) = routine_overdue (sch a) w in
        case (if o1 \<and> \<not> sch_ping ob
              then map_option (\<lambda>sync. snd (routine_restart sync (sch a))) (sch_restart ob)
              else Some (sch a)) of
          None \<Rightarrow> Blocks
        | Some sch1 \<Rightarrow> let (o2, w2) = routine_overdue (st a) w1 in Goes (a\<lparr>sch := sch1\<rparr>) w2
      else Ends)"

fun agent_turns :: "turn_obs list \<Rightarrow> 'm agent \<Rightarrow> machine \<Rightarrow> 'm turn" where
  "agent_turns [] a w = Goes a w"
| "agent_turns (ob # obs) a w =
     (case agent_turn ob a w of Goes a1 w1 \<Rightarrow> agent_turns obs a1 w1 | r \<Rightarrow> r)"

text \<open>What follows the loop, from the answers of the thread library for the two routines.\<close>

definition agent_exit :: "fini_calls \<Rightarrow> fini_calls \<Rightarrow> 'm agent \<Rightarrow> (int \<times> 'm agent) option" where
  "agent_exit for_sch for_st a = do {
     _ \<leftarrow> scheduler_fini for_sch;
     (_, sn, s) \<leftarrow> storage_fini for_st (snd_all a) (stor a);
     Some (0, a\<lparr>snd_all := sn, stor := s\<rparr>)
   }"

section \<open>Properties\<close>

lemma wanted_of_nat:
  assumes "n < 2 ^ 31"
  shows "wanted (of_nat n) = n"
proof -
  have "sint (of_nat n :: 32 word) = int n"
    using assms by (simp add: signed_of_nat signed_take_bit_int_eq_self)
  then have "(scast (of_nat n :: 32 word) :: 64 word) = of_nat n"
    by (simp only: scast_eq of_int_of_nat_eq)
  then show ?thesis
    using assms by (simp add: wanted_def unat_of_nat)
qed

lemma match_plugin_first:
  assumes "\<forall>x \<in> set xs. \<not> (target_type x = ty \<and> cmp x bytes (module x) n = 0)"
    and "target_type q = ty" "cmp q bytes (module q) n = 0"
  shows "match_plugin ty bytes n t (xs @ q # ys) = xs @ q\<lparr>tid := t\<rparr> # ys"
  using assms by (induction xs) auto

text \<open>
  The file a plugin leaves when it registers under a number gives this number back to the first plugin
  of the same type whose module agrees, changes no other plugin, and is removed.
\<close>

lemma restore_file_back:
  assumes "files w (res_name t) = Some (res_contents p)" "malloc_ok w (readings w)"
    and "length (target_type p) < BFSZ" "NUL \<notin> set (target_type p)"
    and "module_size p < 2 ^ 31" "length (module_bytes p (module p)) = module_size p"
    and "target_type q = target_type p" "cmp q (module_bytes p (module p)) (module q) (module_size p) = 0"
    and "\<forall>x \<in> set xs. \<not> (target_type x = target_type p \<and>
           cmp x (module_bytes p (module p)) (module x) (module_size p) = 0)"
  shows "\<exists>w'. restore_file (show_ull t) (xs @ q # ys) w = Some (xs @ q\<lparr>tid := t\<rparr> # ys, w') \<and>
    files w' = (files w)(res_name t := None) \<and> malloc_ok w' = malloc_ok w \<and> net w' = net w \<and>
    creatable w' = creatable w"
proof -
  let ?ty = "target_type p" and ?bytes = "module_bytes p (module p)"
  have len: "length ?ty < 2 ^ 31"
    using assms(3) by (simp add: BFSZ_def)
  have contents: "res_contents p = int_bytes (of_nat (length ?ty)) @ ?ty @ int_bytes (of_nat (module_size p)) @ ?bytes"
    using assms(6) by (simp add: res_contents_def)
  have path: "bf_cut (''res/'' @ show_ull t) = res_name t"
    by (simp add: res_name_def)
  have no_nul: "takeWhile (\<lambda>c. c \<noteq> NUL) ?ty = ?ty"
    using assms(4) by (auto simp: takeWhile_eq_all_conv)
  note match = match_plugin_first[OF assms(9,7,8), of t ys]
  show ?thesis
    unfolding restore_file_def path
    using assms(1,2,3,6) match
    by (simp add: contents fread_def wanted_of_nat[OF len] wanted_of_nat[OF assms(5)] no_nul
        dec_read_show_ull malloc_def Let_def)
qed

lemma agent_turn_alive:
  assumes "alive (sch a)" "alive (st a)"
  shows "(\<exists>a' w'. agent_turn ob a w = Goes a' w' \<and> alive (sch a') \<and> alive (st a') \<and>
      pluginc a' = pluginc a \<and> table a' = table a) \<or>
    agent_turn ob a w = Blocks \<and> sch_restart ob = None"
  using assms
  by (auto simp: agent_turn_def routine_alive_def routine_overdue_def epoch_time_def restart_entry
      split: option.split)

lemma agent_turns_alive:
  assumes "alive (sch a)" "alive (st a)"
  shows "(\<exists>a' w'. agent_turns obs a w = Goes a' w' \<and> alive (sch a') \<and> alive (st a')) \<or>
    agent_turns obs a w = Blocks \<and> (\<exists>ob \<in> set obs. sch_restart ob = None)"
  using assms
proof (induction obs arbitrary: a w)
  case (Cons ob obs)
  from agent_turn_alive[OF Cons.prems, of ob w] consider
      a1 w1 where "agent_turn ob a w = Goes a1 w1" "alive (sch a1)" "alive (st a1)"
    | "agent_turn ob a w = Blocks" "sch_restart ob = None" by (elim disjE exE conjE) simp_all
  then show ?case
  proof cases
    case 1
    with Cons.IH[of a1 w1] show ?thesis by auto
  qed simp
qed simp

lemma boot_routines_alive:
  "alive (sch (boot_routines ob n ps md u))" "alive (st (boot_routines ob n ps md u))"
  by (simp_all add: boot_routines_def routine_start_def split: prod.split)


definition sample_boot :: "nat boot_obs" where
  "sample_boot =
     \<lparr>b_daemon = \<lparr>fork1 = 0, setsid_ok = True, fork2 = 0, chdir_ok = True\<rparr>, b_zlog = True,
      b_meta = \<lparr>mo_os = Some ''Ubuntu'', mo_hostname = Some ''h'', mo_address = (\<lambda>_. Some ''10.0.0.1''), mo_pid = 1\<rparr>,
      b_conf = None, b_around = sample_surroundings, b_dir = None, b_routine = True,
      b_curl = \<lparr>slist_append_ok = True, easy_init_ok = (\<lambda>_. True), setopt_ok = (\<lambda>_ _. True)\<rparr>,
      b_files = \<lparr>can_remove = (\<lambda>_. True), can_rename = True, can_open = True\<rparr>, b_sync = (\<lambda>_. True)\<rparr>"

definition sample_process :: process where
  "sample_process = \<lparr>leader = False, cwd = ''/home'', hup_ignored = False, std_null = False\<rparr>"

definition sample_unsent :: unsent where
  "sample_unsent = \<lparr>sending_fp = None, json_loaded = False, store = (\<lambda>_. None)\<rparr>"

text \<open>A machine with a licence.\<close>

definition licensed_machine :: machine where
  "licensed_machine = sample_machine\<lparr>files := [license_path \<mapsto> ''LICENSE: key'']\<rparr>"

lemma sample_license: "scan_license ''LICENSE: key'' = Some (Some ''key'')"
  by (simp add: scan_license_def separator_def scan_s_def isspace_def)

lemma licensed_simps [simp]:
  "clock licensed_machine n = \<lparr>tv_sec = 1000, tv_nsec = 0\<rparr>" "readings licensed_machine = 0"
  "creatable licensed_machine name" "files licensed_machine = [license_path \<mapsto> ''LICENSE: key'']"
  by (simp_all add: licensed_machine_def)

lemma sample_meta:
  "\<exists>md1 w1. meta_init (b_meta sample_boot) sample_metadata licensed_machine = Some (0, md1, w1)"
proof -
  have paths: "aid_path \<noteq> license_path" "license_path \<noteq> aid_path" "pid_path \<noteq> license_path"
    by (simp_all add: aid_path_def license_path_def pid_path_def)
  have os: "get_os (b_meta sample_boot) sample_metadata = Some (0, sample_metadata\<lparr>os := ''Ubuntu''\<rparr>)"
    by (simp add: get_os_def sample_boot_def scan_until_def newline_def)
  have aid: "\<exists>md1 w1. get_aid md licensed_machine = (0, md1, w1) \<and>
      files w1 license_path = Some ''LICENSE: key'' \<and> creatable w1 pid_path" for md
    using paths by (simp add: get_aid_def fresh_id_machine)
  have lic: "\<exists>md1. get_license md w1 = Some (0, md1)" if "files w1 license_path = Some ''LICENSE: key''" for md w1
    using that by (simp add: get_license_def sample_license)
  let ?md = "(sample_metadata\<lparr>os := ''Ubuntu''\<rparr>)\<lparr>host := ''h'', aip := ''10.0.0.1'', agent_type := ''ubuntu_1.0''\<rparr>"
  from aid[of ?md] obtain md1 w1 where a: "get_aid ?md licensed_machine = (0, md1, w1)"
    "files w1 license_path = Some ''LICENSE: key''" "creatable w1 pid_path" by blast
  from lic[OF a(2), of md1] obtain md2 where l: "get_license md1 w1 = Some (0, md2)" by blast
  have steps: "get_host (b_meta sample_boot) (sample_metadata\<lparr>os := ''Ubuntu''\<rparr>) = (0, (sample_metadata\<lparr>os := ''Ubuntu''\<rparr>)\<lparr>host := ''h''\<rparr>)"
    "get_ip (b_meta sample_boot) ((sample_metadata\<lparr>os := ''Ubuntu''\<rparr>)\<lparr>host := ''h''\<rparr>) =
       (0, (sample_metadata\<lparr>os := ''Ubuntu''\<rparr>)\<lparr>host := ''h'', aip := ''10.0.0.1''\<rparr>)"
    "get_type ((sample_metadata\<lparr>os := ''Ubuntu''\<rparr>)\<lparr>host := ''h'', aip := ''10.0.0.1''\<rparr>) = (0, ?md)"
    by (simp_all add: get_host_def get_ip_def get_type_def sample_boot_def)
  have "get_pid (b_meta sample_boot) w1 = (0, w1\<lparr>files := (files w1)(pid_path \<mapsto> show_nat (mo_pid (b_meta sample_boot)))\<rparr>)"
    using a(3) by (simp add: get_pid_def)
  then show ?thesis
    by (simp add: meta_init_def os steps a(1) l del: show_nat.simps)
qed

lemma boot_without_conf:
  assumes "daemonize (b_daemon ob) proc = Returns 0 q" "b_zlog ob" "b_dir ob = None"
    and "meta_init (b_meta ob) md w = Some (0, md1, w1)"
    and "sparse (b_around ob) (b_conf ob) w1 = Some (-1, ps, w2)"
  shows "agent_boot ob proc md u w = Some (Up (boot_routines ob (-1) ps md1 u) w2)"
  using assms by (simp add: agent_boot_def)

lemma sample_boot_up:
  "\<exists>a w1. agent_boot sample_boot sample_process sample_metadata sample_unsent licensed_machine = Some (Up a w1)"
proof -
  obtain q where "daemonize (b_daemon sample_boot) sample_process = Returns 0 q"
    by (simp add: daemonize_def sample_boot_def)
  moreover obtain md1 w1 where "meta_init (b_meta sample_boot) sample_metadata licensed_machine = Some (0, md1, w1)"
    using sample_meta by blast
  moreover have "sparse (b_around sample_boot) (b_conf sample_boot) w1 = Some (-1, [], w1)"
    by (simp add: sparse_def sample_boot_def)
  moreover have "b_zlog sample_boot" "b_dir sample_boot = None"
    by (simp_all add: sample_boot_def)
  ultimately show ?thesis
    using boot_without_conf by blast
qed


text \<open>
  A configuration that cannot be read does not stop the agent. The parser's \<open>-1\<close> is taken for
  a number of plugins: the agent comes up and, round after round, pings no plugin at all.
\<close>

theorem agent_accepts_bad_configuration:
  assumes "daemonize (b_daemon ob) proc = Returns 0 q" "b_zlog ob" "b_dir ob = None"
    and "meta_init (b_meta ob) md w = Some (0, md1, w1)"
    and "sparse (b_around ob) (b_conf ob) w1 = Some (-1, ps, w2)"
  shows "\<exists>a. agent_boot ob proc md u w = Some (Up a w2) \<and>
    scheduler_main an (pluginc a) (table a) v = ([], table a, v)"
proof -
  have "pluginc (boot_routines ob (-1) ps md1 u) = -1"
    by (simp add: boot_routines_def split: prod.split)
  with boot_without_conf[OF assms] show ?thesis
    by (simp add: scheduler_main_def)
qed

theorem agent_accepts_bad_configuration_witness:
  "\<exists>a w2. agent_boot sample_boot sample_process sample_metadata sample_unsent licensed_machine = Some (Up a w2) \<and>
    scheduler_main \<lparr>ping_ok = (\<lambda>_. True), sync_ok = (\<lambda>_. True)\<rparr> (pluginc a) (table a) sample_machine =
      ([], table a, sample_machine)"
proof -
  obtain q where d: "daemonize (b_daemon sample_boot) sample_process = Returns 0 q"
    by (simp add: daemonize_def sample_boot_def)
  obtain md1 w1 where m: "meta_init (b_meta sample_boot) sample_metadata licensed_machine = Some (0, md1, w1)"
    using sample_meta by blast
  have s: "sparse (b_around sample_boot) (b_conf sample_boot) w1 = Some (-1, [], w1)"
    by (simp add: sparse_def sample_boot_def)
  have b: "b_zlog sample_boot" "b_dir sample_boot = None"
    by (simp_all add: sample_boot_def)
  show ?thesis
    using agent_accepts_bad_configuration[OF d b m s] by blast
qed

end
