(* ===== verification/Restart.thy ===== *)
theory Restart
  imports Routine
begin

text \<open>
  The restart of a routine (src/routine.c, \<open>routine_stop\<close>, \<open>routine_restart\<close>) while its thread
  is at work. Cancellation is deferred: a cancelled thread goes on until it calls something that
  may be cancelled, which is its task or the wait on \<open>ping\<close>, and the wait takes \<open>ping_me\<close>
  again before the thread dies. Until then it runs beside the thread the restart has made. The
  steps of the threads and of the caller outside the restart are those of the handshake.
\<close>

text \<open>Where the caller is in \<open>routine_restart\<close>, before it is in \<open>routine_start\<close>.\<close>

datatype restart_pc = R_none | R_cancel | R_unlock_ping | R_unlock_pong | R_start

text \<open>
  \<open>olds\<close>: the threads of earlier starts that have not ended, the latest first. From
  \<open>R_cancel\<close> to \<open>R_start\<close> there is no other thread and \<open>thread\<close> is where the next one begins.
\<close>

record restart =
  hs :: handshake
  olds :: "thread_pc list"
  on_flag :: bool
  rpc :: restart_pc

definition rs_init :: restart where
  "rs_init = \<lparr>hs = hs_init, olds = [], on_flag = True, rpc = R_none\<rparr>"

inductive rs_step :: "restart \<Rightarrow> restart \<Rightarrow> bool" where
  move: "rpc s = R_none \<Longrightarrow> hs_step (hs s) h \<Longrightarrow> rs_step s (s\<lparr>hs := h\<rparr>)"
| stop: "rpc s = R_none \<Longrightarrow> caller (hs s) = Idle \<Longrightarrow>
    rs_step s (s\<lparr>on_flag := False, olds := thread (hs s) # olds s, hs := (hs s)\<lparr>thread := T_lock_pong\<rparr>, rpc := R_cancel\<rparr>)"
| cancel: "rpc s = R_cancel \<Longrightarrow> rs_step s (s\<lparr>rpc := R_unlock_ping\<rparr>)"
| unlock_ping: "rpc s = R_unlock_ping \<Longrightarrow>
    rs_step s (s\<lparr>hs := (hs s)\<lparr>ping_me := False\<rparr>, rpc := R_unlock_pong\<rparr>)"
| unlock_pong: "rpc s = R_unlock_pong \<Longrightarrow>
    rs_step s (s\<lparr>hs := (hs s)\<lparr>pong_me := False\<rparr>, rpc := R_start\<rparr>)"
| start: "rpc s = R_start \<Longrightarrow>
    rs_step s (s\<lparr>on_flag := True, hs := (hs s)\<lparr>caller := S_sync, up := False, early := False\<rparr>, rpc := R_none\<rparr>)"
| old_move: "olds s = xs @ t # ys \<Longrightarrow> (t = T_wait \<longrightarrow> xs = [] \<and> rpc s = R_cancel) \<Longrightarrow> (t = T_loop \<longrightarrow> on_flag s) \<Longrightarrow>
    hs_step ((hs s)\<lparr>thread := t\<rparr>) h \<Longrightarrow> thread h \<noteq> t \<Longrightarrow>
    rs_step s (s\<lparr>hs := h\<lparr>thread := thread (hs s)\<rparr>, olds := xs @ thread h # ys\<rparr>)"
| old_returns: "olds s = xs @ T_loop # ys \<Longrightarrow> \<not> on_flag s \<Longrightarrow> rs_step s (s\<lparr>olds := xs @ ys\<rparr>)"
| dies_in_task: "olds s = xs @ T_task # ys \<Longrightarrow> xs \<noteq> [] \<or> rpc s \<noteq> R_cancel \<Longrightarrow>
    rs_step s (s\<lparr>olds := xs @ ys\<rparr>)"
| dies_in_wait: "olds s = xs @ T_wait # ys \<Longrightarrow> xs \<noteq> [] \<or> rpc s \<noteq> R_cancel \<Longrightarrow> \<not> ping_me (hs s) \<Longrightarrow>
    rs_step s (s\<lparr>olds := xs @ ys, hs := (hs s)\<lparr>ping_me := True\<rparr>\<rparr>)"

inductive rs_reach :: "restart \<Rightarrow> bool" where
  init: "rs_reach rs_init"
| step: "rs_reach s \<Longrightarrow> rs_step s s' \<Longrightarrow> rs_reach s'"

text \<open>Without a restart the states are those of the handshake.\<close>

lemma hs_reach_rs: "hs_reach h \<Longrightarrow> rs_reach \<lparr>hs = h, olds = [], on_flag = True, rpc = R_none\<rparr>"
proof (induction rule: hs_reach.induct)
  case init
  then show ?case using rs_reach.init by (simp add: rs_init_def)
next
  case (step h h')
  from rs_step.move[of "\<lparr>hs = h, olds = [], on_flag = True, rpc = R_none\<rparr>" h'] step
  show ?case by (auto intro: rs_reach.step)
qed

lemma rs_reach_steps: "rs_step\<^sup>*\<^sup>* s s' \<Longrightarrow> rs_reach s \<Longrightarrow> rs_reach s'"
  by (induction rule: rtranclp_induct) (auto intro: rs_reach.step)

lemma rs_moves:
  "hs_step\<^sup>*\<^sup>* h h' \<Longrightarrow> hs s = h \<Longrightarrow> rpc s = R_none \<Longrightarrow> rs_step\<^sup>*\<^sup>* s (s\<lparr>hs := h'\<rparr>)"
proof (induction rule: rtranclp_induct)
  case (step h1 h2)
  then have "rs_step (s\<lparr>hs := h1\<rparr>) (s\<lparr>hs := h1\<rparr>\<lparr>hs := h2\<rparr>)" by (intro rs_step.move) simp_all
  with step.IH[OF step.prems] show ?case by simp
next
  case base
  then have "s\<lparr>hs := h\<rparr> = s" by (cases s) simp
  then show ?case by simp
qed

section \<open>Runs per ping\<close>

definition owed_all :: "restart \<Rightarrow> nat" where
  "owed_all s = owed (thread (hs s)) + sum_list (map owed (olds s))"

definition rs_inv :: "restart \<Rightarrow> bool" where
  "rs_inv s \<longleftrightarrow> runs (hs s) + owed_all s \<le> pings (hs s) + spurious (hs s)"

text \<open>One step of the handshake begins at most the run that was owed, or is a signal or a spurious return.\<close>

lemma hs_step_owed:
  "hs_step h h' \<Longrightarrow>
    runs h' + owed (thread h') + pings h + spurious h \<le> runs h + owed (thread h) + pings h' + spurious h'"
  by (induction rule: hs_step.induct) (auto simp: owed_def signal_ping_def)

lemma rs_inv_step: "rs_step s s' \<Longrightarrow> rs_inv s \<Longrightarrow> rs_inv s'"
proof (induction rule: rs_step.induct)
  case (move s h)
  from hs_step_owed[OF move(2)] move(3) show ?case by (simp add: rs_inv_def owed_all_def)
next
  case (old_move s xs t ys h)
  from hs_step_owed[OF old_move(4)] old_move(1,6) show ?case
    by (simp add: rs_inv_def owed_all_def)
qed (auto simp: rs_inv_def owed_all_def owed_def)

lemma rs_reach_inv: "rs_reach s \<Longrightarrow> rs_inv s"
proof (induction rule: rs_reach.induct)
  case init
  then show ?case by (simp add: rs_inv_def owed_all_def rs_init_def hs_init_def owed_def)
qed (blast intro: rs_inv_step)

section \<open>Paths of a restart\<close>

text \<open>Where a restart leads whose caller is not interrupted.\<close>

definition restarted :: "restart \<Rightarrow> restart" where
  "restarted s = s\<lparr>on_flag := True, olds := thread (hs s) # olds s,
     hs := hs_init\<lparr>pings := pings (hs s), runs := runs (hs s), spurious := spurious (hs s)\<rparr>\<rparr>"

lemma restart_path:
  assumes "rpc s = R_none" "caller (hs s) = Idle"
  shows "rs_step\<^sup>*\<^sup>* s (restarted s)"
proof -
  define s1 where "s1 = s\<lparr>on_flag := False, olds := thread (hs s) # olds s, hs := (hs s)\<lparr>thread := T_lock_pong\<rparr>, rpc := R_cancel\<rparr>"
  define s2 where "s2 = s1\<lparr>rpc := R_unlock_ping\<rparr>"
  define s3 where "s3 = s2\<lparr>hs := (hs s2)\<lparr>ping_me := False\<rparr>, rpc := R_unlock_pong\<rparr>"
  define s4 where "s4 = s3\<lparr>hs := (hs s3)\<lparr>pong_me := False\<rparr>, rpc := R_start\<rparr>"
  define s5 where "s5 = s4\<lparr>on_flag := True, hs := (hs s4)\<lparr>caller := S_sync, up := False, early := False\<rparr>, rpc := R_none\<rparr>"
  have "rs_step s s1" unfolding s1_def using assms by (rule rs_step.stop)
  moreover have "rs_step s1 s2" unfolding s2_def by (rule rs_step.cancel) (simp add: s1_def)
  moreover have "rs_step s2 s3" unfolding s3_def by (rule rs_step.unlock_ping) (simp add: s2_def)
  moreover have "rs_step s3 s4" unfolding s4_def by (rule rs_step.unlock_pong) (simp add: s3_def)
  moreover have "rs_step s4 s5" unfolding s5_def by (rule rs_step.start) (simp add: s4_def)
  moreover have "s5 = restarted s"
    using assms(1) by (simp add: restarted_def s1_def s2_def s3_def s4_def s5_def hs_init_def)
  ultimately show ?thesis
    by (meson converse_rtranclp_into_rtranclp rtranclp.rtrancl_refl)
qed

section \<open>Properties\<close>

text \<open>The state after the shortest start, and a state in which the task runs.\<close>

definition rs_ready :: restart where
  "rs_ready = \<lparr>hs = hs_ready, olds = [], on_flag = True, rpc = R_none\<rparr>"

lemma rs_ready_reach: "rs_reach rs_ready"
  using hs_reach_rs[OF hs_ready_reach] by (simp add: rs_ready_def)

lemma rs_working_reach:
  "\<exists>s. rs_reach s \<and> rpc s = R_none \<and> caller (hs s) = Idle \<and> thread (hs s) = T_task \<and> olds s = []"
proof -
  have "thread hs_ready = T_wait" "caller hs_ready = Idle" "\<not> ping_me hs_ready"
    by (simp_all add: hs_ready_def)
  from hs_ping_run[OF this] obtain h where h: "hs_step\<^sup>*\<^sup>* hs_ready h" "caller h = Idle" "thread h = T_task"
    by (meson rtranclp_trans)
  from hs_reach_rs[OF hs_reach_steps[OF h(1) hs_ready_reach]] h(2,3) show ?thesis
    by (intro exI[of _ "\<lparr>hs = h, olds = [], on_flag = True, rpc = R_none\<rparr>"]) simp
qed

text \<open>A spurious return of the first wait, before the caller is back from its own.\<close>

lemma rs_unasked_run: "\<exists>s. rs_reach s \<and> pings (hs s) = 0 \<and> runs (hs s) = 1 \<and> thread (hs s) = T_task"
  using hs_unasked_run hs_reach_rs by fastforce

text \<open>
  C18: how often a task runs. It begins at most once per ping and per spurious return of the wait
  for a ping, also when the routine is restarted at any moments and cancelled threads go on beside
  the new one; without spurious returns that is at most once per ping. With one it can begin without
  any ping, because the wait stands in no loop.
\<close>

theorem routine_runs_restarted:
  "(rs_reach s \<longrightarrow> runs (hs s) + owed_all s \<le> pings (hs s) + spurious (hs s)) \<and>
   (\<exists>e. rs_reach e \<and> pings (hs e) = 0 \<and> runs (hs e) = 1 \<and> thread (hs e) = T_task)"
  using rs_reach_inv[of s] rs_unasked_run by (simp add: rs_inv_def)

theorem routine_runs_restarted_witness:
  "rs_reach (restarted rs_ready) \<and> runs (hs (restarted rs_ready)) \<le> pings (hs (restarted rs_ready))"
proof -
  have "rs_reach (restarted rs_ready)"
    by (rule rs_reach_steps[OF restart_path rs_ready_reach]) (simp_all add: rs_ready_def hs_ready_def)
  moreover have "spurious (hs (restarted rs_ready)) = 0" by (simp add: restarted_def rs_ready_def hs_ready_def)
  ultimately show ?thesis using routine_runs_restarted[of "restarted rs_ready"] by simp
qed

text \<open>
  A restart does not stop the task. From every state in which the task runs and the caller is
  idle, a restart and a ping lead to a state in which the cancelled thread and the new one both run
  the task of the routine, on the same record.
\<close>

lemma restart_two_tasks:
  assumes "rpc s = R_none" "caller (hs s) = Idle" "thread (hs s) = T_task"
  shows "\<exists>s'. rs_step\<^sup>*\<^sup>* s s' \<and> thread (hs s') = T_task \<and> T_task \<in> set (olds s') \<and>
    runs (hs s') = Suc (runs (hs s))"
proof -
  let ?p = "\<lambda>h. h\<lparr>pings := pings (hs s), runs := runs (hs s), spurious := spurious (hs s)\<rparr>"
  have "rs_step\<^sup>*\<^sup>* s (restarted s)" using assms(1,2) by (rule restart_path)
  moreover have "rs_step\<^sup>*\<^sup>* (restarted s) ((restarted s)\<lparr>hs := ?p hs_ready\<rparr>)"
    by (rule rs_moves[OF hs_start_run]) (simp_all add: restarted_def assms(1))
  moreover obtain h where h: "hs_step\<^sup>*\<^sup>* (?p hs_ready) h" "thread h = T_task" "runs h = Suc (runs (hs s))"
  proof -
    have "thread (?p hs_ready) = T_wait" "caller (?p hs_ready) = Idle" "\<not> ping_me (?p hs_ready)"
      by (simp_all add: hs_ready_def)
    from hs_ping_run[OF this] that show ?thesis by (auto dest: rtranclp_trans)
  qed
  moreover have "rs_step\<^sup>*\<^sup>* ((restarted s)\<lparr>hs := ?p hs_ready\<rparr>) ((restarted s)\<lparr>hs := ?p hs_ready\<rparr>\<lparr>hs := h\<rparr>)"
    by (rule rs_moves[OF h(1)]) (simp_all add: restarted_def assms(1))
  ultimately have "rs_step\<^sup>*\<^sup>* s ((restarted s)\<lparr>hs := ?p hs_ready\<rparr>\<lparr>hs := h\<rparr>)"
    by (meson rtranclp_trans)
  with h(2,3) assms(3) show ?thesis
    by (intro exI[of _ "(restarted s)\<lparr>hs := ?p hs_ready\<rparr>\<lparr>hs := h\<rparr>"]) (simp add: restarted_def)
qed

text \<open>The new thread and its caller each wait for a mutex that will never be free.\<close>

definition deadlocked :: "restart \<Rightarrow> bool" where
  "deadlocked s \<longleftrightarrow> rpc s = R_none \<and> olds s = [] \<and> ping_me (hs s) \<and> pong_me (hs s) \<and>
     thread (hs s) = T_lock_ping \<and> caller (hs s) = S_woken False \<and> \<not> up (hs s)"

lemma deadlocked_no_step: "deadlocked s \<Longrightarrow> \<not> rs_step s s'"
  by (auto simp: deadlocked_def elim!: rs_step.cases hs_step.cases)

lemma restarted_waiting_deadlocked:
  assumes "rpc s = R_none" "thread (hs s) = T_wait" "olds s = []"
  shows "\<exists>s'. rs_step\<^sup>*\<^sup>* (restarted s) s' \<and> deadlocked s'"
proof -
  define s1 where "s1 = (restarted s)\<lparr>hs := (hs (restarted s))\<lparr>caller := S_wait, pong_me := False\<rparr>\<rparr>"
  define s2 where "s2 = s1\<lparr>olds := [], hs := (hs s1)\<lparr>ping_me := True\<rparr>\<rparr>"
  define s3 where "s3 = s2\<lparr>hs := (hs s2)\<lparr>thread := T_lock_ping, pong_me := True\<rparr>\<rparr>"
  define s4 where "s4 = s3\<lparr>hs := (hs s3)\<lparr>caller := S_woken False\<rparr>\<rparr>"
  note defs = s1_def s2_def s3_def s4_def restarted_def hs_init_def
  have "rs_step (restarted s) s1" unfolding s1_def
    by (intro rs_step.move hs_step.start_sync) (simp_all add: restarted_def hs_init_def assms(1))
  moreover have "rs_step s1 s2" unfolding s2_def
    using rs_step.dies_in_wait[of s1 "[]" "[]"] by (simp add: defs assms)
  moreover have "rs_step s2 s3" unfolding s3_def
    by (intro rs_step.move hs_step.lock_pong) (simp_all add: defs assms(1))
  moreover have "rs_step s3 s4" unfolding s4_def
    by (intro rs_step.move hs_step.start_late) (simp_all add: defs assms(1))
  ultimately have "rs_step\<^sup>*\<^sup>* (restarted s) s4"
    by (meson converse_rtranclp_into_rtranclp rtranclp.rtrancl_refl)
  moreover have "deadlocked s4" by (simp add: deadlocked_def defs assms(1))
  ultimately show ?thesis by blast
qed

text \<open>
  C21: a restart can block its caller for ever. When the thread waits for a ping, the wait takes the
  ping mutex back as it is cancelled, after the restart has unlocked it; the new thread then holds
  the pong mutex and never gets the ping mutex, and the caller, whose time limit is over, never gets
  the pong mutex. No step is left.
\<close>

theorem routine_restart_deadlock:
  assumes "rpc s = R_none" "caller (hs s) = Idle" "thread (hs s) = T_wait" "olds s = []"
  shows "\<exists>s'. rs_step\<^sup>*\<^sup>* s s' \<and> \<not> up (hs s') \<and> caller (hs s') \<noteq> Idle \<and> (\<forall>s''. \<not> rs_step s' s'')"
proof -
  obtain s' where s': "rs_step\<^sup>*\<^sup>* (restarted s) s'" "deadlocked s'"
    using restarted_waiting_deadlocked[OF assms(1,3,4)] by blast
  from s' restart_path[OF assms(1,2)] deadlocked_no_step[OF s'(2)] show ?thesis
    by (intro exI[of _ s']) (auto simp: deadlocked_def)
qed

theorem routine_restart_deadlock_witness:
  "\<exists>s. rs_reach s \<and> caller (hs s) \<noteq> Idle \<and> (\<forall>s'. \<not> rs_step s s')"
proof -
  have "rpc rs_ready = R_none" "caller (hs rs_ready) = Idle" "thread (hs rs_ready) = T_wait" "olds rs_ready = []"
    by (simp_all add: rs_ready_def hs_ready_def)
  from routine_restart_deadlock[OF this] show ?thesis by (blast intro: rs_reach_steps rs_ready_reach)
qed

text \<open>What a restart keeps while no cancelled thread is left.\<close>

definition clean :: "restart \<Rightarrow> bool" where
  "clean s \<longleftrightarrow> olds s = [] \<and>
     (case rpc s of
        R_none \<Rightarrow> on_flag s \<and> hs_inv (hs s)
      | R_cancel \<Rightarrow> False
      | R_unlock_ping \<Rightarrow> thread (hs s) = T_lock_pong \<and> caller (hs s) = Idle \<and> runs (hs s) \<le> pings (hs s) + spurious (hs s)
      | _ \<Rightarrow> thread (hs s) = T_lock_pong \<and> caller (hs s) = Idle \<and> runs (hs s) \<le> pings (hs s) + spurious (hs s) \<and>
          \<not> ping_me (hs s))"

lemma clean_step: "rs_step s s' \<Longrightarrow> clean s \<Longrightarrow> olds s' = [] \<Longrightarrow> clean s'"
proof (induction rule: rs_step.induct)
  case (move s h)
  then show ?case by (auto simp: clean_def intro: hs_inv_step)
qed (auto simp: clean_def hs_inv_def hs_defs)

text \<open>The caller is inside the restart with the slot of the thread empty.\<close>

definition between :: "restart \<Rightarrow> bool" where
  "between s \<longleftrightarrow> (rpc s \<noteq> R_none \<longrightarrow> thread (hs s) = T_lock_pong \<and> caller (hs s) = Idle)"

lemma hs_step_idle:
  "hs_step h h' \<Longrightarrow> caller h = Idle \<Longrightarrow> thread h' \<noteq> thread h \<Longrightarrow> caller h' = Idle"
  by (induction rule: hs_step.induct) (auto simp: signal_pong_def)

lemma rs_reach_between: "rs_reach s \<Longrightarrow> between s"
proof (induction rule: rs_reach.induct)
  case init
  then show ?case by (simp add: between_def rs_init_def)
next
  case (step s s')
  from step(2,3) show ?case
  proof (induction rule: rs_step.induct)
    case (old_move s xs t ys h)
    then show ?case using hs_step_idle[OF old_move(4)] by (simp add: between_def)
  qed (auto simp: between_def)
qed

text \<open>
  C19: a restart is safe when the cancelled thread has ended before \<open>ping_me\<close> is unlocked. However
  the new thread and its caller interleave, up to the next restart they keep the guarantees of the
  first start: caller and thread never hold the ping mutex together, the mutex is taken only
  by one of them, and a ping of a routine whose start was answered (its wait did not end spuriously)
  finds the thread waiting or woken.
\<close>

theorem routine_restart_clean:
  assumes "rs_reach s" "rpc s = R_unlock_ping" "olds s = []"
    and "(\<lambda>a b. rs_step a b \<and> olds b = [])\<^sup>*\<^sup>* s s'" "rpc s' = R_none"
  shows "\<not> (thread_holds (thread (hs s')) \<and> caller_holds (caller (hs s'))) \<and>
    (ping_me (hs s') \<longleftrightarrow> thread_holds (thread (hs s')) \<or> caller_holds (caller (hs s'))) \<and>
    (up (hs s') \<and> \<not> early (hs s') \<and> caller (hs s') = P_signal \<longrightarrow> thread (hs s') \<in> {T_wait, T_woken})"
proof -
  have "clean s"
    using rs_reach_between[OF assms(1)] rs_reach_inv[OF assms(1)] assms(2,3)
    by (simp add: clean_def between_def rs_inv_def)
  with assms(4) have "clean s'"
    by (induction rule: rtranclp_induct) (auto intro: clean_step)
  with assms(5) have inv: "hs_inv (hs s')" by (simp add: clean_def)
  moreover have "up (hs s') \<and> \<not> early (hs s') \<and> caller (hs s') = P_signal \<longrightarrow> thread (hs s') \<in> {T_wait, T_woken}"
    using inv by (cases "thread (hs s')") (auto simp: hs_inv_def hs_defs)
  ultimately show ?thesis by (simp add: hs_inv_def)
qed

text \<open>The task dies at once, and the restart goes on to the new thread.\<close>

lemma clean_restart_path:
  assumes "rs_reach s" "rpc s = R_none" "caller (hs s) = Idle" "thread (hs s) = T_task" "olds s = []"
  shows "\<exists>s1 s2. rs_reach s1 \<and> rpc s1 = R_unlock_ping \<and> olds s1 = [] \<and>
    (\<lambda>a b. rs_step a b \<and> olds b = [])\<^sup>*\<^sup>* s1 s2 \<and> rpc s2 = R_none \<and> caller (hs s2) = S_sync"
proof -
  define s1 where "s1 = s\<lparr>on_flag := False, olds := thread (hs s) # olds s, hs := (hs s)\<lparr>thread := T_lock_pong\<rparr>, rpc := R_cancel\<rparr>"
  define s2 where "s2 = s1\<lparr>rpc := R_unlock_ping\<rparr>"
  define s3 where "s3 = s2\<lparr>olds := []\<rparr>"
  define s4 where "s4 = s3\<lparr>hs := (hs s3)\<lparr>ping_me := False\<rparr>, rpc := R_unlock_pong\<rparr>"
  define s5 where "s5 = s4\<lparr>hs := (hs s4)\<lparr>pong_me := False\<rparr>, rpc := R_start\<rparr>"
  define s6 where "s6 = s5\<lparr>on_flag := True, hs := (hs s5)\<lparr>caller := S_sync, up := False, early := False\<rparr>, rpc := R_none\<rparr>"
  have "rs_step s s1" unfolding s1_def using assms(2,3) by (rule rs_step.stop)
  moreover have "rs_step s1 s2" unfolding s2_def by (rule rs_step.cancel) (simp add: s1_def)
  moreover have "rs_step s2 s3" unfolding s3_def
    using rs_step.dies_in_task[of s2 "[]" "[]"] by (simp add: s2_def s1_def assms)
  ultimately have "rs_reach s3" using assms(1) by (blast intro: rs_reach.step)
  let ?R = "\<lambda>a b. rs_step a b \<and> olds b = []"
  have "?R s3 s4" unfolding s4_def
    using rs_step.unlock_ping[of s3] by (simp add: s3_def s2_def)
  moreover have "?R s4 s5" unfolding s5_def
    using rs_step.unlock_pong[of s4] by (simp add: s4_def s3_def)
  moreover have "?R s5 s6" unfolding s6_def
    using rs_step.start[of s5] by (simp add: s5_def s4_def s3_def)
  ultimately have "?R\<^sup>*\<^sup>* s3 s6"
    by (intro converse_rtranclp_into_rtranclp[of ?R s3 s4] converse_rtranclp_into_rtranclp[of ?R s4 s5]
        r_into_rtranclp[of ?R s5 s6])
  with \<open>rs_reach s3\<close> show ?thesis
    by (intro exI[of _ s3] exI[of _ s6]) (simp add: s3_def s2_def s6_def)
qed

theorem routine_restart_clean_witness:
  "\<exists>s s'. rs_reach s \<and> rpc s = R_unlock_ping \<and> rs_step\<^sup>*\<^sup>* s s' \<and> caller (hs s') = S_sync \<and>
    \<not> (thread_holds (thread (hs s')) \<and> caller_holds (caller (hs s')))"
proof -
  obtain s where "rs_reach s" "rpc s = R_none" "caller (hs s) = Idle" "thread (hs s) = T_task" "olds s = []"
    using rs_working_reach by blast
  from clean_restart_path[OF this] obtain s1 s2 where s: "rs_reach s1" "rpc s1 = R_unlock_ping" "olds s1 = []"
    "(\<lambda>a b. rs_step a b \<and> olds b = [])\<^sup>*\<^sup>* s1 s2" "rpc s2 = R_none" "caller (hs s2) = S_sync" by blast
  have "rs_step\<^sup>*\<^sup>* s1 s2"
    by (rule rtranclp_mono[THEN predicate2D, OF _ s(4)]) auto
  with s routine_restart_clean[OF s(1-5)] show ?thesis by blast
qed

end
