(* ===== verification/Overdue.thy ===== *)
theory Overdue
  imports Routine
begin

text \<open>
  The times of a routine beside its handshake (src/routine.c, \<open>routine_main\<close>): the time
  \<open>begin\<close> is taken when the ping has been answered, the task runs, and only then
  is \<open>due\<close> written. The clock goes on between any two steps. A ping may come at any moment; which
  ones the scheduler sends is the business of theory \<open>Scheduler\<close>.
\<close>

record timed =
  hsk :: handshake
  next_due :: epoch_t
  began :: epoch_t
  now :: epoch_t

text \<open>
  What a step of the handshake does to the times: it ends at \<open>t\<close>. The one that goes on to the task reads
  the clock after its unlock; \<open>k\<close> is the tick after the task.
\<close>

definition td_after :: "f32 \<Rightarrow> epoch_t \<Rightarrow> timed \<Rightarrow> handshake \<Rightarrow> timed" where
  "td_after k t s h =
     (if thread (hsk s) = T_unlock_pong2 \<and> thread h = T_task then s\<lparr>hsk := h, now := t, began := t\<rparr>
      else if thread (hsk s) = T_task \<and> thread h = T_loop
      then s\<lparr>hsk := h, now := t, next_due := began s + of_nat (tick_ms k)\<rparr>
      else s\<lparr>hsk := h, now := t\<rparr>)"

inductive td_step :: "timed \<Rightarrow> timed \<Rightarrow> bool" where
  clock_runs: "now s \<le> t \<Longrightarrow> td_step s (s\<lparr>now := t\<rparr>)"
| move: "hs_step (hsk s) h \<Longrightarrow> now s \<le> t \<Longrightarrow> td_step s (td_after k t s h)"

text \<open>\<open>routine_start\<close> has set \<open>due\<close> to 0.\<close>

definition td_init :: "epoch_t \<Rightarrow> timed" where
  "td_init t = \<lparr>hsk = hs_init, next_due = 0, began = 0, now = t\<rparr>"

inductive td_reach :: "timed \<Rightarrow> bool" where
  init: "td_reach (td_init t)"
| step: "td_reach s \<Longrightarrow> td_step s s' \<Longrightarrow> td_reach s'"

lemma td_after_hsk [simp]: "hsk (td_after k t s h) = h" "now (td_after k t s h) = t"
  by (simp_all add: td_after_def)

lemma td_reach_hs: "td_reach s \<Longrightarrow> hs_reach (hsk s)"
proof (induction rule: td_reach.induct)
  case (step s s')
  from step(2,3) show ?case by (induction rule: td_step.induct) (auto intro: hs_reach.step)
qed (simp add: td_init_def hs_reach.init)

lemma td_reach_steps: "td_step\<^sup>*\<^sup>* s s' \<Longrightarrow> td_reach s \<Longrightarrow> td_reach s'"
  by (induction rule: rtranclp_induct) (auto intro: td_reach.step)

lemma td_moves: "hs_step\<^sup>*\<^sup>* h h' \<Longrightarrow> hsk s = h \<Longrightarrow> \<exists>s'. td_step\<^sup>*\<^sup>* s s' \<and> hsk s' = h' \<and> now s' = now s"
proof (induction rule: rtranclp_induct)
  case (step h1 h2)
  then obtain s1 where s1: "td_step\<^sup>*\<^sup>* s s1" "hsk s1 = h1" "now s1 = now s" by blast
  then have "td_step s1 (td_after (0, 0) (now s1) s1 h2)" using step(2) by (intro td_step.move) simp_all
  with s1 show ?case
    by (intro exI[of _ "td_after (0, 0) (now s1) s1 h2"]) (auto intro: rtranclp.rtrancl_into_rtrancl)
qed auto

section \<open>Due until the task ends\<close>

text \<open>A run begins as the task does, and the count never falls.\<close>

lemma hs_step_runs:
  "hs_step h h' \<Longrightarrow>
    runs h' = (if thread h = T_unlock_pong2 \<and> thread h' = T_task then Suc (runs h) else runs h) \<and>
    (thread h' = T_task \<longrightarrow> thread h \<in> {T_unlock_pong2, T_task}) \<and>
    (thread h = T_task \<longrightarrow> thread h' \<in> {T_loop, T_task})"
  by (induction rule: hs_step.induct) (auto simp: signal_ping_def)

text \<open>
  From a state in which no task runs, up to the end of the next task, \<open>due\<close> stays as it is;
  \<open>n\<close> is the number of runs at the beginning.
\<close>

definition due_kept :: "epoch_t \<Rightarrow> nat \<Rightarrow> timed \<Rightarrow> bool" where
  "due_kept d n s \<longleftrightarrow>
     (let m = runs (hsk s); t = thread (hsk s)
      in if m = n then t \<noteq> T_task \<and> next_due s = d
         else if m = Suc n \<and> t = T_task then next_due s = d else n < m)"

lemma due_kept_step:
  assumes "td_step s s'" "due_kept d n s"
  shows "due_kept d n s'"
  using assms
proof (induction rule: td_step.induct)
  case (move s h t k)
  from hs_step_runs[OF move(1)] move(3) show ?case
    by (auto simp: due_kept_def td_after_def Let_def split: if_splits)
qed (auto simp: due_kept_def Let_def)

lemma due_kept_steps: "td_step\<^sup>*\<^sup>* s s' \<Longrightarrow> due_kept d n s \<Longrightarrow> due_kept d n s'"
  by (induction rule: rtranclp_induct) (auto intro: due_kept_step)

lemma td_step_now: "td_step s s' \<Longrightarrow> now s \<le> now s'"
  by (induction rule: td_step.induct) auto

lemma td_steps_now: "td_step\<^sup>*\<^sup>* s s' \<Longrightarrow> now s \<le> now s'"
  by (induction rule: rtranclp_induct) (auto dest: td_step_now)

text \<open>
  A routine that waits and is due is still due, at every moment, while its next task
  runs: nothing writes \<open>due\<close> before the task has ended.
\<close>

lemma overdue_during_task:
  assumes "thread (hsk s) \<noteq> T_task" "next_due s \<le> now s"
    and "td_step\<^sup>*\<^sup>* s s'" "thread (hsk s') = T_task" "runs (hsk s') = Suc (runs (hsk s))"
  shows "next_due s' = next_due s" "next_due s' \<le> now s'"
proof -
  have "due_kept (next_due s) (runs (hsk s)) s" using assms(1) by (simp add: due_kept_def Let_def)
  with assms(3) have "due_kept (next_due s) (runs (hsk s)) s'" by (rule due_kept_steps)
  with assms(4,5) show same: "next_due s' = next_due s" by (simp add: due_kept_def)
  from td_steps_now[OF assms(3)] assms(2) show "next_due s' \<le> now s'" unfolding same by (rule order_trans[rotated])
qed

text \<open>A due routine that waits, and its first task.\<close>

lemma td_working:
  "\<exists>s0 s. td_reach s0 \<and> thread (hsk s0) = T_wait \<and> next_due s0 \<le> now s0 \<and> td_step\<^sup>*\<^sup>* s0 s \<and>
    thread (hsk s) = T_task \<and> runs (hsk s) = Suc (runs (hsk s0)) \<and> caller (hsk s) = Idle \<and>
    next_due s = 0 \<and> now s = t"
proof -
  have start: "hs_step\<^sup>*\<^sup>* hs_init hs_ready"
    using hs_start_run[of 0 0 0] by (simp add: hs_init_def hs_ready_def)
  obtain s0 where s0: "td_step\<^sup>*\<^sup>* (td_init t) s0" "hsk s0 = hs_ready" "now s0 = t"
    using td_moves[OF start, of "td_init t"] by (auto simp: td_init_def)
  have "due_kept 0 0 (td_init t)" by (simp add: due_kept_def td_init_def hs_init_def)
  with s0(1) have "due_kept 0 0 s0" by (rule due_kept_steps)
  with s0(2) have due: "next_due s0 = 0" by (simp add: due_kept_def hs_ready_def)
  have "thread hs_ready = T_wait" "caller hs_ready = Idle" "\<not> ping_me hs_ready"
    by (simp_all add: hs_ready_def)
  from hs_ping_run[OF this] obtain h where h: "hs_step\<^sup>*\<^sup>* hs_ready h" "caller h = Idle" "thread h = T_task"
    "runs h = Suc (runs hs_ready)" by (meson rtranclp_trans)
  obtain s where s: "td_step\<^sup>*\<^sup>* s0 s" "hsk s = h" "now s = t"
    using td_moves[OF h(1) s0(2)] s0(3) by auto
  have "thread (hsk s0) \<noteq> T_task" "next_due s0 \<le> now s0" "thread (hsk s) = T_task"
    "runs (hsk s) = Suc (runs (hsk s0))"
    using s0(2) s(2) h due by (simp_all add: hs_ready_def)
  from overdue_during_task(1)[OF this(1,2) s(1) this(3,4)] due have "next_due s = 0" by simp
  with td_reach_steps[OF s0(1) td_reach.init] s0 s h due show ?thesis
    by (intro exI[of _ s0] exI[of _ s]) (simp add: hs_ready_def)
qed

end
