(* ===== verification/OsPlugin.thy ===== *)
theory OsPlugin
  imports Plugin
begin

text \<open>
  The module that observes the operating system (src/plugins/os.c). What the commands and
  files it reads deliver is the observation of one call, a record with the values the scans
  stored; each section is the sequence of appends the source makes, and the proofs show
  that the sections add up to one JSON object.
\<close>

section \<open>Scans into buffers\<close>

text \<open>
  The directives \<open>%128s\<close> and \<open>%128[...]\<close> store at most 128 characters and then a terminator, into
  buffers of \<open>BFSZ\<close> = 128 characters: a string of 128 characters is written beyond its buffer. The call of
  \<open>fscanf\<close> that ends a loop may have stored strings too, before a directive failed. \<open>stores_ok\<close>: these
  strings go into an entry \<open>k\<close> that exists and fit.
\<close>

definition stores_ok :: "nat \<Rightarrow> nat \<Rightarrow> string list \<Rightarrow> bool" where
  "stores_ok places k ss \<longleftrightarrow> ss = [] \<or> (k < places \<and> list_all (\<lambda>s. length s < BFSZ) ss)"

text \<open>A loop that scans the complete \<open>rows\<close> into entries 0, 1, 2 and so on, and ends with \<open>rest\<close>.\<close>

fun scans_ok :: "nat \<Rightarrow> ('r \<Rightarrow> string list) \<Rightarrow> nat \<Rightarrow> 'r list \<Rightarrow> string list \<Rightarrow> bool" where
  "scans_ok places strs k [] rest = stores_ok places k rest"
| "scans_ok places strs k (r # rows) rest = (stores_ok places k (strs r) \<and> scans_ok places strs (Suc k) rows rest)"

section \<open>CPU\<close>

text \<open>
  Each observation is \<open>None\<close> when the command could not be started. The inner option is
  \<open>None\<close> when the scan did not read all values.
\<close>

type_synonym cpu_obs = "(cfloat \<times> cfloat \<times> cfloat) option option"

definition os_gather_cpu :: "cpu_obs \<Rightarrow> 'm gather_fun" where
  \<open>os_gather_cpu ob m p =
     (case ob of
        None \<Rightarrow> Some (ENODATA, m, p)
      | Some scan \<Rightarrow> do {
          p1 \<leftarrow> (case scan of
                  None \<Rightarrow> Some p
                | Some (user, sys, idle) \<Rightarrow>
                    packet_append (''"user":'' @ show_fixed 2 user @ '',"sys":'' @ show_fixed 2 sys @
                      '',"idle":'' @ show_fixed 2 idle) p);
          Some (ENONE, m, p1)
        })\<close>

section \<open>Disks\<close>

record vfs =
  f_blocks :: "64 word"
  f_frsize :: "64 word"
  f_bfree :: "64 word"
  f_bsize :: "64 word"
  f_bavail :: "64 word"

record diskstat =
  st_r :: "64 word"
  st_rkb :: "64 word"
  st_rt :: "64 word"
  st_w :: "64 word"
  st_wkb :: "64 word"
  st_wt :: "64 word"
  st_weight :: "64 word"

text \<open>One line of the mounts, and what the system says of the device.\<close>

record mount_obs =
  mo_name :: string
  mo_num :: "16 word"
  mo_mount :: string
  mo_vfs :: "vfs option"
  mo_sector :: "64 word option option"
  mo_stat :: "diskstat option option"

text \<open>An entry of the array; the counters are undefined until the scan stores them.\<close>

record dev =
  d_name :: string
  d_num :: "16 word"
  d_mount :: string
  d_tot :: "64 word"
  d_free :: "64 word"
  d_avail :: "64 word"
  d_stat :: "diskstat option"

definition dev_of :: "mount_obs \<Rightarrow> vfs \<Rightarrow> 64 word \<Rightarrow> diskstat option \<Rightarrow> dev" where
  "dev_of mo v sec st =
     \<lparr>d_name = mo_name mo, d_num = mo_num mo, d_mount = mo_mount mo,
      d_tot = f_blocks v * f_frsize v div BPKB,
      d_free = f_bfree v * f_bsize v div BPKB,
      d_avail = f_bavail v * f_bsize v div BPKB,
      d_stat = map_option (\<lambda>s. s\<lparr>st_rkb := st_rkb s * sec div BPKB, st_wkb := st_wkb s * sec div BPKB\<rparr>) st\<rparr>"

text \<open>
  The loop over the mounts. A device whose usage, sector size or counters cannot be asked
  for is left out; the scan of a line writes into the entry \<open>k\<close>, which must exist, and so may
  the last call, which did not read a whole line and stored \<open>rest\<close>.
\<close>

fun disk_loop ::
  "mount_obs list \<Rightarrow> string list \<Rightarrow> dev list \<Rightarrow> 64 word \<Rightarrow> (dev list \<times> 64 word) option" where
  "disk_loop [] rest devs io = (if stores_ok BFSZ (length devs) rest then Some (devs, io) else None)"
| "disk_loop (mo # mos) rest devs io =
     (if \<not> stores_ok BFSZ (length devs) [mo_name mo, mo_mount mo] then None
      else case (mo_vfs mo, mo_sector mo, mo_stat mo) of
        (Some v, Some (Some sec), Some st) \<Rightarrow>
          disk_loop mos rest (devs @ [dev_of mo v sec st])
            (case st of None \<Rightarrow> io | Some s \<Rightarrow> io + (st_r s + st_w s))
      | _ \<Rightarrow> disk_loop mos rest devs io)"

definition show_hu :: "16 word \<Rightarrow> string" where
  "show_hu w = show_nat (unat w)"

text \<open>The appends, for devices whose counters are known.\<close>

definition disk_pieces :: "(dev \<times> diskstat) list \<Rightarrow> 64 word \<Rightarrow> string list" where
  \<open>disk_pieces ds io =
     [''"name":[''] @ elem_pieces (\<lambda>(d, s). dq (d_name d @ show_hu (d_num d) @ ''('' @ d_mount d @ '')'')) ds @
     [''],"tot":[''] @ elem_pieces (\<lambda>(d, s). show_ull (d_tot d)) ds @
     [''],"free":[''] @ elem_pieces (\<lambda>(d, s). show_ull (d_free d)) ds @
     [''],"avail":[''] @ elem_pieces (\<lambda>(d, s). show_ull (d_avail d)) ds @
     [''],"r":[''] @ elem_pieces (\<lambda>(d, s). show_ull (st_r s)) ds @
     [''],"rsec":[''] @ elem_pieces (\<lambda>(d, s). show_ull (st_rkb s)) ds @
     [''],"rt":[''] @ elem_pieces (\<lambda>(d, s). show_ull (st_rt s)) ds @
     [''],"w":[''] @ elem_pieces (\<lambda>(d, s). show_ull (st_w s)) ds @
     [''],"wsec":[''] @ elem_pieces (\<lambda>(d, s). show_ull (st_wkb s)) ds @
     [''],"wt":[''] @ elem_pieces (\<lambda>(d, s). show_ull (st_wt s)) ds @
     [''],"weight":[''] @ elem_pieces (\<lambda>(d, s). show_ull (st_weight s)) ds @
     [''],"io_tot":'' @ show_ull io]\<close>

text \<open>Every counter is printed, so one that was not read makes the call undefined.\<close>

definition with_stats :: "dev list \<Rightarrow> (dev \<times> diskstat) list option" where
  "with_stats devs = those (map (\<lambda>d. map_option (Pair d) (d_stat d)) devs)"

text \<open>The lines of the mounts, and what the last call of the scan stored.\<close>

type_synonym disk_obs = "(mount_obs list \<times> string list) option"

definition os_gather_disk :: "disk_obs \<Rightarrow> 'm gather_fun" where
  "os_gather_disk ob m p =
     (case ob of
        None \<Rightarrow> Some (ENODATA, m, p)
      | Some (mos, rest) \<Rightarrow> do {
          (devs, io) \<leftarrow> disk_loop mos rest [] 0;
          if devs = [] then Some (ENODATA, m, p)
          else do {
            ds \<leftarrow> with_stats devs;
            p1 \<leftarrow> append_all (disk_pieces ds io) p;
            Some (ENONE, m, p1)
          }
        })"

section \<open>Processes\<close>

text \<open>
  The three commands, run one after the other; each lists at most ten rows. The last call of a scan may
  have stored a name (and a user) that its numbers did not follow.
\<close>

record proc_obs =
  po_cpu :: "(string \<times> cfloat) list option"
  po_mem :: "(string \<times> cfloat) list option"
  po_list :: "(string \<times> string \<times> 64 word \<times> cfloat \<times> cfloat) list option"
  po_cpu_rest :: "string list"
  po_mem_rest :: "string list"
  po_list_rest :: "string list"

definition cpu_pieces :: "(string \<times> cfloat) list \<Rightarrow> string list" where
  \<open>cpu_pieces rows =
     [''"cpu_top10":{"name":[''] @ elem_pieces (\<lambda>(n, c). dq n) rows @
     [''],"cpu":[''] @ elem_pieces (\<lambda>(n, c). show_fixed 1 c) rows @ ['']}'']\<close>

definition mem_pieces :: "(string \<times> cfloat) list \<Rightarrow> string list" where
  \<open>mem_pieces rows =
     [''"mem_top10":{"name":[''] @ elem_pieces (\<lambda>(n, c). dq n) rows @
     [''],"mem":[''] @ elem_pieces (\<lambda>(n, c). show_fixed 1 c) rows @ ['']}'']\<close>

definition list_pieces :: "(string \<times> string \<times> 64 word \<times> cfloat \<times> cfloat) list \<Rightarrow> string list" where
  \<open>list_pieces rows =
     [''"list":{"name":[''] @ elem_pieces (\<lambda>(n, u, k, c, mm). dq n) rows @
     [''],"user":[''] @ elem_pieces (\<lambda>(n, u, k, c, mm). dq u) rows @
     [''],"count":[''] @ elem_pieces (\<lambda>(n, u, k, c, mm). show_ull k) rows @
     [''],"cpu":[''] @ elem_pieces (\<lambda>(n, u, k, c, mm). show_fixed 1 c) rows @
     [''],"mem":[''] @ elem_pieces (\<lambda>(n, u, k, c, mm). show_fixed 1 mm) rows @ ['']}'']\<close>

text \<open>A comma unless the object has just been opened, in front of the first append.\<close>

definition after_sep :: "string list \<Rightarrow> packet \<Rightarrow> string list option" where
  "after_sep ss p = do {
     c \<leftarrow> last_char p;
     Some (((if c = CHR ''{'' then [] else '','') @ hd ss) # tl ss)
   }"

text \<open>
  One of the three parts: nothing for no rows, undefined when the scans write outside the array or a
  buffer. \<open>strs\<close> are the strings of a row.
\<close>

definition list_strings :: "string \<times> string \<times> 64 word \<times> cfloat \<times> cfloat \<Rightarrow> string list" where
  "list_strings = (\<lambda>(n, u, k, c, mm). [n, u])"

definition proc_part ::
  "bool \<Rightarrow> ('r list \<Rightarrow> string list) \<Rightarrow> ('r \<Rightarrow> string list) \<Rightarrow> 'r list \<Rightarrow> string list \<Rightarrow> int \<Rightarrow> packet \<Rightarrow>
   (int \<times> packet) option" where
  "proc_part sep pieces strs rows rest error p =
     (if \<not> scans_ok 10 strs 0 rows rest then None
      else if rows = [] then Some (error, p)
      else do {
        ss \<leftarrow> (if sep then after_sep (pieces rows) p else Some (pieces rows));
        p1 \<leftarrow> append_all ss p;
        Some (ENONE, p1)
      })"

definition os_gather_proc :: "proc_obs \<Rightarrow> 'm gather_fun" where
  "os_gather_proc ob m p =
     (case po_cpu ob of
        None \<Rightarrow> Some (ENODATA, m, p)
      | Some rows1 \<Rightarrow> do {
          (e1, p1) \<leftarrow> proc_part False cpu_pieces (\<lambda>(n, c). [n]) rows1 (po_cpu_rest ob) ENODATA p;
          case po_mem ob of
            None \<Rightarrow> Some (e1, m, p1)
          | Some rows2 \<Rightarrow> do {
              (e2, p2) \<leftarrow> proc_part True mem_pieces (\<lambda>(n, c). [n]) rows2 (po_mem_rest ob) e1 p1;
              case po_list ob of
                None \<Rightarrow> Some (e2, m, p2)
              | Some rows3 \<Rightarrow> do {
                  (e3, p3) \<leftarrow> proc_part True list_pieces list_strings rows3 (po_list_rest ob) e2 p2;
                  Some (e3, m, p3)
                }
            }
        })"

section \<open>Memory\<close>

record mem_obs =
  me_total :: "64 word"
  me_free :: "64 word"
  me_cached :: "64 word"
  me_active :: "64 word"
  me_inactive :: "64 word"
  me_v_total :: "64 word"
  me_v_used :: "64 word"

definition os_gather_memory :: "mem_obs option option \<Rightarrow> 'm gather_fun" where
  \<open>os_gather_memory ob m p =
     (case ob of
        None \<Rightarrow> Some (ENODATA, m, p)
      | Some None \<Rightarrow> Some (ENODATA, m, p)
      | Some (Some o1) \<Rightarrow> do {
          p1 \<leftarrow> packet_append
            (''"total":'' @ show_ull (me_total o1) @ '',"free":'' @ show_ull (me_free o1) @
             '',"cached":'' @ show_ull (me_cached o1) @
             '',"user":'' @ show_ull (me_active o1 + me_inactive o1) @
             '',"sys":'' @ show_ull (me_total o1 - me_free o1 - me_active o1 - me_inactive o1) @
             '',"virtual":'' @ show_fixed 2 (ddiv (me_v_used o1) (me_v_total o1))) p;
          Some (ENONE, m, p1)
        })\<close>

section \<open>Network\<close>

record net_if =
  if_name :: string
  i_byte :: "64 word"
  i_pckt :: "64 word"
  i_err :: "64 word"
  o_byte :: "64 word"
  o_pckt :: "64 word"
  o_err :: "64 word"

text \<open>
  The rows the two scans of the loop read completely, and the name read last that its numbers
  did not follow, if there is one.
\<close>

record net_obs =
  no_rows :: "net_if list"
  no_rest :: "string list"

definition net_pieces :: "net_if list \<Rightarrow> string list" where
  \<open>net_pieces ns =
     [''"name":[''] @ elem_pieces (\<lambda>n. dq (if_name n)) ns @
     [''],"i_byte":[''] @ elem_pieces (\<lambda>n. show_ull (i_byte n)) ns @
     [''],"o_byte":[''] @ elem_pieces (\<lambda>n. show_ull (o_byte n)) ns @
     [''],"i_pckt":[''] @ elem_pieces (\<lambda>n. show_ull (i_pckt n)) ns @
     [''],"o_pckt":[''] @ elem_pieces (\<lambda>n. show_ull (o_pckt n)) ns @
     [''],"i_err":[''] @ elem_pieces (\<lambda>n. show_ull (i_err n)) ns @
     [''],"o_err":[''] @ elem_pieces (\<lambda>n. show_ull (o_err n)) ns @
     [''],"i_tot":'' @ show_ull (sum_list (map i_byte ns)) @
      '',"o_tot":'' @ show_ull (sum_list (map o_byte ns))]\<close>

definition os_gather_network :: "net_obs option \<Rightarrow> 'm gather_fun" where
  "os_gather_network ob m p =
     (case ob of
        None \<Rightarrow> Some (ENODATA, m, p)
      | Some o1 \<Rightarrow>
          if \<not> scans_ok BFSZ (\<lambda>n. [if_name n]) 0 (no_rows o1) (no_rest o1) then None
          else if no_rows o1 = [] then Some (ENODATA, m, p)
          else do {
            p1 \<leftarrow> append_all (net_pieces (no_rows o1)) p;
            Some (ENONE, m, p1)
          })"

section \<open>The module\<close>

record os_obs =
  ob_cpu :: cpu_obs
  ob_disk :: disk_obs
  ob_proc :: proc_obs
  ob_mem :: "mem_obs option option"
  ob_net :: "net_obs option"

definition os_gather :: "os_obs \<Rightarrow> 'm gather_fun" where
  "os_gather ob = gather_all
     [(''cpu'', os_gather_cpu (ob_cpu ob)), (''disk'', os_gather_disk (ob_disk ob)),
      (''proc'', os_gather_proc (ob_proc ob)), (''mem'', os_gather_memory (ob_mem ob)),
      (''net'', os_gather_network (ob_net ob))]"

definition os_module_cmp :: "string \<Rightarrow> 'm \<Rightarrow> nat \<Rightarrow> int" where
  "os_module_cmp bytes m n = 0"

definition OS_TICK :: f32 where
  "OS_TICK = (12486443, 22)"

text \<open>\<open>view n\<close> is what a call of the module at the machine's reading \<open>n\<close> observes.\<close>

definition load_os_module ::
  "(nat \<Rightarrow> os_obs) \<Rightarrow> 'm \<Rightarrow> 'm plugin \<Rightarrow> string list \<Rightarrow> machine \<Rightarrow> (int \<times> 'm plugin \<times> machine) option" where
  "load_os_module view null p as w =
     Some (0, p\<lparr>ptick := OS_TICK, tip := None, target_type := ''linux_ubuntu_1.0'', prep := None,
       fini := None, gather := (\<lambda>n. os_gather (view n)), cmp := os_module_cmp,
       module_size := 0, module_bytes := (\<lambda>_. []), module := null\<rparr>, w)"

section \<open>The sections as JSON\<close>

text \<open>The members each section adds to its object.\<close>

definition cpu_members :: "cpu_obs \<Rightarrow> (string \<times> json) list" where
  "cpu_members ob =
     (case ob of
        Some (Some (user, sys, idle)) \<Rightarrow>
          [(''user'', JNum (show_fixed 2 user)), (''sys'', JNum (show_fixed 2 sys)),
           (''idle'', JNum (show_fixed 2 idle))]
      | _ \<Rightarrow> [])"

definition num_column :: "string \<Rightarrow> ('r \<Rightarrow> string) \<Rightarrow> 'r list \<Rightarrow> string \<times> json" where
  "num_column name f rows = (name, JArr (map (\<lambda>x. JNum (f x)) rows))"

definition str_column :: "string \<Rightarrow> ('r \<Rightarrow> string) \<Rightarrow> 'r list \<Rightarrow> string \<times> json" where
  "str_column name f rows = (name, JArr (map (\<lambda>x. JStr (f x)) rows))"

lemma column_text:
  "jmember (num_column name f rows) = dq name @ '':['' @ commas (map f rows) @ '']''"
  "jmember (str_column name f rows) = dq name @ '':['' @ commas (map (\<lambda>x. dq (f x)) rows) @ '']''"
  by (simp_all add: jmember_def num_column_def str_column_def comp_def)

definition disk_members :: "(dev \<times> diskstat) list \<Rightarrow> 64 word \<Rightarrow> (string \<times> json) list" where
  "disk_members ds io =
     [str_column ''name'' (\<lambda>(d, s). d_name d @ show_hu (d_num d) @ ''('' @ d_mount d @ '')'') ds,
      num_column ''tot'' (\<lambda>(d, s). show_ull (d_tot d)) ds,
      num_column ''free'' (\<lambda>(d, s). show_ull (d_free d)) ds,
      num_column ''avail'' (\<lambda>(d, s). show_ull (d_avail d)) ds,
      num_column ''r'' (\<lambda>(d, s). show_ull (st_r s)) ds,
      num_column ''rsec'' (\<lambda>(d, s). show_ull (st_rkb s)) ds,
      num_column ''rt'' (\<lambda>(d, s). show_ull (st_rt s)) ds,
      num_column ''w'' (\<lambda>(d, s). show_ull (st_w s)) ds,
      num_column ''wsec'' (\<lambda>(d, s). show_ull (st_wkb s)) ds,
      num_column ''wt'' (\<lambda>(d, s). show_ull (st_wt s)) ds,
      num_column ''weight'' (\<lambda>(d, s). show_ull (st_weight s)) ds,
      (''io_tot'', JNum (show_ull io))]"

lemmas column_simps = column_text jmember_num jmember_obj jmembers_Cons concat_elem_pieces
  case_prod_unfold comp_def dq_def

lemma disk_pieces_json: "concat (disk_pieces ds io) = jmembers (disk_members ds io)"
  by (simp add: disk_pieces_def disk_members_def column_simps)

definition cpu_block :: "(string \<times> cfloat) list \<Rightarrow> string \<times> json" where
  "cpu_block rows = (''cpu_top10'', JObj [str_column ''name'' fst rows, num_column ''cpu'' (show_fixed 1 \<circ> snd) rows])"

definition mem_block :: "(string \<times> cfloat) list \<Rightarrow> string \<times> json" where
  "mem_block rows = (''mem_top10'', JObj [str_column ''name'' fst rows, num_column ''mem'' (show_fixed 1 \<circ> snd) rows])"

definition list_block :: "(string \<times> string \<times> 64 word \<times> cfloat \<times> cfloat) list \<Rightarrow> string \<times> json" where
  "list_block rows = (''list'', JObj
     [str_column ''name'' fst rows, str_column ''user'' (\<lambda>(n, u, k, c, mm). u) rows,
      num_column ''count'' (\<lambda>(n, u, k, c, mm). show_ull k) rows,
      num_column ''cpu'' (\<lambda>(n, u, k, c, mm). show_fixed 1 c) rows,
      num_column ''mem'' (\<lambda>(n, u, k, c, mm). show_fixed 1 mm) rows])"

lemma block_pieces:
  "concat (cpu_pieces rows) = jmember (cpu_block rows)"
  "concat (mem_pieces rows) = jmember (mem_block rows)"
  "concat (list_pieces rows') = jmember (list_block rows')"
  by (simp_all add: cpu_pieces_def mem_pieces_def list_pieces_def cpu_block_def mem_block_def
      list_block_def column_simps)

definition mem_members :: "mem_obs \<Rightarrow> (string \<times> json) list" where
  "mem_members o1 =
     [(''total'', JNum (show_ull (me_total o1))), (''free'', JNum (show_ull (me_free o1))),
      (''cached'', JNum (show_ull (me_cached o1))),
      (''user'', JNum (show_ull (me_active o1 + me_inactive o1))),
      (''sys'', JNum (show_ull (me_total o1 - me_free o1 - me_active o1 - me_inactive o1))),
      (''virtual'', JNum (show_fixed 2 (ddiv (me_v_used o1) (me_v_total o1))))]"

definition net_members :: "net_if list \<Rightarrow> (string \<times> json) list" where
  "net_members ns =
     [str_column ''name'' if_name ns, num_column ''i_byte'' (\<lambda>n. show_ull (i_byte n)) ns,
      num_column ''o_byte'' (\<lambda>n. show_ull (o_byte n)) ns, num_column ''i_pckt'' (\<lambda>n. show_ull (i_pckt n)) ns,
      num_column ''o_pckt'' (\<lambda>n. show_ull (o_pckt n)) ns, num_column ''i_err'' (\<lambda>n. show_ull (i_err n)) ns,
      num_column ''o_err'' (\<lambda>n. show_ull (o_err n)) ns,
      (''i_tot'', JNum (show_ull (sum_list (map i_byte ns)))),
      (''o_tot'', JNum (show_ull (sum_list (map o_byte ns))))]"

lemma net_pieces_json: "concat (net_pieces ns) = jmembers (net_members ns)"
  by (simp add: net_pieces_def net_members_def column_simps)

section \<open>The contracts of the sections\<close>

lemma os_gather_cpu_gatherer:
  "gatherer (os_gather_cpu ob) (const_spec (if ob = None then ENODATA else ENONE) (jmembers (cpu_members ob)))"
proof (cases ob)
  case None
  then show ?thesis
    using nothing_gatherer[of ENODATA] by (simp add: os_gather_cpu_def[abs_def] cpu_members_def)
next
  case (Some scan)
  show ?thesis
  proof (cases scan)
    case None
    with Some show ?thesis
      using nothing_gatherer[of ENONE] by (simp add: os_gather_cpu_def[abs_def] cpu_members_def)
  next
    case (Some v)
    obtain user sys idle where "v = (user, sys, idle)" by (cases v)
    then have "gatherer (os_gather_cpu ob) (const_spec ENONE (concat
        [''\"user\":'' @ show_fixed 2 user @ '',\"sys\":'' @ show_fixed 2 sys @ '',\"idle\":'' @ show_fixed 2 idle]))"
      using \<open>ob = Some scan\<close> Some by (intro pieces_gatherer) (simp add: os_gather_cpu_def)
    with \<open>ob = Some scan\<close> Some \<open>v = _\<close> show ?thesis
      by (simp add: cpu_members_def column_simps)
  qed
qed

definition disk_result :: "disk_obs \<Rightarrow> ((dev \<times> diskstat) list \<times> 64 word) option" where
  "disk_result ob =
     (case ob of
        None \<Rightarrow> Some ([], 0)
      | Some (mos, rest) \<Rightarrow> do { (devs, io) \<leftarrow> disk_loop mos rest [] 0; ds \<leftarrow> with_stats devs; Some (ds, io) })"

lemma with_stats_Nil [simp]: "with_stats [] = Some []"
  by (simp add: with_stats_def)

lemma with_stats_eq_Nil: "with_stats devs = Some ds \<Longrightarrow> ds = [] \<longleftrightarrow> devs = []"
  by (cases devs) (auto simp: with_stats_def split: option.splits)

lemma os_gather_disk_gatherer:
  assumes "disk_result ob = Some (ds, io)"
  shows "gatherer (os_gather_disk ob)
    (const_spec (code_of ds) (if ds = [] then [] else jmembers (disk_members ds io)))"
proof (cases ob)
  case None
  with assms show ?thesis
    using nothing_gatherer[of ENODATA] by (simp add: os_gather_disk_def[abs_def] code_of_def disk_result_def)
next
  case (Some lines)
  with assms obtain mos rest devs where Some: "ob = Some (mos, rest)"
    and loop: "disk_loop mos rest [] 0 = Some (devs, io)" "with_stats devs = Some ds"
    by (cases lines) (auto simp: disk_result_def bind_eq_Some_conv)
  show ?thesis
  proof (cases "devs = []")
    case True
    with Some loop show ?thesis
      using nothing_gatherer[of ENODATA] by (simp add: os_gather_disk_def[abs_def] code_of_def)
  next
    case False
    have "gatherer (os_gather_disk ob) (const_spec ENONE (concat (disk_pieces ds io)))"
      using Some loop False by (intro pieces_gatherer) (simp add: os_gather_disk_def)
    with False with_stats_eq_Nil[OF loop(2)] show ?thesis
      by (simp add: code_of_def disk_pieces_json)
  qed
qed

lemma os_gather_memory_gatherer:
  "gatherer (os_gather_memory ob :: 'm gather_fun) (case ob of
     Some (Some o1) \<Rightarrow> const_spec ENONE (jmembers (mem_members o1)) | _ \<Rightarrow> const_spec ENODATA [])"
proof (cases "\<exists>o1. ob = Some (Some o1)")
  case True
  then obtain o1 where ob: "ob = Some (Some o1)" by blast
  let ?s = "''\"total\":'' @ show_ull (me_total o1) @ '',\"free\":'' @ show_ull (me_free o1) @
    '',\"cached\":'' @ show_ull (me_cached o1) @ '',\"user\":'' @ show_ull (me_active o1 + me_inactive o1) @
    '',\"sys\":'' @ show_ull (me_total o1 - me_free o1 - me_active o1 - me_inactive o1) @
    '',\"virtual\":'' @ show_fixed 2 (ddiv (me_v_used o1) (me_v_total o1))"
  have "gatherer (os_gather_memory ob) (const_spec ENONE (concat [?s]))"
    using ob by (intro pieces_gatherer) (simp add: os_gather_memory_def)
  moreover have "concat [?s] = jmembers (mem_members o1)"
    by (simp add: mem_members_def column_simps)
  ultimately show ?thesis by (simp add: ob)
next
  case False
  then have "os_gather_memory ob = ((\<lambda>m p. Some (ENODATA, m, p)) :: 'm gather_fun)"
    by (auto simp: os_gather_memory_def fun_eq_iff split: option.split)
  with False show ?thesis
    using nothing_gatherer[of ENODATA] by (auto split: option.split)
qed

definition net_result :: "net_obs option \<Rightarrow> net_if list option" where
  "net_result ob =
     (case ob of
        None \<Rightarrow> Some []
      | Some o1 \<Rightarrow>
          if \<not> scans_ok BFSZ (\<lambda>n. [if_name n]) 0 (no_rows o1) (no_rest o1) then None
          else Some (no_rows o1))"

lemma os_gather_network_gatherer:
  assumes "net_result ob = Some ns"
  shows "gatherer (os_gather_network ob :: 'm gather_fun)
    (const_spec (code_of ns) (if ns = [] then [] else jmembers (net_members ns)))"
proof (cases "ns = []")
  case True
  with assms have "os_gather_network ob = ((\<lambda>m p. Some (ENODATA, m, p)) :: 'm gather_fun)"
    by (auto simp: os_gather_network_def net_result_def fun_eq_iff split: option.splits if_splits)
  with True show ?thesis
    using nothing_gatherer[of ENODATA] by (simp add: code_of_def)
next
  case False
  have "gatherer (os_gather_network ob) (const_spec ENONE (concat (net_pieces ns)))"
    using assms False
    by (intro pieces_gatherer)
      (auto simp: os_gather_network_def net_result_def split: option.splits if_splits)
  with False show ?thesis
    by (simp add: code_of_def net_pieces_json)
qed

section \<open>The process section\<close>

text \<open>The parts written, in order; a command that cannot be started ends the section.\<close>

definition proc_blocks :: "proc_obs \<Rightarrow> (string \<times> json) list" where
  "proc_blocks ob =
     (case po_cpu ob of None \<Rightarrow> []
      | Some r1 \<Rightarrow> (if r1 = [] then [] else [cpu_block r1]) @
          (case po_mem ob of None \<Rightarrow> []
           | Some r2 \<Rightarrow> (if r2 = [] then [] else [mem_block r2]) @
               (case po_list ob of None \<Rightarrow> []
                | Some r3 \<Rightarrow> if r3 = [] then [] else [list_block r3])))"

definition proc_ok :: "proc_obs \<Rightarrow> bool" where
  "proc_ok ob \<longleftrightarrow>
     (\<forall>r. po_cpu ob = Some r \<longrightarrow> scans_ok 10 (\<lambda>(n, c). [n]) 0 r (po_cpu_rest ob)) \<and>
     (\<forall>r. po_mem ob = Some r \<longrightarrow> scans_ok 10 (\<lambda>(n, c). [n]) 0 r (po_mem_rest ob)) \<and>
     (\<forall>r. po_list ob = Some r \<longrightarrow> scans_ok 10 list_strings 0 r (po_list_rest ob))"

text \<open>
  The state between two parts: the blocks \<open>bs\<close> have been written since the object was
  opened on \<open>p0\<close>, and each of them ends with a brace.
\<close>

definition blocks_written :: "packet \<Rightarrow> (string \<times> json) list \<Rightarrow> packet \<Rightarrow> bool" where
  "blocks_written p0 bs p \<longleftrightarrow>
     ptext p0 \<noteq> [] \<and> last (ptext p0) = CHR ''{'' \<and> wrote (jmembers bs) p0 p \<and>
     (\<forall>b \<in> set bs. \<exists>k ms. b = (k, JObj ms))"

lemma jmembers_last: "bs \<noteq> [] \<Longrightarrow> \<forall>b \<in> set bs. \<exists>k ms. b = (k, JObj ms) \<Longrightarrow> last (jmembers bs) = CHR ''}''"
proof (induction bs)
  case (Cons b bs)
  then obtain k ms where "b = (k, JObj ms)" by auto
  with Cons show ?case by (cases "bs = []") (auto simp: jmembers_Cons jmember_obj)
qed simp

lemma after_sep_written:
  assumes "blocks_written p0 bs p" "ss \<noteq> []"
  shows "\<exists>ss'. after_sep ss p = Some ss' \<and> concat ss' = (if bs = [] then [] else '','') @ concat ss"
proof -
  have ok: "pkt_ok p" "ptext p = ptext p0 @ jmembers bs" "ptext p0 \<noteq> []" "last (ptext p0) = CHR ''{''"
    using assms(1) wrote_fields(1,3) by (auto simp: blocks_written_def)
  have "last_char p = Some (if bs = [] then CHR ''{'' else CHR ''}'')"
    using last_char_ptext[OF ok(1)] ok assms(1) jmembers_last[of bs]
    by (auto simp: blocks_written_def)
  with assms(2) show ?thesis by (cases ss) (auto simp: after_sep_def)
qed

lemma proc_part_written:
  assumes "blocks_written p0 bs p" "scans_ok 10 strs 0 rows rest" "sep \<or> bs = []"
    and "concat (pieces rows) = jmember b" "b = (k, JObj ms)"
    and "rows = [] \<or> room p (Suc (length (jmember b)))"
  shows "\<exists>q. proc_part sep pieces strs rows rest e p = Some (if rows = [] then e else ENONE, q) \<and>
    blocks_written p0 (bs @ (if rows = [] then [] else [b])) q"
proof (cases "rows = []")
  case True
  with assms show ?thesis by (simp add: proc_part_def)
next
  case False
  have "pieces rows \<noteq> []"
    using assms(4) by (cases "pieces rows") (auto simp: jmember_def assms(5))
  from after_sep_written[OF assms(1) this] obtain ss where
    ss: "(if sep then after_sep (pieces rows) p else Some (pieces rows)) = Some ss"
      "concat ss = (if bs = [] then [] else '','') @ jmember b"
    using assms(3,4) by (cases sep) auto
  have "pkt_ok p" and w: "wrote (jmembers bs) p0 p"
    using assms(1) wrote_fields(1) by (auto simp: blocks_written_def)
  moreover have "room p (Suc (length (jmember b)))"
    using assms(6) False by simp
  then have "room p (length (concat ss))"
    by (rule room_mono) (simp add: ss(2))
  ultimately obtain q where q: "append_all ss p = Some q" "wrote (concat ss) p q"
    using append_all_wrote by blast
  have "jmembers (bs @ [b]) = jmembers bs @ concat ss"
    by (simp add: ss(2) jmembers_append) (simp add: jmembers_def)
  with wrote_trans[OF w q(2)] have "blocks_written p0 (bs @ [b]) q"
    using assms(1,5) by (auto simp: blocks_written_def)
  with False q(1) ss(1) assms(2) show ?thesis by (simp add: proc_part_def)
qed

definition proc_need :: "proc_obs \<Rightarrow> nat" where
  "proc_need ob = (\<Sum>b\<leftarrow>proc_blocks ob. Suc (length (jmember b)))"

definition proc_spec :: "proc_obs \<Rightarrow> 'm gspec" where
  "proc_spec ob = \<lparr>g_code = (\<lambda>_. code_of (proc_blocks ob)), g_out = (\<lambda>_. jmembers (proc_blocks ob)),
     g_upd = (\<lambda>m. m), g_need = (\<lambda>_. proc_need ob)\<rparr>"

lemma room_left:
  assumes "wrote (jmembers bs) p0 p" "room p0 ((\<Sum>b\<leftarrow>bs. Suc (length (jmember b))) + n)"
  shows "room p n"
  unfolding wrote_room[OF assms(1)] using assms(2)
  by (rule room_mono) (use jmembers_length[of bs] in simp)

text \<open>One part, with the room of the whole section in view.\<close>

lemma proc_part_step:
  assumes "blocks_written p0 bs p" "scans_ok 10 strs 0 rows rest" "sep \<or> bs = []"
    and "concat (pieces rows) = jmember b0" "\<exists>k ms. b0 = (k, JObj ms)"
    and "all = bs @ (if rows = [] then [] else [b0]) @ tail"
    and "room p0 (\<Sum>b\<leftarrow>all. Suc (length (jmember b)))"
  obtains q where "proc_part sep pieces strs rows rest e p = Some (if rows = [] then e else ENONE, q)"
    "blocks_written p0 (bs @ (if rows = [] then [] else [b0])) q"
proof -
  obtain k ms where k: "b0 = (k, JObj ms)"
    using assms(5) by blast
  have "rows = [] \<or> room p (Suc (length (jmember b0)))"
  proof (cases "rows = []")
    case False
    have "room p0 ((\<Sum>b\<leftarrow>bs. Suc (length (jmember b))) + Suc (length (jmember b0)))"
      using assms(7) by (rule room_mono) (simp add: assms(6) False)
    then show ?thesis
      using room_left assms(1) by (auto simp: blocks_written_def)
  qed simp
  from proc_part_written[where pieces = pieces and rows = rows and strs = strs, OF assms(1-4) k this] that show thesis by blast
qed

lemma blocks_written_start:
  "pkt_ok p \<Longrightarrow> ptext p \<noteq> [] \<Longrightarrow> last (ptext p) = CHR ''{'' \<Longrightarrow> blocks_written p [] p"
  by (simp add: blocks_written_def wrote_refl)

lemma blk_objects:
  "\<exists>k ms. cpu_block r = (k, JObj ms)" "\<exists>k ms. mem_block r = (k, JObj ms)"
  "\<exists>k ms. list_block r' = (k, JObj ms)"
  by (simp_all add: cpu_block_def mem_block_def list_block_def)

lemma os_gather_proc_written:
  assumes ok: "proc_ok ob" and start: "pkt_ok p" "ptext p \<noteq> []" "last (ptext p) = CHR ''{''"
    and space: "room p (proc_need ob)"
  shows "\<exists>q. os_gather_proc ob m p = Some (code_of (proc_blocks ob), m, q) \<and>
    blocks_written p (proc_blocks ob) q"
proof (cases "po_cpu ob")
  case None
  then show ?thesis
    using blocks_written_start[OF start] by (simp add: os_gather_proc_def proc_blocks_def code_of_def)
next
  case cpu: (Some r1)
  let ?b1 = "if r1 = [] then [] else [cpu_block r1]"
  have space: "room p (\<Sum>b\<leftarrow>proc_blocks ob. Suc (length (jmember b)))"
    using space by (simp add: proc_need_def)
  have "scans_ok 10 (\<lambda>(n, c). [n]) 0 r1 (po_cpu_rest ob)" using ok cpu by (simp add: proc_ok_def)
  then obtain p1 where p1: "proc_part False cpu_pieces (\<lambda>(n, c). [n]) r1 (po_cpu_rest ob) ENODATA p = Some (code_of ?b1, p1)"
      "blocks_written p ?b1 p1"
    using proc_part_step[where pieces = cpu_pieces and strs = "(\<lambda>(n, c). [n])" and rows = r1 and rest = "po_cpu_rest ob" and sep = False and e = ENODATA
        and tail = "drop (length ?b1) (proc_blocks ob)", OF blocks_written_start[OF start] _ _
        block_pieces(1) blk_objects(1) _ space] cpu
    by (cases "r1 = []") (auto simp: proc_blocks_def code_of_def)
  show ?thesis
  proof (cases "po_mem ob")
    case None
    with cpu p1 show ?thesis by (simp add: os_gather_proc_def proc_blocks_def)
  next
    case mem: (Some r2)
    let ?b2 = "?b1 @ (if r2 = [] then [] else [mem_block r2])"
    have "scans_ok 10 (\<lambda>(n, c). [n]) 0 r2 (po_mem_rest ob)" using ok mem by (simp add: proc_ok_def)
    then obtain p2 where p2: "proc_part True mem_pieces (\<lambda>(n, c). [n]) r2 (po_mem_rest ob) (code_of ?b1) p1 = Some (code_of ?b2, p2)"
        "blocks_written p ?b2 p2"
      using proc_part_step[where pieces = mem_pieces and strs = "(\<lambda>(n, c). [n])" and rows = r2 and rest = "po_mem_rest ob" and sep = True and e = "code_of ?b1"
          and tail = "drop (length ?b2) (proc_blocks ob)", OF p1(2) _ _ block_pieces(2) blk_objects(2) _ space] cpu mem
      by (cases "r2 = []") (auto simp: proc_blocks_def code_of_def)
    show ?thesis
    proof (cases "po_list ob")
      case None
      with cpu mem p1 p2 show ?thesis by (simp add: os_gather_proc_def proc_blocks_def)
    next
      case lst: (Some r3)
      have "scans_ok 10 list_strings 0 r3 (po_list_rest ob)" using ok lst by (simp add: proc_ok_def)
      then obtain p3 where
        "proc_part True list_pieces list_strings r3 (po_list_rest ob) (code_of ?b2) p2 = Some (code_of (proc_blocks ob), p3)"
        "blocks_written p (proc_blocks ob) p3"
        using proc_part_step[where pieces = list_pieces and strs = "list_strings" and rows = r3 and rest = "po_list_rest ob" and sep = True and e = "code_of ?b2"
            and tail = "[]", OF p2(2) _ _ block_pieces(3) blk_objects(3) _ space] cpu mem lst
        by (cases "r3 = []") (auto simp: proc_blocks_def code_of_def)
      with cpu mem lst p1 p2 show ?thesis by (simp add: os_gather_proc_def)
    qed
  qed
qed

lemma os_gather_proc_gatherer:
  assumes "proc_ok ob"
  shows "gatherer (os_gather_proc ob) (proc_spec ob)"
proof
  fix m :: 'a and p :: packet
  assume "pkt_ok p" "ptext p \<noteq> []" "last (ptext p) = CHR ''{''" "room p (g_need (proc_spec ob) m)"
  with os_gather_proc_written[OF assms, of p m]
  show "\<exists>q. os_gather_proc ob m p = Some (g_code (proc_spec ob) m, g_upd (proc_spec ob) m, q) \<and>
      wrote (g_out (proc_spec ob) m) p q"
    by (auto simp: proc_spec_def blocks_written_def)
qed (use jmembers_length in \<open>simp add: proc_spec_def proc_need_def\<close>)

interpretation os_cpu: gatherer "os_gather_cpu ob"
  "const_spec (if ob = None then ENODATA else ENONE) (jmembers (cpu_members ob))" for ob
  by (rule os_gather_cpu_gatherer)

interpretation os_mem: gatherer "os_gather_memory ob" "(case ob of
     Some (Some o1) \<Rightarrow> const_spec ENONE (jmembers (mem_members o1)) | _ \<Rightarrow> const_spec ENODATA [])" for ob
  by (rule os_gather_memory_gatherer)

section \<open>The whole module\<close>

text \<open>
  An observation the module can report: every counter of a listed device was read, no list is longer
  than its array, and no string is longer than its buffer.
\<close>

definition os_ok :: "os_obs \<Rightarrow> bool" where
  "os_ok ob \<longleftrightarrow> disk_result (ob_disk ob) \<noteq> None \<and> proc_ok (ob_proc ob) \<and> net_result (ob_net ob) \<noteq> None"

definition os_members :: "os_obs \<Rightarrow> (string \<times> json) list" where
  "os_members ob =
     (case ob_cpu ob of None \<Rightarrow> [] | Some _ \<Rightarrow> [(''cpu'', JObj (cpu_members (ob_cpu ob)))]) @
     (case disk_result (ob_disk ob) of
        Some (d # ds, io) \<Rightarrow> [(''disk'', JObj (disk_members (d # ds) io))] | _ \<Rightarrow> []) @
     (case proc_blocks (ob_proc ob) of [] \<Rightarrow> [] | b # bs \<Rightarrow> [(''proc'', JObj (b # bs))]) @
     (case ob_mem ob of Some (Some o1) \<Rightarrow> [(''mem'', JObj (mem_members o1))] | _ \<Rightarrow> []) @
     (case net_result (ob_net ob) of Some (n # ns) \<Rightarrow> [(''net'', JObj (net_members (n # ns)))] | _ \<Rightarrow> [])"

definition os_specs :: "os_obs \<Rightarrow> (string \<times> 'm gspec) list" where
  "os_specs ob =
     [(''cpu'', const_spec (if ob_cpu ob = None then ENODATA else ENONE) (jmembers (cpu_members (ob_cpu ob)))),
      (''disk'', let (ds, io) = the (disk_result (ob_disk ob)) in
         const_spec (code_of ds) (if ds = [] then [] else jmembers (disk_members ds io))),
      (''proc'', proc_spec (ob_proc ob)),
      (''mem'', case ob_mem ob of
         Some (Some o1) \<Rightarrow> const_spec ENONE (jmembers (mem_members o1)) | _ \<Rightarrow> const_spec ENODATA []),
      (''net'', let ns = the (net_result (ob_net ob)) in
         const_spec (code_of ns) (if ns = [] then [] else jmembers (net_members ns)))]"

lemma os_sections_ok:
  assumes "os_ok ob"
  shows "sections_ok
    [(''cpu'', os_gather_cpu (ob_cpu ob)), (''disk'', os_gather_disk (ob_disk ob)),
     (''proc'', os_gather_proc (ob_proc ob)), (''mem'', os_gather_memory (ob_mem ob)),
     (''net'', os_gather_network (ob_net ob))] (os_specs ob)"
proof -
  obtain ds io ns where r: "disk_result (ob_disk ob) = Some (ds, io)" "net_result (ob_net ob) = Some ns"
    and "proc_ok (ob_proc ob)"
    using assms by (auto simp: os_ok_def)
  show ?thesis
    unfolding sections_ok_def os_specs_def r option.sel Let_def prod.case
    by (intro list.rel_intros)
      (simp_all only: prod.case simp_thms os_gather_cpu_gatherer os_gather_disk_gatherer[OF r(1)]
        os_gather_proc_gatherer[OF \<open>proc_ok _\<close>] os_gather_memory_gatherer
        os_gather_network_gatherer[OF r(2)])
qed

lemma os_sections_json:
  assumes "os_ok ob"
  shows "all_sections (os_specs ob) m = map jmember (os_members ob)"
proof -
  obtain ds io ns where r: "disk_result (ob_disk ob) = Some (ds, io)" "net_result (ob_net ob) = Some ns"
    using assms by (auto simp: os_ok_def)
  show ?thesis
    by (auto simp: os_specs_def os_members_def r proc_spec_def code_of_def gather_codes
        section_text_def jmember_obj split: list.split option.split)
qed

lemma os_all_code:
  fixes m :: 'm
  shows "all_code (os_specs ob) m = code_of (all_sections (os_specs ob) m)"
proof -
  have "list_all (\<lambda>(t, sp). \<forall>m. g_code sp m \<in> {0, 1}) (os_specs ob :: (string \<times> 'm gspec) list)"
    by (auto simp: os_specs_def proc_spec_def code_of_def gather_codes Let_def split: option.split prod.split)
  moreover have "(os_specs ob :: (string \<times> 'm gspec) list) \<noteq> []" by (simp add: os_specs_def)
  ultimately show ?thesis
    using all_code_01[of "os_specs ob" m] by (simp add: code_of_def gather_codes)
qed

lemma os_upd: "all_upd (os_specs ob) m = m"
  by (auto simp: os_specs_def proc_spec_def Let_def split: option.split prod.split)

definition os_spec :: "os_obs \<Rightarrow> 'm gspec" where
  "os_spec ob = \<lparr>g_code = (\<lambda>_. code_of (os_members ob)), g_out = (\<lambda>_. jmembers (os_members ob)),
     g_upd = (\<lambda>m. m), g_need = all_need (os_specs ob)\<rparr>"

lemma os_gatherer:
  assumes "os_ok ob"
  shows "gatherer (os_gather ob :: 'm gather_fun) (os_spec ob)"
proof -
  have spec: "(os_spec ob :: 'm gspec) = chain_spec (os_specs ob)"
    by (simp add: chain_spec_def os_spec_def fun_eq_iff os_upd os_all_code os_sections_json[OF assms]
        jmembers_def code_of_def)
  show ?thesis
    unfolding os_gather_def spec by (rule gather_all_gatherer[OF os_sections_ok[OF assms]])
qed

section \<open>Properties\<close>

text \<open>
  C14: for an observation it can report (no list longer than its array, no scanned string of 128 or more
  characters, every counter of a listed device read), the module returns and adds, after the opening brace, the members of one JSON object: one per section that has data, in the order cpu,
  disk, proc, mem, net. It reports no data exactly when no section has any.
\<close>

theorem os_gather_writes:
  assumes "os_ok ob" "pkt_ok p" "ptext p \<noteq> []" "last (ptext p) = CHR ''{''"
    and "room p (all_need (os_specs ob :: (string \<times> 'm gspec) list) m)"
  shows "\<exists>q. os_gather ob (m :: 'm) p = Some (if os_members ob = [] then ENODATA else ENONE, m, q) \<and>
    pkt_ok q \<and> ptext q = ptext p @ jmembers (os_members ob)"
proof -
  have "room p (g_need (os_spec ob) m)"
    using assms(5) by (simp add: os_spec_def)
  from gatherer.gathers[OF os_gatherer[OF assms(1)] assms(2-4) this] obtain q where
    "os_gather ob m p = Some (g_code (os_spec ob) m, g_upd (os_spec ob) m, q)"
    "wrote (g_out (os_spec ob) m) p q"
    by (elim exE conjE)
  with wrote_fields(1,3)[of "g_out (os_spec ob) m" p q] show ?thesis
    by (simp add: os_spec_def code_of_def)
qed

text \<open>An observation with a processor and one network interface.\<close>

definition sample_obs :: os_obs where
  "sample_obs =
     \<lparr>ob_cpu = Some (Some (Fin False 1 2, Fin False 1 2, Fin False 1 1)), ob_disk = None,
      ob_proc = \<lparr>po_cpu = None, po_mem = None, po_list = None, po_cpu_rest = [], po_mem_rest = [], po_list_rest = []\<rparr>, ob_mem = None,
      ob_net = Some \<lparr>no_rows = [\<lparr>if_name = ''lo'', i_byte = 1, i_pckt = 2, i_err = 0, o_byte = 3,
        o_pckt = 4, o_err = 0\<rparr>], no_rest = []\<rparr>\<rparr>"

definition open_packet_sample :: packet where
  "open_packet_sample = \<lparr>started = 0, ptype = METRIC, pstate = BEGIN, response = 0, psize = 1,
     rollback_point = 0, attempt = 0, payload = (\<lambda>i. if i = 0 then CHR ''{'' else NUL), spin = 0, pnext = None\<rparr>"

lemma sample_obs_ok: "os_ok sample_obs"
  by (simp add: os_ok_def sample_obs_def disk_result_def proc_ok_def net_result_def stores_ok_def BFSZ_def)

lemma sample_obs_net: "net_result (ob_net sample_obs) = Some
    [\<lparr>if_name = ''lo'', i_byte = 1, i_pckt = 2, i_err = 0, o_byte = 3, o_pckt = 4, o_err = 0\<rparr>]"
  by (simp add: sample_obs_def net_result_def stores_ok_def BFSZ_def)

lemma show_ull_small:
  "show_ull 0 = ''0''" "show_ull 1 = ''1''" "show_ull 2 = ''2''" "show_ull 3 = ''3''" "show_ull 4 = ''4''"
  by (simp_all add: show_ull_def show_nat.simps digit_values)

lemma show_fixed_sample:
  "show_fixed 2 (Fin False (Suc 0) 2) = ''0.25''" "show_fixed 2 (Fin False (Suc 0) (Suc 0)) = ''0.50''"
  by (simp_all add: round_quot_def show_nat.simps digit_values pad0_def)

lemma sample_obs_text: "jmembers (os_members sample_obs) =
    ''\"cpu\":{\"user\":0.25,\"sys\":0.25,\"idle\":0.50},\"net\":{\"name\":[\"lo\"],\"i_byte\":[1],\"o_byte\":[3],\"i_pckt\":[2],\"o_pckt\":[4],\"i_err\":[0],\"o_err\":[0],\"i_tot\":1,\"o_tot\":3}''"
  unfolding os_members_def sample_obs_net
  by (simp add: sample_obs_def disk_result_def proc_blocks_def cpu_members_def net_members_def
      column_simps show_ull_small show_fixed_sample del: show_fixed.simps)

lemma sample_obs_need: "all_need (os_specs sample_obs) m \<le> 1000"
  unfolding os_specs_def sample_obs_net
  by (simp add: sample_obs_def disk_result_def proc_spec_def proc_need_def proc_blocks_def cpu_members_def
      net_members_def column_simps show_ull_small show_fixed_sample del: show_fixed.simps)

theorem os_gather_writes_witness:
  "\<exists>q. os_gather sample_obs (0 :: nat) open_packet_sample = Some (ENONE, 0, q) \<and>
    ptext q = CHR ''{'' # ''\"cpu\":{\"user\":0.25,\"sys\":0.25,\"idle\":0.50},\"net\":{\"name\":[\"lo\"],\"i_byte\":[1],\"o_byte\":[3],\"i_pckt\":[2],\"o_pckt\":[4],\"i_err\":[0],\"o_err\":[0],\"i_tot\":1,\"o_tot\":3}''"
proof -
  have start: "pkt_ok open_packet_sample" "ptext open_packet_sample = ''{''"
    by (simp_all add: open_packet_sample_def pkt_ok_def ptext_def text_of_def PKTSZ_def)
  have "room open_packet_sample (all_need (os_specs sample_obs) (0 :: nat))"
    using sample_obs_need[of "0 :: nat"] by (simp add: room_def open_packet_sample_def PKTSZ_def)
  from os_gather_writes[OF sample_obs_ok start(1) _ _ this] obtain q where
    "os_gather sample_obs (0 :: nat) open_packet_sample =
       Some (if os_members sample_obs = [] then ENODATA else ENONE, 0, q)"
    "ptext q = ptext open_packet_sample @ jmembers (os_members sample_obs)"
    unfolding start(2) by auto
  moreover have "os_members sample_obs \<noteq> []"
    by (simp add: os_members_def sample_obs_def)
  ultimately show ?thesis
    unfolding start(2) sample_obs_text by simp
qed

text \<open>The device a line of the mounts gives, if the system answers all questions about it.\<close>

definition usable :: "mount_obs \<Rightarrow> dev option" where
  "usable mo =
     (case (mo_vfs mo, mo_sector mo, mo_stat mo) of
        (Some v, Some (Some sec), Some st) \<Rightarrow> Some (dev_of mo v sec st) | _ \<Rightarrow> None)"

definition io_of :: "mount_obs \<Rightarrow> 64 word" where
  "io_of mo = (case (usable mo, mo_stat mo) of (Some _, Some (Some s)) \<Rightarrow> st_r s + st_w s | _ \<Rightarrow> 0)"

text \<open>At most 128 lines, with names and mounts that fit.\<close>

definition lines_fit :: "mount_obs list \<Rightarrow> bool" where
  "lines_fit mos \<longleftrightarrow> length mos \<le> BFSZ \<and>
     (\<forall>mo \<in> set mos. length (mo_name mo) < BFSZ \<and> length (mo_mount mo) < BFSZ)"

lemma disk_loop_usable:
  assumes "length devs + length mos \<le> BFSZ"
    and "\<forall>mo \<in> set mos. length (mo_name mo) < BFSZ \<and> length (mo_mount mo) < BFSZ"
  shows "disk_loop mos [] devs io =
    Some (devs @ List.map_filter usable mos, io + sum_list (map io_of mos))"
  using assms
proof (induction mos arbitrary: devs io)
  case (Cons mo mos)
  then have "stores_ok BFSZ (length devs) [mo_name mo, mo_mount mo]" by (simp add: stores_ok_def)
  with Cons show ?case
    by (auto simp: usable_def io_of_def map_filter_simps add.assoc
        split: option.split)
qed (simp add: map_filter_simps stores_ok_def)

text \<open>
  With at most 128 mounts whose names and paths fit, the devices reported are exactly those for which the usage,
  the sector size and the counters could be asked, in the order of the mounts, with sizes in
  kilobytes, and the total is the sum of their reads and writes modulo \<open>2 ^ 64\<close>.
\<close>

theorem os_gather_disk_devices:
  assumes "lines_fit mos" "\<forall>mo \<in> set mos. mo_stat mo \<noteq> Some None"
  shows "\<exists>ds. disk_result (Some (mos, [])) = Some (ds, sum_list (map io_of mos)) \<and>
    map fst ds = List.map_filter usable mos \<and> (\<forall>(d, s) \<in> set ds. d_stat d = Some s)"
proof -
  have "\<exists>ds. with_stats (List.map_filter usable mos) = Some ds \<and>
      map fst ds = List.map_filter usable mos \<and> (\<forall>(d, s) \<in> set ds. d_stat d = Some s)"
    using assms(2)
  proof (induction mos)
    case (Cons mo mos)
    then obtain ds where ds: "with_stats (List.map_filter usable mos) = Some ds"
      "map fst ds = List.map_filter usable mos" "\<forall>(d, s) \<in> set ds. d_stat d = Some s"
      by auto
    show ?case
    proof (cases "usable mo")
      case (Some d)
      with Cons.prems obtain s where "d_stat d = Some s"
        by (auto simp: usable_def dev_of_def split: option.splits)
      with ds Some show ?thesis
        by (intro exI[of _ "(d, s) # ds"]) (auto simp: with_stats_def map_filter_simps)
    qed (use ds in \<open>auto simp: map_filter_simps\<close>)
  qed (simp add: map_filter_simps)
  with disk_loop_usable[of "[]" mos 0] assms(1) show ?thesis
    by (auto simp: disk_result_def lines_fit_def)
qed

definition sample_mount :: mount_obs where
  "sample_mount =
     \<lparr>mo_name = ''sda'', mo_num = 1, mo_mount = ''/'',
      mo_vfs = Some \<lparr>f_blocks = 2048, f_frsize = 4096, f_bfree = 1024, f_bsize = 4096, f_bavail = 512\<rparr>,
      mo_sector = Some (Some 512),
      mo_stat = Some (Some \<lparr>st_r = 10, st_rkb = 100, st_rt = 5, st_w = 20, st_wkb = 200, st_wt = 6, st_weight = 7\<rparr>)\<rparr>"

theorem os_gather_disk_devices_witness:
  "\<exists>d s. disk_result (Some ([sample_mount, sample_mount\<lparr>mo_sector := None\<rparr>], [])) = Some ([(d, s)], 30) \<and>
    d_tot d = 8192 \<and> d_free d = 4096 \<and> st_rkb s = 50 \<and> st_wkb s = 100"
proof -
  let ?mos = "[sample_mount, sample_mount\<lparr>mo_sector := None\<rparr>]"
  have "lines_fit ?mos" by (simp add: lines_fit_def BFSZ_def sample_mount_def)
  moreover have "\<forall>mo \<in> set ?mos. mo_stat mo \<noteq> Some None" by (simp add: sample_mount_def)
  ultimately obtain ds where ds: "disk_result (Some (?mos, [])) = Some (ds, sum_list (map io_of ?mos))"
      "map fst ds = List.map_filter usable ?mos" "\<forall>(d, s) \<in> set ds. d_stat d = Some s"
    using os_gather_disk_devices by blast
  have "sum_list (map io_of ?mos) = 30"
    by (simp add: sample_mount_def io_of_def usable_def)
  moreover obtain d where d: "List.map_filter usable ?mos = [d]" "d_tot d = 8192" "d_free d = 4096"
      "\<exists>s. d_stat d = Some s \<and> st_rkb s = 50 \<and> st_wkb s = 100"
    by (simp add: sample_mount_def usable_def map_filter_simps dev_of_def BPKB_def)
  moreover obtain s where "ds = [(d, s)]"
    using ds(2) d(1) by (cases ds) auto
  ultimately show ?thesis using ds by auto
qed

text \<open>
  Counters that were not read are printed all the same: as soon as the scan of a
  device's counters fails, the section reads memory that was never written.
\<close>

theorem os_gather_disk_unread:
  assumes "lines_fit mos" "mo \<in> set mos" "mo_vfs mo = Some v" "mo_sector mo = Some (Some sec)"
    and "mo_stat mo = Some None"
  shows "os_gather_disk (Some (mos, [])) m p = None"
proof -
  let ?devs = "List.map_filter usable mos"
  have d: "dev_of mo v sec None \<in> set ?devs"
    using assms by (auto simp: List.map_filter_def usable_def image_iff intro!: bexI[of _ mo])
  have "those xs = None" if "None \<in> set xs" for xs :: "(dev \<times> diskstat) option list"
    using that by (induction xs) (auto split: option.split)
  with d have "with_stats ?devs = None"
    unfolding with_stats_def by (force simp: dev_of_def image_iff)
  moreover have "?devs \<noteq> []" using d by auto
  ultimately show ?thesis
    using disk_loop_usable[of "[]" mos 0] assms(1) by (simp add: os_gather_disk_def lines_fit_def)
qed

theorem os_gather_disk_unread_witness:
  "os_gather_disk (Some ([sample_mount\<lparr>mo_stat := Some None\<rparr>], [])) (0 :: nat) open_packet_sample = None"
  by (rule os_gather_disk_unread[where mo = "sample_mount\<lparr>mo_stat := Some None\<rparr>" and sec = 512])
    (simp_all add: lines_fit_def sample_mount_def BFSZ_def)

text \<open>The width of the scan does not count the terminator: a mount of 128 characters is undefined.\<close>

lemma os_gather_disk_long_mount:
  "BFSZ \<le> length (mo_mount mo) \<Longrightarrow> os_gather_disk (Some (mo # mos, rest)) m p = None"
  by (simp add: os_gather_disk_def stores_ok_def)

end
