(* ===== verification/MysqlPlugin.thy ===== *)
theory MysqlPlugin
  imports Plugin Scan
begin

text \<open>
  The module that observes a MySQL server (src/plugins/mysql.c): its configuration string,
  the connection, the sections of a report, and the alerts when the server disappears and
  comes back. The client library is outside: what it answers during one call is the
  observation, with the rows of every query. A field of a row is \<open>None\<close> for SQL's NULL.
\<close>

section \<open>The module record\<close>

record mysql_module =
  on :: bool
  m_host :: string
  m_user :: string
  m_pass :: string
  m_port :: "32 word"
  connected :: bool
  m_tid :: "64 word"

text \<open>The configuration string \<open>host/port/user/password\<close>; none of the buffers can overflow.\<close>

definition scan_target :: "string \<Rightarrow> (string \<times> 32 word \<times> string \<times> string) option" where
  "scan_target s = do {
     (h, s1) \<leftarrow> scan_until 128 CHR ''/'' s;
     s2 \<leftarrow> scan_lit ''/'' s1;
     (pt, s3) \<leftarrow> scan_u s2;
     s4 \<leftarrow> scan_lit ''/'' s3;
     (us, s5) \<leftarrow> scan_until 128 CHR ''/'' s4;
     s6 \<leftarrow> scan_lit ''/'' s5;
     (pw, s7) \<leftarrow> scan_until 128 CHR ''/'' s6;
     Some (h, pt, us, pw)
   }"

text \<open>
  The bytes of the record: the flag, the three buffers, the port, the handle and the thread
  number. What follows a string in its buffer, and the handle, are whatever the memory held.
\<close>

definition mysql_size :: nat where
  "mysql_size = 408"

definition buffer :: "string \<Rightarrow> string \<Rightarrow> string" where
  "buffer fill s = take BFSZ (s @ NUL # fill)"

definition mysql_bytes :: "string \<Rightarrow> string \<Rightarrow> mysql_module \<Rightarrow> string" where
  "mysql_bytes fill rest m =
     int_bytes (if on m then 1 else 0) @ buffer fill (m_host m) @ buffer fill (m_user m) @
     buffer fill (m_pass m) @ int_bytes (m_port m) @ rest"

text \<open>Comparing a record read back from a file with the record of a plugin.\<close>

definition cstr_at :: "nat \<Rightarrow> string \<Rightarrow> string" where
  "cstr_at n bytes = takeWhile (\<lambda>c. c \<noteq> NUL) (drop n bytes)"

definition mysql_module_cmp :: "string \<Rightarrow> mysql_module \<Rightarrow> nat \<Rightarrow> int" where
  "mysql_module_cmp bytes m n =
     (if n = mysql_size \<and> cstr_at 4 bytes = m_host m \<and> cstr_at 132 bytes = m_user m \<and>
         cstr_at 260 bytes = m_pass m \<and> take 4 (drop 388 bytes) = int_bytes (m_port m)
      then 0 else 1)"

section \<open>The connection\<close>

record connect_obs =
  co_init :: bool
  co_option :: bool
  co_connect :: bool
  co_thread :: "64 word"

definition mysql_prep :: "connect_obs \<Rightarrow> mysql_module \<Rightarrow> int \<times> mysql_module" where
  "mysql_prep ob m =
     (if \<not> co_init ob then (-1, m\<lparr>connected := False\<rparr>)
      else if \<not> co_option ob \<or> \<not> co_connect ob then (-1, m\<lparr>connected := True\<rparr>)
      else (0, m\<lparr>connected := True, on := True, m_tid := co_thread ob\<rparr>))"

text \<open>
  Finalisation closes the connection there is and frees the module. A pointer to anything else is read
  and freed as if it were a module.
\<close>

definition mysql_fini :: "mysql_module pointee \<Rightarrow> (int \<times> fini_call list) option" where
  "mysql_fini m =
     (case m of
        Null \<Rightarrow> Some (-1, [])
      | Module m \<Rightarrow> Some (0, (if connected m then [Close_connection] else []) @ [Free_module])
      | Other_structure \<Rightarrow> None)"

text \<open>So finalising the plugin of a database is undefined: \<open>plugin_fini\<close> passes the plugin.\<close>

lemma mysql_plugin_fini: "fini p = Some mysql_fini \<Longrightarrow> plugin_fini (Some p) s = None"
  by (simp add: plugin_fini_def mysql_fini_def)

section \<open>Sections\<close>

type_synonym row = "string option list"
type_synonym rows = "row list option"

text \<open>A field of a row: reading beyond the row, or through NULL, is undefined.\<close>

definition field :: "row \<Rightarrow> nat \<Rightarrow> string option" where
  "field r i = (if i < length r then r ! i else None)"

text \<open>\<open>row[i] + n\<close>\<close>

definition field_from :: "nat \<Rightarrow> row \<Rightarrow> nat \<Rightarrow> string option" where
  "field_from n r i = do { s \<leftarrow> field r i; if n \<le> length s then Some (drop n s) else None }"

text \<open>The loop that prints name and value of every row, commas in between.\<close>

fun member_rows :: "nat \<Rightarrow> row list \<Rightarrow> bool \<Rightarrow> packet \<Rightarrow> (bool \<times> packet) option" where
  "member_rows n [] comma p = Some (comma, p)"
| "member_rows n (r # rs) comma p = do {
     k \<leftarrow> field_from n r 0;
     v \<leftarrow> field r 1;
     p1 \<leftarrow> packet_append ((if comma then '','' else []) @ dq k @ '':'' @ v) p;
     member_rows n rs True p1
   }"

definition member_query ::
  "nat \<Rightarrow> rows \<Rightarrow> int \<times> bool \<times> packet \<Rightarrow> (int \<times> bool \<times> packet) option" where
  "member_query n res = (\<lambda>(error, comma, p).
     case res of
       None \<Rightarrow> Some (error, comma, p)
     | Some rs \<Rightarrow> do { (c1, p1) \<leftarrow> member_rows n rs comma p; Some (ENONE, c1, p1) })"

record mysql_obs =
  q_ping :: bool
  q_thread :: "64 word"
  q_crud :: rows
  q_ddl :: rows
  q_slow :: rows
  q_slow_log :: rows
  q_pool_size :: rows
  q_pool :: rows
  q_status :: rows
  q_threads :: rows
  q_processlist :: rows

definition mysql_gather_crud :: "mysql_obs \<Rightarrow> mysql_module gather_fun" where
  "mysql_gather_crud ob m p = do {
     s1 \<leftarrow> member_query 4 (q_crud ob) (ENODATA, False, p);
     (error, comma, p2) \<leftarrow> member_query 0 (q_ddl ob) s1;
     Some (error, m, p2)
   }"

text \<open>
  Storing a field of a row: a word into a buffer of 128 bytes, a number. A field that does
  not scan leaves the entry's field as it was, undefined here.
\<close>

definition store_word :: "row \<Rightarrow> nat \<Rightarrow> string option option" where
  "store_word r i = do {
     s \<leftarrow> field r i;
     case scan_s s of
       None \<Rightarrow> Some None
     | Some (word, _) \<Rightarrow> if length word < BFSZ then Some (Some word) else None
   }"

definition store_num :: "row \<Rightarrow> nat \<Rightarrow> 64 word option option" where
  "store_num r i = do { s \<leftarrow> field r i; Some (map_option fst (scan_ull s)) }"

text \<open>An entry of an array is the columns it has, in order; those not stored are \<open>None\<close>.\<close>

datatype cell = Word "string option" | Num "64 word option"

definition cell_text :: "cell \<Rightarrow> string option" where
  "cell_text c = (case c of Word s \<Rightarrow> s | Num v \<Rightarrow> map_option show_ull v)"

definition store_row :: "(row \<Rightarrow> cell option) list \<Rightarrow> row \<Rightarrow> cell list option" where
  "store_row cols r = those (map (\<lambda>f. f r) cols)"

definition word_col :: "nat \<Rightarrow> row \<Rightarrow> cell option" where
  "word_col i r = map_option Word (store_word r i)"

definition num_col :: "nat \<Rightarrow> row \<Rightarrow> cell option" where
  "num_col i r = map_option Num (store_num r i)"

text \<open>The array after the loop over the rows; there are 128 entries.\<close>

fun store_rows :: "(row \<Rightarrow> cell option) list \<Rightarrow> row list \<Rightarrow> cell list list \<Rightarrow> cell list list option" where
  "store_rows cols [] es = Some es"
| "store_rows cols (r # rs) es =
     (if BFSZ \<le> length es then None
      else do { e \<leftarrow> store_row cols r; store_rows cols rs (es @ [e]) })"

text \<open>
  The loops that print one column. The source indexes the array with \<open>k\<close>, the number of
  rows, and not with the loop's own index.
\<close>

definition entry_text :: "cell list list \<Rightarrow> nat \<Rightarrow> nat \<Rightarrow> string option" where
  "entry_text es k col =
     (if k < length es \<and> col < length (es ! k) then cell_text (es ! k ! col) else None)"

fun column_loop ::
  "bool \<Rightarrow> cell list list \<Rightarrow> nat \<Rightarrow> nat \<Rightarrow> nat list \<Rightarrow> packet \<Rightarrow> packet option" where
  "column_loop quoted es k col [] p = Some p"
| "column_loop quoted es k col (i # is) p = do {
     s \<leftarrow> entry_text es k col;
     p1 \<leftarrow> packet_append ((if i = 0 then [] else '','') @ (if quoted then dq s else s)) p;
     column_loop quoted es k col is p1
   }"

text \<open>The columns one after the other: the text in front of each, and whether it is quoted.\<close>

fun columns :: "(string \<times> bool) list \<Rightarrow> nat \<Rightarrow> cell list list \<Rightarrow> nat \<Rightarrow> packet \<Rightarrow> packet option" where
  "columns [] col es k p = Some p"
| "columns ((head, quoted) # cs) col es k p = do {
     p1 \<leftarrow> packet_append head p;
     p2 \<leftarrow> column_loop quoted es k col [0..<k] p1;
     columns cs (Suc col) es k p2
   }"

fun slow_rows :: "row list \<Rightarrow> packet \<Rightarrow> packet option" where
  "slow_rows [] p = Some p"
| "slow_rows (r # rs) p = do {
     v \<leftarrow> field r 1;
     p1 \<leftarrow> packet_append (dq ''slow_queries'' @ '':'' @ v) p;
     slow_rows rs p1
   }"

definition slow_columns :: "(string \<times> bool) list" where
  \<open>slow_columns =
     [('',"user":['', True), (''],"sql":['', True), (''],"query_time":['', False),
      (''],"start_time":['', False), (''],"rows_sent":['', False), (''],"rows_examined":['', False)]\<close>

definition mysql_gather_query :: "mysql_obs \<Rightarrow> mysql_module gather_fun" where
  "mysql_gather_query ob m p = do {
     (error, p1) \<leftarrow> (case q_slow ob of
                       None \<Rightarrow> Some (ENODATA, p)
                     | Some rs \<Rightarrow> do { p1 \<leftarrow> slow_rows rs p; Some (ENONE, p1) });
     case q_slow_log ob of
       None \<Rightarrow> Some (error, m, p1)
     | Some rs \<Rightarrow> do {
         es \<leftarrow> store_rows [word_col 0, word_col 1, num_col 2, num_col 3, num_col 4, num_col 5] rs [];
         let k = length es;
         if k = 0 then Some (error, m, p1)
         else do {
           p2 \<leftarrow> columns slow_columns 0 es k p1;
           p3 \<leftarrow> packet_append '']'' p2;
           Some (error, m, p3)
         }
       }
   }"

text \<open>The InnoDB section prints name and value in two appends.\<close>

fun named_rows :: "string \<Rightarrow> nat \<Rightarrow> row list \<Rightarrow> packet \<Rightarrow> packet option" where
  "named_rows before n [] p = Some p"
| "named_rows before n (r # rs) p = do {
     k \<leftarrow> field_from n r 0;
     p1 \<leftarrow> packet_append (before @ dq k @ '':'') p;
     v \<leftarrow> field r 1;
     p2 \<leftarrow> packet_append v p1;
     named_rows before n rs p2
   }"

definition scan_ibuf :: "string \<Rightarrow> (64 word \<times> 64 word \<times> 64 word) option" where
  "scan_ibuf s = do {
     s1 \<leftarrow> scan_lit ''Ibuf: size '' s;
     (used, s2) \<leftarrow> scan_ull s1;
     s3 \<leftarrow> scan_lit '', free list len '' s2;
     (fre, s4) \<leftarrow> scan_ull s3;
     s5 \<leftarrow> scan_lit '', seg size '' s4;
     (tot, s6) \<leftarrow> scan_ull s5;
     Some (used, fre, tot)
   }"

text \<open>The loop over the positions of the status text.\<close>

fun ibuf_loop :: "string \<Rightarrow> int \<Rightarrow> packet \<Rightarrow> (int \<times> packet) option" where
  "ibuf_loop [] error p = Some (error, p)"
| "ibuf_loop (c # s) error p =
     (if take 4 (c # s) = ''Ibuf'' then
        (case scan_ibuf (c # s) of
           None \<Rightarrow> ibuf_loop s error p
         | Some (used, fre, tot) \<Rightarrow> do {
             p1 \<leftarrow> packet_append ('','' @ dq ''cell_count'' @ '':'' @ show_ull tot) p;
             p2 \<leftarrow> packet_append ('','' @ dq ''free_cells'' @ '':'' @ show_ull fre) p1;
             p3 \<leftarrow> packet_append ('','' @ dq ''used_cells'' @ '':'' @ show_ull used) p2;
             ibuf_loop s ENONE p3
           })
      else ibuf_loop s error p)"

definition named_query ::
  "string \<Rightarrow> nat \<Rightarrow> rows \<Rightarrow> int \<times> packet \<Rightarrow> (int \<times> packet) option" where
  "named_query before n res = (\<lambda>(error, p).
     case res of
       None \<Rightarrow> Some (error, p)
     | Some rs \<Rightarrow> do { p1 \<leftarrow> named_rows before n rs p; Some (ENONE, p1) })"

definition mysql_gather_innodb :: "mysql_obs \<Rightarrow> mysql_module gather_fun" where
  "mysql_gather_innodb ob m p = do {
     s1 \<leftarrow> named_query [] 14 (q_pool_size ob) (ENODATA, p);
     (error, p2) \<leftarrow> named_query '','' 7 (q_pool ob) s1;
     case q_status ob of
       None \<Rightarrow> Some (error, m, p2)
     | Some [] \<Rightarrow> None
     | Some (r # rs) \<Rightarrow> do {
         text \<leftarrow> field r 2;
         (e3, p3) \<leftarrow> ibuf_loop text error p2;
         Some (e3, m, p3)
       }
   }"

definition thread_columns :: "bool \<Rightarrow> (string \<times> bool) list" where
  \<open>thread_columns comma =
     [((if comma then '','' else []) @ ''"id":['', True), (''],"thread_id":['', True), (''],"info":['', True),
      (''],"user":['', True), (''],"host":['', True), (''],"db":['', True), (''],"time":['', True),
      (''],"timer_wait":['', True), (''],"event_id":['', True), (''],"event_name":['', True),
      (''],"command":['', True), (''],"state":['', True)]\<close>

definition mysql_gather_thread :: "mysql_obs \<Rightarrow> mysql_module gather_fun" where
  "mysql_gather_thread ob m p = do {
     (error, comma, p1) \<leftarrow> member_query 0 (q_threads ob) (ENODATA, False, p);
     case q_processlist ob of
       None \<Rightarrow> Some (error, m, p1)
     | Some rs \<Rightarrow> do {
         es \<leftarrow> store_rows [num_col 0, num_col 1, word_col 2, word_col 3, word_col 4, word_col 5, num_col 6,
                 num_col 7, num_col 8, word_col 9, word_col 10, word_col 11] rs [];
         let k = length es;
         if k = 0 then Some (error, m, p1)
         else do {
           p2 \<leftarrow> columns (thread_columns comma) 0 es k p1;
           p3 \<leftarrow> packet_append '']'' p2;
           Some (error, m, p3)
         }
       }
   }"

definition mysql_gather_replica :: "mysql_obs \<Rightarrow> mysql_module gather_fun" where
  "mysql_gather_replica ob m p = Some (ENODATA, m, p)"

section \<open>Gathering, and the alerts\<close>

definition mysql_gather :: "mysql_obs \<Rightarrow> mysql_module gather_fun" where
  "mysql_gather ob m p =
     (if \<not> q_ping ob then
        (if on m then Some (EPLUGDOWN, m\<lparr>on := False\<rparr>, p) else Some (ENODATA, m, p))
      else if m_tid m \<noteq> q_thread ob then Some (EPLUGUP, m\<lparr>m_tid := q_thread ob, on := True\<rparr>, p)
      else gather_all
        [(''curd'', mysql_gather_crud ob), (''query'', mysql_gather_query ob),
         (''innodb'', mysql_gather_innodb ob), (''thread'', mysql_gather_thread ob),
         (''replica'', mysql_gather_replica ob)] m p)"

definition MYSQL_TICK :: f32 where
  "MYSQL_TICK = (10429137, 21)"

text \<open>
  Loading: \<open>calls n\<close> and \<open>view n\<close> are what the client library answers at the machine's
  reading \<open>n\<close>, \<open>fill\<close> and \<open>rest\<close> the bytes of the record no string covers. The address of the
  target is reported only for a server on another machine. The handle and the thread number
  are not read before \<open>mysql_prep\<close> sets them.
\<close>

definition load_mysql_module ::
  "(nat \<Rightarrow> connect_obs) \<Rightarrow> (nat \<Rightarrow> mysql_obs) \<Rightarrow> string \<Rightarrow> string \<Rightarrow>
   mysql_module plugin \<Rightarrow> string list \<Rightarrow> machine \<Rightarrow> (int \<times> mysql_module plugin \<times> machine) option" where
  "load_mysql_module calls view fill rest p as w =
     (if length as \<noteq> 1 then Some (-1, p, w)
      else
        let (ok, w1) = malloc w in
        if \<not> ok then Some (-1, p, w1)
        else case scan_target (hd as) of
          None \<Rightarrow> Some (-1, p, w1)
        | Some (h, pt, us, pw) \<Rightarrow>
            Some (0, p\<lparr>ptick := MYSQL_TICK,
              tip := (if h \<noteq> ''localhost'' \<and> h \<noteq> ''127.0.0.1'' then Some h else tip p),
              target_type := ''mysql_ubuntu_1.0'', prep := Some (\<lambda>n. mysql_prep (calls n)),
              fini := Some mysql_fini, gather := (\<lambda>n. mysql_gather (view n)),
              cmp := mysql_module_cmp, module_size := mysql_size,
              module_bytes := mysql_bytes fill rest,
              module := \<lparr>on = True, m_host = h, m_user = us, m_pass = pw, m_port = pt,
                connected = False, m_tid = 0\<rparr>\<rparr>, w1))"

section \<open>Rows as JSON members\<close>

text \<open>The members a query gives, when every row has a name and a value.\<close>

definition row_member :: "nat \<Rightarrow> row \<Rightarrow> (string \<times> json) option" where
  "row_member n r = do { k \<leftarrow> field_from n r 0; v \<leftarrow> field r 1; Some (k, JNum v) }"

definition row_members :: "nat \<Rightarrow> rows \<Rightarrow> (string \<times> json) list option" where
  "row_members n res = (case res of None \<Rightarrow> Some [] | Some rs \<Rightarrow> those (map (row_member n) rs))"

text \<open>The same appends as a list: each member, after a comma unless it is the first.\<close>

fun sep_pieces :: "bool \<Rightarrow> (string \<times> json) list \<Rightarrow> string list" where
  "sep_pieces comma [] = []"
| "sep_pieces comma (x # xs) = ((if comma then '','' else []) @ jmember x) # sep_pieces True xs"

lemma concat_sep_pieces:
  "concat (sep_pieces comma ms) = (if comma \<and> ms \<noteq> [] then '','' else []) @ jmembers ms"
  by (induction comma ms rule: sep_pieces.induct) (auto simp: jmembers_Cons)

lemma sep_pieces_jmembers: "concat (sep_pieces False ms @ sep_pieces (ms \<noteq> []) ns) = jmembers (ms @ ns)"
  by (simp add: concat_sep_pieces jmembers_append)

lemma member_rows_pieces:
  "those (map (row_member n) rs) = Some ms \<Longrightarrow>
   member_rows n rs comma p = map_option (Pair (comma \<or> ms \<noteq> [])) (append_all (sep_pieces comma ms) p)"
proof (induction rs arbitrary: comma p ms)
  case (Cons r rs)
  then obtain k v ms' where r: "field_from n r 0 = Some k" "field r 1 = Some v"
      "those (map (row_member n) rs) = Some ms'" "ms = (k, JNum v) # ms'"
    by (auto simp: row_member_def[of n r] bind_eq_Some_conv split: option.splits)
  from Cons.IH[OF r(3)] r show ?case
    by (cases "packet_append ((if comma then '','' else []) @ dq k @ '':'' @ v) p")
      (auto simp: jmember_num)
qed simp

lemma member_query_pieces:
  assumes "row_members n res = Some ms"
  shows "member_query n res (e, comma, p) =
    map_option (\<lambda>q. (if res = None then e else ENONE, comma \<or> ms \<noteq> [], q))
      (append_all (sep_pieces comma ms) p)"
proof (cases res)
  case None
  with assms show ?thesis by (simp add: member_query_def row_members_def)
next
  case (Some rs)
  with assms have "those (map (row_member n) rs) = Some ms"
    by (simp add: row_members_def)
  from member_rows_pieces[OF this, of comma p] Some show ?thesis
    by (cases "append_all (sep_pieces comma ms) p") (simp_all add: member_query_def)
qed

definition crud_code :: "mysql_obs \<Rightarrow> int" where
  "crud_code ob = (if q_crud ob = None \<and> q_ddl ob = None then ENODATA else ENONE)"

lemma mysql_crud_gatherer:
  assumes "row_members 4 (q_crud ob) = Some ms" "row_members 0 (q_ddl ob) = Some ns"
  shows "gatherer (mysql_gather_crud ob) (const_spec (crud_code ob) (jmembers (ms @ ns)))"
proof -
  have "gatherer (mysql_gather_crud ob)
      (const_spec (crud_code ob) (concat (sep_pieces False ms @ sep_pieces (ms \<noteq> []) ns)))"
  proof (rule pieces_gatherer)
    fix m p
    show "mysql_gather_crud ob m p = do {
        q \<leftarrow> append_all (sep_pieces False ms @ sep_pieces (ms \<noteq> []) ns) p; Some (crud_code ob, m, q) }"
      using member_query_pieces[OF assms(1)] member_query_pieces[OF assms(2)]
      by (cases "append_all (sep_pieces False ms) p")
        (auto simp: mysql_gather_crud_def append_all_append crud_code_def map_option_case
          split: option.split)
  qed
  then show ?thesis by (simp only: sep_pieces_jmembers)
qed

text \<open>The InnoDB section: every member but those of the first query is preceded by a comma.\<close>

fun named_pieces :: "string \<Rightarrow> (string \<times> string) list \<Rightarrow> string list" where
  "named_pieces before [] = []"
| "named_pieces before ((k, v) # xs) = (before @ dq k @ '':'') # v # named_pieces before xs"

definition row_pair :: "nat \<Rightarrow> row \<Rightarrow> (string \<times> string) option" where
  "row_pair n r = do { k \<leftarrow> field_from n r 0; v \<leftarrow> field r 1; Some (k, v) }"

definition row_pairs :: "nat \<Rightarrow> rows \<Rightarrow> (string \<times> string) list option" where
  "row_pairs n res = (case res of None \<Rightarrow> Some [] | Some rs \<Rightarrow> those (map (row_pair n) rs))"

lemma append_all_Cons: "append_all (s # ss) = (\<lambda>p. do { q \<leftarrow> packet_append s p; append_all ss q })"
  by (rule ext) simp

lemma named_rows_pieces:
  "those (map (row_pair n) rs) = Some xs \<Longrightarrow>
   named_rows before n rs p = append_all (named_pieces before xs) p"
proof (induction rs arbitrary: p xs)
  case (Cons r rs)
  then obtain k v xs' where r: "field_from n r 0 = Some k" "field r 1 = Some v"
      "those (map (row_pair n) rs) = Some xs'" "xs = (k, v) # xs'"
    by (auto simp: row_pair_def[of n r] bind_eq_Some_conv split: option.splits)
  have "named_rows before n rs = append_all (named_pieces before xs')"
    using Cons.IH[OF r(3)] by (rule ext)
  with r show ?case by (simp add: append_all_Cons)
qed simp

lemma named_query_pieces:
  assumes "row_pairs n res = Some xs"
  shows "named_query before n res (e, p) =
    map_option (Pair (if res = None then e else ENONE)) (append_all (named_pieces before xs) p)"
  using assms named_rows_pieces[of n _ xs before p]
  by (auto simp: named_query_def row_pairs_def map_option_case split: option.splits)

definition num_members :: "(string \<times> string) list \<Rightarrow> (string \<times> json) list" where
  "num_members = map (\<lambda>(k, v). (k, JNum v))"

lemma concat_named_pieces:
  "concat (named_pieces before xs) = concat (map (\<lambda>m. before @ jmember m) (num_members xs))"
  by (induction before xs rule: named_pieces.induct) (auto simp: num_members_def jmember_num)

text \<open>What the loop over the status text finds, and the members it prints.\<close>

fun ibuf_found :: "string \<Rightarrow> (64 word \<times> 64 word \<times> 64 word) list" where
  "ibuf_found [] = []"
| "ibuf_found (c # s) =
     (if take 4 (c # s) = ''Ibuf''
      then (case scan_ibuf (c # s) of None \<Rightarrow> [] | Some x \<Rightarrow> [x]) else []) @ ibuf_found s"

definition ibuf_members :: "64 word \<times> 64 word \<times> 64 word \<Rightarrow> (string \<times> json) list" where
  "ibuf_members = (\<lambda>(used, fre, tot).
     [(''cell_count'', JNum (show_ull tot)), (''free_cells'', JNum (show_ull fre)),
      (''used_cells'', JNum (show_ull used))])"

definition comma_pieces :: "(string \<times> json) list \<Rightarrow> string list" where
  "comma_pieces = map (\<lambda>m. '','' @ jmember m)"

lemma comma_pieces_simps [simp]:
  "comma_pieces [] = []" "comma_pieces (x # xs) = ('','' @ jmember x) # comma_pieces xs"
  "comma_pieces (xs @ ys) = comma_pieces xs @ comma_pieces ys"
  by (simp_all add: comma_pieces_def)

lemma ibuf_loop_pieces:
  "ibuf_loop s e p =
     map_option (Pair (if ibuf_found s = [] then e else ENONE))
       (append_all (comma_pieces (concat (map ibuf_members (ibuf_found s)))) p)"
proof (induction s arbitrary: e p)
  case (Cons c s)
  show ?case
  proof (cases "take 4 (c # s) = ''Ibuf'' \<and> scan_ibuf (c # s) \<noteq> None")
    case True
    then obtain x where x: "scan_ibuf (c # s) = Some x" by auto
    obtain used fre tot where "x = (used, fre, tot)" by (cases x)
    with True x Cons.IH[of ENONE] show ?thesis
      by (auto simp: ibuf_members_def jmember_num simp del: take_Suc_Cons split: Option.bind_split)
  next
    case False
    then show ?thesis
      using Cons.IH[of e p] by (auto split: option.split)
  qed
qed simp

lemma concat_comma_pieces: "concat (comma_pieces xs) = (if xs = [] then [] else '','' @ jmembers xs)"
  by (induction xs) (auto simp: comma_pieces_def jmembers_Cons)

definition status_text :: "mysql_obs \<Rightarrow> string option" where
  "status_text ob =
     (case q_status ob of None \<Rightarrow> Some [] | Some [] \<Rightarrow> None | Some (r # rs) \<Rightarrow> field r 2)"

definition innodb_code :: "mysql_obs \<Rightarrow> string \<Rightarrow> int" where
  "innodb_code ob text =
     (if q_pool_size ob = None \<and> q_pool ob = None \<and> ibuf_found text = [] then ENODATA else ENONE)"

text \<open>The text of the section, whatever the first query gave.\<close>

definition innodb_text :: "(string \<times> string) list \<Rightarrow> (string \<times> string) list \<Rightarrow> string \<Rightarrow> string" where
  "innodb_text xs ys text =
     concat (map jmember (num_members xs)) @
     concat (comma_pieces (num_members ys @ concat (map ibuf_members (ibuf_found text))))"

lemma mysql_innodb_gatherer:
  assumes "row_pairs 14 (q_pool_size ob) = Some xs" "row_pairs 7 (q_pool ob) = Some ys"
    and "status_text ob = Some text"
  shows "gatherer (mysql_gather_innodb ob) (const_spec (innodb_code ob text) (innodb_text xs ys text))"
proof -
  let ?more = "comma_pieces (concat (map ibuf_members (ibuf_found text)))"
  let ?ss = "named_pieces [] xs @ named_pieces '','' ys @ ?more"
  have "gatherer (mysql_gather_innodb ob) (const_spec (innodb_code ob text) (concat ?ss))"
  proof (rule pieces_gatherer)
    fix m p
    show "mysql_gather_innodb ob m p = do { q \<leftarrow> append_all ?ss p; Some (innodb_code ob text, m, q) }"
      using named_query_pieces[OF assms(1)] named_query_pieces[OF assms(2)] assms(3)
      by (cases "append_all (named_pieces [] xs) p"; cases "q_status ob")
        (auto simp: mysql_gather_innodb_def append_all_append innodb_code_def status_text_def
          ibuf_loop_pieces map_option_case comma_pieces_def
          split: option.splits list.splits Option.bind_splits)
  qed
  moreover have "concat ?ss = innodb_text xs ys text"
    by (simp add: innodb_text_def concat_named_pieces comma_pieces_def)
  ultimately show ?thesis by simp
qed

text \<open>With exactly one row for the pool size the text is a list of members.\<close>

lemma innodb_text_json:
  "innodb_text [x] ys text =
     jmembers (num_members [x] @ num_members ys @ concat (map ibuf_members (ibuf_found text)))"
proof -
  have "concat (map jmember (num_members [x])) @ concat (comma_pieces zs) = jmembers (num_members [x] @ zs)" for zs
    by (cases x) (simp add: concat_comma_pieces num_members_def jmembers_Cons)
  then show ?thesis by (simp add: innodb_text_def del: comma_pieces_simps)
qed

text \<open>A query with no row to store.\<close>

definition no_rows_stored :: "rows \<Rightarrow> bool" where
  "no_rows_stored res \<longleftrightarrow> res = None \<or> res = Some []"

definition slow_code :: "mysql_obs \<Rightarrow> int" where
  "slow_code ob = (if q_slow ob = None then ENODATA else ENONE)"

text \<open>The counter of slow queries: the query has one row.\<close>

definition slow_member :: "mysql_obs \<Rightarrow> (string \<times> json) list option" where
  "slow_member ob =
     (case q_slow ob of
        None \<Rightarrow> Some []
      | Some [r] \<Rightarrow> map_option (\<lambda>v. [(''slow_queries'', JNum v)]) (field r 1)
      | _ \<Rightarrow> None)"

lemma mysql_query_gatherer:
  assumes "slow_member ob = Some ms" "no_rows_stored (q_slow_log ob)"
  shows "gatherer (mysql_gather_query ob) (const_spec (slow_code ob) (jmembers ms))"
proof -
  have "gatherer (mysql_gather_query ob) (const_spec (slow_code ob) (concat (map jmember ms)))"
    using assms
    by (intro pieces_gatherer)
      (auto simp: mysql_gather_query_def slow_code_def slow_member_def no_rows_stored_def jmember_num
        split: option.splits list.splits Option.bind_splits)
  moreover have "concat (map jmember ms) = jmembers ms"
    using assms(1) by (auto simp: slow_member_def jmembers_Cons split: option.splits list.splits)
  ultimately show ?thesis by simp
qed

definition thread_code :: "mysql_obs \<Rightarrow> int" where
  "thread_code ob = (if q_threads ob = None then ENODATA else ENONE)"

lemma mysql_thread_gatherer:
  assumes "row_members 0 (q_threads ob) = Some ms" "no_rows_stored (q_processlist ob)"
  shows "gatherer (mysql_gather_thread ob) (const_spec (thread_code ob) (jmembers ms))"
proof -
  have "gatherer (mysql_gather_thread ob) (const_spec (thread_code ob) (concat (sep_pieces False ms)))"
    using member_query_pieces[OF assms(1)] assms(2)
    by (intro pieces_gatherer)
      (auto simp: mysql_gather_thread_def thread_code_def no_rows_stored_def map_option_case
        split: option.splits Option.bind_splits)
  then show ?thesis by (simp add: concat_sep_pieces)
qed

interpretation mysql_replica: gatherer "mysql_gather_replica ob" "const_spec ENODATA []" for ob
  using nothing_gatherer[of ENODATA] unfolding mysql_gather_replica_def[abs_def] .

section \<open>The report\<close>

text \<open>
  An observation the module can report: every row has its fields, the pool size has one row,
  and no row would have to be stored in an array.
\<close>

record mysql_report =
  r_crud :: "(string \<times> json) list"
  r_query :: "(string \<times> json) list"
  r_innodb :: "(string \<times> json) list"
  r_thread :: "(string \<times> json) list"

definition mysql_reports :: "mysql_obs \<Rightarrow> mysql_report \<Rightarrow> bool" where
  "mysql_reports ob rp \<longleftrightarrow>
     (\<exists>ms ns. row_members 4 (q_crud ob) = Some ms \<and> row_members 0 (q_ddl ob) = Some ns \<and> r_crud rp = ms @ ns) \<and>
     slow_member ob = Some (r_query rp) \<and> no_rows_stored (q_slow_log ob) \<and>
     (\<exists>x ys text. row_pairs 14 (q_pool_size ob) = Some [x] \<and> row_pairs 7 (q_pool ob) = Some ys \<and>
        status_text ob = Some text \<and>
        r_innodb rp = num_members [x] @ num_members ys @ concat (map ibuf_members (ibuf_found text))) \<and>
     row_members 0 (q_threads ob) = Some (r_thread rp) \<and> no_rows_stored (q_processlist ob)"

definition mysql_specs :: "mysql_obs \<Rightarrow> mysql_report \<Rightarrow> (string \<times> mysql_module gspec) list" where
  "mysql_specs ob rp =
     [(''curd'', const_spec (crud_code ob) (jmembers (r_crud rp))),
      (''query'', const_spec (slow_code ob) (jmembers (r_query rp))),
      (''innodb'', const_spec ENONE (jmembers (r_innodb rp))),
      (''thread'', const_spec (thread_code ob) (jmembers (r_thread rp))),
      (''replica'', const_spec ENODATA [])]"

definition mysql_members :: "mysql_obs \<Rightarrow> mysql_report \<Rightarrow> (string \<times> json) list" where
  "mysql_members ob rp =
     (if crud_code ob = ENONE then [(''curd'', JObj (r_crud rp))] else []) @
     (if slow_code ob = ENONE then [(''query'', JObj (r_query rp))] else []) @
     [(''innodb'', JObj (r_innodb rp))] @
     (if thread_code ob = ENONE then [(''thread'', JObj (r_thread rp))] else [])"

lemma innodb_pool_code:
  "row_pairs 14 (q_pool_size ob) = Some [x] \<Longrightarrow> innodb_code ob text = ENONE"
  by (auto simp: innodb_code_def row_pairs_def)

lemma mysql_sections_ok:
  assumes "mysql_reports ob rp"
  shows "sections_ok
    [(''curd'', mysql_gather_crud ob), (''query'', mysql_gather_query ob),
     (''innodb'', mysql_gather_innodb ob), (''thread'', mysql_gather_thread ob),
     (''replica'', mysql_gather_replica ob)] (mysql_specs ob rp)"
proof -
  obtain ms ns x ys st where
    crud: "row_members 4 (q_crud ob) = Some ms" "row_members 0 (q_ddl ob) = Some ns" "r_crud rp = ms @ ns"
    and inno: "row_pairs 14 (q_pool_size ob) = Some [x]" "row_pairs 7 (q_pool ob) = Some ys"
      "status_text ob = Some st"
      "r_innodb rp = num_members [x] @ num_members ys @ concat (map ibuf_members (ibuf_found st))"
    and rest: "slow_member ob = Some (r_query rp)" "no_rows_stored (q_slow_log ob)"
      "row_members 0 (q_threads ob) = Some (r_thread rp)" "no_rows_stored (q_processlist ob)"
    using assms unfolding mysql_reports_def by (elim conjE exE)
  have "gatherer (mysql_gather_innodb ob) (const_spec ENONE (jmembers (r_innodb rp)))"
    using mysql_innodb_gatherer[OF inno(1-3)]
    by (simp only: innodb_pool_code[OF inno(1)] innodb_text_json inno(4))
  moreover have "gatherer (mysql_gather_crud ob) (const_spec (crud_code ob) (jmembers (r_crud rp)))"
    using mysql_crud_gatherer[OF crud(1,2)] by (simp only: crud(3))
  ultimately show ?thesis
    unfolding sections_ok_def mysql_specs_def
    by (intro list.rel_intros)
      (simp_all only: prod.case simp_thms mysql_query_gatherer[OF rest(1,2)]
        mysql_thread_gatherer[OF rest(3,4)] mysql_replica.gatherer_axioms)
qed

lemma mysql_sections_json: "all_sections (mysql_specs ob rp) m = map jmember (mysql_members ob rp)"
  by (auto simp: mysql_specs_def mysql_members_def crud_code_def slow_code_def thread_code_def gather_codes
      section_text_def jmember_obj)

lemma mysql_all_code: "all_code (mysql_specs ob rp) m = ENONE"
proof -
  have "list_all (\<lambda>(t, sp). \<forall>m. g_code sp m \<in> {0, 1}) (mysql_specs ob rp)"
    by (auto simp: mysql_specs_def crud_code_def slow_code_def thread_code_def gather_codes)
  moreover have "mysql_specs ob rp \<noteq> []" by (simp add: mysql_specs_def)
  ultimately have "all_code (mysql_specs ob rp) m = (if all_sections (mysql_specs ob rp) m = [] then 1 else 0)"
    by (rule all_code_01)
  then show ?thesis by (simp add: mysql_sections_json mysql_members_def gather_codes)
qed

section \<open>What a call keeps\<close>

lemma packet_gather_frame:
  assumes "packet_gather t f m p = Some (c, m', q)"
    and "\<And>p c m' q. f m p = Some (c, m', q) \<Longrightarrow> m' = m \<and> c \<in> {0, 1}"
  shows "m' = m \<and> c \<in> {0, 1}"
proof -
  obtain p1 res m1 p2 where "f m p1 = Some (res, m1, p2)" "m' = m1" "c = res \<or> c = 0"
    using assms(1) by (auto simp: packet_gather_def bind_eq_Some_conv Let_def split: if_splits)
  with assms(2)[OF this(1)] show ?thesis by auto
qed

lemma gather_all_frame:
  assumes "\<And>t f m p c m' q. (t, f) \<in> set fs \<Longrightarrow> f m p = Some (c, m', q) \<Longrightarrow> m' = m \<and> c \<in> {0, 1}"
    and "gather_all fs m p = Some (c, m', q)"
  shows "m' = m \<and> (fs \<noteq> [] \<longrightarrow> c \<in> {0, 1})"
  using assms
proof (induction fs arbitrary: m p c)
  case (Cons tf fs)
  obtain t f where tf: "tf = (t, f)" by (cases tf)
  from Cons.prems(2) obtain r m1 p1 r' where
    r: "packet_gather t f m p = Some (r, m1, p1)" "gather_all fs m1 p1 = Some (r', m', q)" "c = (r AND r')"
    by (auto simp: tf bind_eq_Some_conv)
  have one: "m1 = m \<and> r \<in> {0, 1}"
    using packet_gather_frame[OF r(1)] Cons.prems(1)[of t f] by (simp add: tf)
  have rest: "m' = m1 \<and> (fs \<noteq> [] \<longrightarrow> r' \<in> {0, 1})"
    using Cons.IH[OF _ r(2)] Cons.prems(1) by (meson list.set_intros(2))
  show ?case
  proof (cases "fs = []")
    case True
    with one rest r show ?thesis by auto
  next
    case False
    with one rest r(3) show ?thesis by auto
  qed
qed simp

lemma member_query_code: "member_query n res (e, c, p) = Some (e', c', q) \<Longrightarrow> e' = e \<or> e' = ENONE"
  by (auto simp: member_query_def bind_eq_Some_conv split: option.splits)

lemma named_query_code: "named_query b n res (e, p) = Some (e', q) \<Longrightarrow> e' = e \<or> e' = ENONE"
  by (auto simp: named_query_def bind_eq_Some_conv split: option.splits)

lemma ibuf_loop_code: "ibuf_loop s e p = Some (e', q) \<Longrightarrow> e' = e \<or> e' = ENONE"
  by (auto simp: ibuf_loop_pieces)

lemma mysql_section_frames:
  "mysql_gather_crud ob m p = Some (c, m', q) \<Longrightarrow> m' = m \<and> c \<in> {0, 1}"
  "mysql_gather_query ob m p = Some (c, m', q) \<Longrightarrow> m' = m \<and> c \<in> {0, 1}"
  "mysql_gather_innodb ob m p = Some (c, m', q) \<Longrightarrow> m' = m \<and> c \<in> {0, 1}"
  "mysql_gather_thread ob m p = Some (c, m', q) \<Longrightarrow> m' = m \<and> c \<in> {0, 1}"
  "mysql_gather_replica ob m p = Some (c, m', q) \<Longrightarrow> m' = m \<and> c \<in> {0, 1}"
proof -
  show "mysql_gather_crud ob m p = Some (c, m', q) \<Longrightarrow> m' = m \<and> c \<in> {0, 1}"
    by (auto simp: mysql_gather_crud_def bind_eq_Some_conv gather_codes dest!: member_query_code)
  show "mysql_gather_query ob m p = Some (c, m', q) \<Longrightarrow> m' = m \<and> c \<in> {0, 1}"
    by (auto simp: mysql_gather_query_def bind_eq_Some_conv gather_codes Let_def
        split: option.splits if_splits)
  show "m' = m \<and> c \<in> {0, 1}" if run: "mysql_gather_innodb ob m p = Some (c, m', q)"
  proof -
    from run obtain e1 p1 e2 p2 where
      s: "named_query [] 14 (q_pool_size ob) (ENODATA, p) = Some (e1, p1)"
        "named_query '','' 7 (q_pool ob) (e1, p1) = Some (e2, p2)"
      by (auto simp: mysql_gather_innodb_def bind_eq_Some_conv)
    have "e2 \<in> {0, 1}"
      using named_query_code[OF s(1)] named_query_code[OF s(2)] by (auto simp: gather_codes)
    moreover have "c = e2 \<and> m' = m \<or> (\<exists>text. ibuf_loop text e2 p2 = Some (c, q) \<and> m' = m)"
      using run s by (auto simp: mysql_gather_innodb_def bind_eq_Some_conv neq_Nil_conv
          split: option.split_asm list.split_asm)
    ultimately show ?thesis
      by (auto simp: gather_codes dest!: ibuf_loop_code)
  qed
  show "mysql_gather_thread ob m p = Some (c, m', q) \<Longrightarrow> m' = m \<and> c \<in> {0, 1}"
    by (auto simp: mysql_gather_thread_def bind_eq_Some_conv gather_codes Let_def
        dest!: member_query_code split: option.splits if_splits)
  show "mysql_gather_replica ob m p = Some (c, m', q) \<Longrightarrow> m' = m \<and> c \<in> {0, 1}"
    by (auto simp: mysql_gather_replica_def gather_codes)
qed

text \<open>The part of a call that concerns the connection.\<close>

lemma mysql_gather_cases:
  assumes "mysql_gather ob m p = Some (c, m', q)"
  shows "\<not> q_ping ob \<and> on m \<and> c = EPLUGDOWN \<and> m' = m\<lparr>on := False\<rparr> \<or>
    \<not> q_ping ob \<and> \<not> on m \<and> c = ENODATA \<and> m' = m \<or>
    q_ping ob \<and> m_tid m \<noteq> q_thread ob \<and> c = EPLUGUP \<and> m' = m\<lparr>m_tid := q_thread ob, on := True\<rparr> \<or>
    q_ping ob \<and> m_tid m = q_thread ob \<and> c \<in> {ENONE, ENODATA} \<and> m' = m"
proof -
  let ?fs = "[(''curd'', mysql_gather_crud ob), (''query'', mysql_gather_query ob),
    (''innodb'', mysql_gather_innodb ob), (''thread'', mysql_gather_thread ob),
    (''replica'', mysql_gather_replica ob)]"
  have "m' = m \<and> (?fs \<noteq> [] \<longrightarrow> c \<in> {0, 1})" if "gather_all ?fs m p = Some (c, m', q)"
    by (rule gather_all_frame[OF _ that]) (auto dest: mysql_section_frames)
  then show ?thesis
    using assms by (auto simp: mysql_gather_def gather_codes split: if_splits)
qed

section \<open>Rows that are stored\<close>

lemma store_rows_length:
  "store_rows cols xs es = Some es' \<Longrightarrow> length es' = length es + length xs"
  by (induction cols xs es rule: store_rows.induct) (auto split: if_splits Option.bind_splits)

lemma columns_past_end: "es \<noteq> [] \<Longrightarrow> columns ((h, b) # cs) c es (length es) p = None"
  by (cases "packet_append h p") (auto simp: entry_text_def upt_conv_Cons)

lemma mysql_thread_none:
  assumes "q_processlist ob = Some (r # rs)"
  shows "mysql_gather_thread ob m p = None"
proof -
  let ?cols = "[num_col 0, num_col 1, word_col 2, word_col 3, word_col 4, word_col 5, num_col 6,
    num_col 7, num_col 8, word_col 9, word_col 10, word_col 11]"
  have "columns (thread_columns c) 0 es (length es) p1 = None"
    if "store_rows ?cols (r # rs) [] = Some es" for c es p1
  proof -
    have "es \<noteq> []" using store_rows_length[OF that] by auto
    then show ?thesis unfolding thread_columns_def by (rule columns_past_end)
  qed
  moreover have "es \<noteq> []" if "store_rows ?cols (r # rs) [] = Some es" for es
    using store_rows_length[OF that] by auto
  ultimately show ?thesis
    unfolding mysql_gather_thread_def assms
    by (cases "store_rows ?cols (r # rs) []"; cases "member_query 0 (q_threads ob) (ENODATA, False, p)")
      (auto simp del: store_rows.simps)
qed

lemma mysql_query_none:
  assumes "q_slow_log ob = Some (r # rs)"
  shows "mysql_gather_query ob m p = None"
proof -
  let ?cols = "[word_col 0, word_col 1, num_col 2, num_col 3, num_col 4, num_col 5]"
  have "columns slow_columns 0 es (length es) p1 = None \<and> es \<noteq> []"
    if "store_rows ?cols (r # rs) [] = Some es" for es p1
  proof -
    have "es \<noteq> []" using store_rows_length[OF that] by auto
    then show ?thesis unfolding slow_columns_def by (simp add: columns_past_end del: columns.simps)
  qed
  then show ?thesis
    unfolding mysql_gather_query_def assms
    by (cases "store_rows ?cols (r # rs) []")
      (auto simp del: store_rows.simps split: option.split Option.bind_split)
qed

lemma gather_all_none:
  assumes "(t, f) \<in> set fs" "\<And>m p. f m p = None"
  shows "gather_all fs m p = None"
  using assms(1)
proof (induction fs arbitrary: m p)
  case (Cons tf fs)
  show ?case
  proof (cases "tf = (t, f)")
    case True
    then show ?thesis
      by (auto simp: packet_gather_def assms(2) Let_def split: Option.bind_split)
  next
    case False
    with Cons show ?thesis by (cases tf) (auto split: Option.bind_split)
  qed
qed simp

section \<open>Properties\<close>

text \<open>
  C15: while the connection is the one known, and for an observation it can report, the module
  returns success and adds one JSON member per section whose queries were answered.
\<close>

theorem mysql_gather_writes:
  assumes "q_ping ob" "m_tid m = q_thread ob" "mysql_reports ob rp"
    and "pkt_ok p" "ptext p \<noteq> []" "last (ptext p) = CHR ''{''"
    and "room p (all_need (mysql_specs ob rp) m)"
  shows "\<exists>q. mysql_gather ob m p = Some (ENONE, m, q) \<and> pkt_ok q \<and>
    ptext q = ptext p @ jmembers (mysql_members ob rp)"
proof -
  let ?fs = "[(''curd'', mysql_gather_crud ob), (''query'', mysql_gather_query ob),
    (''innodb'', mysql_gather_innodb ob), (''thread'', mysql_gather_thread ob),
    (''replica'', mysql_gather_replica ob)]"
  have upd: "all_upd (mysql_specs ob rp) m = m"
    by (simp add: mysql_specs_def)
  have "room p (g_need (chain_spec (mysql_specs ob rp)) m)"
    using assms(7) by (simp add: chain_spec_def)
  from gatherer.gathers[OF gather_all_gatherer[OF mysql_sections_ok[OF assms(3)]] assms(4-6) this]
  obtain q where "gather_all ?fs m p = Some (ENONE, m, q)" "wrote (jmembers (mysql_members ob rp)) p q"
    by (auto simp: chain_spec_def mysql_all_code upd mysql_sections_json jmembers_def)
  with wrote_fields(1,3)[OF this(2)] assms(1,2) show ?thesis
    by (simp add: mysql_gather_def)
qed

definition sample_mysql_obs :: mysql_obs where
  "sample_mysql_obs =
     \<lparr>q_ping = True, q_thread = 9, q_crud = Some [[Some ''Com_select'', Some ''5'']], q_ddl = None,
      q_slow = None, q_slow_log = None,
      q_pool_size = Some [[Some ''innodb_buffer_pool_size'', Some ''134217728'']],
      q_pool = Some [[Some ''Innodb_pages_read'', Some ''7'']],
      q_status = Some [[Some [], Some [], Some ''Ibuf: size 1, free list len 0, seg size 2, 0 merges'']],
      q_threads = Some [[Some ''Connections'', Some ''3'']], q_processlist = Some []\<rparr>"

definition sample_mysql :: mysql_module where
  "sample_mysql = \<lparr>on = True, m_host = ''localhost'', m_user = ''root'', m_pass = ''snyo'', m_port = 3306,
     connected = True, m_tid = 9\<rparr>"

definition sample_report :: mysql_report where
  "sample_report =
     \<lparr>r_crud = [(''select'', JNum ''5'')], r_query = [],
      r_innodb = [(''pool_size'', JNum ''134217728''), (''pages_read'', JNum ''7''),
        (''cell_count'', JNum ''2''), (''free_cells'', JNum ''0''), (''used_cells'', JNum ''1'')],
      r_thread = [(''Connections'', JNum ''3'')]\<rparr>"

lemma sample_ibuf: "ibuf_found ''Ibuf: size 1, free list len 0, seg size 2, 0 merges'' = [(1, 0, 2)]"
  by (simp add: scan_ibuf_def scan_ull_def isspace_def is_digit_def digits_value_def)

lemma sample_mysql_reports: "mysql_reports sample_mysql_obs sample_report"
  unfolding mysql_reports_def
  by (simp add: sample_mysql_obs_def sample_report_def row_members_def row_member_def field_from_def
      field_def slow_member_def no_rows_stored_def row_pairs_def row_pair_def status_text_def
      num_members_def sample_ibuf ibuf_members_def show_ull_def show_nat.simps digit_values
      del: ibuf_found.simps)

text \<open>A packet whose text is an opening brace.\<close>

definition brace_packet :: packet where
  "brace_packet = \<lparr>started = 0, ptype = METRIC, pstate = BEGIN, response = 0, psize = 1,
     rollback_point = 0, attempt = 0, payload = (\<lambda>i. if i = 0 then CHR ''{'' else NUL), spin = 0, pnext = None\<rparr>"

lemma brace_packet_facts: "pkt_ok brace_packet" "ptext brace_packet = ''{''" "psize brace_packet = 1"
  by (simp_all add: brace_packet_def pkt_ok_def ptext_def text_of_def PKTSZ_def)

theorem mysql_gather_writes_witness:
  "\<exists>q. mysql_gather sample_mysql_obs sample_mysql brace_packet = Some (ENONE, sample_mysql, q) \<and>
    ptext q = CHR ''{'' # ''\"curd\":{\"select\":5},\"innodb\":{\"pool_size\":134217728,\"pages_read\":7,\"cell_count\":2,\"free_cells\":0,\"used_cells\":1},\"thread\":{\"Connections\":3}''"
proof -
  have "all_need (mysql_specs sample_mysql_obs sample_report) sample_mysql \<le> 1000"
    by (simp add: mysql_specs_def sample_report_def sample_mysql_obs_def jmembers_Cons jmember_num dq_def)
  then have space: "room brace_packet (all_need (mysql_specs sample_mysql_obs sample_report) sample_mysql)"
    by (simp add: room_def brace_packet_facts(3) PKTSZ_def)
  have "jmembers (mysql_members sample_mysql_obs sample_report) =
    ''\"curd\":{\"select\":5},\"innodb\":{\"pool_size\":134217728,\"pages_read\":7,\"cell_count\":2,\"free_cells\":0,\"used_cells\":1},\"thread\":{\"Connections\":3}''"
    by (simp add: mysql_members_def sample_mysql_obs_def sample_report_def crud_code_def slow_code_def
        thread_code_def gather_codes jmembers_Cons jmember_obj jmember_num dq_def)
  with mysql_gather_writes[OF _ _ sample_mysql_reports brace_packet_facts(1) _ _ space]
  show ?thesis
    unfolding brace_packet_facts(2) by (auto simp: sample_mysql_obs_def sample_mysql_def)
qed

text \<open>The calls of a plugin's lifetime: any observation and packet each time.\<close>

inductive mysql_run :: "mysql_module \<Rightarrow> int list \<Rightarrow> mysql_module \<Rightarrow> bool" where
  nil: "mysql_run m [] m"
| call: "mysql_gather ob m p = Some (c, m1, q) \<Longrightarrow> mysql_run m1 cs m' \<Longrightarrow> mysql_run m (c # cs) m'"

inductive_cases mysql_run_ConsE: "mysql_run m (c # cs) m'"

lemma mysql_run_append:
  "mysql_run m (cs @ ds) m' \<longleftrightarrow> (\<exists>m1. mysql_run m cs m1 \<and> mysql_run m1 ds m')"
proof (induction cs arbitrary: m)
  case Nil
  then show ?case by (auto intro: mysql_run.nil elim: mysql_run.cases)
next
  case (Cons c cs)
  then show ?case by (fastforce intro: mysql_run.call elim: mysql_run_ConsE)
qed

lemma mysql_run_off:
  "mysql_run m cs m' \<Longrightarrow> \<not> on m \<Longrightarrow> EPLUGUP \<notin> set cs \<Longrightarrow> EPLUGDOWN \<notin> set cs \<and> \<not> on m'"
proof (induction rule: mysql_run.induct)
  case (call ob m p c m1 q cs m')
  from mysql_gather_cases[OF call.hyps(1)] call show ?case
    by (auto simp: gather_codes)
qed simp

text \<open>
  C16: the module reports the disappearance of its server once. Between two reports that the
  server is down there is one that it is up again, and at most one comes before the first
  report that it is up.
\<close>

theorem mysql_alerts_alternate:
  assumes "mysql_run m (as @ [EPLUGDOWN] @ bs @ [EPLUGDOWN] @ cs) m'"
  shows "EPLUGUP \<in> set bs"
proof (rule ccontr)
  assume no: "EPLUGUP \<notin> set bs"
  from assms obtain m1 m2 m3 where run: "mysql_run m1 [EPLUGDOWN] m2"
      "mysql_run m2 (bs @ [EPLUGDOWN]) m3"
    by (metis append.assoc mysql_run_append)
  from run(1) have "\<not> on m2"
    by (elim mysql_run_ConsE) (auto dest!: mysql_gather_cases simp: gather_codes elim: mysql_run.cases)
  with mysql_run_off[OF run(2)] no show False by (simp add: gather_codes)
qed

theorem mysql_alerts_alternate_witness:
  "mysql_run sample_mysql [EPLUGDOWN, EPLUGUP, EPLUGDOWN] (sample_mysql\<lparr>m_tid := 10, on := False\<rparr>) \<and>
    EPLUGUP \<in> set [EPLUGUP]"
proof -
  let ?down = "sample_mysql_obs\<lparr>q_ping := False\<rparr>" and ?up = "sample_mysql_obs\<lparr>q_thread := 10\<rparr>"
  let ?m1 = "sample_mysql\<lparr>on := False\<rparr>" and ?m2 = "sample_mysql\<lparr>m_tid := 10, on := True\<rparr>"
  have calls: "mysql_gather ?down sample_mysql p = Some (EPLUGDOWN, ?m1, p)"
    "mysql_gather ?up ?m1 p = Some (EPLUGUP, ?m2, p)"
    "mysql_gather ?down ?m2 p = Some (EPLUGDOWN, sample_mysql\<lparr>m_tid := 10, on := False\<rparr>, p)" for p
    by (simp_all add: mysql_gather_def sample_mysql_def sample_mysql_obs_def)
  have run: "mysql_run sample_mysql [EPLUGDOWN, EPLUGUP, EPLUGDOWN] (sample_mysql\<lparr>m_tid := 10, on := False\<rparr>)"
    by (rule mysql_run.call[OF calls(1)], rule mysql_run.call[OF calls(2)], rule mysql_run.call[OF calls(3)],
        rule mysql_run.nil)
  then show ?thesis
    using mysql_alerts_alternate[of sample_mysql "[]" "[EPLUGUP]" "[]"] by simp
qed

text \<open>
  C40: any row of the slow-query log or of the process list makes the report undefined: the
  loops that print the stored rows index the array with the number of rows, an entry that
  was never stored.
\<close>

theorem mysql_stored_rows_undefined:
  assumes "q_ping ob" "m_tid m = q_thread ob" "q_processlist ob = Some (r # rs) \<or> q_slow_log ob = Some (r # rs)"
  shows "mysql_gather ob m p = None"
proof -
  let ?fs = "[(''curd'', mysql_gather_crud ob), (''query'', mysql_gather_query ob),
    (''innodb'', mysql_gather_innodb ob), (''thread'', mysql_gather_thread ob),
    (''replica'', mysql_gather_replica ob)]"
  have "gather_all ?fs m p = None"
    using assms(3)
  proof
    assume "q_processlist ob = Some (r # rs)"
    then show ?thesis
      by (intro gather_all_none[of "''thread''" "mysql_gather_thread ob"] mysql_thread_none) simp_all
  next
    assume "q_slow_log ob = Some (r # rs)"
    then show ?thesis
      by (intro gather_all_none[of "''query''" "mysql_gather_query ob"] mysql_query_none) simp_all
  qed
  with assms(1,2) show ?thesis by (simp add: mysql_gather_def)
qed

theorem mysql_stored_rows_undefined_witness:
  "mysql_gather (sample_mysql_obs\<lparr>q_processlist := Some [replicate 12 (Some ''1'')]\<rparr>) sample_mysql brace_packet = None"
  by (rule mysql_stored_rows_undefined) (simp_all add: sample_mysql_obs_def sample_mysql_def)

text \<open>
  Without a row for the size of the buffer pool the section is not JSON: its text starts
  with the comma that the second query writes in front of every member.
\<close>

theorem mysql_innodb_leading_comma:
  assumes "row_pairs 14 (q_pool_size ob) = Some []" "row_pairs 7 (q_pool ob) = Some (y # ys)"
    and "status_text ob = Some st" "pkt_ok p" "ptext p \<noteq> []" "last (ptext p) = CHR ''{''"
    and "room p (length (innodb_text [] (y # ys) st))"
  shows "\<exists>q rest. mysql_gather_innodb ob m p = Some (ENONE, m, q) \<and> ptext q = ptext p @ '','' @ rest"
proof -
  have code: "innodb_code ob st = ENONE"
    using assms(2) by (auto simp: innodb_code_def row_pairs_def)
  have "room p (g_need (const_spec (innodb_code ob st) (innodb_text [] (y # ys) st)) m)"
    using assms(7) by simp
  from gatherer.gathers[OF mysql_innodb_gatherer[OF assms(1-3)] assms(4-6) this] obtain q where
    q: "mysql_gather_innodb ob m p = Some (ENONE, m, q)" "wrote (innodb_text [] (y # ys) st) p q"
    by (auto simp: code)
  moreover have "\<exists>rest. innodb_text [] (y # ys) st = '','' @ rest"
    by (cases y) (simp add: innodb_text_def num_members_def)
  ultimately show ?thesis
    using wrote_fields(3)[OF q(2)] by auto
qed

theorem mysql_innodb_leading_comma_witness:
  "\<exists>q rest. mysql_gather_innodb (sample_mysql_obs\<lparr>q_pool_size := None\<rparr>) sample_mysql brace_packet =
      Some (ENONE, sample_mysql, q) \<and> ptext q = ''{,'' @ rest"
proof -
  let ?ob = "sample_mysql_obs\<lparr>q_pool_size := None\<rparr>"
  let ?st = "''Ibuf: size 1, free list len 0, seg size 2, 0 merges''"
  have obs: "row_pairs 14 (q_pool_size ?ob) = Some []"
    "row_pairs 7 (q_pool ?ob) = Some [(''pages_read'', ''7'')]" "status_text ?ob = Some ?st"
    by (simp_all add: row_pairs_def row_pair_def field_def field_from_def sample_mysql_obs_def status_text_def)
  have "length (innodb_text [] [(''pages_read'', ''7'')] ?st) \<le> 1000"
    by (simp add: innodb_text_def num_members_def sample_ibuf ibuf_members_def jmember_num dq_def show_ull_def
        show_nat.simps del: ibuf_found.simps)
  then have "room brace_packet (length (innodb_text [] [(''pages_read'', ''7'')] ?st))"
    by (simp add: room_def brace_packet_facts(3) PKTSZ_def)
  from mysql_innodb_leading_comma[OF obs brace_packet_facts(1) _ _ this] show ?thesis
    unfolding brace_packet_facts(2) by simp
qed

lemma scan_until_field:
  assumes "t \<noteq> []" "CHR ''/'' \<notin> set t" "length t \<le> 128"
  shows "scan_until 128 CHR ''/'' (t @ CHR ''/'' # s) = Some (t, CHR ''/'' # s)"
    and "scan_until 128 CHR ''/'' t = Some (t, [])"
proof -
  have all: "\<forall>d \<in> set t. d \<noteq> CHR ''/''"
    using assms(2) by blast
  then have while: "takeWhile (\<lambda>d. d \<noteq> CHR ''/'') (t @ CHR ''/'' # s) = t"
      "takeWhile (\<lambda>d. d \<noteq> CHR ''/'') t = t"
    by (auto simp: takeWhile_eq_all_conv)
  show "scan_until 128 CHR ''/'' (t @ CHR ''/'' # s) = Some (t, CHR ''/'' # s)"
    and "scan_until 128 CHR ''/'' t = Some (t, [])"
    unfolding scan_until_def while using assms(1,3) by simp_all
qed

definition target_field :: "string \<Rightarrow> bool" where
  "target_field t \<longleftrightarrow> t \<noteq> [] \<and> CHR ''/'' \<notin> set t \<and> length t \<le> 128"

text \<open>
  The configuration string read back: a host, a port, a user and a password written with
  slashes between them are what the module connects with.
\<close>

theorem scan_target_roundtrip:
  assumes "target_field h" "target_field u" "target_field pw"
  shows "scan_target (h @ ''/'' @ show_nat (unat port) @ ''/'' @ u @ ''/'' @ pw) = Some (h, port, u, pw)"
proof -
  have "unat port < 2 ^ 64"
    using unsigned_less[of port, where 'a = nat] by simp
  then have "scan_ull (show_nat (unat port) @ CHR ''/'' # u @ CHR ''/'' # pw) =
      Some (of_nat (unat port), CHR ''/'' # u @ CHR ''/'' # pw)"
    by (rule scan_ull_show) (simp add: is_digit_def)
  then have "scan_u (show_nat (unat port) @ CHR ''/'' # u @ CHR ''/'' # pw) = Some (port, CHR ''/'' # u @ CHR ''/'' # pw)"
    by (simp add: scan_u_def unsigned_ucast_eq take_bit_word_eq_self)
  with assms show ?thesis
    by (simp add: scan_target_def target_field_def scan_until_field isspace_def)
qed

theorem scan_target_roundtrip_witness:
  "scan_target ''localhost/3306/root/snyo'' = Some (''localhost'', 3306, ''root'', ''snyo'')"
proof -
  have "show_nat (unat (3306 :: 32 word)) = ''3306''"
    by (simp add: show_nat.simps digit_values)
  with scan_target_roundtrip[of "''localhost''" "''root''" "''snyo''" 3306] show ?thesis
    by (simp add: target_field_def del: show_nat.simps)
qed

definition fits_buffer :: "string \<Rightarrow> bool" where
  "fits_buffer s \<longleftrightarrow> length s < BFSZ \<and> NUL \<notin> set s"

lemma buffer_reads:
  assumes "fits_buffer s" "BFSZ \<le> length fill"
  shows "length (buffer fill s) = BFSZ" "takeWhile (\<lambda>c. c \<noteq> NUL) (buffer fill s @ r) = s"
proof -
  have "buffer fill s = s @ NUL # take (BFSZ - Suc (length s)) fill"
    using assms(1) Suc_diff_Suc[of "length s" BFSZ] by (auto simp: buffer_def fits_buffer_def take_Cons')
  moreover have "takeWhile (\<lambda>c. c \<noteq> NUL) (s @ NUL # x) = s" for x
    using assms(1) by (subst takeWhile_append2) (auto simp: fits_buffer_def)
  ultimately show "length (buffer fill s) = BFSZ" "takeWhile (\<lambda>c. c \<noteq> NUL) (buffer fill s @ r) = s"
    using assms by (auto simp: fits_buffer_def)
qed

lemma int_bytes_inj: "int_bytes x = int_bytes y \<longleftrightarrow> x = y"
  using bytes_int_bytes by metis

text \<open>
  A saved module is recognised: comparing the bytes written for one server with the
  module of another gives zero exactly when host, port, user and password agree, whatever
  the rest of the memory held.
\<close>

theorem mysql_cmp_same_target:
  assumes "fits_buffer (m_host m)" "fits_buffer (m_user m)" "fits_buffer (m_pass m)"
    and "BFSZ \<le> length fill"
  shows "mysql_module_cmp (mysql_bytes fill rest m) m' mysql_size = 0 \<longleftrightarrow>
    m_host m = m_host m' \<and> m_port m = m_port m' \<and> m_user m = m_user m' \<and> m_pass m = m_pass m'"
proof -
  note reads = buffer_reads[OF assms(1,4)] buffer_reads[OF assms(2,4)] buffer_reads[OF assms(3,4)]
  have "cstr_at 4 (mysql_bytes fill rest m) = m_host m" "cstr_at 132 (mysql_bytes fill rest m) = m_user m"
    "cstr_at 260 (mysql_bytes fill rest m) = m_pass m"
    "take 4 (drop 388 (mysql_bytes fill rest m)) = int_bytes (m_port m)"
    using reads by (simp_all add: cstr_at_def mysql_bytes_def BFSZ_def)
  then show ?thesis
    by (auto simp: mysql_module_cmp_def int_bytes_inj)
qed

theorem mysql_cmp_same_target_witness:
  "mysql_module_cmp (mysql_bytes (replicate 200 CHR ''?'') [] sample_mysql) sample_mysql mysql_size = 0"
  using mysql_cmp_same_target[of sample_mysql "replicate 200 CHR ''?''" "[]" sample_mysql]
  by (simp add: fits_buffer_def sample_mysql_def BFSZ_def)

end
