(* ===== verification/Sharing.thy ===== *)
theory Sharing
  imports OsPlugin MysqlPlugin
begin

text \<open>
  The list of packets while the whole agent uses it, one operation after the other: the plugins run
  their tasks, with the modules of the repository, the storage routine makes its rounds, and the
  storage is finalised. Filling a packet never touches its link or its lock; this is proved from the
  sections of the modules upwards.
\<close>

section \<open>Links and locks\<close>

text \<open>The fields the list rests on.\<close>

definition links :: "packet \<Rightarrow> addr option \<times> int" where
  "links k = (pnext k, spin k)"

lemma links_upd [simp]:
  "links (k\<lparr>started := t\<rparr>) = links k" "links (k\<lparr>pstate := st\<rparr>) = links k"
  "links (k\<lparr>rollback_point := n\<rparr>) = links k" "links (packet_transaction k) = links k"
  "links (packet_commit k) = links k"
  by (simp_all add: links_def packet_transaction_def packet_commit_def)

lemma append_links: "packet_append s k = Some q \<Longrightarrow> links q = links k"
  by (auto simp: packet_append_def links_def split: Option.bind_splits if_split_asm)

lemma cut_links: "packet_cut n k = Some q \<Longrightarrow> links q = links k"
  by (auto simp: packet_cut_def links_def split: Option.bind_splits if_split_asm)

lemma rollback_links: "packet_rollback k = Some q \<Longrightarrow> links q = links k"
  by (auto simp: packet_rollback_def dest: cut_links)

lemma append_all_links: "append_all ss k = Some q \<Longrightarrow> links q = links k"
  by (induction ss arbitrary: k) (auto simp: bind_eq_Some_conv dest: append_links)

text \<open>What a gathering function of a module keeps, and what follows for the code around it.\<close>

locale link_keeper =
  fixes g :: "'m gather_fun"
  assumes keeps: "g m k = Some (c, m', q) \<Longrightarrow> links q = links k"
begin

lemma packet_gather_links: "packet_gather tag g m k = Some (c, m', q) \<Longrightarrow> links q = links k"
  by (auto simp: packet_gather_def bind_eq_Some_conv Let_def split: if_split_asm
      dest!: append_links cut_links keeps)

end

text \<open>A chain of such functions is one.\<close>

lemma gather_all_links:
  assumes "\<forall>(t, f) \<in> set fs. link_keeper f"
  shows "link_keeper (gather_all fs)"
proof
  fix m :: 'a and k c m' q
  assume "gather_all fs m k = Some (c, m', q)"
  with assms show "links q = links k"
  proof (induction fs m k arbitrary: c m' q rule: gather_all.induct)
    case (2 tag f fs m k)
    then have "link_keeper f" by auto
    with 2 show ?case
      by (fastforce simp: bind_eq_Some_conv dest: link_keeper.packet_gather_links)
  qed simp
qed

section \<open>The modules\<close>

lemma os_section_links:
  "link_keeper (os_gather_cpu c)" "link_keeper (os_gather_disk d)" "link_keeper (os_gather_memory e)"
  "link_keeper (os_gather_network n)"
  by (unfold_locales, auto simp: os_gather_cpu_def os_gather_disk_def os_gather_memory_def os_gather_network_def
      bind_eq_Some_conv split: option.split_asm if_split_asm prod.split_asm dest!: append_links append_all_links)

lemma proc_part_links: "proc_part sep pieces strs rows rest e k = Some (e', q) \<Longrightarrow> links q = links k"
  by (auto simp: proc_part_def bind_eq_Some_conv split: if_split_asm dest!: append_all_links)

lemma os_proc_links: "link_keeper (os_gather_proc ob)"
  by unfold_locales
    (auto simp: os_gather_proc_def bind_eq_Some_conv split: option.split_asm dest!: proc_part_links)

interpretation os_links: link_keeper "os_gather ob" for ob
  unfolding os_gather_def
  by (rule gather_all_links) (simp add: os_section_links os_proc_links)

lemma member_rows_links: "member_rows n rs c k = Some (c', q) \<Longrightarrow> links q = links k"
  by (induction rs arbitrary: c k) (auto simp: bind_eq_Some_conv dest!: append_links)

lemma member_query_links: "member_query n res (e, c, k) = Some (e', c', q) \<Longrightarrow> links q = links k"
  by (auto simp: member_query_def bind_eq_Some_conv split: option.split_asm dest!: member_rows_links)

lemma column_loop_links: "column_loop b es k col is p = Some q \<Longrightarrow> links q = links p"
  by (induction "is" arbitrary: p) (auto simp: bind_eq_Some_conv dest!: append_links)

lemma columns_links: "columns cs col es k p = Some q \<Longrightarrow> links q = links p"
  by (induction cs arbitrary: col p) (auto simp: bind_eq_Some_conv dest!: append_links column_loop_links)

lemma slow_rows_links: "slow_rows rs k = Some q \<Longrightarrow> links q = links k"
  by (induction rs arbitrary: k) (auto simp: bind_eq_Some_conv dest!: append_links)

lemma named_rows_links: "named_rows b n rs k = Some q \<Longrightarrow> links q = links k"
  by (induction rs arbitrary: k) (auto simp: bind_eq_Some_conv dest!: append_links)

lemma named_query_links: "named_query b n res (e, k) = Some (e', q) \<Longrightarrow> links q = links k"
  by (auto simp: named_query_def bind_eq_Some_conv split: option.split_asm dest!: named_rows_links)

lemma ibuf_loop_links: "ibuf_loop s e k = Some (e', q) \<Longrightarrow> links q = links k"
  by (induction s arbitrary: e k)
    (auto simp: bind_eq_Some_conv split: if_split_asm option.split_asm prod.split_asm dest!: append_links)

lemma mysql_section_links:
  "link_keeper (mysql_gather_crud ob)" "link_keeper (mysql_gather_query ob)"
  "link_keeper (mysql_gather_thread ob)" "link_keeper (mysql_gather_replica ob)"
  by (unfold_locales, auto simp: mysql_gather_crud_def mysql_gather_query_def mysql_gather_thread_def
      mysql_gather_replica_def Let_def bind_eq_Some_conv split: option.split_asm if_split_asm
      dest!: append_links member_query_links columns_links slow_rows_links)

lemma mysql_innodb_links: "link_keeper (mysql_gather_innodb ob)"
proof
  fix m k c m' q
  assume run: "mysql_gather_innodb ob m k = Some (c, m', q)"
  then obtain e b e2 b2 where "named_query [] 14 (q_pool_size ob) (ENODATA, k) = Some (e, b)"
    "named_query '','' 7 (q_pool ob) (e, b) = Some (e2, b2)"
    by (auto simp: mysql_gather_innodb_def bind_eq_Some_conv)
  with run show "links q = links k"
    by (cases "q_status ob"; cases "the (q_status ob)")
      (auto simp: mysql_gather_innodb_def bind_eq_Some_conv dest!: named_query_links ibuf_loop_links)
qed

interpretation mysql_links: link_keeper "mysql_gather ob" for ob
proof
  fix m k c m' q
  have "link_keeper (gather_all
        [(''curd'', mysql_gather_crud ob), (''query'', mysql_gather_query ob),
         (''innodb'', mysql_gather_innodb ob), (''thread'', mysql_gather_thread ob),
         (''replica'', mysql_gather_replica ob)])"
    by (rule gather_all_links) (simp add: mysql_section_links mysql_innodb_links)
  then show "mysql_gather ob m k = Some (c, m', q) \<Longrightarrow> links q = links k"
    by (auto simp: mysql_gather_def split: if_split_asm dest: link_keeper.keeps)
qed

section \<open>A task of a plugin\<close>

lemma open_links: "open_packet md t k = Some q \<Longrightarrow> links q = links k"
  by (auto simp: open_packet_def bind_eq_Some_conv split: if_split_asm dest!: append_links)

lemma begin_links: "begin_record b k = Some q \<Longrightarrow> links q = links k"
  by (auto simp: begin_record_def Let_def bind_eq_Some_conv split: if_split_asm dest!: append_links)

lemma end_links: "end_record c t k = Some (t', q) \<Longrightarrow> links q = links k"
  by (auto simp: end_record_def bind_eq_Some_conv split: if_split_asm dest!: append_links rollback_links)

lemma expire_links: "expire_packet e k = Some (b, q) \<Longrightarrow> links q = links k"
  by (auto simp: expire_packet_def bind_eq_Some_conv split: if_split_asm dest!: append_links)

lemma gather_into_inv:
  assumes "\<forall>n. link_keeper (gather p n)" "storage_inv s as" "heap s a = Some k"
    and "gather_into md a k p s w = Some (r, p', s', w')"
  shows "storage_inv s' as"
proof -
  have "links q = links k" if "packet_gather tag (gather p n) m k = Some (c, m', q)" for tag n m k c m' q
    using link_keeper.packet_gather_links[OF assms(1)[rule_format] that] .
  with assms(4) obtain k5 where s': "s' = set_packet a k5 s" and "links k5 = links k"
    unfolding gather_into_def
    by (auto simp: bind_eq_Some_conv case_prod_unfold Let_def dest!: open_links begin_links end_links expire_links)
  then have "pnext k5 = pnext k" "spin k5 = 0"
    using assms(2,3) by (auto simp: links_def storage_inv_def)
  with assms(2,3) show ?thesis unfolding s' by (intro storage_inv_upd)
qed

lemma plugin_gather_inv:
  assumes "\<forall>n. link_keeper (gather p n)" "pool_inv s"
    and "plugin_gather md p s w = Some (r, p', s', w')"
  shows "pool_inv s'"
proof -
  obtain a s1 w1 k where get: "(case working p of None \<Rightarrow> get_packet METRIC s w | Some a \<Rightarrow> Some (Some a, s, w)) =
      Some (Some a, s1, w1)" and k: "heap s1 a = Some k" "gather_into md a k p s1 w1 = Some (r, p', s', w')"
    using assms(3) by (auto simp: plugin_gather_def bind_eq_Some_conv)
  have "pool_inv s1"
  proof (cases "working p")
    case None
    with get assms(2) storage_inv_get show ?thesis unfolding pool_inv_def[of s] by fastforce
  qed (use get assms(2) in simp)
  then obtain as where "storage_inv s1 as" by (auto simp: pool_inv_def)
  from gather_into_inv[OF assms(1) this k] show ?thesis by (auto simp: pool_inv_def)
qed

lemma plugin_task_inv:
  assumes "\<forall>n. link_keeper (gather p n)" "pool_inv s"
    and "plugin_task md sn p s w = Some (r, p', s', w')"
  shows "pool_inv s'"
  using assms plugin_gather_inv[OF assms(1,2)]
  by (auto simp: plugin_task_def Let_def split: task.split_asm)

section \<open>The agent at work\<close>

text \<open>
  What happens to the storage: a plugin with the module of the operating system or of a database runs
  its task, whichever that is; the storage routine makes a round, whether it sends everything or
  not; the storage is finalised.
\<close>

inductive storage_used :: "storage \<Rightarrow> storage \<Rightarrow> bool" where
  os_task: "\<forall>n. gather (p :: unit plugin) n = os_gather (view n) \<Longrightarrow>
    plugin_task md sn p s w = Some (r, p', s', w') \<Longrightarrow> storage_used s s'"
| mysql_task: "\<forall>n. gather p n = mysql_gather (answers_of n) \<Longrightarrow>
    plugin_task md sn p s w = Some (r, p', s', w') \<Longrightarrow> storage_used s s'"
| round: "storage_main sn s w = Some (r, s', w') \<Longrightarrow> storage_used s s'"
| finished: "storage_fini fc sn s = Some (r, sn', s') \<Longrightarrow> storage_used s s'"

lemma storage_used_inv: "storage_used s s' \<Longrightarrow> pool_inv s \<Longrightarrow> pool_inv s'"
proof (induction rule: storage_used.induct)
  case (os_task p view md sn s w r p' s' w')
  then show ?case by (intro plugin_task_inv[OF _ os_task(3,2)]) (simp add: os_links.link_keeper_axioms)
next
  case (mysql_task p answers_of md sn s w r p' s' w')
  then show ?case by (intro plugin_task_inv[OF _ mysql_task(3,2)]) (simp add: mysql_links.link_keeper_axioms)
next
  case (round sn s w r s' w')
  then show ?case
    using storage_inv_send storage_main_send_list unfolding pool_inv_def by metis
next
  case (finished fc sn s r sn' s')
  then show ?case unfolding pool_inv_def by (blast intro: storage_inv_fini)
qed

text \<open>
  C12: the shared list stays well formed. However the tasks of the plugins, with either module, the rounds of
  the storage and its finalisation follow each other, and whatever the system, the databases and the
  gate answer, as long as each of them returns, the list is finite, has no cycle and no dangling
  link, and no lock stays taken; so the search for a free packet and the loop that frees the packets
  end. The one operation that would break this is \<open>plugin_fini\<close>, which the program never calls: it
  frees the packet in progress and leaves it in the list.
\<close>

theorem storage_well_formed:
  assumes "pool_inv s" "storage_used\<^sup>*\<^sup>* s s'"
  shows "(\<exists>as. storage_inv s' as \<and> distinct as) \<and> (\<exists>r. find_done (heap s') (packets s') = Some r) \<and>
    (\<exists>h. free_packets (packets s') (heap s') = Some h) \<and>
    (\<forall>p :: 'm plugin. \<forall>as a. fini p = None \<and> working p = Some a \<and> storage_inv s' as \<and> a \<in> set as \<longrightarrow>
      (\<exists>s2. plugin_fini (Some p) s' = Some (0, s2) \<and> \<not> pool_inv s2))"
proof -
  from assms(2,1) have "pool_inv s'"
    by (induction rule: rtranclp_induct) (auto intro: storage_used_inv)
  then obtain as where as: "storage_inv s' as" by (auto simp: pool_inv_def)
  then have chain: "chain (heap s') (packets s') as" by (simp add: storage_inv_def)
  have "plugin_fini (Some p) s' = Some (0, s'\<lparr>heap := (heap s')(a := None)\<rparr>)"
    if "fini p = None" "working p = Some a" for p :: "'m plugin" and a
    using that by (simp add: plugin_fini_def packet_free_def)
  with as chain linked_free_breaks[of s'] show ?thesis
    using chain_distinct free_packets_chain storage_inv_find by blast
qed

definition os_plugin :: "unit plugin" where
  "os_plugin = \<lparr>ptick = OS_TICK, task = Gather, tid = 5, tip = None, target_type = ''linux_ubuntu_1.0'', working = None,
     oob = None, prep = None, fini = None, gather = (\<lambda>_. os_gather sample_obs), cmp = os_module_cmp,
     module_size = 0, module_bytes = (\<lambda>_. []), module = ()\<rparr>"

lemma os_plugin_round:
  "\<exists>p' s' w'. plugin_task sample_metadata sample_senders os_plugin sample_storage sample_machine = Some (0, p', s', w')"
proof -
  have p: "working os_plugin = None" "\<forall>n. gather os_plugin n = os_gather sample_obs" "task os_plugin = Gather"
    "tid os_plugin = 5" by (simp_all add: os_plugin_def)
  have inv: "pool_inv sample_storage" using sample_storage_inv by (auto simp: pool_inv_def)
  have g: "\<forall>n > readings sample_machine. gatherer (gather os_plugin n) (os_spec sample_obs)"
    by (simp add: p(2) os_gatherer[OF sample_obs_ok])
  have codes: "\<forall>n > readings sample_machine. g_code (os_spec sample_obs) (module os_plugin) \<in> plugin_codes"
    by (simp add: os_spec_def code_of_def plugin_codes_def)
  have "length (metric_head sample_metadata 5) < 100"
    by (simp add: metric_head_def sample_metadata_def show_ull_def show_nat.simps)
  then have "\<forall>n > readings sample_machine.
      length (metric_head sample_metadata (tid os_plugin)) + 50 + g_need (os_spec sample_obs) (module os_plugin) < PKTSZ"
    using sample_obs_need[of "module os_plugin"] by (simp add: os_spec_def p(4) PKTSZ_def)
  from plugin_gather_opens[OF p(1) inv _ g codes this] p(3) show ?thesis
    by (fastforce simp: plugin_task_def)
qed

theorem storage_well_formed_witness:
  "\<exists>p' s' w' h. plugin_task sample_metadata sample_senders os_plugin sample_storage sample_machine = Some (0, p', s', w') \<and>
    free_packets (packets s') (heap s') = Some h"
proof -
  obtain p' s' w' where run: "plugin_task sample_metadata sample_senders os_plugin sample_storage sample_machine =
      Some (0, p', s', w')" using os_plugin_round by blast
  have "\<forall>n. gather os_plugin n = os_gather ((\<lambda>_. sample_obs) n)" by (simp add: os_plugin_def)
  then have "storage_used\<^sup>*\<^sup>* sample_storage s'"
    using storage_used.os_task[OF _ run, of "\<lambda>_. sample_obs"] by blast
  moreover have "pool_inv sample_storage" using sample_storage_inv by (auto simp: pool_inv_def)
  ultimately show ?thesis using run storage_well_formed by blast
qed

end
