(* ===== verification/PoolRace.thy ===== *)
theory PoolRace
  imports Storage
begin

text \<open>
  \<open>get_packet\<close> (src/storage.c) run by several threads at once, one step per access to the shared
  list: the scan for a packet that is done, the exchange of an empty head, and the lock on the
  packet that was first when the thread looked. Memory does not run out here.

  Shown: no packet is given to two callers, however the threads interleave; and the lock does not
  protect the list, a new packet can be lost although its caller has got it.
\<close>

section \<open>Steps\<close>

text \<open>
  Where a thread is. \<open>Scan t r\<close>: at \<open>r\<close> in the loop over the list; \<open>Taken t a\<close>: the exchange of the
  state has succeeded; then, for the new packet \<open>n\<close>, the loop that fills an empty list, and with
  \<open>l\<close> the packet whose spin is the lock, the lines that put \<open>n\<close> in front.
\<close>

datatype pc =
    Idle
  | Scan packet_type "addr option"
  | Taken packet_type addr
  | Alloc packet_type
  | Test addr
  | Fill addr
  | Head addr
  | Lock addr addr
  | Link addr addr
  | Publish addr addr
  | Unlock addr addr
  | Got addr

fun advance :: "storage \<Rightarrow> pc \<Rightarrow> (storage \<times> pc) option" where
  "advance s Idle = None"
| "advance s (Scan t None) = Some (s, Alloc t)"
| "advance s (Scan t (Some a)) = do {
     p \<leftarrow> heap s a;
     let (r, q) = packet_change_state p DONE EMPTY;
     if r = 0 then Some (set_packet a q s, Taken t a) else Some (s, Scan t (pnext p))
   }"
| "advance s (Taken t a) = do {
     p \<leftarrow> heap s a;
     Some (set_packet a (p\<lparr>ptype := t, response := 0, psize := 0, attempt := 0, spin := 0\<rparr>) s, Got a)
   }"
| "advance s (Alloc t) =
     Some ((set_packet (brk s) (new_packet t None) s)\<lparr>brk := Suc (brk s)\<rparr>, Test (brk s))"
| "advance s (Test n) = Some (s, if packets s = None then Fill n else Head n)"
| "advance s (Fill n) =
     Some (if packets s = None then (s\<lparr>packets := Some n\<rparr>, Got n) else (s, Test n))"
| "advance s (Head n) = do { l \<leftarrow> packets s; Some (s, Lock n l) }"
| "advance s (Lock n l) = do {
     q \<leftarrow> heap s l;
     Some (if spin q = 0 then (set_packet l (q\<lparr>spin := 1\<rparr>) s, Link n l) else (s, Lock n l))
   }"
| "advance s (Link n l) = do {
     p \<leftarrow> heap s n;
     Some (set_packet n (p\<lparr>pnext := packets s\<rparr>) s, Publish n l)
   }"
| "advance s (Publish n l) = Some (s\<lparr>packets := Some n\<rparr>, Unlock n l)"
| "advance s (Unlock n l) = do {
     q \<leftarrow> heap s l;
     Some (set_packet l (q\<lparr>spin := 0\<rparr>) s, Got n)
   }"
| "advance s (Got a) = None"

type_synonym race = "storage \<times> (nat \<Rightarrow> pc)"

inductive race_step :: "race \<Rightarrow> race \<Rightarrow> bool" where
  call: "pcs i = Idle \<Longrightarrow> race_step (s, pcs) (s, pcs(i := Scan t (packets s)))"
| move: "advance s (pcs i) = Some (s', c) \<Longrightarrow> race_step (s, pcs) (s', pcs(i := c))"

inductive race_reach :: "race \<Rightarrow> race \<Rightarrow> bool" for start where
  init: "race_reach start start"
| step: "race_reach start s \<Longrightarrow> race_step s s' \<Longrightarrow> race_reach start s'"

section \<open>One caller per packet\<close>

text \<open>The packet a thread has taken or made.\<close>

fun held :: "pc \<Rightarrow> addr option" where
  "held (Taken t a) = Some a"
| "held (Test n) = Some n"
| "held (Fill n) = Some n"
| "held (Head n) = Some n"
| "held (Lock n l) = Some n"
| "held (Link n l) = Some n"
| "held (Publish n l) = Some n"
| "held (Unlock n l) = Some n"
| "held (Got a) = Some a"
| "held c = None"

definition is_empty :: "storage \<Rightarrow> addr \<Rightarrow> bool" where
  "is_empty s a \<longleftrightarrow> (\<exists>p. heap s a = Some p \<and> pstate p = EMPTY)"

definition below_brk :: "storage \<Rightarrow> bool" where
  "below_brk s \<longleftrightarrow> (\<forall>a p. heap s a = Some p \<longrightarrow> a < brk s)"

definition race_inv :: "race \<Rightarrow> bool" where
  "race_inv x \<longleftrightarrow>
     below_brk (fst x) \<and>
     (\<forall>i a. held (snd x i) = Some a \<longrightarrow> is_empty (fst x) a) \<and>
     (\<forall>i j a. held (snd x i) = Some a \<longrightarrow> held (snd x j) = Some a \<longrightarrow> i = j)"

lemma advance_keeps:
  assumes "advance s c = Some (s', c')" "below_brk s"
  shows "below_brk s'" "is_empty s a \<Longrightarrow> is_empty s' a"
  using assms
  by (induction s c rule: advance.induct)
    (auto simp: below_brk_def is_empty_def set_packet_def packet_change_state_def new_packet_def
      Let_def less_Suc_eq split: bind_splits if_splits)

lemma brk_free: "below_brk s \<Longrightarrow> heap s (brk s) = None"
  by (cases "heap s (brk s)") (auto simp: below_brk_def)

lemma advance_takes:
  assumes "advance s c = Some (s', c')" "below_brk s"
  shows "held c' = held c \<or> (\<exists>a. held c' = Some a \<and> \<not> is_empty s a \<and> is_empty s' a)"
  using assms
  by (induction s c rule: advance.induct)
    (auto simp: brk_free is_empty_def set_packet_def packet_change_state_def new_packet_def
      Let_def split: bind_splits if_splits)

lemma race_step_inv:
  assumes "race_step x y" "race_inv x"
  shows "race_inv y"
  using assms
proof cases
  case (call pcs i s t)
  with assms(2) show ?thesis by (auto simp: race_inv_def split: if_splits)
next
  case (move s pcs i s' c)
  have inv: "below_brk s" "\<And>j a. held (pcs j) = Some a \<Longrightarrow> is_empty s a"
    "\<And>j k a. held (pcs j) = Some a \<Longrightarrow> held (pcs k) = Some a \<Longrightarrow> j = k"
    using assms(2) move by (auto simp: race_inv_def)
  note kept = advance_keeps[OF move(3) inv(1)]
  consider "held c = held (pcs i)" | a where "held c = Some a" "\<not> is_empty s a" "is_empty s' a"
    using advance_takes[OF move(3) inv(1)] by blast
  then show ?thesis
  proof cases
    case 1
    with move(2) kept inv(2,3) show ?thesis
      by (auto simp: race_inv_def)
  next
    case 2
    with move(2) kept inv(2,3) show ?thesis
      by (auto simp: race_inv_def)
  qed
qed

lemma race_reach_inv: "race_reach x y \<Longrightarrow> race_inv x \<Longrightarrow> race_inv y"
  by (induction rule: race_reach.induct) (auto intro: race_step_inv)

text \<open>
  C22: a packet is given to one caller only. However many threads ask for packets at once and however
  their steps interleave, no two of them get the same packet, whether it was recycled or new, and
  the packet a thread has got is empty.
\<close>

theorem get_packet_one_caller:
  assumes "race_reach (s0, \<lambda>_. Idle) (s, pcs)" "\<forall>a p. heap s0 a = Some p \<longrightarrow> a < brk s0"
    and "pcs i = Got a"
  shows "(\<exists>p. heap s a = Some p \<and> pstate p = EMPTY) \<and> (\<forall>j. pcs j = Got a \<longrightarrow> j = i)"
proof -
  have "race_inv (s, pcs)"
    using race_reach_inv[OF assms(1)] assms(2) by (simp add: race_inv_def below_brk_def)
  moreover have "held (pcs i) = Some a" using assms(3) by simp
  ultimately have "is_empty s a" "\<And>j. held (pcs j) = Some a \<Longrightarrow> j = i"
    unfolding race_inv_def by auto
  then show ?thesis by (auto simp: is_empty_def)
qed

section \<open>A lost packet\<close>

text \<open>Runs of a schedule: the thread at the front makes its next step; an idle one calls.\<close>

fun run :: "nat list \<Rightarrow> race \<Rightarrow> race option" where
  "run [] x = Some x"
| "run (i # is) (s, pcs) =
     (if pcs i = Idle then run is (s, pcs(i := Scan METRIC (packets s)))
      else case advance s (pcs i) of
        None \<Rightarrow> None
      | Some (s', c) \<Rightarrow> run is (s', pcs(i := c)))"

lemma run_reach: "run is x = Some y \<Longrightarrow> race_reach start x \<Longrightarrow> race_reach start y"
proof (induction "is" arbitrary: x)
  case (Cons i "is")
  obtain s pcs where x: "x = (s, pcs)" by (cases x)
  show ?case
  proof (cases "pcs i = Idle")
    case True
    then have "race_step x (s, pcs(i := Scan METRIC (packets s)))"
      unfolding x by (rule race_step.call)
    with Cons True x show ?thesis
      by (auto intro: race_reach.step)
  next
    case False
    with Cons.prems(1) x obtain s' c where adv: "advance s (pcs i) = Some (s', c)"
      and rest: "run is (s', pcs(i := c)) = Some y"
      by (auto split: option.splits prod.splits)
    have "race_step x (s', pcs(i := c))"
      unfolding x using adv by (rule race_step.move)
    then show ?thesis
      by (rule Cons.IH[OF rest race_reach.step[OF Cons.prems(2)]])
  qed
qed simp

definition empty_storage :: storage where
  "empty_storage = \<lparr>heap = Map.empty, brk = 0, packets = None, delay = 1, tick = STORAGE_TICK\<rparr>"

text \<open>
  The schedule: thread 0 makes the first packet. Threads 1 and 2 make one each and both look for
  its lock; thread 1 puts its packet in front and finishes; thread 2 gets the lock; thread 3, which
  finds packet 1 in front, gets that lock; both link to packet 1 and publish.
\<close>

definition losing_schedule :: "nat list" where
  "losing_schedule =
     [0, 0, 0, 0, 0] @ [1, 1, 1, 1, 1, 1] @ [2, 2, 2, 2, 2, 2] @ [1, 1, 1, 1] @ [2] @
     [3, 3, 3, 3, 3, 3, 3, 3] @ [2, 3, 2, 3, 2, 3]"

lemma losing_run:
  "\<exists>s pcs. run losing_schedule (empty_storage, \<lambda>_. Idle) = Some (s, pcs) \<and>
     pcs 0 = Got 0 \<and> pcs 1 = Got 1 \<and> pcs 2 = Got 2 \<and> pcs 3 = Got 3 \<and>
     chain (heap s) (packets s) [3, 1, 0]"
  by (simp add: losing_schedule_def empty_storage_def set_packet_def new_packet_def
      packet_change_state_def)

text \<open>
  C23: the lock of \<open>get_packet\<close> does not protect the list. Four threads that ask a new storage for a
  packet can all get one, while the list ends up without the packet of one of them: whatever
  that plugin writes is never sent. Two threads hold different locks when one of them looked at
  the head before and the other after a third thread had put its packet in front.
\<close>

theorem get_packet_loses:
  "\<exists>s pcs. race_reach (empty_storage, \<lambda>_. Idle) (s, pcs) \<and>
     pcs 0 = Got 0 \<and> pcs 1 = Got 1 \<and> pcs 2 = Got 2 \<and> pcs 3 = Got 3 \<and>
     chain (heap s) (packets s) [3, 1, 0]"
  using losing_run run_reach[OF _ race_reach.init] by blast

text \<open>Two threads in turn, one finding the list empty and the other not.\<close>

lemma two_callers:
  "\<exists>s pcs. run [0, 0, 0, 0, 0, 1, 1, 1, 1, 1, 1, 1, 1, 1, 1] (empty_storage, \<lambda>_. Idle) = Some (s, pcs) \<and>
     pcs 0 = Got 0 \<and> pcs 1 = Got 1"
  by (simp add: empty_storage_def set_packet_def new_packet_def packet_change_state_def)

theorem get_packet_one_caller_witness:
  "\<exists>s pcs. race_reach (empty_storage, \<lambda>_. Idle) (s, pcs) \<and> pcs 0 = Got 0 \<and>
     (\<forall>j. pcs j = Got 0 \<longrightarrow> j = 0)"
proof -
  obtain s pcs where reach: "race_reach (empty_storage, \<lambda>_. Idle) (s, pcs)" and got: "pcs 0 = Got 0"
    using two_callers run_reach[OF _ race_reach.init] by blast
  from get_packet_one_caller[OF reach _ got] have "\<forall>j. pcs j = Got 0 \<longrightarrow> j = 0"
    by (simp add: empty_storage_def)
  with reach got show ?thesis by blast
qed

end
