(* ===== verification/GatherRace.thy ===== *)
theory GatherRace
  imports Plugin
begin

text \<open>
  \<open>plugin_gather\<close> (src/plugin.c) as a sequence of steps, so that two threads can run it on the same
  plugin: after a restart the cancelled thread and the new one both do (theory \<open>Restart\<close>). The steps
  are cut where the function reads or writes the shared pointer \<open>working\<close>; what lies between
  two cuts is the work on the packet, in the definitions of \<open>plugin_gather\<close>.

  Shown: a thread that is alone does exactly what \<open>plugin_gather\<close> does; two threads can reach a
  null pointer that is dereferenced, and can write into a packet that was already handed over.
\<close>

section \<open>Steps\<close>

text \<open>
  Where a thread is: at the test of \<open>working\<close>, at the call of \<open>get_packet\<close>, at the copy of \<open>working\<close>
  to \<open>pkt\<close>, and then, with its copy of the pointer, at the five parts of the work on the packet.
\<close>

datatype gpc =
    G_test | G_take | G_copy | G_open addr | G_begin addr | G_fill addr | G_end addr int | G_expire addr | G_done

type_synonym 'm shared = "'m plugin \<times> storage \<times> machine"

text \<open>A null pointer that is dereferenced is \<^const>\<open>None\<close>.\<close>

fun g_advance :: "metadata \<Rightarrow> gpc \<Rightarrow> 'm shared \<Rightarrow> (gpc \<times> 'm shared) option" where
  "g_advance md G_test (p, s, w) = Some (if working p = None then G_take else G_copy, p, s, w)"
| "g_advance md G_take (p, s, w) = do {
     (r, s1, w1) \<leftarrow> get_packet METRIC s w;
     Some (G_copy, p\<lparr>working := r\<rparr>, s1, w1)
   }"
| "g_advance md G_copy (p, s, w) = do { a \<leftarrow> working p; Some (G_open a, p, s, w) }"
| "g_advance md (G_open a) (p, s, w) = do {
     k \<leftarrow> heap s a;
     k1 \<leftarrow> open_packet md (tid p) k;
     Some (G_begin a, p, set_packet a k1 s, w)
   }"
| "g_advance md (G_begin a) (p, s, w) = do {
     k \<leftarrow> heap s a;
     let (begin, w1) = epoch_time w;
     k1 \<leftarrow> begin_record begin k;
     Some (G_fill a, p, set_packet a k1 s, w1)
   }"
| "g_advance md (G_fill a) (p, s, w) = do {
     k \<leftarrow> heap s a;
     (code, m, k1) \<leftarrow> packet_gather ''values'' (gather p (readings w)) (module p) k;
     Some (G_end a code, p\<lparr>module := m\<rparr>, set_packet a k1 s, w)
   }"
| "g_advance md (G_end a code) (p, s, w) = do {
     k \<leftarrow> heap s a;
     (t, k1) \<leftarrow> end_record code (task p) k;
     Some (G_expire a, routine_change_task t p, set_packet a k1 s, w)
   }"
| "g_advance md (G_expire a) (p, s, w) = do {
     k \<leftarrow> heap s a;
     let (expired, w1) = packet_expired k w;
     (keep, k1) \<leftarrow> expire_packet expired k;
     Some (G_done, if keep then p else p\<lparr>working := None\<rparr>, set_packet a k1 s, w1)
   }"
| "g_advance md G_done x = Some (G_done, x)"

text \<open>One thread, \<open>n\<close> steps.\<close>

fun g_run :: "metadata \<Rightarrow> nat \<Rightarrow> gpc \<Rightarrow> 'm shared \<Rightarrow> (gpc \<times> 'm shared) option" where
  "g_run md 0 c x = Some (c, x)"
| "g_run md (Suc n) c x = do { (c1, x1) \<leftarrow> g_advance md c x; g_run md n c1 x1 }"

text \<open>
  Two threads on one plugin: the schedule says for each step whether the first thread moves
  (\<^const>\<open>True\<close>) or the second. There is no lock around \<open>plugin_gather\<close>, so every schedule is one of the agent.
\<close>

fun g_two :: "metadata \<Rightarrow> bool list \<Rightarrow> gpc \<times> gpc \<times> 'm shared \<Rightarrow> (gpc \<times> gpc \<times> 'm shared) option" where
  "g_two md [] st = Some st"
| "g_two md (first # schedule) (c, d, x) =
     (if first
      then do { (c1, x1) \<leftarrow> g_advance md c x; g_two md schedule (c1, d, x1) }
      else do { (d1, x1) \<leftarrow> g_advance md d x; g_two md schedule (c, d1, x1) })"

section \<open>Alone\<close>

lemma set_packet_twice [simp]: "set_packet a k (set_packet a q s) = set_packet a k s"
  by (simp add: set_packet_def)

lemma g_run_done [simp]: "g_run md n G_done x = Some (G_done, x)"
  by (induction n) simp_all

lemma set_packet_at [simp]: "heap (set_packet a k s) a = Some k"
  by (simp add: set_packet_def)

text \<open>The work on the packet, from its last part back to its first.\<close>

lemma g_run_end:
  assumes working: "working p = Some a"
  shows "g_run md (Suc (Suc n)) (G_end a code) (p\<lparr>module := m\<rparr>, set_packet a k s, w) =
    map_option (\<lambda>(r, x). (G_done, x))
      (do {
         (t, k4) \<leftarrow> end_record code (task p) k;
         let (expired, w2) = packet_expired k4 w;
         (keep, k5) \<leftarrow> expire_packet expired k4;
         Some (0 :: int, p\<lparr>task := t, module := m, working := (if keep then Some a else None)\<rparr>,
               set_packet a k5 s, w2)
       })"
proof (cases "end_record code (task p) k")
  case ended: (Some v)
  obtain t k4 where v: "v = (t, k4)" by (cases v)
  obtain expired w2 where expired: "packet_expired k4 w = (expired, w2)" by force
  have keep: "p\<lparr>module := m, task := t\<rparr> = p\<lparr>task := t, module := m, working := Some a\<rparr>"
    using working by (cases p) simp
  show ?thesis by (cases "expire_packet expired k4") (auto simp: ended v expired keep)
qed simp

lemma g_run_into:
  assumes at: "heap s a = Some k" and working: "working p = Some a"
  shows "g_run md (Suc (Suc (Suc (Suc (Suc n))))) (G_open a) (p, s, w) =
    map_option (\<lambda>(r, x). (G_done, x)) (gather_into md a k p s w)"
proof (cases "open_packet md (tid p) k")
  case opened: (Some k1)
  obtain b w1 where now: "epoch_time w = (b, w1)" by force
  show ?thesis
  proof (cases "begin_record b k1")
    case begun: (Some k2)
    show ?thesis
    proof (cases "packet_gather ''values'' (gather p (readings w1)) (module p) k2")
      case filled: (Some v)
      obtain code m k3 where "v = (code, m, k3)" by (cases v)
      with filled show ?thesis
        using g_run_end [OF working, of md n code m k3 s w1]
        by (simp add: at opened now begun gather_into_def)
    qed (simp add: at opened now begun gather_into_def)
  qed (simp add: at opened now gather_into_def)
qed (simp add: at gather_into_def)

text \<open>The pointer \<open>working\<close> itself plays no part in the work on the packet, which has its copy.\<close>

lemma gather_into_working: "gather_into md a k (p\<lparr>working := x\<rparr>) s w = gather_into md a k p s w"
  by (simp add: gather_into_def)

lemma g_run_copy:
  "g_run md (Suc (Suc (Suc (Suc (Suc (Suc n)))))) G_copy (p, s, w) =
    map_option (\<lambda>(r, x). (G_done, x))
      (do { a \<leftarrow> working p; k \<leftarrow> heap s a; gather_into md a k p s w })"
proof (cases "working p")
  case working: (Some a)
  show ?thesis
  proof (cases "heap s a")
    case (Some k)
    then show ?thesis using g_run_into [OF Some working, of md n w] by (simp add: working)
  qed (simp add: working)
qed simp

lemma g_run_gather:
  "g_run md 8 G_test (p, s, w) = map_option (\<lambda>(r, x). (G_done, x)) (plugin_gather md p s w)"
proof (cases "working p")
  case (Some a)
  have "g_run md 8 G_test (p, s, w) = g_run md (Suc (Suc (Suc (Suc (Suc (Suc (Suc 0))))))) G_copy (p, s, w)"
    by (simp add: numeral_eq_Suc Some del: g_run.simps(2)) (simp add: Some)
  then show ?thesis by (simp only: g_run_copy) (simp add: Some plugin_gather_def)
next
  case None
  show ?thesis
  proof (cases "get_packet METRIC s w")
    case taken: (Some v)
    obtain r s1 w1 where v: "v = (r, s1, w1)" by (cases v)
    have "g_run md 8 G_test (p, s, w) =
        g_run md (Suc (Suc (Suc (Suc (Suc (Suc 0)))))) G_copy (p\<lparr>working := r\<rparr>, s1, w1)"
      by (simp add: numeral_eq_Suc None taken v)
    then show ?thesis
      by (simp only: g_run_copy) (simp add: None taken v plugin_gather_def gather_into_working)
  qed (simp add: numeral_eq_Suc None plugin_gather_def)
qed

text \<open>
  A thread that runs the steps of \<open>plugin_gather\<close> on its own does in eight steps exactly what
  \<open>plugin_gather\<close> does: it ends with the same plugin, storage and machine, and it meets a null
  pointer exactly when \<open>plugin_gather\<close> does. So the steps are the function, cut in pieces.
\<close>

theorem gather_steps_alone:
  "g_run md 8 G_test (p, s, w) = map_option (\<lambda>(r, x). (G_done, x)) (plugin_gather md p s w)"
  by (rule g_run_gather)

section \<open>Together\<close>

text \<open>A stretch of the schedule that belongs to one thread is a run of that thread.\<close>

lemma g_two_first:
  "g_two md (replicate n True @ l) (c, d, x) = do { (c1, x1) \<leftarrow> g_run md n c x; g_two md l (c1, d, x1) }"
  by (induction n arbitrary: c x) (auto split: Option.bind_splits)

lemma g_two_second:
  "g_two md (replicate n False @ l) (c, d, x) = do { (d1, x1) \<leftarrow> g_run md n d x; g_two md l (c, d1, x1) }"
  by (induction n arbitrary: d x) (auto split: Option.bind_splits)

text \<open>The second thread has only tested the pointer when the first closes the packet.\<close>

lemma race_null:
  assumes "working p = Some a" and "plugin_gather md p s w = Some (r, p', s', w')" and "working p' = None"
  shows "g_two md (replicate 8 True @ replicate 8 False) (G_test, G_test, p, s, w) =
      map_option (\<lambda>(r, x). (G_done, G_done, x)) (plugin_gather md p' s' w') \<and>
    g_two md (False # replicate 8 True @ [False]) (G_test, G_test, p, s, w) = None"
proof
  have alone: "g_run md 8 G_test (p, s, w) = Some (G_done, p', s', w')"
    using assms(2) by (simp add: g_run_gather)
  then show "g_two md (replicate 8 True @ replicate 8 False) (G_test, G_test, p, s, w) =
      map_option (\<lambda>(r, x). (G_done, G_done, x)) (plugin_gather md p' s' w')"
    using g_two_second [of md 8 "[]" G_done G_test "(p', s', w')"]
    by (cases "plugin_gather md p' s' w'") (auto simp: g_two_first g_run_gather)
  show "g_two md (False # replicate 8 True @ [False]) (G_test, G_test, p, s, w) = None"
    using assms(1,3) by (simp add: g_two_first alone)
qed

text \<open>The second thread has already copied the pointer.\<close>

lemma race_document:
  assumes "working p = Some a" and "plugin_gather md p s w = Some (r, p', s', w')"
    and "heap s' a = Some k" and "pstate k = READY" and "room k 34"
  shows "\<exists>s2 w2 k2.
    g_two md ([False, False] @ replicate 8 True @ [False, False]) (G_test, G_test, p, s, w) =
      Some (G_done, G_fill a, p', s2, w2) \<and>
    heap s2 a = Some k2 \<and> pstate k2 = READY \<and> ptext k2 = ptext k @ stamp_text (fst (epoch_time w'))"
proof -
  have alone: "g_run md 8 G_test (p, s, w) = Some (G_done, p', s', w')"
    using assms(2) by (simp add: g_run_gather)
  obtain b w2 where now: "epoch_time w' = (b, w2)" by force
  have "room (packet_transaction k) (length (stamp_text b))"
    using assms(5) length_stamp [of b] by (simp add: room_def packet_transaction_def)
  then obtain k2 where k2: "packet_append (stamp_text b) (packet_transaction k) = Some k2"
      "wrote (stamp_text b) (packet_transaction k) k2"
    by (rule packet_append_wrote)
  then have "begin_record b k = Some k2"
    using assms(4) by (simp add: begin_record_def packet_transaction_def)
  moreover have "pstate k2 = READY" "ptext k2 = ptext k @ stamp_text b"
    using wrote_fields [OF k2(2)] assms(4) by (simp_all add: packet_transaction_def)
  ultimately show ?thesis
    using assms(1,3,4) by (simp add: g_two_first alone open_packet_def now)
qed

text \<open>
  C5: Two threads that gather for one plugin, as after a restart, when the round closes the packet in
  progress and marks it ready to be sent. One round after the other is fine: the second does what
  \<open>plugin_gather\<close> does on what the first has left. When the second thread has only tested
  \<open>working\<close> before the first runs, it copies the null pointer the first has left and the agent
  ends with a segmentation fault. When it has already copied the pointer, it writes the head of a
  record after the end of the closed document and the packet stays ready: what is sent is no
  longer the document.
\<close>

theorem gather_race:
  assumes "working p = Some a" and "plugin_gather md p s w = Some (r, p', s', w')" and "working p' = None"
    and "heap s' a = Some k" and "pstate k = READY" and "room k 34"
  shows "g_two md (replicate 8 True @ replicate 8 False) (G_test, G_test, p, s, w) =
      map_option (\<lambda>(r, x). (G_done, G_done, x)) (plugin_gather md p' s' w') \<and>
    g_two md (False # replicate 8 True @ [False]) (G_test, G_test, p, s, w) = None \<and>
    (\<exists>s2 w2 k2.
      g_two md ([False, False] @ replicate 8 True @ [False, False]) (G_test, G_test, p, s, w) =
        Some (G_done, G_fill a, p', s2, w2) \<and>
      heap s2 a = Some k2 \<and> pstate k2 = READY \<and> ptext k2 = ptext k @ stamp_text (fst (epoch_time w')))"
  using race_null [OF assms(1-3)] race_document [OF assms(1,2,4-6)] by simp

text \<open>The sample plugin's round on a late clock, which closes the packet.\<close>

lemma late_round:
  obtains k' p' s' w' where
    "plugin_gather sample_metadata sample_plugin sample_storage1 late_machine = Some (0, p', s', w')"
    "working p' = None" "heap s' 1 = Some k'" "pstate k' = READY" "room k' 34"
    "ptext k' = ''{\"license\":\"key\",\"tid\":5,\"metrics\":[{\"timestamp\":1000000,\"values\":{\"x\":1}}]}''"
proof -
  obtain k' where k': "plugin_gather sample_metadata sample_plugin sample_storage1 late_machine =
      Some (0, sample_plugin\<lparr>task := next_task ENONE (task sample_plugin),
        module := g_upd sample_spec (module sample_plugin), working := None\<rparr>,
        set_packet 1 k' sample_storage1, late_machine\<lparr>readings := readings late_machine + 2\<rparr>)"
    "pstate k' = READY" "pkt_ok k'"
    "ptext k' = ''{\"license\":\"key\",\"tid\":5,\"metrics\":[{\"timestamp\":1000000,\"values\":{\"x\":1}}]}''"
    using plugin_gather_expires [OF _ sample_storage1_facts(2) late_facts(2,1,3-6)] late_document by auto
  have "psize k' = length (ptext k')" by simp
  then have "psize k' \<le> 100" unfolding k'(4) by simp
  with k'(3) have "room k' 34" by (simp add: room_def PKTSZ_def)
  with k' show thesis by (intro that [OF k'(1)]) simp_all
qed

theorem gather_race_witness:
  "g_two sample_metadata (False # replicate 8 True @ [False])
     (G_test, G_test, sample_plugin, sample_storage1, late_machine) = None \<and>
   (\<exists>p' s2 w2 k2 t.
     g_two sample_metadata ([False, False] @ replicate 8 True @ [False, False])
       (G_test, G_test, sample_plugin, sample_storage1, late_machine) = Some (G_done, G_fill 1, p', s2, w2) \<and>
     heap s2 1 = Some k2 \<and> pstate k2 = READY \<and>
     ptext k2 = ''{\"license\":\"key\",\"tid\":5,\"metrics\":[{\"timestamp\":1000000,\"values\":{\"x\":1}}]}'' @ stamp_text t)"
proof (rule late_round)
  fix k p' s' w'
  assume run: "plugin_gather sample_metadata sample_plugin sample_storage1 late_machine = Some (0, p', s', w')"
    and closed: "working p' = None" "heap s' 1 = Some k" "pstate k = READY" "room k 34"
    and doc: "ptext k = ''{\"license\":\"key\",\"tid\":5,\"metrics\":[{\"timestamp\":1000000,\"values\":{\"x\":1}}]}''"
  show ?thesis
    using gather_race [OF sample_plugin_simps(3) run closed] unfolding doc by blast
qed

end
