(* ===== verification/Psi.thy ===== *)
theory Psi
  imports Prelude "HOL-Library.State_Monad"
begin

text \<open>
  The instrumentation interface of the MySQL client headers (inc/mysql/mysql/psi/psi.h): the
  operations it distinguishes, the calls of \<open>PSI_server\<close> that the wrappers make, and the calls
  of the C library, of mysys and of pthread that they wrap.

  A run is the list of the calls made so far. The implementations of the interface and of the
  wrapped functions are outside the sources; they are parameters, which answer each call
  depending on all the calls before it. Integers and pointers are C values, with 0 for the null
  pointer and for a result nobody reads. A build without \<open>HAVE_PSI_INTERFACE\<close> behaves as one in
  which \<open>PSI_server\<close> is null.
\<close>

section \<open>The interface\<close>

type_synonym cval = int

text \<open>A place in the sources: \<open>src_file\<close> and \<open>src_line\<close>.\<close>

type_synonym site = "string \<times> nat"

datatype PSI_mutex_operation = PSI_MUTEX_LOCK | PSI_MUTEX_TRYLOCK

datatype PSI_rwlock_operation =
    PSI_RWLOCK_READLOCK | PSI_RWLOCK_WRITELOCK | PSI_RWLOCK_TRYREADLOCK | PSI_RWLOCK_TRYWRITELOCK

datatype PSI_cond_operation = PSI_COND_WAIT | PSI_COND_TIMEDWAIT

datatype PSI_file_operation =
    PSI_FILE_CREATE | PSI_FILE_CREATE_TMP | PSI_FILE_OPEN | PSI_FILE_STREAM_OPEN | PSI_FILE_CLOSE
  | PSI_FILE_STREAM_CLOSE | PSI_FILE_READ | PSI_FILE_WRITE | PSI_FILE_SEEK | PSI_FILE_TELL
  | PSI_FILE_FLUSH | PSI_FILE_STAT | PSI_FILE_FSTAT | PSI_FILE_CHSIZE | PSI_FILE_DELETE
  | PSI_FILE_RENAME | PSI_FILE_SYNC

text \<open>
  The identity under which a file is opened: the new \<open>MYSQL_FILE\<close>, or the address of the local
  variable \<open>locker\<close>.
\<close>

datatype identity = The_file cval | The_locker

text \<open>
  The calls of \<open>PSI_server\<close>: asking for a locker, starting and ending the wait of a locker, and
  the others. A start carries the locker and the place, an end the locker and what is reported.
\<close>

datatype psi_get =
    get_thread_mutex_locker cval PSI_mutex_operation
  | get_thread_rwlock_locker cval PSI_rwlock_operation
  | get_thread_cond_locker cval cval PSI_cond_operation
  | get_thread_file_name_locker cval PSI_file_operation string identity
  | get_thread_file_stream_locker cval PSI_file_operation
  | get_thread_file_descriptor_locker cval PSI_file_operation

datatype psi_start =
    start_mutex_wait | start_rwlock_rdwait | start_rwlock_wrwait | start_cond_wait
  | start_file_open_wait | start_file_wait cval

datatype psi_end =
    end_mutex_wait cval | end_rwlock_rdwait cval | end_rwlock_wrwait cval | end_cond_wait cval
  | end_file_open_wait | end_file_open_wait_and_bind_to_descriptor cval | end_file_wait cval

datatype psi_hook =
    init_mutex cval cval | destroy_mutex cval | init_rwlock cval cval | destroy_rwlock cval
  | init_cond cval cval | destroy_cond cval | create_file cval string cval
  | spawn_thread cval cval cval cval cval | set_thread_id cval cval | get_thread
  | unlock_mutex cval | unlock_rwlock cval | signal_cond cval | broadcast_cond cval

datatype psi_call =
    Get psi_get | Start psi_start cval site | End psi_end cval | Hook psi_hook

text \<open>A call of a wrapped function: its name and its arguments.\<close>

datatype arg = Num cval | Str string | Flag bool | Place site | Args "cval list"

datatype sys_call = Call (callee: string) (arguments: "arg list")

datatype event = Psi psi_call | Sys sys_call

text \<open>
  The surroundings: whether \<open>PSI_server\<close> is set, whether the build uses \<open>SAFE_MUTEX\<close>, the answers
  of both sides, and the string found at an address.
\<close>

record psi_world =
  psi_server :: bool
  safe_mutex :: bool
  psi_ans :: "event list \<Rightarrow> psi_call \<Rightarrow> cval"
  sys_ans :: "event list \<Rightarrow> sys_call \<Rightarrow> cval"
  mem_str :: "event list \<Rightarrow> cval \<Rightarrow> string"

type_synonym 'a act = "(event list, 'a) state"

definition psi :: "psi_world \<Rightarrow> psi_call \<Rightarrow> cval act" where
  "psi w c = State (\<lambda>tr. (psi_ans w tr c, tr @ [Psi c]))"

definition sys :: "psi_world \<Rightarrow> sys_call \<Rightarrow> cval act" where
  "sys w c = State (\<lambda>tr. (sys_ans w tr c, tr @ [Sys c]))"

text \<open>\<open>strlen\<close> of a string in memory, and the conversion to \<open>size_t\<close>.\<close>

definition strlen :: "psi_world \<Rightarrow> cval \<Rightarrow> cval act" where
  "strlen w a = State (\<lambda>tr. (int (length (mem_str w tr a)), tr))"

definition size_t :: "cval \<Rightarrow> cval" where
  "size_t n = n mod 2 ^ 64"

text \<open>\<open>if (locker != NULL) PSI_server->start...\<close> and \<open>if (locker != NULL) PSI_server->end...\<close>.\<close>

definition start_wait :: "psi_world \<Rightarrow> psi_start \<Rightarrow> site \<Rightarrow> cval \<Rightarrow> cval act" where
  "start_wait w start src locker =
     (if locker \<noteq> 0 then do { _ \<leftarrow> psi w (Start start locker src); State_Monad.return locker }
      else State_Monad.return locker)"

definition end_wait :: "psi_world \<Rightarrow> cval \<Rightarrow> psi_end \<Rightarrow> unit act" where
  "end_wait w locker stop =
     (if locker \<noteq> 0 then do { _ \<leftarrow> psi w (End stop locker); State_Monad.return () }
      else State_Monad.return ())"

text \<open>\<open>locker = NULL; if (guard) { locker = PSI_server->get...; ... start ... }\<close>.\<close>

definition wait_if :: "psi_world \<Rightarrow> bool \<Rightarrow> psi_get \<Rightarrow> psi_start \<Rightarrow> site \<Rightarrow> cval act" where
  "wait_if w guard getter start src =
     (if psi_server w \<and> guard
      then do { locker \<leftarrow> psi w (Get getter); start_wait w start src locker }
      else State_Monad.return 0)"

section \<open>Waits\<close>

text \<open>
  The lockers of the waits that are open: a start adds its locker, an end removes it.
\<close>

fun wait_step :: "cval list \<Rightarrow> psi_call \<Rightarrow> cval list" where
  "wait_step ls (Get g) = ls"
| "wait_step ls (Start k l src) = l # ls"
| "wait_step ls (End k l) = remove1 l ls"
| "wait_step ls (Hook h) = ls"

fun psi_calls :: "event list \<Rightarrow> psi_call list" where
  "psi_calls [] = []"
| "psi_calls (Psi c # tr) = c # psi_calls tr"
| "psi_calls (Sys c # tr) = psi_calls tr"

fun sys_calls :: "event list \<Rightarrow> sys_call list" where
  "sys_calls [] = []"
| "sys_calls (Psi c # tr) = sys_calls tr"
| "sys_calls (Sys c # tr) = c # sys_calls tr"

definition open_waits :: "event list \<Rightarrow> cval list" where
  "open_waits tr = foldl wait_step [] (psi_calls tr)"

text \<open>
  An instrumentation that only observes: what a wrapped function answers depends on the wrapped
  calls before it, not on the calls of the interface.
\<close>

definition observing :: "psi_world \<Rightarrow> bool" where
  "observing w \<longleftrightarrow>
     (\<forall>tr tr' c. sys_calls tr = sys_calls tr' \<longrightarrow> sys_ans w tr c = sys_ans w tr' c)"

lemma observingD:
  "observing w \<Longrightarrow> sys_calls tr = sys_calls tr' \<Longrightarrow> sys_ans w tr c = sys_ans w tr' c"
  unfolding observing_def by blast

lemma psi_calls_append [simp]: "psi_calls (xs @ ys) = psi_calls xs @ psi_calls ys"
  by (induction xs rule: psi_calls.induct) simp_all

lemma sys_calls_append [simp]: "sys_calls (xs @ ys) = sys_calls xs @ sys_calls ys"
  by (induction xs rule: sys_calls.induct) simp_all

lemma calls_Psi [simp]:
  "psi_calls (map Psi cs) = cs" "sys_calls (map Psi cs) = []"
  by (induction cs) simp_all

lemma open_waits_append:
  "open_waits (tr @ tr') = foldl wait_step (open_waits tr) (psi_calls tr')"
  by (simp add: open_waits_def)

lemma run_psi [simp]: "run_state (psi w c) tr = (psi_ans w tr c, tr @ [Psi c])"
  and run_sys [simp]: "run_state (sys w d) tr = (sys_ans w tr d, tr @ [Sys d])"
  and run_strlen [simp]: "run_state (strlen w a) tr = (int (length (mem_str w tr a)), tr)"
  by (simp_all add: psi_def sys_def strlen_def)

section \<open>Wrappers\<close>

text \<open>
  What a wrapper owes to its caller. Between calls of the interface it makes the wrapped call
  once and returns its result; the waits it opens it closes again; without \<open>PSI_server\<close> it makes
  no call of the interface.
\<close>

locale instrumented =
  fixes wrapper :: "psi_world \<Rightarrow> cval act" and call :: "psi_world \<Rightarrow> sys_call"
  assumes shape: "\<exists>pre post. run_state (wrapper w) tr =
      (sys_ans w (tr @ map Psi pre) (call w), tr @ map Psi pre @ Sys (call w) # map Psi post) \<and>
      (\<forall>ls. foldl wait_step ls (pre @ post) = ls) \<and> (\<not> psi_server w \<longrightarrow> pre @ post = [])"
begin

lemma one_call: "sys_calls (snd (run_state (wrapper w) tr)) = sys_calls tr @ [call w]"
  using shape[of w tr] by force

lemma waits_closed: "open_waits (snd (run_state (wrapper w) tr)) = open_waits tr"
  using shape[of w tr] by (force simp: open_waits_append)

lemma same_result:
  assumes "observing w"
  shows "fst (run_state (wrapper w) tr) = sys_ans w tr (call w)"
proof -
  obtain pre where "fst (run_state (wrapper w) tr) = sys_ans w (tr @ map Psi pre) (call w)"
    using shape[of w tr] by force
  then show ?thesis
    using assms unfolding observing_def by (metis calls_Psi(2) append_Nil2 sys_calls_append)
qed

lemma server_off:
  assumes "\<not> psi_server w"
  shows "run_state (wrapper w) tr = (sys_ans w tr (call w), tr @ [Sys (call w)])"
  using shape[of w tr] assms by force

lemma drop_in:
  assumes "observing w" "run_state (wrapper w) tr = (r, tr')"
  shows "r = sys_ans w tr (call w)" "sys_calls tr' = sys_calls tr @ [call w]"
    "open_waits tr' = open_waits tr"
    "\<not> psi_server w \<Longrightarrow> tr' = tr @ [Sys (call w)]"
  using same_result[OF assms(1), of tr] one_call[of w tr] waits_closed[of w tr]
    server_off[of w tr] assms(2) by auto

end

text \<open>
  The two halves around the wrapped call: the first opens at most one wait and answers its
  locker, the second closes the wait of that locker.
\<close>

definition opens_wait :: "psi_world \<Rightarrow> cval act \<Rightarrow> bool" where
  "opens_wait w m \<longleftrightarrow>
     (\<forall>tr. \<exists>l pre. run_state m tr = (l, tr @ map Psi pre) \<and>
        (\<forall>ls. foldl wait_step ls pre = (if l = 0 then ls else l # ls)) \<and>
        (\<not> psi_server w \<longrightarrow> l = 0 \<and> pre = []))"

definition closes_wait :: "cval \<Rightarrow> unit act \<Rightarrow> bool" where
  "closes_wait l m \<longleftrightarrow>
     (\<forall>tr. \<exists>post. run_state m tr = ((), tr @ map Psi post) \<and>
        (\<forall>ls. foldl wait_step (if l = 0 then ls else l # ls) post = ls) \<and>
        (l = 0 \<longrightarrow> post = []))"

lemma opens_wait_if [simp]: "opens_wait w (wait_if w guard getter start src)"
  unfolding opens_wait_def
proof
  fix tr
  let ?l = "psi_ans w tr (Get getter)"
  consider (off) "\<not> (psi_server w \<and> guard)" | (null) "psi_server w \<and> guard" "?l = 0"
    | (on) "psi_server w \<and> guard" "?l \<noteq> 0" by blast
  then show "\<exists>l pre. run_state (wait_if w guard getter start src) tr = (l, tr @ map Psi pre) \<and>
        (\<forall>ls. foldl wait_step ls pre = (if l = 0 then ls else l # ls)) \<and>
        (\<not> psi_server w \<longrightarrow> l = 0 \<and> pre = [])"
  proof cases
    case off
    then show ?thesis by (auto simp: wait_if_def)
  next
    case null
    then show ?thesis
      by (intro exI[of _ 0] exI[of _ "[Get getter]"]) (auto simp: wait_if_def start_wait_def)
  next
    case on
    then show ?thesis
      by (intro exI[of _ ?l] exI[of _ "[Get getter, Start start ?l src]"])
        (auto simp: wait_if_def start_wait_def)
  qed
qed

lemma closes_end_wait [simp]: "closes_wait l (end_wait w l stop)"
  unfolding closes_wait_def
  by (intro allI exI[of _ "if l = 0 then [] else [End stop l]"]) (simp add: end_wait_def)

lemma closes_wait_bind:
  assumes "\<And>tr. \<exists>v. run_state m tr = (v, tr)" "\<And>v. closes_wait l (k v)"
  shows "closes_wait l (do { v \<leftarrow> m; k v })"
  unfolding closes_wait_def
proof
  fix tr
  obtain v where "run_state m tr = (v, tr)" using assms(1) by blast
  then show "\<exists>post. run_state (do { v \<leftarrow> m; k v }) tr = ((), tr @ map Psi post) \<and>
        (\<forall>ls. foldl wait_step (if l = 0 then ls else l # ls) post = ls) \<and> (l = 0 \<longrightarrow> post = [])"
    using assms(2)[of v] by (auto simp: closes_wait_def)
qed

lemma bracket_instrumented:
  assumes "\<And>w. opens_wait w (start w)" "\<And>w l r. closes_wait l (stop w l r)"
  shows "instrumented
    (\<lambda>w. do { l \<leftarrow> start w; r \<leftarrow> sys w (call w); _ \<leftarrow> stop w l r; State_Monad.return r }) call"
proof
  fix w tr
  obtain l pre where 1: "run_state (start w) tr = (l, tr @ map Psi pre)"
      "\<And>ls. foldl wait_step ls pre = (if l = 0 then ls else l # ls)"
      "\<not> psi_server w \<longrightarrow> l = 0 \<and> pre = []"
    using assms(1)[of w] unfolding opens_wait_def by blast
  let ?r = "sys_ans w (tr @ map Psi pre) (call w)"
  obtain post where 2: "run_state (stop w l ?r) (tr @ map Psi pre @ [Sys (call w)]) =
        ((), (tr @ map Psi pre @ [Sys (call w)]) @ map Psi post)"
      "\<And>ls. foldl wait_step (if l = 0 then ls else l # ls) post = ls" "l = 0 \<longrightarrow> post = []"
    using assms(2)[of l w ?r] unfolding closes_wait_def by blast
  from 1 2 show "\<exists>pre post. run_state (do { l \<leftarrow> start w; r \<leftarrow> sys w (call w); _ \<leftarrow> stop w l r;
        State_Monad.return r }) tr =
      (sys_ans w (tr @ map Psi pre) (call w), tr @ map Psi pre @ Sys (call w) # map Psi post) \<and>
      (\<forall>ls. foldl wait_step ls (pre @ post) = ls) \<and> (\<not> psi_server w \<longrightarrow> pre @ post = [])"
    by (intro exI[of _ pre] exI[of _ post]) auto
qed

end
