(* ===== verification/PsiFile.thy ===== *)
theory PsiFile
  imports Psi
begin

text \<open>
  The instrumented file operations of the MySQL client headers
  (inc/mysql/mysql/psi/mysql_file.h): each wraps one function of the C library or of mysys
  between the start and the end of a wait. Shown: every wrapper is a replacement for the
  function it wraps, whatever the instrumentation answers; opening and closing a stream neither
  leak nor lose the structure; and what is reported when formatted output fails.
\<close>

unbundle bit_operations_syntax

section \<open>Operations\<close>

record st_mysql_file =
  m_file :: cval
  m_psi :: cval

definition MY_FNABP :: cval where "MY_FNABP = 2"
definition MY_NABP :: cval where "MY_NABP = 4"
definition MY_WME :: cval where "MY_WME = 16"
definition MY_FILE_ERROR :: cval where "MY_FILE_ERROR = size_t (-1)"

text \<open>The start of a wait: on a stream, on a descriptor, and on a name.\<close>

definition stream_wait ::
  "psi_world \<Rightarrow> st_mysql_file \<Rightarrow> PSI_file_operation \<Rightarrow> cval \<Rightarrow> site \<Rightarrow> cval act" where
  "stream_wait w file oper n src =
     wait_if w (m_psi file \<noteq> 0) (get_thread_file_stream_locker (m_psi file) oper)
       (start_file_wait n) src"

definition descriptor_wait ::
  "psi_world \<Rightarrow> cval \<Rightarrow> PSI_file_operation \<Rightarrow> cval \<Rightarrow> site \<Rightarrow> cval act" where
  "descriptor_wait w fd oper n src =
     wait_if w True (get_thread_file_descriptor_locker fd oper) (start_file_wait n) src"

definition name_wait ::
  "psi_world \<Rightarrow> cval \<Rightarrow> PSI_file_operation \<Rightarrow> string \<Rightarrow> cval \<Rightarrow> site \<Rightarrow> cval act" where
  "name_wait w key oper name n src =
     wait_if w True (get_thread_file_name_locker key oper name The_locker)
       (start_file_wait n) src"

definition name_open_wait ::
  "psi_world \<Rightarrow> cval \<Rightarrow> PSI_file_operation \<Rightarrow> string \<Rightarrow> site \<Rightarrow> cval act" where
  "name_open_wait w key oper name src =
     wait_if w True (get_thread_file_name_locker key oper name The_locker)
       start_file_open_wait src"

text \<open>The number of bytes a read or a write is reported to have moved.\<close>

definition io_bytes :: "cval \<Rightarrow> cval \<Rightarrow> cval \<Rightarrow> cval" where
  "io_bytes flags count result =
     (if flags AND (MY_NABP OR MY_FNABP) \<noteq> 0 then (if result = 0 then count else 0)
      else (if result \<noteq> MY_FILE_ERROR then result else 0))"

definition inline_mysql_file_fgets ::
  "psi_world \<Rightarrow> site \<Rightarrow> cval \<Rightarrow> cval \<Rightarrow> st_mysql_file \<Rightarrow> cval act" where
  "inline_mysql_file_fgets w src str n file = do {
     locker \<leftarrow> stream_wait w file PSI_FILE_READ (size_t n) src;
     result \<leftarrow> sys w (Call ''fgets'' [Num str, Num n, Num (m_file file)]);
     _ \<leftarrow> (do {
       bytes \<leftarrow> (if result \<noteq> 0 then strlen w result else State_Monad.return 0);
       end_wait w locker (end_file_wait bytes)
     });
     State_Monad.return result
   }"

definition inline_mysql_file_fgetc ::
  "psi_world \<Rightarrow> site \<Rightarrow> st_mysql_file \<Rightarrow> cval act" where
  "inline_mysql_file_fgetc w src file = do {
     locker \<leftarrow> stream_wait w file PSI_FILE_READ 1 src;
     result \<leftarrow> sys w (Call ''fgetc'' [Num (m_file file)]);
     _ \<leftarrow> end_wait w locker (end_file_wait 1);
     State_Monad.return result
   }"

definition inline_mysql_file_fputs ::
  "psi_world \<Rightarrow> site \<Rightarrow> cval \<Rightarrow> st_mysql_file \<Rightarrow> cval act" where
  "inline_mysql_file_fputs w src str file = do {
     locker \<leftarrow> (if psi_server w \<and> m_psi file \<noteq> 0
       then psi w (Get (get_thread_file_stream_locker (m_psi file) PSI_FILE_WRITE))
       else State_Monad.return 0);
     bytes \<leftarrow> (if locker \<noteq> 0 \<and> str \<noteq> 0 then strlen w str else State_Monad.return 0);
     _ \<leftarrow> start_wait w (start_file_wait bytes) src locker;
     result \<leftarrow> sys w (Call ''fputs'' [Num str, Num (m_file file)]);
     _ \<leftarrow> end_wait w locker (end_file_wait bytes);
     State_Monad.return result
   }"

definition inline_mysql_file_fputc ::
  "psi_world \<Rightarrow> site \<Rightarrow> cval \<Rightarrow> st_mysql_file \<Rightarrow> cval act" where
  "inline_mysql_file_fputc w src c file = do {
     locker \<leftarrow> stream_wait w file PSI_FILE_WRITE 1 src;
     result \<leftarrow> sys w (Call ''fputc'' [Num c, Num (m_file file)]);
     _ \<leftarrow> end_wait w locker (end_file_wait 1);
     State_Monad.return result
   }"

text \<open>\<open>fprintf\<close> reports its own place, \<open>__FILE__\<close> and \<open>__LINE__\<close>, as the place of the wait.\<close>

definition inline_mysql_file_fprintf ::
  "psi_world \<Rightarrow> site \<Rightarrow> st_mysql_file \<Rightarrow> string \<Rightarrow> cval list \<Rightarrow> cval act" where
  "inline_mysql_file_fprintf w src file format args = do {
     locker \<leftarrow> stream_wait w file PSI_FILE_WRITE 0 src;
     result \<leftarrow> sys w (Call ''vfprintf'' [Num (m_file file), Str format, Args args]);
     _ \<leftarrow> end_wait w locker (end_file_wait (size_t result));
     State_Monad.return result
   }"

definition inline_mysql_file_vfprintf ::
  "psi_world \<Rightarrow> site \<Rightarrow> st_mysql_file \<Rightarrow> string \<Rightarrow> cval list \<Rightarrow> cval act" where
  "inline_mysql_file_vfprintf w src file format args = do {
     locker \<leftarrow> stream_wait w file PSI_FILE_WRITE 0 src;
     result \<leftarrow> sys w (Call ''vfprintf'' [Num (m_file file), Str format, Args args]);
     _ \<leftarrow> end_wait w locker (end_file_wait (size_t result));
     State_Monad.return result
   }"

definition inline_mysql_file_fflush ::
  "psi_world \<Rightarrow> site \<Rightarrow> st_mysql_file \<Rightarrow> cval act" where
  "inline_mysql_file_fflush w src file = do {
     locker \<leftarrow> stream_wait w file PSI_FILE_FLUSH 0 src;
     result \<leftarrow> sys w (Call ''fflush'' [Num (m_file file)]);
     _ \<leftarrow> end_wait w locker (end_file_wait 0);
     State_Monad.return result
   }"

definition inline_mysql_file_feof :: "psi_world \<Rightarrow> st_mysql_file \<Rightarrow> cval act" where
  "inline_mysql_file_feof w file = sys w (Call ''feof'' [Num (m_file file)])"

definition inline_mysql_file_fstat ::
  "psi_world \<Rightarrow> site \<Rightarrow> cval \<Rightarrow> cval \<Rightarrow> cval \<Rightarrow> cval act" where
  "inline_mysql_file_fstat w src filenr stat_area flags = do {
     locker \<leftarrow> descriptor_wait w filenr PSI_FILE_FSTAT 0 src;
     result \<leftarrow> sys w (Call ''my_fstat'' [Num filenr, Num stat_area, Num flags]);
     _ \<leftarrow> end_wait w locker (end_file_wait 0);
     State_Monad.return result
   }"

definition inline_mysql_file_stat ::
  "psi_world \<Rightarrow> cval \<Rightarrow> site \<Rightarrow> string \<Rightarrow> cval \<Rightarrow> cval \<Rightarrow> cval act" where
  "inline_mysql_file_stat w key src path stat_area flags = do {
     locker \<leftarrow> name_open_wait w key PSI_FILE_STAT path src;
     result \<leftarrow> sys w (Call ''my_stat'' [Str path, Num stat_area, Num flags]);
     _ \<leftarrow> end_wait w locker (end_file_wait 0);
     State_Monad.return result
   }"

definition inline_mysql_file_chsize ::
  "psi_world \<Rightarrow> site \<Rightarrow> cval \<Rightarrow> cval \<Rightarrow> cval \<Rightarrow> cval \<Rightarrow> cval act" where
  "inline_mysql_file_chsize w src file newlength filler flags = do {
     locker \<leftarrow> descriptor_wait w file PSI_FILE_CHSIZE (size_t newlength) src;
     result \<leftarrow> sys w (Call ''my_chsize'' [Num file, Num newlength, Num filler, Num flags]);
     _ \<leftarrow> end_wait w locker (end_file_wait (size_t newlength));
     State_Monad.return result
   }"

text \<open>
  Opening a stream allocates the structure first. \<open>None\<close> is the null pointer, otherwise the
  address and the contents of the structure.
\<close>

definition inline_mysql_file_fopen ::
  "psi_world \<Rightarrow> cval \<Rightarrow> site \<Rightarrow> string \<Rightarrow> cval \<Rightarrow> cval \<Rightarrow> (cval \<times> st_mysql_file) option act" where
  "inline_mysql_file_fopen w key src filename flags myFlags = do {
     that \<leftarrow> sys w (Call ''my_malloc'' [Num 16, Num MY_WME]);
     if that = 0 then State_Monad.return None
     else do {
       locker \<leftarrow> (if psi_server w
         then psi w (Get (get_thread_file_name_locker key PSI_FILE_STREAM_OPEN filename (The_file that)))
         else State_Monad.return 0);
       hook \<leftarrow> (if locker \<noteq> 0 then psi w (Start start_file_open_wait locker src)
         else State_Monad.return 0);
       file \<leftarrow> sys w (Call ''my_fopen'' [Str filename, Num flags, Num myFlags]);
       _ \<leftarrow> end_wait w locker end_file_open_wait;
       if file = 0 then do { _ \<leftarrow> sys w (Call ''my_free'' [Num that]); State_Monad.return None }
       else State_Monad.return (Some (that, \<lparr>m_file = file, m_psi = hook\<rparr>))
     }
   }"

definition inline_mysql_file_fclose ::
  "psi_world \<Rightarrow> site \<Rightarrow> (cval \<times> st_mysql_file) option \<Rightarrow> cval \<Rightarrow> cval act" where
  "inline_mysql_file_fclose w src that flags =
     (case that of
        None \<Rightarrow> State_Monad.return 0
      | Some (a, file) \<Rightarrow> do {
          locker \<leftarrow> stream_wait w file PSI_FILE_STREAM_CLOSE 0 src;
          result \<leftarrow> sys w (Call ''my_fclose'' [Num (m_file file), Num flags]);
          _ \<leftarrow> end_wait w locker (end_file_wait 0);
          _ \<leftarrow> sys w (Call ''my_free'' [Num a]);
          State_Monad.return result
        })"

definition inline_mysql_file_fread ::
  "psi_world \<Rightarrow> site \<Rightarrow> st_mysql_file \<Rightarrow> cval \<Rightarrow> cval \<Rightarrow> cval \<Rightarrow> cval act" where
  "inline_mysql_file_fread w src file buffer count flags = do {
     locker \<leftarrow> stream_wait w file PSI_FILE_READ count src;
     result \<leftarrow> sys w (Call ''my_fread'' [Num (m_file file), Num buffer, Num count, Num flags]);
     _ \<leftarrow> end_wait w locker (end_file_wait (io_bytes flags count result));
     State_Monad.return result
   }"

definition inline_mysql_file_fwrite ::
  "psi_world \<Rightarrow> site \<Rightarrow> st_mysql_file \<Rightarrow> cval \<Rightarrow> cval \<Rightarrow> cval \<Rightarrow> cval act" where
  "inline_mysql_file_fwrite w src file buffer count flags = do {
     locker \<leftarrow> stream_wait w file PSI_FILE_WRITE count src;
     result \<leftarrow> sys w (Call ''my_fwrite'' [Num (m_file file), Num buffer, Num count, Num flags]);
     _ \<leftarrow> end_wait w locker (end_file_wait (io_bytes flags count result));
     State_Monad.return result
   }"

definition inline_mysql_file_fseek ::
  "psi_world \<Rightarrow> site \<Rightarrow> st_mysql_file \<Rightarrow> cval \<Rightarrow> cval \<Rightarrow> cval \<Rightarrow> cval act" where
  "inline_mysql_file_fseek w src file pos whence flags = do {
     locker \<leftarrow> stream_wait w file PSI_FILE_SEEK 0 src;
     result \<leftarrow> sys w (Call ''my_fseek'' [Num (m_file file), Num pos, Num whence, Num flags]);
     _ \<leftarrow> end_wait w locker (end_file_wait 0);
     State_Monad.return result
   }"

definition inline_mysql_file_ftell ::
  "psi_world \<Rightarrow> site \<Rightarrow> st_mysql_file \<Rightarrow> cval \<Rightarrow> cval act" where
  "inline_mysql_file_ftell w src file flags = do {
     locker \<leftarrow> stream_wait w file PSI_FILE_TELL 0 src;
     result \<leftarrow> sys w (Call ''my_ftell'' [Num (m_file file), Num flags]);
     _ \<leftarrow> end_wait w locker (end_file_wait 0);
     State_Monad.return result
   }"

definition inline_mysql_file_create ::
  "psi_world \<Rightarrow> cval \<Rightarrow> site \<Rightarrow> string \<Rightarrow> cval \<Rightarrow> cval \<Rightarrow> cval \<Rightarrow> cval act" where
  "inline_mysql_file_create w key src filename create_flags access_flags myFlags = do {
     locker \<leftarrow> name_open_wait w key PSI_FILE_CREATE filename src;
     result \<leftarrow> sys w (Call ''my_create'' [Str filename, Num create_flags, Num access_flags, Num myFlags]);
     _ \<leftarrow> end_wait w locker (end_file_open_wait_and_bind_to_descriptor result);
     State_Monad.return result
   }"

text \<open>The name of the temporary file is in the buffer \<open>to\<close> only after the call.\<close>

definition inline_mysql_file_create_temp ::
  "psi_world \<Rightarrow> cval \<Rightarrow> cval \<Rightarrow> string \<Rightarrow> string \<Rightarrow> cval \<Rightarrow> cval \<Rightarrow> cval act" where
  "inline_mysql_file_create_temp w key to dir pfx mode myFlags = do {
     file \<leftarrow> sys w (Call ''create_temp_file'' [Num to, Str dir, Str pfx, Num mode, Num myFlags]);
     tr \<leftarrow> State_Monad.get;
     _ \<leftarrow> (if psi_server w then psi w (Hook (create_file key (mem_str w tr to) file))
       else State_Monad.return 0);
     State_Monad.return file
   }"

definition inline_mysql_file_open ::
  "psi_world \<Rightarrow> cval \<Rightarrow> site \<Rightarrow> string \<Rightarrow> cval \<Rightarrow> cval \<Rightarrow> cval act" where
  "inline_mysql_file_open w key src filename flags myFlags = do {
     locker \<leftarrow> name_open_wait w key PSI_FILE_OPEN filename src;
     result \<leftarrow> sys w (Call ''my_open'' [Str filename, Num flags, Num myFlags]);
     _ \<leftarrow> end_wait w locker (end_file_open_wait_and_bind_to_descriptor result);
     State_Monad.return result
   }"

definition inline_mysql_file_close ::
  "psi_world \<Rightarrow> site \<Rightarrow> cval \<Rightarrow> cval \<Rightarrow> cval act" where
  "inline_mysql_file_close w src file flags = do {
     locker \<leftarrow> descriptor_wait w file PSI_FILE_CLOSE 0 src;
     result \<leftarrow> sys w (Call ''my_close'' [Num file, Num flags]);
     _ \<leftarrow> end_wait w locker (end_file_wait 0);
     State_Monad.return result
   }"

definition inline_mysql_file_read ::
  "psi_world \<Rightarrow> site \<Rightarrow> cval \<Rightarrow> cval \<Rightarrow> cval \<Rightarrow> cval \<Rightarrow> cval act" where
  "inline_mysql_file_read w src file buffer count flags = do {
     locker \<leftarrow> descriptor_wait w file PSI_FILE_READ count src;
     result \<leftarrow> sys w (Call ''my_read'' [Num file, Num buffer, Num count, Num flags]);
     _ \<leftarrow> end_wait w locker (end_file_wait (io_bytes flags count result));
     State_Monad.return result
   }"

definition inline_mysql_file_write ::
  "psi_world \<Rightarrow> site \<Rightarrow> cval \<Rightarrow> cval \<Rightarrow> cval \<Rightarrow> cval \<Rightarrow> cval act" where
  "inline_mysql_file_write w src file buffer count flags = do {
     locker \<leftarrow> descriptor_wait w file PSI_FILE_WRITE count src;
     result \<leftarrow> sys w (Call ''my_write'' [Num file, Num buffer, Num count, Num flags]);
     _ \<leftarrow> end_wait w locker (end_file_wait (io_bytes flags count result));
     State_Monad.return result
   }"

definition inline_mysql_file_pread ::
  "psi_world \<Rightarrow> site \<Rightarrow> cval \<Rightarrow> cval \<Rightarrow> cval \<Rightarrow> cval \<Rightarrow> cval \<Rightarrow> cval act" where
  "inline_mysql_file_pread w src file buffer count offset flags = do {
     locker \<leftarrow> descriptor_wait w file PSI_FILE_READ count src;
     result \<leftarrow> sys w (Call ''my_pread'' [Num file, Num buffer, Num count, Num offset, Num flags]);
     _ \<leftarrow> end_wait w locker (end_file_wait (io_bytes flags count result));
     State_Monad.return result
   }"

definition inline_mysql_file_pwrite ::
  "psi_world \<Rightarrow> site \<Rightarrow> cval \<Rightarrow> cval \<Rightarrow> cval \<Rightarrow> cval \<Rightarrow> cval \<Rightarrow> cval act" where
  "inline_mysql_file_pwrite w src file buffer count offset flags = do {
     locker \<leftarrow> descriptor_wait w file PSI_FILE_WRITE count src;
     result \<leftarrow> sys w (Call ''my_pwrite'' [Num file, Num buffer, Num count, Num offset, Num flags]);
     _ \<leftarrow> end_wait w locker (end_file_wait (io_bytes flags count result));
     State_Monad.return result
   }"

definition inline_mysql_file_seek ::
  "psi_world \<Rightarrow> site \<Rightarrow> cval \<Rightarrow> cval \<Rightarrow> cval \<Rightarrow> cval \<Rightarrow> cval act" where
  "inline_mysql_file_seek w src file pos whence flags = do {
     locker \<leftarrow> descriptor_wait w file PSI_FILE_SEEK 0 src;
     result \<leftarrow> sys w (Call ''my_seek'' [Num file, Num pos, Num whence, Num flags]);
     _ \<leftarrow> end_wait w locker (end_file_wait 0);
     State_Monad.return result
   }"

definition inline_mysql_file_tell ::
  "psi_world \<Rightarrow> site \<Rightarrow> cval \<Rightarrow> cval \<Rightarrow> cval act" where
  "inline_mysql_file_tell w src file flags = do {
     locker \<leftarrow> descriptor_wait w file PSI_FILE_TELL 0 src;
     result \<leftarrow> sys w (Call ''my_tell'' [Num file, Num flags]);
     _ \<leftarrow> end_wait w locker (end_file_wait 0);
     State_Monad.return result
   }"

definition inline_mysql_file_delete ::
  "psi_world \<Rightarrow> cval \<Rightarrow> site \<Rightarrow> string \<Rightarrow> cval \<Rightarrow> cval act" where
  "inline_mysql_file_delete w key src name flags = do {
     locker \<leftarrow> name_wait w key PSI_FILE_DELETE name 0 src;
     result \<leftarrow> sys w (Call ''my_delete'' [Str name, Num flags]);
     _ \<leftarrow> end_wait w locker (end_file_wait 0);
     State_Monad.return result
   }"

definition inline_mysql_file_rename ::
  "psi_world \<Rightarrow> cval \<Rightarrow> site \<Rightarrow> string \<Rightarrow> string \<Rightarrow> cval \<Rightarrow> cval act" where
  "inline_mysql_file_rename w key src from_name to_name flags = do {
     locker \<leftarrow> name_wait w key PSI_FILE_RENAME to_name 0 src;
     result \<leftarrow> sys w (Call ''my_rename'' [Str from_name, Str to_name, Num flags]);
     _ \<leftarrow> end_wait w locker (end_file_wait 0);
     State_Monad.return result
   }"

definition inline_mysql_file_create_with_symlink ::
  "psi_world \<Rightarrow> cval \<Rightarrow> site \<Rightarrow> string \<Rightarrow> string \<Rightarrow> cval \<Rightarrow> cval \<Rightarrow> cval \<Rightarrow> cval act" where
  "inline_mysql_file_create_with_symlink w key src linkname filename create_flags access_flags flags = do {
     locker \<leftarrow> name_open_wait w key PSI_FILE_CREATE filename src;
     result \<leftarrow> sys w (Call ''my_create_with_symlink'' [Str linkname, Str filename, Num create_flags, Num access_flags, Num flags]);
     _ \<leftarrow> end_wait w locker (end_file_open_wait_and_bind_to_descriptor result);
     State_Monad.return result
   }"

definition inline_mysql_file_delete_with_symlink ::
  "psi_world \<Rightarrow> cval \<Rightarrow> site \<Rightarrow> string \<Rightarrow> cval \<Rightarrow> cval act" where
  "inline_mysql_file_delete_with_symlink w key src name flags = do {
     locker \<leftarrow> name_wait w key PSI_FILE_DELETE name 0 src;
     result \<leftarrow> sys w (Call ''my_delete_with_symlink'' [Str name, Num flags]);
     _ \<leftarrow> end_wait w locker (end_file_wait 0);
     State_Monad.return result
   }"

definition inline_mysql_file_rename_with_symlink ::
  "psi_world \<Rightarrow> cval \<Rightarrow> site \<Rightarrow> string \<Rightarrow> string \<Rightarrow> cval \<Rightarrow> cval act" where
  "inline_mysql_file_rename_with_symlink w key src from_name to_name flags = do {
     locker \<leftarrow> name_wait w key PSI_FILE_RENAME to_name 0 src;
     result \<leftarrow> sys w (Call ''my_rename_with_symlink'' [Str from_name, Str to_name, Num flags]);
     _ \<leftarrow> end_wait w locker (end_file_wait 0);
     State_Monad.return result
   }"

definition inline_mysql_file_sync ::
  "psi_world \<Rightarrow> site \<Rightarrow> cval \<Rightarrow> cval \<Rightarrow> cval act" where
  "inline_mysql_file_sync w src fd flags = do {
     locker \<leftarrow> descriptor_wait w fd PSI_FILE_SYNC 0 src;
     result \<leftarrow> sys w (Call ''my_sync'' [Num fd, Num flags]);
     _ \<leftarrow> end_wait w locker (end_file_wait 0);
     State_Monad.return result
   }"

section \<open>Every operation is instrumented\<close>

lemma opens_file_wait [simp]:
  "opens_wait w (stream_wait w fp oper n src)"
  "opens_wait w (descriptor_wait w fd oper n src)"
  "opens_wait w (name_wait w key oper name n src)"
  "opens_wait w (name_open_wait w key oper name src)"
  by (simp_all add: stream_wait_def descriptor_wait_def name_wait_def name_open_wait_def)

interpretation file_fgets: instrumented "\<lambda>w. inline_mysql_file_fgets w src str n fp"
    "\<lambda>_. Call ''fgets'' [Num str, Num n, Num (m_file fp)]" for src str n fp
  unfolding inline_mysql_file_fgets_def
  by (rule bracket_instrumented) (simp_all add: closes_wait_bind)

lemma fputs_shape:
  "\<exists>pre post. run_state (inline_mysql_file_fputs w src str fp) tr =
      (sys_ans w (tr @ map Psi pre) (Call ''fputs'' [Num str, Num (m_file fp)]),
       tr @ map Psi pre @ Sys (Call ''fputs'' [Num str, Num (m_file fp)]) # map Psi post) \<and>
     (\<forall>ls. foldl wait_step ls (pre @ post) = ls) \<and> (\<not> psi_server w \<longrightarrow> pre @ post = [])"
proof -
  let ?g = "Get (get_thread_file_stream_locker (m_psi fp) PSI_FILE_WRITE)"
  let ?l = "psi_ans w tr ?g"
  let ?n = "if str \<noteq> 0 then int (length (mem_str w (tr @ [Psi ?g]) str)) else 0"
  consider (off) "\<not> (psi_server w \<and> m_psi fp \<noteq> 0)"
    | (null) "psi_server w" "m_psi fp \<noteq> 0" "?l = 0"
    | (on) "psi_server w" "m_psi fp \<noteq> 0" "?l \<noteq> 0" by blast
  then show ?thesis
  proof cases
    case off
    then show ?thesis
      by (intro exI[of _ "[]"]) (auto simp: inline_mysql_file_fputs_def start_wait_def end_wait_def)
  next
    case null
    then show ?thesis
      by (intro exI[of _ "[?g]"] exI[of _ "[]"])
        (auto simp: inline_mysql_file_fputs_def start_wait_def end_wait_def)
  next
    case on
    then show ?thesis
      by (intro exI[of _ "[?g, Start (start_file_wait ?n) ?l src]"] exI[of _ "[End (end_file_wait ?n) ?l]"])
        (auto simp: inline_mysql_file_fputs_def start_wait_def end_wait_def)
  qed
qed

interpretation file_fputs: instrumented "\<lambda>w. inline_mysql_file_fputs w src str fp"
    "\<lambda>_. Call ''fputs'' [Num str, Num (m_file fp)]" for src str fp
  by unfold_locales (rule fputs_shape)

interpretation file_feof: instrumented "\<lambda>w. inline_mysql_file_feof w fp"
    "\<lambda>_. Call ''feof'' [Num (m_file fp)]" for fp
  by unfold_locales (auto simp: inline_mysql_file_feof_def intro!: exI[of _ "[]"])

lemma create_temp_shape:
  "run_state (inline_mysql_file_create_temp w key to dir pfx mode myFlags) tr =
     (let c = Call ''create_temp_file'' [Num to, Str dir, Str pfx, Num mode, Num myFlags]; fd = sys_ans w tr c in
      (fd, tr @ Sys c # (if psi_server w
         then [Psi (Hook (create_file key (mem_str w (tr @ [Sys c]) to) fd))] else [])))"
  by (simp add: inline_mysql_file_create_temp_def Let_def)

interpretation file_create_temp: instrumented
    "\<lambda>w. inline_mysql_file_create_temp w key to dir pfx mode myFlags"
    "\<lambda>_. Call ''create_temp_file'' [Num to, Str dir, Str pfx, Num mode, Num myFlags]" for key to dir pfx mode myFlags
proof
  fix w tr
  let ?c = "Call ''create_temp_file'' [Num to, Str dir, Str pfx, Num mode, Num myFlags]"
  show "\<exists>pre post. run_state (inline_mysql_file_create_temp w key to dir pfx mode myFlags) tr =
      (sys_ans w (tr @ map Psi pre) ?c, tr @ map Psi pre @ Sys ?c # map Psi post) \<and>
      (\<forall>ls. foldl wait_step ls (pre @ post) = ls) \<and> (\<not> psi_server w \<longrightarrow> pre @ post = [])"
    by (intro exI[of _ "[]"] exI[of _ "if psi_server w
          then [Hook (create_file key (mem_str w (tr @ [Sys ?c]) to) (sys_ans w tr ?c))] else []"])
      (simp add: create_temp_shape Let_def)
qed

interpretation file_fgetc: instrumented "\<lambda>w. inline_mysql_file_fgetc w src fp"
    "\<lambda>_. Call ''fgetc'' [Num (m_file fp)]" for src fp
  unfolding inline_mysql_file_fgetc_def by (rule bracket_instrumented) simp_all

interpretation file_fputc: instrumented "\<lambda>w. inline_mysql_file_fputc w src c fp"
    "\<lambda>_. Call ''fputc'' [Num c, Num (m_file fp)]" for src c fp
  unfolding inline_mysql_file_fputc_def by (rule bracket_instrumented) simp_all

interpretation file_fprintf: instrumented "\<lambda>w. inline_mysql_file_fprintf w src fp format args"
    "\<lambda>_. Call ''vfprintf'' [Num (m_file fp), Str format, Args args]" for src fp format args
  unfolding inline_mysql_file_fprintf_def by (rule bracket_instrumented) simp_all

interpretation file_vfprintf: instrumented "\<lambda>w. inline_mysql_file_vfprintf w src fp format args"
    "\<lambda>_. Call ''vfprintf'' [Num (m_file fp), Str format, Args args]" for src fp format args
  unfolding inline_mysql_file_vfprintf_def by (rule bracket_instrumented) simp_all

interpretation file_fflush: instrumented "\<lambda>w. inline_mysql_file_fflush w src fp"
    "\<lambda>_. Call ''fflush'' [Num (m_file fp)]" for src fp
  unfolding inline_mysql_file_fflush_def by (rule bracket_instrumented) simp_all

interpretation file_fstat: instrumented "\<lambda>w. inline_mysql_file_fstat w src filenr stat_area flags"
    "\<lambda>_. Call ''my_fstat'' [Num filenr, Num stat_area, Num flags]" for src filenr stat_area flags
  unfolding inline_mysql_file_fstat_def by (rule bracket_instrumented) simp_all

interpretation file_stat: instrumented "\<lambda>w. inline_mysql_file_stat w key src path stat_area flags"
    "\<lambda>_. Call ''my_stat'' [Str path, Num stat_area, Num flags]" for key src path stat_area flags
  unfolding inline_mysql_file_stat_def by (rule bracket_instrumented) simp_all

interpretation file_chsize: instrumented "\<lambda>w. inline_mysql_file_chsize w src fp newlength filler flags"
    "\<lambda>_. Call ''my_chsize'' [Num fp, Num newlength, Num filler, Num flags]" for src fp newlength filler flags
  unfolding inline_mysql_file_chsize_def by (rule bracket_instrumented) simp_all

interpretation file_fread: instrumented "\<lambda>w. inline_mysql_file_fread w src fp buffer count flags"
    "\<lambda>_. Call ''my_fread'' [Num (m_file fp), Num buffer, Num count, Num flags]" for src fp buffer count flags
  unfolding inline_mysql_file_fread_def by (rule bracket_instrumented) simp_all

interpretation file_fwrite: instrumented "\<lambda>w. inline_mysql_file_fwrite w src fp buffer count flags"
    "\<lambda>_. Call ''my_fwrite'' [Num (m_file fp), Num buffer, Num count, Num flags]" for src fp buffer count flags
  unfolding inline_mysql_file_fwrite_def by (rule bracket_instrumented) simp_all

interpretation file_fseek: instrumented "\<lambda>w. inline_mysql_file_fseek w src fp pos whence flags"
    "\<lambda>_. Call ''my_fseek'' [Num (m_file fp), Num pos, Num whence, Num flags]" for src fp pos whence flags
  unfolding inline_mysql_file_fseek_def by (rule bracket_instrumented) simp_all

interpretation file_ftell: instrumented "\<lambda>w. inline_mysql_file_ftell w src fp flags"
    "\<lambda>_. Call ''my_ftell'' [Num (m_file fp), Num flags]" for src fp flags
  unfolding inline_mysql_file_ftell_def by (rule bracket_instrumented) simp_all

interpretation file_create: instrumented "\<lambda>w. inline_mysql_file_create w key src filename create_flags access_flags myFlags"
    "\<lambda>_. Call ''my_create'' [Str filename, Num create_flags, Num access_flags, Num myFlags]" for key src filename create_flags access_flags myFlags
  unfolding inline_mysql_file_create_def by (rule bracket_instrumented) simp_all

interpretation file_open: instrumented "\<lambda>w. inline_mysql_file_open w key src filename flags myFlags"
    "\<lambda>_. Call ''my_open'' [Str filename, Num flags, Num myFlags]" for key src filename flags myFlags
  unfolding inline_mysql_file_open_def by (rule bracket_instrumented) simp_all

interpretation file_close: instrumented "\<lambda>w. inline_mysql_file_close w src fp flags"
    "\<lambda>_. Call ''my_close'' [Num fp, Num flags]" for src fp flags
  unfolding inline_mysql_file_close_def by (rule bracket_instrumented) simp_all

interpretation file_read: instrumented "\<lambda>w. inline_mysql_file_read w src fp buffer count flags"
    "\<lambda>_. Call ''my_read'' [Num fp, Num buffer, Num count, Num flags]" for src fp buffer count flags
  unfolding inline_mysql_file_read_def by (rule bracket_instrumented) simp_all

interpretation file_write: instrumented "\<lambda>w. inline_mysql_file_write w src fp buffer count flags"
    "\<lambda>_. Call ''my_write'' [Num fp, Num buffer, Num count, Num flags]" for src fp buffer count flags
  unfolding inline_mysql_file_write_def by (rule bracket_instrumented) simp_all

interpretation file_pread: instrumented "\<lambda>w. inline_mysql_file_pread w src fp buffer count offset flags"
    "\<lambda>_. Call ''my_pread'' [Num fp, Num buffer, Num count, Num offset, Num flags]" for src fp buffer count offset flags
  unfolding inline_mysql_file_pread_def by (rule bracket_instrumented) simp_all

interpretation file_pwrite: instrumented "\<lambda>w. inline_mysql_file_pwrite w src fp buffer count offset flags"
    "\<lambda>_. Call ''my_pwrite'' [Num fp, Num buffer, Num count, Num offset, Num flags]" for src fp buffer count offset flags
  unfolding inline_mysql_file_pwrite_def by (rule bracket_instrumented) simp_all

interpretation file_seek: instrumented "\<lambda>w. inline_mysql_file_seek w src fp pos whence flags"
    "\<lambda>_. Call ''my_seek'' [Num fp, Num pos, Num whence, Num flags]" for src fp pos whence flags
  unfolding inline_mysql_file_seek_def by (rule bracket_instrumented) simp_all

interpretation file_tell: instrumented "\<lambda>w. inline_mysql_file_tell w src fp flags"
    "\<lambda>_. Call ''my_tell'' [Num fp, Num flags]" for src fp flags
  unfolding inline_mysql_file_tell_def by (rule bracket_instrumented) simp_all

interpretation file_delete: instrumented "\<lambda>w. inline_mysql_file_delete w key src name flags"
    "\<lambda>_. Call ''my_delete'' [Str name, Num flags]" for key src name flags
  unfolding inline_mysql_file_delete_def by (rule bracket_instrumented) simp_all

interpretation file_rename: instrumented "\<lambda>w. inline_mysql_file_rename w key src from_name to_name flags"
    "\<lambda>_. Call ''my_rename'' [Str from_name, Str to_name, Num flags]" for key src from_name to_name flags
  unfolding inline_mysql_file_rename_def by (rule bracket_instrumented) simp_all

interpretation file_create_with_symlink: instrumented "\<lambda>w. inline_mysql_file_create_with_symlink w key src linkname filename create_flags access_flags flags"
    "\<lambda>_. Call ''my_create_with_symlink'' [Str linkname, Str filename, Num create_flags, Num access_flags, Num flags]" for key src linkname filename create_flags access_flags flags
  unfolding inline_mysql_file_create_with_symlink_def by (rule bracket_instrumented) simp_all

interpretation file_delete_with_symlink: instrumented "\<lambda>w. inline_mysql_file_delete_with_symlink w key src name flags"
    "\<lambda>_. Call ''my_delete_with_symlink'' [Str name, Num flags]" for key src name flags
  unfolding inline_mysql_file_delete_with_symlink_def by (rule bracket_instrumented) simp_all

interpretation file_rename_with_symlink: instrumented "\<lambda>w. inline_mysql_file_rename_with_symlink w key src from_name to_name flags"
    "\<lambda>_. Call ''my_rename_with_symlink'' [Str from_name, Str to_name, Num flags]" for key src from_name to_name flags
  unfolding inline_mysql_file_rename_with_symlink_def by (rule bracket_instrumented) simp_all

interpretation file_sync: instrumented "\<lambda>w. inline_mysql_file_sync w src fd flags"
    "\<lambda>_. Call ''my_sync'' [Num fd, Num flags]" for src fd flags
  unfolding inline_mysql_file_sync_def by (rule bracket_instrumented) simp_all


text \<open>The operations and the calls they stand for.\<close>

inductive file_wrapper :: "(psi_world \<Rightarrow> cval act) \<Rightarrow> sys_call \<Rightarrow> bool" where
  "file_wrapper (\<lambda>w. inline_mysql_file_fgets w src str n fp)
     (Call ''fgets'' [Num str, Num n, Num (m_file fp)])"
| "file_wrapper (\<lambda>w. inline_mysql_file_fgetc w src fp)
     (Call ''fgetc'' [Num (m_file fp)])"
| "file_wrapper (\<lambda>w. inline_mysql_file_fputs w src str fp)
     (Call ''fputs'' [Num str, Num (m_file fp)])"
| "file_wrapper (\<lambda>w. inline_mysql_file_fputc w src c fp)
     (Call ''fputc'' [Num c, Num (m_file fp)])"
| "file_wrapper (\<lambda>w. inline_mysql_file_fprintf w src fp format args)
     (Call ''vfprintf'' [Num (m_file fp), Str format, Args args])"
| "file_wrapper (\<lambda>w. inline_mysql_file_vfprintf w src fp format args)
     (Call ''vfprintf'' [Num (m_file fp), Str format, Args args])"
| "file_wrapper (\<lambda>w. inline_mysql_file_fflush w src fp)
     (Call ''fflush'' [Num (m_file fp)])"
| "file_wrapper (\<lambda>w. inline_mysql_file_feof w fp)
     (Call ''feof'' [Num (m_file fp)])"
| "file_wrapper (\<lambda>w. inline_mysql_file_fstat w src filenr stat_area flags)
     (Call ''my_fstat'' [Num filenr, Num stat_area, Num flags])"
| "file_wrapper (\<lambda>w. inline_mysql_file_stat w key src path stat_area flags)
     (Call ''my_stat'' [Str path, Num stat_area, Num flags])"
| "file_wrapper (\<lambda>w. inline_mysql_file_chsize w src fp newlength filler flags)
     (Call ''my_chsize'' [Num fp, Num newlength, Num filler, Num flags])"
| "file_wrapper (\<lambda>w. inline_mysql_file_fread w src fp buffer count flags)
     (Call ''my_fread'' [Num (m_file fp), Num buffer, Num count, Num flags])"
| "file_wrapper (\<lambda>w. inline_mysql_file_fwrite w src fp buffer count flags)
     (Call ''my_fwrite'' [Num (m_file fp), Num buffer, Num count, Num flags])"
| "file_wrapper (\<lambda>w. inline_mysql_file_fseek w src fp pos whence flags)
     (Call ''my_fseek'' [Num (m_file fp), Num pos, Num whence, Num flags])"
| "file_wrapper (\<lambda>w. inline_mysql_file_ftell w src fp flags)
     (Call ''my_ftell'' [Num (m_file fp), Num flags])"
| "file_wrapper (\<lambda>w. inline_mysql_file_create w key src filename create_flags access_flags myFlags)
     (Call ''my_create'' [Str filename, Num create_flags, Num access_flags, Num myFlags])"
| "file_wrapper (\<lambda>w. inline_mysql_file_create_temp w key to dir pfx mode myFlags)
     (Call ''create_temp_file'' [Num to, Str dir, Str pfx, Num mode, Num myFlags])"
| "file_wrapper (\<lambda>w. inline_mysql_file_open w key src filename flags myFlags)
     (Call ''my_open'' [Str filename, Num flags, Num myFlags])"
| "file_wrapper (\<lambda>w. inline_mysql_file_close w src fp flags)
     (Call ''my_close'' [Num fp, Num flags])"
| "file_wrapper (\<lambda>w. inline_mysql_file_read w src fp buffer count flags)
     (Call ''my_read'' [Num fp, Num buffer, Num count, Num flags])"
| "file_wrapper (\<lambda>w. inline_mysql_file_write w src fp buffer count flags)
     (Call ''my_write'' [Num fp, Num buffer, Num count, Num flags])"
| "file_wrapper (\<lambda>w. inline_mysql_file_pread w src fp buffer count offset flags)
     (Call ''my_pread'' [Num fp, Num buffer, Num count, Num offset, Num flags])"
| "file_wrapper (\<lambda>w. inline_mysql_file_pwrite w src fp buffer count offset flags)
     (Call ''my_pwrite'' [Num fp, Num buffer, Num count, Num offset, Num flags])"
| "file_wrapper (\<lambda>w. inline_mysql_file_seek w src fp pos whence flags)
     (Call ''my_seek'' [Num fp, Num pos, Num whence, Num flags])"
| "file_wrapper (\<lambda>w. inline_mysql_file_tell w src fp flags)
     (Call ''my_tell'' [Num fp, Num flags])"
| "file_wrapper (\<lambda>w. inline_mysql_file_delete w key src name flags)
     (Call ''my_delete'' [Str name, Num flags])"
| "file_wrapper (\<lambda>w. inline_mysql_file_rename w key src from_name to_name flags)
     (Call ''my_rename'' [Str from_name, Str to_name, Num flags])"
| "file_wrapper (\<lambda>w. inline_mysql_file_create_with_symlink w key src linkname filename create_flags access_flags flags)
     (Call ''my_create_with_symlink'' [Str linkname, Str filename, Num create_flags, Num access_flags, Num flags])"
| "file_wrapper (\<lambda>w. inline_mysql_file_delete_with_symlink w key src name flags)
     (Call ''my_delete_with_symlink'' [Str name, Num flags])"
| "file_wrapper (\<lambda>w. inline_mysql_file_rename_with_symlink w key src from_name to_name flags)
     (Call ''my_rename_with_symlink'' [Str from_name, Str to_name, Num flags])"
| "file_wrapper (\<lambda>w. inline_mysql_file_sync w src fd flags)
     (Call ''my_sync'' [Num fd, Num flags])"

lemma file_wrapper_instrumented: "file_wrapper f c \<Longrightarrow> instrumented f (\<lambda>_. c)"
  by (erule file_wrapper.cases)
    (simp_all add: file_fgets.instrumented_axioms
      file_fgetc.instrumented_axioms
      file_fputs.instrumented_axioms
      file_fputc.instrumented_axioms
      file_fprintf.instrumented_axioms
      file_vfprintf.instrumented_axioms
      file_fflush.instrumented_axioms
      file_feof.instrumented_axioms
      file_fstat.instrumented_axioms
      file_stat.instrumented_axioms
      file_chsize.instrumented_axioms
      file_fread.instrumented_axioms
      file_fwrite.instrumented_axioms
      file_fseek.instrumented_axioms
      file_ftell.instrumented_axioms
      file_create.instrumented_axioms
      file_create_temp.instrumented_axioms
      file_open.instrumented_axioms
      file_close.instrumented_axioms
      file_read.instrumented_axioms
      file_write.instrumented_axioms
      file_pread.instrumented_axioms
      file_pwrite.instrumented_axioms
      file_seek.instrumented_axioms
      file_tell.instrumented_axioms
      file_delete.instrumented_axioms
      file_rename.instrumented_axioms
      file_create_with_symlink.instrumented_axioms
      file_delete_with_symlink.instrumented_axioms
      file_rename_with_symlink.instrumented_axioms
      file_sync.instrumented_axioms)

text \<open>
  C34: the instrumented file operations can replace the functions they wrap. When the instrumentation
  only observes, an operation returns what the wrapped function returns, makes exactly that one
  call with the arguments it was given, and leaves no wait open that was not open before,
  whichever lockers the instrumentation hands out. Without \<open>PSI_server\<close> nothing but the wrapped
  call happens.
\<close>

theorem mysql_file_drop_in:
  assumes "file_wrapper f c" "observing w" "run_state (f w) tr = (r, tr')"
  shows "r = sys_ans w tr c \<and> sys_calls tr' = sys_calls tr @ [c] \<and> open_waits tr' = open_waits tr \<and>
    (\<not> psi_server w \<longrightarrow> tr' = tr @ [Sys c])"
  using instrumented.drop_in[OF file_wrapper_instrumented[OF assms(1)] assms(2,3)] by simp

text \<open>
  A server that hands out locker 7 for everything and a system in which calls number their
  results.
\<close>

definition sample_world :: psi_world where
  "sample_world = \<lparr>psi_server = True, safe_mutex = False, psi_ans = (\<lambda>_ _. 7),
     sys_ans = (\<lambda>tr _. 1 + int (length (sys_calls tr))), mem_str = (\<lambda>_ _. ''line'')\<rparr>"

definition sample_file :: st_mysql_file where
  "sample_file = \<lparr>m_file = 40, m_psi = 50\<rparr>"

lemma sample_observing: "observing sample_world"
  by (simp add: observing_def sample_world_def)

lemma sample_fgets:
  "run_state (inline_mysql_file_fgets sample_world (''a.c'', 3) 90 16 sample_file) [] =
     (1, [Psi (Get (get_thread_file_stream_locker 50 PSI_FILE_READ)),
          Psi (Start (start_file_wait 16) 7 (''a.c'', 3)),
          Sys (Call ''fgets'' [Num 90, Num 16, Num 40]), Psi (End (end_file_wait 4) 7)])"
  by (simp add: inline_mysql_file_fgets_def stream_wait_def wait_if_def start_wait_def end_wait_def
        sample_world_def sample_file_def size_t_def)

theorem mysql_file_drop_in_witness:
  "sys_calls (snd (run_state (inline_mysql_file_fgets sample_world (''a.c'', 3) 90 16 sample_file) [])) =
     [Call ''fgets'' [Num 90, Num 16, Num 40]]"
  using mysql_file_drop_in[OF file_wrapper.intros(1)[of "(''a.c'', 3)" 90 16 sample_file]
      sample_observing sample_fgets]
  by (simp add: sample_fgets)

section \<open>Opening and closing streams\<close>

text \<open>The part of \<open>inline_mysql_file_fopen\<close> behind a successful allocation.\<close>

lemma fopen_run:
  assumes "sys_ans w tr (Call ''my_malloc'' [Num 16, Num MY_WME]) = a" "a \<noteq> 0"
  obtains pre post hook where
    "run_state (inline_mysql_file_fopen w key src filename flags myFlags) tr =
      (let tr0 = tr @ Sys (Call ''my_malloc'' [Num 16, Num MY_WME]) # map Psi pre;
           cl = Call ''my_fopen'' [Str filename, Num flags, Num myFlags]; fd = sys_ans w tr0 cl;
           tr1 = tr0 @ Sys cl # map Psi post in
       if fd = 0 then (None, tr1 @ [Sys (Call ''my_free'' [Num a])])
       else (Some (a, \<lparr>m_file = fd, m_psi = hook\<rparr>), tr1))"
    "\<And>ls. foldl wait_step ls (pre @ post) = ls"
proof -
  let ?m = "Sys (Call ''my_malloc'' [Num 16, Num MY_WME])"
  let ?g = "Get (get_thread_file_name_locker key PSI_FILE_STREAM_OPEN filename (The_file a))"
  let ?l = "psi_ans w (tr @ [?m]) ?g"
  let ?s = "Start start_file_open_wait ?l src"
  let ?o = "Sys (Call ''my_fopen'' [Str filename, Num flags, Num myFlags])"
  consider (off) "\<not> psi_server w" | (null) "psi_server w" "?l = 0" | (on) "psi_server w" "?l \<noteq> 0"
    by blast
  then show thesis
  proof cases
    case off
    with assms show thesis
      by (intro that[of "[]" "[]" 0]) (auto simp: inline_mysql_file_fopen_def end_wait_def Let_def)
  next
    case null
    with assms show thesis
      by (intro that[of "[?g]" "[]" 0]) (auto simp: inline_mysql_file_fopen_def end_wait_def Let_def)
  next
    case on
    with assms show thesis
      by (intro that[of "[?g, ?s]" "[End end_file_open_wait ?l]" "psi_ans w (tr @ [?m, Psi ?g]) ?s"])
        (auto simp: inline_mysql_file_fopen_def end_wait_def Let_def)
  qed
qed

lemma fclose_run:
  obtains pre post where
    "run_state (inline_mysql_file_fclose w src (Some (a, f)) flags) tr =
      (let tr0 = tr @ map Psi pre; c = Call ''my_fclose'' [Num (m_file f), Num flags] in
       (sys_ans w tr0 c, tr0 @ Sys c # map Psi post @ [Sys (Call ''my_free'' [Num a])]))"
    "\<And>ls. foldl wait_step ls (pre @ post) = ls"
proof -
  let ?c = "Call ''my_fclose'' [Num (m_file f), Num flags]"
  have "instrumented (\<lambda>w. do { l \<leftarrow> stream_wait w f PSI_FILE_STREAM_CLOSE 0 src; r \<leftarrow> sys w ?c;
      _ \<leftarrow> end_wait w l (end_file_wait 0); State_Monad.return r }) (\<lambda>_. ?c)"
    by (rule bracket_instrumented) simp_all
  from instrumented.shape[OF this, of w tr] obtain pre post where
    1: "run_state (do { l \<leftarrow> stream_wait w f PSI_FILE_STREAM_CLOSE 0 src; r \<leftarrow> sys w ?c;
          _ \<leftarrow> end_wait w l (end_file_wait 0); State_Monad.return r }) tr =
        (sys_ans w (tr @ map Psi pre) ?c, tr @ map Psi pre @ Sys ?c # map Psi post)"
      "\<forall>ls. foldl wait_step ls (pre @ post) = ls" by blast
  show thesis
    by (rule that[of pre post]) (use 1 in
        \<open>auto simp: inline_mysql_file_fclose_def Let_def split: prod.splits\<close>)
qed

lemma fopen_effect:
  assumes "observing w"
    and "run_state (inline_mysql_file_fopen w key src filename flags myFlags) tr = (res, tr1)"
    and "m = Call ''my_malloc'' [Num 16, Num MY_WME]"
    and "opn = Call ''my_fopen'' [Str filename, Num flags, Num myFlags]"
    and "a = sys_ans w tr m" "fd = sys_ans w (tr @ [Sys m]) opn"
  shows "open_waits tr1 = open_waits tr"
    and "a = 0 \<Longrightarrow> res = None \<and> sys_calls tr1 = sys_calls tr @ [m]"
    and "a \<noteq> 0 \<Longrightarrow> fd = 0 \<Longrightarrow>
      res = None \<and> sys_calls tr1 = sys_calls tr @ [m, opn, Call ''my_free'' [Num a]]"
    and "a \<noteq> 0 \<Longrightarrow> fd \<noteq> 0 \<Longrightarrow>
      (\<exists>hook. res = Some (a, \<lparr>m_file = fd, m_psi = hook\<rparr>)) \<and> sys_calls tr1 = sys_calls tr @ [m, opn]"
proof -
  have "open_waits tr1 = open_waits tr \<and>
    (if a = 0 then res = None \<and> sys_calls tr1 = sys_calls tr @ [m]
     else if fd = 0 then res = None \<and> sys_calls tr1 = sys_calls tr @ [m, opn, Call ''my_free'' [Num a]]
     else (\<exists>hook. res = Some (a, \<lparr>m_file = fd, m_psi = hook\<rparr>)) \<and>
       sys_calls tr1 = sys_calls tr @ [m, opn])"
  proof (cases "a = 0")
    case True
    with assms(2-5) show ?thesis
      by (auto simp: inline_mysql_file_fopen_def open_waits_append)
  next
    case False
    obtain pre post hook where run: "run_state (inline_mysql_file_fopen w key src filename flags myFlags) tr =
      (let tr0 = tr @ Sys m # map Psi pre; fd = sys_ans w tr0 opn; tr1 = tr0 @ Sys opn # map Psi post in
       if fd = 0 then (None, tr1 @ [Sys (Call ''my_free'' [Num a])])
       else (Some (a, \<lparr>m_file = fd, m_psi = hook\<rparr>), tr1))"
      and w1: "\<And>ls. foldl wait_step ls (pre @ post) = ls"
      using fopen_run[OF assms(5)[unfolded assms(3), symmetric] False, of key src filename flags myFlags]
      unfolding assms(3,4) by (metis (no_types, lifting))
    have "sys_ans w (tr @ Sys m # map Psi pre) opn = fd"
      unfolding assms(6) by (rule observingD[OF assms(1)]) simp
    with run w1 False assms(2) show ?thesis
      by (auto simp: Let_def open_waits_append split: if_splits)
  qed
  then show "open_waits tr1 = open_waits tr"
    and "a = 0 \<Longrightarrow> res = None \<and> sys_calls tr1 = sys_calls tr @ [m]"
    and "a \<noteq> 0 \<Longrightarrow> fd = 0 \<Longrightarrow>
      res = None \<and> sys_calls tr1 = sys_calls tr @ [m, opn, Call ''my_free'' [Num a]]"
    and "a \<noteq> 0 \<Longrightarrow> fd \<noteq> 0 \<Longrightarrow>
      (\<exists>hook. res = Some (a, \<lparr>m_file = fd, m_psi = hook\<rparr>)) \<and> sys_calls tr1 = sys_calls tr @ [m, opn]"
    by simp_all
qed

lemma fclose_effect:
  assumes "observing w" "run_state (inline_mysql_file_fclose w src (Some (a, f)) flags) tr = (r, tr')"
    and "cls = Call ''my_fclose'' [Num (m_file f), Num flags]" "sys_calls tr0 = sys_calls tr"
  shows "open_waits tr' = open_waits tr" "r = sys_ans w tr0 cls"
    "sys_calls tr' = sys_calls tr @ [cls, Call ''my_free'' [Num a]]"
proof -
  obtain pre post where run: "run_state (inline_mysql_file_fclose w src (Some (a, f)) flags) tr =
      (let tr0 = tr @ map Psi pre; c = Call ''my_fclose'' [Num (m_file f), Num flags] in
       (sys_ans w tr0 c, tr0 @ Sys c # map Psi post @ [Sys (Call ''my_free'' [Num a])]))"
    and w: "\<And>ls. foldl wait_step ls (pre @ post) = ls"
    by (rule fclose_run[of w src a f flags tr]) blast
  have "sys_ans w (tr @ map Psi pre) cls = sys_ans w tr0 cls"
    by (rule observingD[OF assms(1)]) (simp add: assms(4))
  with run w assms(2,3) show "open_waits tr' = open_waits tr" "r = sys_ans w tr0 cls"
    "sys_calls tr' = sys_calls tr @ [cls, Call ''my_free'' [Num a]]"
    by (auto simp: Let_def open_waits_append)
qed

text \<open>
  Opening and closing a stream owns its structure exactly as long as the stream is open. The
  structure is allocated before the file is opened and given back when that fails; closing gives
  it back after the file; closing the null pointer does nothing. No wait stays open on any path.
\<close>

theorem mysql_file_fopen_fclose:
  assumes "observing w"
    and "run_state (inline_mysql_file_fopen w key src filename flags myFlags) tr = (res, tr1)"
    and "run_state (inline_mysql_file_fclose w src' res flags') tr1 = (r, tr2)"
  shows "let m = Call ''my_malloc'' [Num 16, Num MY_WME]; a = sys_ans w tr m;
             opn = Call ''my_fopen'' [Str filename, Num flags, Num myFlags];
             fd = sys_ans w (tr @ [Sys m]) opn; cls = Call ''my_fclose'' [Num fd, Num flags'];
             free = Call ''my_free'' [Num a] in
         sys_calls tr2 = sys_calls tr @
           (if a = 0 then [m] else if fd = 0 then [m, opn, free] else [m, opn, cls, free]) \<and>
         (res = None \<longleftrightarrow> a = 0 \<or> fd = 0) \<and>
         r = (if a = 0 \<or> fd = 0 then 0 else sys_ans w (tr @ [Sys m, Sys opn]) cls) \<and>
         open_waits tr2 = open_waits tr"
proof -
  define m where "m = Call ''my_malloc'' [Num 16, Num MY_WME]"
  define opn where "opn = Call ''my_fopen'' [Str filename, Num flags, Num myFlags]"
  define a where "a = sys_ans w tr m"
  define fd where "fd = sys_ans w (tr @ [Sys m]) opn"
  note opened = fopen_effect[OF assms(1,2) m_def opn_def a_def fd_def]
  have none: "res = None \<Longrightarrow> r = 0 \<and> tr2 = tr1"
    using assms(3) by (simp add: inline_mysql_file_fclose_def)
  have some: "open_waits tr2 = open_waits tr1" "r = sys_ans w (tr @ [Sys m, Sys opn]) cls"
      "sys_calls tr2 = sys_calls tr1 @ [cls, Call ''my_free'' [Num a]]"
    if live: "a \<noteq> 0" "fd \<noteq> 0" and cls: "cls = Call ''my_fclose'' [Num fd, Num flags']" for cls
  proof -
    obtain hook where "res = Some (a, \<lparr>m_file = fd, m_psi = hook\<rparr>)"
      and calls: "sys_calls tr1 = sys_calls tr @ [m, opn]"
      using opened(4)[OF live] by blast
    with assms(3) have "run_state (inline_mysql_file_fclose w src'
        (Some (a, \<lparr>m_file = fd, m_psi = hook\<rparr>)) flags') tr1 = (r, tr2)" by simp
    from fclose_effect[OF assms(1) this, of cls "tr @ [Sys m, Sys opn]"] cls calls
    show "open_waits tr2 = open_waits tr1" "r = sys_ans w (tr @ [Sys m, Sys opn]) cls"
      "sys_calls tr2 = sys_calls tr1 @ [cls, Call ''my_free'' [Num a]]" by simp_all
  qed
  show ?thesis
    unfolding m_def[symmetric] opn_def[symmetric] a_def[symmetric] fd_def[symmetric] Let_def
    using opened none some by auto
qed

lemma sample_fopen:
  "run_state (inline_mysql_file_fopen sample_world 5 (''a.c'', 3) ''t'' 0 0) [] =
     (Some (1, \<lparr>m_file = 2, m_psi = 7\<rparr>),
      [Sys (Call ''my_malloc'' [Num 16, Num 16]),
       Psi (Get (get_thread_file_name_locker 5 PSI_FILE_STREAM_OPEN ''t'' (The_file 1))),
       Psi (Start start_file_open_wait 7 (''a.c'', 3)),
       Sys (Call ''my_fopen'' [Str ''t'', Num 0, Num 0]), Psi (End end_file_open_wait 7)])"
  by (simp add: inline_mysql_file_fopen_def end_wait_def sample_world_def MY_WME_def)

theorem mysql_file_fopen_fclose_witness:
  "sys_calls (snd (run_state (inline_mysql_file_fclose sample_world (''a.c'', 4)
      (Some (1, \<lparr>m_file = 2, m_psi = 7\<rparr>)) 0)
      (snd (run_state (inline_mysql_file_fopen sample_world 5 (''a.c'', 3) ''t'' 0 0) [])))) =
    [Call ''my_malloc'' [Num 16, Num 16], Call ''my_fopen'' [Str ''t'', Num 0, Num 0],
     Call ''my_fclose'' [Num 2, Num 0], Call ''my_free'' [Num 1]]"
  using mysql_file_fopen_fclose[OF sample_observing sample_fopen surjective_pairing,
      where src' = "(''a.c'', 4)" and flags' = 0]
  by (simp add: sample_fopen Let_def MY_WME_def) (simp add: sample_world_def)

text \<open>
  Failed formatted output is reported as the largest possible amount. When \<open>vfprintf\<close> answers
  -1, its error, and the stream is instrumented, the end of the wait reports
  \<open>2\<^sup>6\<^sup>4 - 1\<close> bytes written, since the result is converted to \<open>size_t\<close> without a look at its sign.
\<close>

theorem mysql_vfprintf_error_bytes:
  assumes "psi_server w" "m_psi f \<noteq> 0"
    and "psi_ans w tr (Get (get_thread_file_stream_locker (m_psi f) PSI_FILE_WRITE)) = l" "l \<noteq> 0"
    and "\<And>tr'. sys_ans w tr' (Call ''vfprintf'' [Num (m_file f), Str format, Args args]) = -1"
  shows "psi_calls (snd (run_state (inline_mysql_file_vfprintf w src f format args) tr)) =
      psi_calls tr @ [Get (get_thread_file_stream_locker (m_psi f) PSI_FILE_WRITE),
        Start (start_file_wait 0) l src, End (end_file_wait (2 ^ 64 - 1)) l]"
  using assms by (simp add: inline_mysql_file_vfprintf_def stream_wait_def wait_if_def start_wait_def
      end_wait_def size_t_def)

theorem mysql_vfprintf_error_bytes_witness:
  "End (end_file_wait 18446744073709551615) 7 \<in> set (psi_calls (snd (run_state
     (inline_mysql_file_vfprintf (sample_world\<lparr>sys_ans := \<lambda>_ _. -1\<rparr>) (''a.c'', 3) sample_file ''x'' []) [])))"
  using mysql_vfprintf_error_bytes[of "sample_world\<lparr>sys_ans := \<lambda>_ _. -1\<rparr>" sample_file "[]" 7 "''x''" "[]"
      "(''a.c'', 3)"]
  by (simp add: sample_world_def sample_file_def)

end
