(* ===== verification/PsiThread.thy ===== *)
theory PsiThread
  imports Psi
begin

text \<open>
  The instrumented locks, conditions and threads of the MySQL client headers
  (inc/mysql/mysql/psi/mysql_thread.h), with \<open>safe_mutex\<close> selecting the build with
  \<open>SAFE_MUTEX\<close>. Shown: every locking operation is a replacement for the function it wraps, and
  an object is reported as destroyed at most once for each time it was initialised.
\<close>

section \<open>Operations\<close>

record mysql_mutex_t =
  m_mutex :: cval
  mutex_psi :: cval

record mysql_rwlock_t =
  m_rwlock :: cval
  rwlock_psi :: cval

record mysql_prlock_t =
  m_prlock :: cval
  prlock_psi :: cval

record mysql_cond_t =
  m_cond :: cval
  cond_psi :: cval

text \<open>A hook that is called when there is a server and an instrumented object.\<close>

definition hook_if :: "psi_world \<Rightarrow> bool \<Rightarrow> psi_hook \<Rightarrow> cval act" where
  "hook_if w guard h =
     (if psi_server w \<and> guard then psi w (Hook h) else State_Monad.return 0)"

subsection \<open>Mutexes\<close>

definition inline_mysql_mutex_init ::
  "psi_world \<Rightarrow> cval \<Rightarrow> mysql_mutex_t \<Rightarrow> cval \<Rightarrow> site \<Rightarrow> (cval \<times> mysql_mutex_t) act" where
  "inline_mysql_mutex_init w key that attr src = do {
     m \<leftarrow> hook_if w True (init_mutex key (m_mutex that));
     result \<leftarrow> sys w (if safe_mutex w
       then Call ''safe_mutex_init'' [Num (m_mutex that), Num attr, Place src]
       else Call ''pthread_mutex_init'' [Num (m_mutex that), Num attr]);
     State_Monad.return (result, that\<lparr>mutex_psi := m\<rparr>)
   }"

definition inline_mysql_mutex_destroy ::
  "psi_world \<Rightarrow> mysql_mutex_t \<Rightarrow> site \<Rightarrow> (cval \<times> mysql_mutex_t) act" where
  "inline_mysql_mutex_destroy w that src = do {
     _ \<leftarrow> hook_if w (mutex_psi that \<noteq> 0) (destroy_mutex (mutex_psi that));
     result \<leftarrow> sys w (if safe_mutex w
       then Call ''safe_mutex_destroy'' [Num (m_mutex that), Place src]
       else Call ''pthread_mutex_destroy'' [Num (m_mutex that)]);
     State_Monad.return (result, if psi_server w then that\<lparr>mutex_psi := 0\<rparr> else that)
   }"

definition inline_mysql_mutex_lock ::
  "psi_world \<Rightarrow> mysql_mutex_t \<Rightarrow> site \<Rightarrow> cval act" where
  "inline_mysql_mutex_lock w that src = do {
     locker \<leftarrow> wait_if w (mutex_psi that \<noteq> 0) (get_thread_mutex_locker (mutex_psi that) PSI_MUTEX_LOCK) start_mutex_wait src;
     result \<leftarrow> sys w (if safe_mutex w then Call ''safe_mutex_lock'' [Num (m_mutex that), Flag False, Place src]
       else Call ''pthread_mutex_lock'' [Num (m_mutex that)]);
     _ \<leftarrow> end_wait w locker (end_mutex_wait result);
     State_Monad.return result
   }"

definition inline_mysql_mutex_trylock ::
  "psi_world \<Rightarrow> mysql_mutex_t \<Rightarrow> site \<Rightarrow> cval act" where
  "inline_mysql_mutex_trylock w that src = do {
     locker \<leftarrow> wait_if w (mutex_psi that \<noteq> 0) (get_thread_mutex_locker (mutex_psi that) PSI_MUTEX_TRYLOCK) start_mutex_wait src;
     result \<leftarrow> sys w (if safe_mutex w then Call ''safe_mutex_lock'' [Num (m_mutex that), Flag True, Place src]
       else Call ''pthread_mutex_trylock'' [Num (m_mutex that)]);
     _ \<leftarrow> end_wait w locker (end_mutex_wait result);
     State_Monad.return result
   }"

definition inline_mysql_mutex_unlock ::
  "psi_world \<Rightarrow> mysql_mutex_t \<Rightarrow> site \<Rightarrow> cval act" where
  "inline_mysql_mutex_unlock w that src = do {
     _ \<leftarrow> hook_if w (mutex_psi that \<noteq> 0) (unlock_mutex (mutex_psi that));
     sys w (if safe_mutex w then Call ''safe_mutex_unlock'' [Num (m_mutex that), Place src]
       else Call ''pthread_mutex_unlock'' [Num (m_mutex that)])
   }"

subsection \<open>Read-write locks\<close>

definition inline_mysql_rwlock_init ::
  "psi_world \<Rightarrow> cval \<Rightarrow> mysql_rwlock_t \<Rightarrow> (cval \<times> mysql_rwlock_t) act" where
  "inline_mysql_rwlock_init w key that = do {
     m \<leftarrow> hook_if w True (init_rwlock key (m_rwlock that));
     result \<leftarrow> sys w (Call ''my_rwlock_init'' [Num (m_rwlock that), Num 0]);
     State_Monad.return (result, that\<lparr>rwlock_psi := m\<rparr>)
   }"

definition inline_mysql_prlock_init ::
  "psi_world \<Rightarrow> cval \<Rightarrow> mysql_prlock_t \<Rightarrow> (cval \<times> mysql_prlock_t) act" where
  "inline_mysql_prlock_init w key that = do {
     m \<leftarrow> hook_if w True (init_rwlock key (m_prlock that));
     result \<leftarrow> sys w (Call ''rw_pr_init'' [Num (m_prlock that)]);
     State_Monad.return (result, that\<lparr>prlock_psi := m\<rparr>)
   }"

definition inline_mysql_rwlock_destroy ::
  "psi_world \<Rightarrow> mysql_rwlock_t \<Rightarrow> (cval \<times> mysql_rwlock_t) act" where
  "inline_mysql_rwlock_destroy w that = do {
     _ \<leftarrow> hook_if w (rwlock_psi that \<noteq> 0) (destroy_rwlock (rwlock_psi that));
     result \<leftarrow> sys w (Call ''rwlock_destroy'' [Num (m_rwlock that)]);
     State_Monad.return (result, if psi_server w then that\<lparr>rwlock_psi := 0\<rparr> else that)
   }"

definition inline_mysql_prlock_destroy ::
  "psi_world \<Rightarrow> mysql_prlock_t \<Rightarrow> (cval \<times> mysql_prlock_t) act" where
  "inline_mysql_prlock_destroy w that = do {
     _ \<leftarrow> hook_if w (prlock_psi that \<noteq> 0) (destroy_rwlock (prlock_psi that));
     result \<leftarrow> sys w (Call ''rw_pr_destroy'' [Num (m_prlock that)]);
     State_Monad.return (result, if psi_server w then that\<lparr>prlock_psi := 0\<rparr> else that)
   }"

definition inline_mysql_rwlock_rdlock ::
  "psi_world \<Rightarrow> mysql_rwlock_t \<Rightarrow> site \<Rightarrow> cval act" where
  "inline_mysql_rwlock_rdlock w that src = do {
     locker \<leftarrow> wait_if w (rwlock_psi that \<noteq> 0) (get_thread_rwlock_locker (rwlock_psi that) PSI_RWLOCK_READLOCK) start_rwlock_rdwait src;
     result \<leftarrow> sys w (Call ''rw_rdlock'' [Num (m_rwlock that)]);
     _ \<leftarrow> end_wait w locker (end_rwlock_rdwait result);
     State_Monad.return result
   }"

definition inline_mysql_prlock_rdlock ::
  "psi_world \<Rightarrow> mysql_prlock_t \<Rightarrow> site \<Rightarrow> cval act" where
  "inline_mysql_prlock_rdlock w that src = do {
     locker \<leftarrow> wait_if w (prlock_psi that \<noteq> 0) (get_thread_rwlock_locker (prlock_psi that) PSI_RWLOCK_READLOCK) start_rwlock_rdwait src;
     result \<leftarrow> sys w (Call ''rw_pr_rdlock'' [Num (m_prlock that)]);
     _ \<leftarrow> end_wait w locker (end_rwlock_rdwait result);
     State_Monad.return result
   }"

definition inline_mysql_rwlock_wrlock ::
  "psi_world \<Rightarrow> mysql_rwlock_t \<Rightarrow> site \<Rightarrow> cval act" where
  "inline_mysql_rwlock_wrlock w that src = do {
     locker \<leftarrow> wait_if w (rwlock_psi that \<noteq> 0) (get_thread_rwlock_locker (rwlock_psi that) PSI_RWLOCK_WRITELOCK) start_rwlock_wrwait src;
     result \<leftarrow> sys w (Call ''rw_wrlock'' [Num (m_rwlock that)]);
     _ \<leftarrow> end_wait w locker (end_rwlock_wrwait result);
     State_Monad.return result
   }"

definition inline_mysql_prlock_wrlock ::
  "psi_world \<Rightarrow> mysql_prlock_t \<Rightarrow> site \<Rightarrow> cval act" where
  "inline_mysql_prlock_wrlock w that src = do {
     locker \<leftarrow> wait_if w (prlock_psi that \<noteq> 0) (get_thread_rwlock_locker (prlock_psi that) PSI_RWLOCK_WRITELOCK) start_rwlock_wrwait src;
     result \<leftarrow> sys w (Call ''rw_pr_wrlock'' [Num (m_prlock that)]);
     _ \<leftarrow> end_wait w locker (end_rwlock_wrwait result);
     State_Monad.return result
   }"

definition inline_mysql_rwlock_tryrdlock ::
  "psi_world \<Rightarrow> mysql_rwlock_t \<Rightarrow> site \<Rightarrow> cval act" where
  "inline_mysql_rwlock_tryrdlock w that src = do {
     locker \<leftarrow> wait_if w (rwlock_psi that \<noteq> 0) (get_thread_rwlock_locker (rwlock_psi that) PSI_RWLOCK_TRYREADLOCK) start_rwlock_rdwait src;
     result \<leftarrow> sys w (Call ''rw_tryrdlock'' [Num (m_rwlock that)]);
     _ \<leftarrow> end_wait w locker (end_rwlock_rdwait result);
     State_Monad.return result
   }"

definition inline_mysql_rwlock_trywrlock ::
  "psi_world \<Rightarrow> mysql_rwlock_t \<Rightarrow> site \<Rightarrow> cval act" where
  "inline_mysql_rwlock_trywrlock w that src = do {
     locker \<leftarrow> wait_if w (rwlock_psi that \<noteq> 0) (get_thread_rwlock_locker (rwlock_psi that) PSI_RWLOCK_TRYWRITELOCK) start_rwlock_wrwait src;
     result \<leftarrow> sys w (Call ''rw_trywrlock'' [Num (m_rwlock that)]);
     _ \<leftarrow> end_wait w locker (end_rwlock_wrwait result);
     State_Monad.return result
   }"

definition inline_mysql_rwlock_unlock ::
  "psi_world \<Rightarrow> mysql_rwlock_t \<Rightarrow> cval act" where
  "inline_mysql_rwlock_unlock w that = do {
     _ \<leftarrow> hook_if w (rwlock_psi that \<noteq> 0) (unlock_rwlock (rwlock_psi that));
     sys w (Call ''rw_unlock'' [Num (m_rwlock that)])
   }"

definition inline_mysql_prlock_unlock ::
  "psi_world \<Rightarrow> mysql_prlock_t \<Rightarrow> cval act" where
  "inline_mysql_prlock_unlock w that = do {
     _ \<leftarrow> hook_if w (prlock_psi that \<noteq> 0) (unlock_rwlock (prlock_psi that));
     sys w (Call ''rw_pr_unlock'' [Num (m_prlock that)])
   }"

subsection \<open>Conditions and threads\<close>

definition inline_mysql_cond_init ::
  "psi_world \<Rightarrow> cval \<Rightarrow> mysql_cond_t \<Rightarrow> cval \<Rightarrow> (cval \<times> mysql_cond_t) act" where
  "inline_mysql_cond_init w key that attr = do {
     m \<leftarrow> hook_if w True (init_cond key (m_cond that));
     result \<leftarrow> sys w (Call ''pthread_cond_init'' [Num (m_cond that), Num attr]);
     State_Monad.return (result, that\<lparr>cond_psi := m\<rparr>)
   }"

definition inline_mysql_cond_destroy ::
  "psi_world \<Rightarrow> mysql_cond_t \<Rightarrow> (cval \<times> mysql_cond_t) act" where
  "inline_mysql_cond_destroy w that = do {
     _ \<leftarrow> hook_if w (cond_psi that \<noteq> 0) (destroy_cond (cond_psi that));
     result \<leftarrow> sys w (Call ''pthread_cond_destroy'' [Num (m_cond that)]);
     State_Monad.return (result, if psi_server w then that\<lparr>cond_psi := 0\<rparr> else that)
   }"

definition inline_mysql_cond_wait ::
  "psi_world \<Rightarrow> mysql_cond_t \<Rightarrow> mysql_mutex_t \<Rightarrow> site \<Rightarrow> cval act" where
  "inline_mysql_cond_wait w that mutex src = do {
     locker \<leftarrow> wait_if w (cond_psi that \<noteq> 0) (get_thread_cond_locker (cond_psi that) (mutex_psi mutex) PSI_COND_WAIT) start_cond_wait src;
     result \<leftarrow> sys w (Call ''pthread_cond_wait'' [Num (m_cond that), Num (m_mutex mutex)]);
     _ \<leftarrow> end_wait w locker (end_cond_wait result);
     State_Monad.return result
   }"

definition inline_mysql_cond_timedwait ::
  "psi_world \<Rightarrow> mysql_cond_t \<Rightarrow> mysql_mutex_t \<Rightarrow> cval \<Rightarrow> site \<Rightarrow> cval act" where
  "inline_mysql_cond_timedwait w that mutex abstime src = do {
     locker \<leftarrow> wait_if w (cond_psi that \<noteq> 0) (get_thread_cond_locker (cond_psi that) (mutex_psi mutex) PSI_COND_TIMEDWAIT) start_cond_wait src;
     result \<leftarrow> sys w (Call ''pthread_cond_timedwait'' [Num (m_cond that), Num (m_mutex mutex), Num abstime]);
     _ \<leftarrow> end_wait w locker (end_cond_wait result);
     State_Monad.return result
   }"

definition inline_mysql_cond_signal ::
  "psi_world \<Rightarrow> mysql_cond_t \<Rightarrow> cval act" where
  "inline_mysql_cond_signal w that = do {
     _ \<leftarrow> hook_if w (cond_psi that \<noteq> 0) (signal_cond (cond_psi that));
     sys w (Call ''pthread_cond_signal'' [Num (m_cond that)])
   }"

definition inline_mysql_cond_broadcast ::
  "psi_world \<Rightarrow> mysql_cond_t \<Rightarrow> cval act" where
  "inline_mysql_cond_broadcast w that = do {
     _ \<leftarrow> hook_if w (cond_psi that \<noteq> 0) (broadcast_cond (cond_psi that));
     sys w (Call ''pthread_cond_broadcast'' [Num (m_cond that)])
   }"

definition inline_mysql_thread_create ::
  "psi_world \<Rightarrow> cval \<Rightarrow> cval \<Rightarrow> cval \<Rightarrow> cval \<Rightarrow> cval \<Rightarrow> cval act" where
  "inline_mysql_thread_create w key thread attr start_routine arg =
     (if psi_server w then psi w (Hook (spawn_thread key thread attr start_routine arg))
      else sys w (Call ''pthread_create'' [Num thread, Num attr, Num start_routine, Num arg]))"

definition inline_mysql_thread_set_psi_id :: "psi_world \<Rightarrow> cval \<Rightarrow> unit act" where
  "inline_mysql_thread_set_psi_id w ident =
     (if psi_server w then do {
        thread \<leftarrow> psi w (Hook get_thread);
        if thread \<noteq> 0 then do { _ \<leftarrow> psi w (Hook (set_thread_id thread ident)); State_Monad.return () }
        else State_Monad.return ()
      } else State_Monad.return ())"

section \<open>Every locking operation is instrumented\<close>

lemma hook_instrumented:
  "instrumented (\<lambda>w. do { _ \<leftarrow> hook_if w guard h; sys w (call w) }) call"
proof
  fix w tr
  show "\<exists>pre post. run_state (do { _ \<leftarrow> hook_if w guard h; sys w (call w) }) tr =
      (sys_ans w (tr @ map Psi pre) (call w), tr @ map Psi pre @ Sys (call w) # map Psi post) \<and>
      (\<forall>ls. foldl wait_step ls (pre @ post) = ls) \<and> (\<not> psi_server w \<longrightarrow> pre @ post = [])"
    by (intro exI[of _ "if psi_server w \<and> guard then [Hook h] else []"] exI[of _ "[]"])
      (auto simp: hook_if_def)
qed

interpretation mutex_lock: instrumented "\<lambda>w. inline_mysql_mutex_lock w that src"
    "\<lambda>w. if safe_mutex w then Call ''safe_mutex_lock'' [Num (m_mutex that), Flag False, Place src]
       else Call ''pthread_mutex_lock'' [Num (m_mutex that)]" for that src
  unfolding inline_mysql_mutex_lock_def by (rule bracket_instrumented) simp_all

interpretation mutex_trylock: instrumented "\<lambda>w. inline_mysql_mutex_trylock w that src"
    "\<lambda>w. if safe_mutex w then Call ''safe_mutex_lock'' [Num (m_mutex that), Flag True, Place src]
       else Call ''pthread_mutex_trylock'' [Num (m_mutex that)]" for that src
  unfolding inline_mysql_mutex_trylock_def by (rule bracket_instrumented) simp_all

interpretation mutex_unlock: instrumented "\<lambda>w. inline_mysql_mutex_unlock w that src"
    "\<lambda>w. if safe_mutex w then Call ''safe_mutex_unlock'' [Num (m_mutex that), Place src]
       else Call ''pthread_mutex_unlock'' [Num (m_mutex that)]" for that src
  unfolding inline_mysql_mutex_unlock_def by (rule hook_instrumented)

interpretation rwlock_rdlock: instrumented "\<lambda>w. inline_mysql_rwlock_rdlock w that src"
    "\<lambda>w. Call ''rw_rdlock'' [Num (m_rwlock that)]" for that src
  unfolding inline_mysql_rwlock_rdlock_def by (rule bracket_instrumented) simp_all

interpretation prlock_rdlock: instrumented "\<lambda>w. inline_mysql_prlock_rdlock w that src"
    "\<lambda>w. Call ''rw_pr_rdlock'' [Num (m_prlock that)]" for that src
  unfolding inline_mysql_prlock_rdlock_def by (rule bracket_instrumented) simp_all

interpretation rwlock_wrlock: instrumented "\<lambda>w. inline_mysql_rwlock_wrlock w that src"
    "\<lambda>w. Call ''rw_wrlock'' [Num (m_rwlock that)]" for that src
  unfolding inline_mysql_rwlock_wrlock_def by (rule bracket_instrumented) simp_all

interpretation prlock_wrlock: instrumented "\<lambda>w. inline_mysql_prlock_wrlock w that src"
    "\<lambda>w. Call ''rw_pr_wrlock'' [Num (m_prlock that)]" for that src
  unfolding inline_mysql_prlock_wrlock_def by (rule bracket_instrumented) simp_all

interpretation rwlock_tryrdlock: instrumented "\<lambda>w. inline_mysql_rwlock_tryrdlock w that src"
    "\<lambda>w. Call ''rw_tryrdlock'' [Num (m_rwlock that)]" for that src
  unfolding inline_mysql_rwlock_tryrdlock_def by (rule bracket_instrumented) simp_all

interpretation rwlock_trywrlock: instrumented "\<lambda>w. inline_mysql_rwlock_trywrlock w that src"
    "\<lambda>w. Call ''rw_trywrlock'' [Num (m_rwlock that)]" for that src
  unfolding inline_mysql_rwlock_trywrlock_def by (rule bracket_instrumented) simp_all

interpretation rwlock_unlock: instrumented "\<lambda>w. inline_mysql_rwlock_unlock w that"
    "\<lambda>w. Call ''rw_unlock'' [Num (m_rwlock that)]" for that
  unfolding inline_mysql_rwlock_unlock_def by (rule hook_instrumented)

interpretation prlock_unlock: instrumented "\<lambda>w. inline_mysql_prlock_unlock w that"
    "\<lambda>w. Call ''rw_pr_unlock'' [Num (m_prlock that)]" for that
  unfolding inline_mysql_prlock_unlock_def by (rule hook_instrumented)

interpretation cond_wait: instrumented "\<lambda>w. inline_mysql_cond_wait w that mutex src"
    "\<lambda>w. Call ''pthread_cond_wait'' [Num (m_cond that), Num (m_mutex mutex)]" for that mutex src
  unfolding inline_mysql_cond_wait_def by (rule bracket_instrumented) simp_all

interpretation cond_timedwait: instrumented "\<lambda>w. inline_mysql_cond_timedwait w that mutex abstime src"
    "\<lambda>w. Call ''pthread_cond_timedwait'' [Num (m_cond that), Num (m_mutex mutex), Num abstime]" for that mutex abstime src
  unfolding inline_mysql_cond_timedwait_def by (rule bracket_instrumented) simp_all

interpretation cond_signal: instrumented "\<lambda>w. inline_mysql_cond_signal w that"
    "\<lambda>w. Call ''pthread_cond_signal'' [Num (m_cond that)]" for that
  unfolding inline_mysql_cond_signal_def by (rule hook_instrumented)

interpretation cond_broadcast: instrumented "\<lambda>w. inline_mysql_cond_broadcast w that"
    "\<lambda>w. Call ''pthread_cond_broadcast'' [Num (m_cond that)]" for that
  unfolding inline_mysql_cond_broadcast_def by (rule hook_instrumented)

text \<open>The operations and the calls they stand for.\<close>

inductive lock_wrapper :: "(psi_world \<Rightarrow> cval act) \<Rightarrow> (psi_world \<Rightarrow> sys_call) \<Rightarrow> bool" where
  "lock_wrapper (\<lambda>w. inline_mysql_mutex_lock w that src)
     (\<lambda>w. if safe_mutex w then Call ''safe_mutex_lock'' [Num (m_mutex that), Flag False, Place src]
       else Call ''pthread_mutex_lock'' [Num (m_mutex that)])"
| "lock_wrapper (\<lambda>w. inline_mysql_mutex_trylock w that src)
     (\<lambda>w. if safe_mutex w then Call ''safe_mutex_lock'' [Num (m_mutex that), Flag True, Place src]
       else Call ''pthread_mutex_trylock'' [Num (m_mutex that)])"
| "lock_wrapper (\<lambda>w. inline_mysql_mutex_unlock w that src)
     (\<lambda>w. if safe_mutex w then Call ''safe_mutex_unlock'' [Num (m_mutex that), Place src]
       else Call ''pthread_mutex_unlock'' [Num (m_mutex that)])"
| "lock_wrapper (\<lambda>w. inline_mysql_rwlock_rdlock w that src)
     (\<lambda>w. Call ''rw_rdlock'' [Num (m_rwlock that)])"
| "lock_wrapper (\<lambda>w. inline_mysql_prlock_rdlock w that src)
     (\<lambda>w. Call ''rw_pr_rdlock'' [Num (m_prlock that)])"
| "lock_wrapper (\<lambda>w. inline_mysql_rwlock_wrlock w that src)
     (\<lambda>w. Call ''rw_wrlock'' [Num (m_rwlock that)])"
| "lock_wrapper (\<lambda>w. inline_mysql_prlock_wrlock w that src)
     (\<lambda>w. Call ''rw_pr_wrlock'' [Num (m_prlock that)])"
| "lock_wrapper (\<lambda>w. inline_mysql_rwlock_tryrdlock w that src)
     (\<lambda>w. Call ''rw_tryrdlock'' [Num (m_rwlock that)])"
| "lock_wrapper (\<lambda>w. inline_mysql_rwlock_trywrlock w that src)
     (\<lambda>w. Call ''rw_trywrlock'' [Num (m_rwlock that)])"
| "lock_wrapper (\<lambda>w. inline_mysql_rwlock_unlock w that)
     (\<lambda>w. Call ''rw_unlock'' [Num (m_rwlock that)])"
| "lock_wrapper (\<lambda>w. inline_mysql_prlock_unlock w that)
     (\<lambda>w. Call ''rw_pr_unlock'' [Num (m_prlock that)])"
| "lock_wrapper (\<lambda>w. inline_mysql_cond_wait w that mutex src)
     (\<lambda>w. Call ''pthread_cond_wait'' [Num (m_cond that), Num (m_mutex mutex)])"
| "lock_wrapper (\<lambda>w. inline_mysql_cond_timedwait w that mutex abstime src)
     (\<lambda>w. Call ''pthread_cond_timedwait'' [Num (m_cond that), Num (m_mutex mutex), Num abstime])"
| "lock_wrapper (\<lambda>w. inline_mysql_cond_signal w that)
     (\<lambda>w. Call ''pthread_cond_signal'' [Num (m_cond that)])"
| "lock_wrapper (\<lambda>w. inline_mysql_cond_broadcast w that)
     (\<lambda>w. Call ''pthread_cond_broadcast'' [Num (m_cond that)])"

lemma lock_wrapper_instrumented: "lock_wrapper f c \<Longrightarrow> instrumented f c"
  by (erule lock_wrapper.cases)
    (simp_all only: mutex_lock.instrumented_axioms
      mutex_trylock.instrumented_axioms
      mutex_unlock.instrumented_axioms
      rwlock_rdlock.instrumented_axioms
      prlock_rdlock.instrumented_axioms
      rwlock_wrlock.instrumented_axioms
      prlock_wrlock.instrumented_axioms
      rwlock_tryrdlock.instrumented_axioms
      rwlock_trywrlock.instrumented_axioms
      rwlock_unlock.instrumented_axioms
      prlock_unlock.instrumented_axioms
      cond_wait.instrumented_axioms
      cond_timedwait.instrumented_axioms
      cond_signal.instrumented_axioms
      cond_broadcast.instrumented_axioms)

text \<open>
  The instrumented locks can replace the locks they wrap. When the instrumentation only observes,
  locking, trying to lock, unlocking, waiting, signalling and broadcasting return what the wrapped
  function returns, make that one call on the object they were given, and leave no wait open;
  without \<open>PSI_server\<close> nothing else happens.
\<close>

theorem mysql_lock_drop_in:
  assumes "lock_wrapper f c" "observing w" "run_state (f w) tr = (r, tr')"
  shows "r = sys_ans w tr (c w) \<and> sys_calls tr' = sys_calls tr @ [c w] \<and>
    open_waits tr' = open_waits tr \<and> (\<not> psi_server w \<longrightarrow> tr' = tr @ [Sys (c w)])"
  using instrumented.drop_in[OF lock_wrapper_instrumented[OF assms(1)] assms(2,3)] by simp

definition thread_world :: psi_world where
  "thread_world = \<lparr>psi_server = True, safe_mutex = True,
     psi_ans = (\<lambda>tr _. if psi_calls tr = [] then 8 else 0),
     sys_ans = (\<lambda>tr _. int (length (sys_calls tr))), mem_str = (\<lambda>_ _. [])\<rparr>"

lemma thread_world_simps [simp]:
  "psi_server thread_world" "psi_ans thread_world [] c = 8"
  by (simp_all add: thread_world_def)

lemma thread_world_observing: "observing thread_world"
  by (simp add: observing_def thread_world_def)

lemma sample_lock:
  "run_state (inline_mysql_mutex_lock thread_world \<lparr>m_mutex = 3, mutex_psi = 4\<rparr> (''a.c'', 9)) [] =
     (0, [Psi (Get (get_thread_mutex_locker 4 PSI_MUTEX_LOCK)),
          Psi (Start start_mutex_wait 8 (''a.c'', 9)),
          Sys (Call ''safe_mutex_lock'' [Num 3, Flag False, Place (''a.c'', 9)]),
          Psi (End (end_mutex_wait 0) 8)])"
  by (simp add: inline_mysql_mutex_lock_def wait_if_def start_wait_def end_wait_def thread_world_def)

theorem mysql_lock_drop_in_witness:
  "sys_calls (snd (run_state
     (inline_mysql_mutex_lock thread_world \<lparr>m_mutex = 3, mutex_psi = 4\<rparr> (''a.c'', 9)) [])) =
     [Call ''safe_mutex_lock'' [Num 3, Flag False, Place (''a.c'', 9)]]"
  using mysql_lock_drop_in[OF
      lock_wrapper.intros(1)[of "\<lparr>m_mutex = 3, mutex_psi = 4\<rparr>" "(''a.c'', 9)"]
      thread_world_observing sample_lock]
  by (simp add: sample_lock)

section \<open>Life of a mutex\<close>

text \<open>
  A mutex is reported as destroyed once. After \<open>mysql_mutex_init\<close>, destroying the mutex reports
  the instrumented object that the initialisation obtained, and destroying it again reports
  nothing, although the wrapped functions are called each time.
\<close>

theorem mysql_mutex_destroyed_once:
  assumes "psi_server w"
    and "run_state (inline_mysql_mutex_init w key that attr src) tr = ((r, m), tr1)"
    and "run_state (inline_mysql_mutex_destroy w m src1) tr1 = ((r1, m1), tr2)"
    and "run_state (inline_mysql_mutex_destroy w m1 src2) tr2 = ((r2, m2), tr3)"
  shows "let c = init_mutex key (m_mutex that); p = psi_ans w tr (Hook c) in
    psi_calls tr3 = psi_calls tr @ Hook c # (if p = 0 then [] else [Hook (destroy_mutex p)]) \<and>
    length (sys_calls tr3) = length (sys_calls tr) + 3"
  using assms
  by (auto simp: inline_mysql_mutex_init_def inline_mysql_mutex_destroy_def hook_if_def Let_def)

lemma sample_init:
  "run_state (inline_mysql_mutex_init thread_world 1 \<lparr>m_mutex = 3, mutex_psi = 4\<rparr> 0 (''a.c'', 9)) [] =
     ((0, \<lparr>m_mutex = 3, mutex_psi = 8\<rparr>),
      [Psi (Hook (init_mutex 1 3)), Sys (Call ''safe_mutex_init'' [Num 3, Num 0, Place (''a.c'', 9)])])"
  by (simp add: inline_mysql_mutex_init_def hook_if_def thread_world_def)

lemma sample_destroy:
  "run_state (inline_mysql_mutex_destroy thread_world \<lparr>m_mutex = 3, mutex_psi = 8\<rparr> (''a.c'', 10)) tr =
     ((int (length (sys_calls tr)), \<lparr>m_mutex = 3, mutex_psi = 0\<rparr>),
      tr @ [Psi (Hook (destroy_mutex 8)), Sys (Call ''safe_mutex_destroy'' [Num 3, Place (''a.c'', 10)])])"
  by (simp add: inline_mysql_mutex_destroy_def hook_if_def thread_world_def)

lemma sample_destroy_again:
  "run_state (inline_mysql_mutex_destroy thread_world \<lparr>m_mutex = 3, mutex_psi = 0\<rparr> (''a.c'', 11)) tr =
     ((int (length (sys_calls tr)), \<lparr>m_mutex = 3, mutex_psi = 0\<rparr>),
      tr @ [Sys (Call ''safe_mutex_destroy'' [Num 3, Place (''a.c'', 11)])])"
  by (simp add: inline_mysql_mutex_destroy_def hook_if_def thread_world_def)

theorem mysql_mutex_destroyed_once_witness:
  "\<exists>tr3. psi_calls tr3 = [Hook (init_mutex 1 3), Hook (destroy_mutex 8)] \<and>
     length (sys_calls tr3) = 3 \<and>
     tr3 = snd (run_state (inline_mysql_mutex_destroy thread_world \<lparr>m_mutex = 3, mutex_psi = 0\<rparr> (''a.c'', 11))
       (snd (run_state (inline_mysql_mutex_destroy thread_world \<lparr>m_mutex = 3, mutex_psi = 8\<rparr> (''a.c'', 10))
         (snd (run_state (inline_mysql_mutex_init thread_world 1 \<lparr>m_mutex = 3, mutex_psi = 4\<rparr> 0 (''a.c'', 9)) [])))))"
  using mysql_mutex_destroyed_once[OF _ sample_init sample_destroy sample_destroy_again]
  by (simp add: sample_init sample_destroy sample_destroy_again)

end
