(* ===== verification/ByteOrder.thy ===== *)
theory ByteOrder
  imports Prelude "HOL-Library.Word"
begin

text \<open>
  Reading and storing integers in the low-byte-first format of the MySQL protocol
  (inc/mysql/my_global.h): the portable macros, the macros for 32-bit x86, which use the
  machine's own loads and stores, and the macros for machines with the high byte first.

  Memory is a function from offsets to bytes. A macro's argument is a 64-bit value, cut to the
  width its cast asks for. Shown: every store is read back by the macro of the same width, in
  both families; the two families agree; signed reads give the two's complement value.
\<close>

unbundle bit_operations_syntax

section \<open>The portable macros\<close>

type_synonym bytes = "nat \<Rightarrow> 8 word"

definition uint2korr :: "bytes \<Rightarrow> 16 word" where
  "uint2korr A = ucast (A 0) + push_bit 8 (ucast (A 1))"

definition uint3korr :: "bytes \<Rightarrow> 32 word" where
  "uint3korr A = ucast (A 0) + push_bit 8 (ucast (A 1)) + push_bit 16 (ucast (A 2))"

definition uint4korr :: "bytes \<Rightarrow> 32 word" where
  "uint4korr A =
     ucast (A 0) + push_bit 8 (ucast (A 1)) + push_bit 16 (ucast (A 2)) + push_bit 24 (ucast (A 3))"

definition uint5korr :: "bytes \<Rightarrow> 64 word" where
  "uint5korr A =
     ucast (ucast (A 0) + push_bit 8 (ucast (A 1)) + push_bit 16 (ucast (A 2)) +
       push_bit 24 (ucast (A 3)) :: 32 word) + push_bit 32 (ucast (A 4))"

definition uint6korr :: "bytes \<Rightarrow> 64 word" where
  "uint6korr A =
     ucast (ucast (A 0) + push_bit 8 (ucast (A 1)) + push_bit 16 (ucast (A 2)) +
       push_bit 24 (ucast (A 3)) :: 32 word) + push_bit 32 (ucast (A 4)) + push_bit 40 (ucast (A 5))"

definition uint8korr :: "bytes \<Rightarrow> 64 word" where
  "uint8korr A =
     ucast (ucast (A 0) + push_bit 8 (ucast (A 1)) + push_bit 16 (ucast (A 2)) +
       push_bit 24 (ucast (A 3)) :: 32 word) +
     push_bit 32 (ucast (ucast (A 4) + push_bit 8 (ucast (A 5)) + push_bit 16 (ucast (A 6)) +
       push_bit 24 (ucast (A 7)) :: 32 word))"

text \<open>
  The signed reads. Their sums are formed in \<open>int\<close> and cut to the width of the result; the value
  of the result is its \<open>sint\<close>.
\<close>

definition sint2korr :: "bytes \<Rightarrow> 16 word" where
  "sint2korr A = ucast (ucast (A 0) + push_bit 8 (ucast (A 1)) :: 32 word)"

definition sint3korr :: "bytes \<Rightarrow> 32 word" where
  "sint3korr A =
     (if A 2 AND 128 \<noteq> 0
      then push_bit 24 255 OR push_bit 16 (ucast (A 2)) OR push_bit 8 (ucast (A 1)) OR ucast (A 0)
      else push_bit 16 (ucast (A 2)) OR push_bit 8 (ucast (A 1)) OR ucast (A 0))"

definition sint4korr :: "bytes \<Rightarrow> 32 word" where
  "sint4korr A =
     ucast (A 0) + push_bit 8 (ucast (A 1)) + push_bit 16 (ucast (A 2)) + push_bit 24 (ucast (A 3))"

definition sint8korr :: "bytes \<Rightarrow> 64 word" where
  "sint8korr A = uint8korr A"

definition int2store :: "bytes \<Rightarrow> 64 word \<Rightarrow> bytes" where
  "int2store T A = (let def_temp = ucast A :: 32 word in
     T(0 := ucast def_temp, 1 := ucast (drop_bit 8 def_temp)))"

definition int3store :: "bytes \<Rightarrow> 64 word \<Rightarrow> bytes" where
  "int3store T A = T(0 := ucast A, 1 := ucast (drop_bit 8 A), 2 := ucast (drop_bit 16 A))"

definition int4store :: "bytes \<Rightarrow> 64 word \<Rightarrow> bytes" where
  "int4store T A =
     T(0 := ucast A, 1 := ucast (drop_bit 8 A), 2 := ucast (drop_bit 16 A), 3 := ucast (drop_bit 24 A))"

definition int5store :: "bytes \<Rightarrow> 64 word \<Rightarrow> bytes" where
  "int5store T A =
     T(0 := ucast A, 1 := ucast (drop_bit 8 A), 2 := ucast (drop_bit 16 A), 3 := ucast (drop_bit 24 A),
       4 := ucast (drop_bit 32 A))"

definition int6store :: "bytes \<Rightarrow> 64 word \<Rightarrow> bytes" where
  "int6store T A =
     T(0 := ucast A, 1 := ucast (drop_bit 8 A), 2 := ucast (drop_bit 16 A), 3 := ucast (drop_bit 24 A),
       4 := ucast (drop_bit 32 A), 5 := ucast (drop_bit 40 A))"

text \<open>\<open>int8store\<close> stores two halves with \<open>int4store\<close>, the second at \<open>T + 4\<close>.\<close>

definition int4store_at :: "nat \<Rightarrow> bytes \<Rightarrow> 64 word \<Rightarrow> bytes" where
  "int4store_at d T A = (\<lambda>i. if i < d then T i else int4store (\<lambda>j. T (d + j)) A (i - d))"

definition int8store :: "bytes \<Rightarrow> 64 word \<Rightarrow> bytes" where
  "int8store T A = (let def_temp = ucast A :: 32 word; def_temp2 = ucast (drop_bit 32 A) :: 32 word in
     int4store_at 4 (int4store_at 0 T (ucast def_temp)) (ucast def_temp2))"

text \<open>Network byte order.\<close>

definition int4net :: "bytes \<Rightarrow> 32 word" where
  "int4net A =
     ucast (A 3) OR push_bit 8 (ucast (A 2)) OR push_bit 16 (ucast (A 1)) OR push_bit 24 (ucast (A 0))"

section \<open>Machines with the high byte first\<close>

text \<open>
  Floating-point numbers are copied byte by byte between the variable, given by its bytes in
  memory, and the low-byte-first format; \<open>word_order\<close> is the layout in which only the two halves of
  a double are exchanged. The short and long macros read and store machine format; \<open>longget\<close> and
  \<open>ulongget\<close> copy the four bytes of the variable.
\<close>

definition be_float4store :: "bytes \<Rightarrow> bytes \<Rightarrow> bytes" where
  "be_float4store T A = T(0 := A 3, 1 := A 2, 2 := A 1, 3 := A 0)"

definition be_float4get :: "bytes \<Rightarrow> bytes \<Rightarrow> bytes" where
  "be_float4get V M = V(0 := M 3, 1 := M 2, 2 := M 1, 3 := M 0)"

definition be_float8store :: "bytes \<Rightarrow> bytes \<Rightarrow> bytes" where
  "be_float8store T V = T(0 := V 7, 1 := V 6, 2 := V 5, 3 := V 4, 4 := V 3, 5 := V 2, 6 := V 1, 7 := V 0)"

definition be_float8get :: "bytes \<Rightarrow> bytes \<Rightarrow> bytes" where
  "be_float8get V M = V(0 := M 7, 1 := M 6, 2 := M 5, 3 := M 4, 4 := M 3, 5 := M 2, 6 := M 1, 7 := M 0)"

definition word_order_doublestore :: "bytes \<Rightarrow> bytes \<Rightarrow> bytes" where
  "word_order_doublestore T V =
     T(0 := V 4, 1 := V 5, 2 := V 6, 3 := V 7, 4 := V 0, 5 := V 1, 6 := V 2, 7 := V 3)"

definition word_order_doubleget :: "bytes \<Rightarrow> bytes \<Rightarrow> bytes" where
  "word_order_doubleget V M =
     V(0 := M 4, 1 := M 5, 2 := M 6, 3 := M 7, 4 := M 0, 5 := M 1, 6 := M 2, 7 := M 3)"

definition be_ushortget :: "bytes \<Rightarrow> 16 word" where
  "be_ushortget M = ucast (M 1) + push_bit 8 (ucast (M 0))"

definition be_shortget :: "bytes \<Rightarrow> 16 word" where
  "be_shortget M = ucast (ucast (M 1) + push_bit 8 (ucast (M 0)) :: 32 word)"

definition be_longget :: "bytes \<Rightarrow> bytes \<Rightarrow> bytes" where
  "be_longget V M = V(0 := M 0, 1 := M 1, 2 := M 2, 3 := M 3)"

definition be_ulongget :: "bytes \<Rightarrow> bytes \<Rightarrow> bytes" where
  "be_ulongget V M = V(0 := M 0, 1 := M 1, 2 := M 2, 3 := M 3)"

definition be_shortstore :: "bytes \<Rightarrow> 64 word \<Rightarrow> bytes" where
  "be_shortstore T A = (let def_temp = ucast A :: 32 word in
     T(1 := ucast def_temp, 0 := ucast (drop_bit 8 def_temp)))"

definition be_longstore :: "bytes \<Rightarrow> 64 word \<Rightarrow> bytes" where
  "be_longstore T A =
     T(3 := ucast A, 2 := ucast (drop_bit 8 A), 1 := ucast (drop_bit 16 A), 0 := ucast (drop_bit 24 A))"

section \<open>Values\<close>

text \<open>The number that the first \<open>n\<close> bytes stand for.\<close>

fun le_value :: "nat \<Rightarrow> bytes \<Rightarrow> nat" where
  "le_value 0 A = 0"
| "le_value (Suc n) A = le_value n A + 256 ^ n * unat (A n)"

text \<open>A load and a store of a little-endian machine: \<open>n\<close> bytes at once.\<close>

definition le_load :: "nat \<Rightarrow> bytes \<Rightarrow> 'a::len word" where
  "le_load n A = of_nat (le_value n A)"

definition le_store :: "nat \<Rightarrow> bytes \<Rightarrow> nat \<Rightarrow> bytes" where
  "le_store n T v = (\<lambda>i. if i < n then of_nat (v div 256 ^ i) else T i)"

section \<open>The macros for 32-bit x86\<close>

text \<open>
  Where the macros cast the address, the machine loads or stores the whole number. \<open>long\<close> has 32
  bits there. \<open>uint3korr\<close> reads four bytes and masks the highest.
\<close>

definition x86_sint2korr :: "bytes \<Rightarrow> 16 word" where
  "x86_sint2korr A = le_load 2 A"

definition x86_sint4korr :: "bytes \<Rightarrow> 32 word" where
  "x86_sint4korr A = le_load 4 A"

definition x86_uint2korr :: "bytes \<Rightarrow> 16 word" where
  "x86_uint2korr A = le_load 2 A"

definition x86_uint3korr :: "bytes \<Rightarrow> 32 word" where
  "x86_uint3korr A = le_load 4 A AND 0xFFFFFF"

definition x86_uint4korr :: "bytes \<Rightarrow> 32 word" where
  "x86_uint4korr A = le_load 4 A"

definition x86_uint8korr :: "bytes \<Rightarrow> 64 word" where
  "x86_uint8korr A = le_load 8 A"

definition x86_sint8korr :: "bytes \<Rightarrow> 64 word" where
  "x86_sint8korr A = le_load 8 A"

definition x86_int2store :: "bytes \<Rightarrow> 64 word \<Rightarrow> bytes" where
  "x86_int2store T A = le_store 2 T (unat (ucast A :: 16 word))"

definition x86_int3store :: "bytes \<Rightarrow> 64 word \<Rightarrow> bytes" where
  "x86_int3store T A =
     T(0 := ucast A, 1 := ucast (drop_bit 8 (ucast A :: 32 word)), 2 := ucast (drop_bit 16 A))"

definition x86_int4store :: "bytes \<Rightarrow> 64 word \<Rightarrow> bytes" where
  "x86_int4store T A = le_store 4 T (unat (ucast A :: 32 word))"

definition x86_int8store :: "bytes \<Rightarrow> 64 word \<Rightarrow> bytes" where
  "x86_int8store T A = le_store 8 T (unat A)"

section \<open>Values of the macros\<close>

lemma le_value_less: "le_value n A < 256 ^ n"
proof (induction n)
  case (Suc n)
  have "256 ^ n * unat (A n) \<le> 256 ^ n * 255"
    using unsigned_less[of "A n", where 'a = nat] by (intro mult_le_mono2) simp
  with Suc show ?case
    unfolding le_value.simps power_Suc by linarith
qed simp

lemma le_value_store: "le_value n (le_store n T v) = v mod 256 ^ n"
proof -
  have "le_value m (le_store n T v) = v mod 256 ^ m" if "m \<le> n" for m
    using that
  proof (induction m)
    case (Suc m)
    then show ?case
      using mod_mult2_eq[of v "256 ^ m" 256] by (simp add: le_store_def unat_of_nat mult.commute)
  qed simp
  then show ?thesis by simp
qed

lemma le_value_numeral [simp]:
  "le_value (numeral k) A =
     le_value (pred_numeral k) A + 256 ^ pred_numeral k * unat (A (pred_numeral k))"
  by (simp add: numeral_eq_Suc)

lemma unat_le_load:
  assumes "n * 8 \<le> LENGTH('a::len)"
  shows "unat (le_load n A :: 'a word) = le_value n A"
proof -
  have "(256::nat) ^ n \<le> 2 ^ LENGTH('a)"
    using power_increasing[OF assms, of "2::nat"] power_mult[of "2::nat" 8 n]
    by (simp add: mult.commute[of n])
  then show ?thesis
    using le_value_less[of n A] by (simp add: le_load_def unat_of_nat)
qed

lemma push_byte:
  "push_bit n (ucast (x :: 8 word)) = (of_nat (2 ^ n * unat x) :: 'a::len word)"
  by (simp add: push_bit_eq_mult mult.commute)

lemma ucast_load [simp]:
  assumes "n * 8 \<le> LENGTH('a::len)"
  shows "ucast (le_load n A :: 'a word) = (le_load n A :: 'b::len word)"
proof -
  have "ucast (le_load n A :: 'a word) = (of_nat (unat (le_load n A :: 'a word)) :: 'b word)"
    by simp
  then show ?thesis
    unfolding unat_le_load[OF assms] by (simp add: le_load_def)
qed

lemma sum2: "ucast (A 0) + push_bit 8 (ucast (A 1)) = (le_load 2 A :: 'a::len word)"
  and sum3: "ucast (A 0) + push_bit 8 (ucast (A 1)) + push_bit 16 (ucast (A 2)) =
    (le_load 3 A :: 'a word)"
  and sum4: "ucast (A 0) + push_bit 8 (ucast (A 1)) + push_bit 16 (ucast (A 2)) +
    push_bit 24 (ucast (A 3)) = (le_load 4 A :: 'a word)"
  by (simp_all add: le_load_def push_byte)

text \<open>The upper half of \<open>uint8korr\<close> is the same sum, four bytes further on.\<close>

lemmas upper4 = sum4[of "\<lambda>i. A (4 + i)" for A, simplified add_0_right numeral_plus_one
    add_numeral_left semiring_norm]

lemma korr2: "uint2korr A = le_load 2 A" "sint2korr A = le_load 2 A"
  unfolding uint2korr_def sint2korr_def sum2 by simp_all

lemma korr3: "uint3korr A = le_load 3 A"
  unfolding uint3korr_def sum3 ..

lemma korr4: "uint4korr A = le_load 4 A" "sint4korr A = le_load 4 A"
  unfolding uint4korr_def sint4korr_def sum4 by simp_all

lemma korr5: "uint5korr A = le_load 5 A"
  unfolding uint5korr_def sum4 by (simp add: push_byte) (simp add: le_load_def)

lemma korr6: "uint6korr A = le_load 6 A"
  unfolding uint6korr_def sum4 by (simp add: push_byte) (simp add: le_load_def)

lemma korr8: "uint8korr A = le_load 8 A" "sint8korr A = le_load 8 A"
proof -
  show "uint8korr A = le_load 8 A"
    unfolding uint8korr_def sum4 upper4
    by (simp add: push_bit_eq_mult) (simp add: le_load_def algebra_simps)
  then show "sint8korr A = le_load 8 A" by (simp add: sint8korr_def)
qed

section \<open>Stores\<close>

lemma byte_of: "(ucast (drop_bit k A) :: 8 word) = of_nat (unat (A :: 'a::len word) div 2 ^ k)"
proof -
  have "(ucast (drop_bit k A) :: 8 word) = of_nat (unat (drop_bit k A))" by simp
  also have "\<dots> = of_nat (drop_bit k (unat A))" by (simp only: unat_drop_bit_eq)
  finally show ?thesis by (simp only: drop_bit_eq_div[of k "unat A"])
qed

lemma byte_0: "(ucast A :: 8 word) = of_nat (unat (A :: 'a::len word))"
  by simp

lemma byte_narrow:
  "i < n \<Longrightarrow> (of_nat (v mod 256 ^ n div 256 ^ i) :: 8 word) = of_nat (v div 256 ^ i)"
proof (rule bit_word_eqI)
  fix j assume "i < n" "j < LENGTH(8)"
  moreover have "(256::nat) ^ k = 2 ^ (8 * k)" for k
    by (simp add: power_mult)
  ultimately show "bit (of_nat (v mod 256 ^ n div 256 ^ i) :: 8 word) j =
      bit (of_nat (v div 256 ^ i) :: 8 word) j"
    by (simp add: bit_simps flip: take_bit_eq_mod drop_bit_eq_div)
qed

lemma le_store_mod: "le_store n T (v mod 256 ^ n) = le_store n T v"
  by (simp add: le_store_def byte_narrow fun_eq_iff)

lemma ucast_byte:
  "k + 8 \<le> LENGTH('b) \<Longrightarrow>
     (ucast (drop_bit k (ucast (A :: 64 word) :: 'b::len word)) :: 8 word) = ucast (drop_bit k A)"
  by (rule bit_word_eqI) (auto simp: bit_simps)

lemma le_store_simps [simp]:
  "le_store 0 T v = T"
  "le_store (Suc n) T v = (le_store n T v)(n := of_nat (v div 256 ^ n))"
  "le_store (numeral k) T v =
     (le_store (pred_numeral k) T v)(pred_numeral k := of_nat (v div 256 ^ pred_numeral k))"
  by (auto simp: le_store_def fun_eq_iff less_Suc_eq numeral_eq_Suc)

lemma narrow_byte:
  "(ucast (ucast (A :: 64 word) :: 32 word) :: 8 word) = ucast A"
  "(ucast (ucast (ucast A :: 32 word) :: 64 word) :: 8 word) = ucast A"
  "k \<le> 24 \<Longrightarrow>
     (ucast (drop_bit k (ucast (ucast A :: 32 word) :: 64 word)) :: 8 word) = ucast (drop_bit k A)"
  by (rule bit_word_eqI, auto simp: bit_simps)+

lemma int2store_alt: "int2store T A = T(0 := ucast A, 1 := ucast (drop_bit 8 A))"
  by (simp add: int2store_def Let_def narrow_byte ucast_byte)

lemma int8store_alt: "int8store T A =
    T(0 := ucast A, 1 := ucast (drop_bit 8 A), 2 := ucast (drop_bit 16 A), 3 := ucast (drop_bit 24 A),
      4 := ucast (drop_bit 32 A), 5 := ucast (drop_bit 40 A), 6 := ucast (drop_bit 48 A),
      7 := ucast (drop_bit 56 A))"
proof
  fix i :: nat
  consider "i = 0" | "i = 1" | "i = 2" | "i = 3" | "i = 4" | "i = 5" | "i = 6" | "i = 7"
    | j where "i = 8 + j"
    using le_Suc_ex[of 8 i] by fastforce
  then show "int8store T A i =
    (T(0 := ucast A, 1 := ucast (drop_bit 8 A), 2 := ucast (drop_bit 16 A), 3 := ucast (drop_bit 24 A),
      4 := ucast (drop_bit 32 A), 5 := ucast (drop_bit 40 A), 6 := ucast (drop_bit 48 A),
      7 := ucast (drop_bit 56 A))) i"
    by cases (simp_all add: int8store_def int4store_at_def int4store_def Let_def narrow_byte)
qed

lemma stores:
  "int2store T A = le_store 2 T (unat A)" "int3store T A = le_store 3 T (unat A)"
  "int4store T A = le_store 4 T (unat A)" "int5store T A = le_store 5 T (unat A)"
  "int6store T A = le_store 6 T (unat A)" "int8store T A = le_store 8 T (unat A)"
  by (simp_all add: int2store_alt int3store_def int4store_def int5store_def int6store_def
        int8store_alt byte_of)

lemma load_store:
  "n * 8 \<le> LENGTH('a::len) \<Longrightarrow> unat (le_load n (le_store n T v) :: 'a word) = v mod 256 ^ n"
  by (simp only: unat_le_load le_value_store)

section \<open>Signed values\<close>

lemma or_sum3:
  "push_bit 16 (ucast (c :: 8 word)) OR push_bit 8 (ucast (b :: 8 word)) OR ucast (a :: 8 word) =
     (ucast a + push_bit 8 (ucast b) + push_bit 16 (ucast c) :: 32 word)"
proof -
  have 1: "(ucast a :: 32 word) + push_bit 8 (ucast b) = ucast a OR push_bit 8 (ucast b)"
    by (rule disjunctive_add_eq_or) (auto simp: bit_eq_iff bit_simps dest: bit_imp_le_length)
  have "(ucast a OR push_bit 8 (ucast b)) + push_bit 16 (ucast c) =
      (ucast a OR push_bit 8 (ucast b)) OR (push_bit 16 (ucast c) :: 32 word)"
    by (rule disjunctive_add_eq_or) (auto simp: bit_eq_iff bit_simps dest: bit_imp_le_length)
  then show ?thesis
    by (simp only: 1 ac_simps)
qed

lemma or_sum4:
  "push_bit 24 (ucast (d :: 8 word)) OR push_bit 16 (ucast (c :: 8 word)) OR
     push_bit 8 (ucast (b :: 8 word)) OR ucast (a :: 8 word) =
   (ucast a + push_bit 8 (ucast b) + push_bit 16 (ucast c) + push_bit 24 (ucast d) :: 32 word)"
proof -
  have "(push_bit 16 (ucast c) OR push_bit 8 (ucast b) OR ucast a) + push_bit 24 (ucast d) =
      (push_bit 16 (ucast c) OR push_bit 8 (ucast b) OR ucast a) OR (push_bit 24 (ucast d) :: 32 word)"
    by (rule disjunctive_add_eq_or) (auto simp: bit_eq_iff bit_simps dest: bit_imp_le_length)
  then show ?thesis
    unfolding or_sum3 by (simp only: or.commute)
qed

lemma bit_top: "0 \<le> k \<Longrightarrow> k < 2 ^ Suc n \<Longrightarrow> bit k n \<longleftrightarrow> \<not> k < 2 ^ n" for k :: int
proof -
  assume k: "0 \<le> k" "k < 2 ^ Suc n"
  show ?thesis
  proof (cases "k < 2 ^ n")
    case True
    with k show ?thesis by (simp add: bit_iff_odd)
  next
    case False
    with k have "k div 2 ^ n = 1"
      by (intro int_div_pos_eq[of k _ 1 "k - 2 ^ n"]) auto
    with False show ?thesis by (simp add: bit_iff_odd)
  qed
qed

lemma sint_value:
  "sint (w :: 'a::len word) =
     (if unat w < 2 ^ (LENGTH('a) - 1) then int (unat w) else int (unat w) - 2 ^ LENGTH('a))"
proof -
  have n: "Suc (LENGTH('a) - 1) = LENGTH('a)" by simp
  have "sint w = uint w - 2 ^ LENGTH('a) * of_bool (bit (uint w) (LENGTH('a) - 1))"
    using signed_take_bit_eq_take_bit_minus[of "LENGTH('a) - 1" "uint w"]
    by (simp add: sint_uint take_bit_int_eq_self)
  moreover have "bit (uint w) (LENGTH('a) - 1) \<longleftrightarrow> \<not> uint w < 2 ^ (LENGTH('a) - 1)"
    using bit_top[of "uint w" "LENGTH('a) - 1"] unsigned_less[of w, where 'a = int] by simp
  moreover have "uint w < 2 ^ (LENGTH('a) - 1) \<longleftrightarrow> unat w < 2 ^ (LENGTH('a) - 1)"
    using of_nat_less_iff[of "unat w" "2 ^ (LENGTH('a) - 1)", where 'a = int] by simp
  ultimately show ?thesis
    by simp
qed

lemma sint_load:
  assumes "n * 8 \<le> LENGTH('a::len)"
  shows "sint (le_load n A :: 'a word) =
    (if le_value n A < 2 ^ (LENGTH('a) - 1) then int (le_value n A)
     else int (le_value n A) - 2 ^ LENGTH('a))"
  unfolding sint_value unat_le_load[OF assms] ..

text \<open>\<open>sint3korr\<close> extends the sign by hand.\<close>

lemma sint3korr_load:
  "sint3korr A = (if le_value 3 A < 2 ^ 23 then of_nat (le_value 3 A)
     else of_nat (le_value 3 A + 255 * 2 ^ 24))"
proof -
  have hi: "(ucast (255 :: 8 word) :: 32 word) = 255" by simp
  have "le_value 3 A < 2 ^ 23 \<longleftrightarrow> unat (A 2) < 128"
    using unsigned_less[of "A 0", where 'a = nat] unsigned_less[of "A 1", where 'a = nat]
    by simp linarith
  moreover have "A 2 AND 128 \<noteq> 0 \<longleftrightarrow> \<not> unat (A 2) < 128"
  proof -
    have "A 2 AND 128 \<noteq> 0 \<longleftrightarrow> bit (A 2) 7"
      using and_exp_eq_0_iff_not_bit[of "A 2" 7] by simp
    also have "\<dots> \<longleftrightarrow> bit (uint (A 2)) 7" by (simp add: bit_simps)
    also have "\<dots> \<longleftrightarrow> \<not> uint (A 2) < 128"
      using bit_top[of "uint (A 2)" 7] unsigned_less[of "A 2", where 'a = int] by simp
    also have "uint (A 2) < 128 \<longleftrightarrow> unat (A 2) < 128"
      using of_nat_less_iff[of "unat (A 2)" 128, where 'a = int] by simp
    finally show ?thesis .
  qed
  moreover have "push_bit 24 255 OR push_bit 16 (ucast (A 2)) OR push_bit 8 (ucast (A 1)) OR
      ucast (A 0) = (of_nat (le_value 3 A + 255 * 2 ^ 24) :: 32 word)"
    using or_sum4[of 255 "A 2" "A 1" "A 0"] unfolding hi sum3
    by (simp add: le_load_def push_bit_eq_mult)
  ultimately show ?thesis
    unfolding sint3korr_def or_sum3 sum3 by (simp add: le_load_def)
qed

section \<open>Properties\<close>


text \<open>
  The macros for 32-bit x86 agree with the portable ones on every memory and every value,
  although they use the loads and stores of the machine; \<open>uint3korr\<close> agrees although it reads a
  byte too many.
\<close>

theorem byte_order_x86_agrees:
  "x86_sint2korr A = sint2korr A \<and> x86_sint4korr A = sint4korr A \<and> x86_sint8korr A = sint8korr A \<and>
   x86_uint2korr A = uint2korr A \<and> x86_uint3korr A = uint3korr A \<and> x86_uint4korr A = uint4korr A \<and>
   x86_uint8korr A = uint8korr A \<and> x86_int2store T v = int2store T v \<and>
   x86_int3store T v = int3store T v \<and> x86_int4store T v = int4store T v \<and>
   x86_int8store T v = int8store T v"
proof -
  have "x86_uint3korr A = uint3korr A"
  proof -
    have "x86_uint3korr A = take_bit 24 (le_load 4 A)"
      by (simp add: x86_uint3korr_def take_bit_eq_mask mask_eq_exp_minus_1)
    moreover have "unat (take_bit 24 (le_load 4 A :: 32 word)) = unat (le_load 3 A :: 32 word)"
      using le_value_less[of 3 A] unat_le_load[of 4 A, where 'a = 32] unat_le_load[of 3 A, where 'a = 32]
      by (simp only: unsigned_take_bit_eq) (simp add: take_bit_eq_mod)
    ultimately show ?thesis
      unfolding korr3 by (simp only: unsigned_word_eqI)
  qed
  moreover have "x86_int2store T v = int2store T v" "x86_int4store T v = int4store T v"
    using le_store_mod[of 2 T "unat v"] le_store_mod[of 4 T "unat v"]
    unfolding x86_int2store_def x86_int4store_def stores
    by (simp_all add: unsigned_ucast_eq take_bit_eq_mod del: le_store_simps)
  moreover have "x86_int3store T v = int3store T v"
    by (simp add: x86_int3store_def int3store_def ucast_byte)
  ultimately show ?thesis
    by (simp add: x86_sint2korr_def x86_sint4korr_def x86_sint8korr_def x86_uint2korr_def
        x86_uint4korr_def x86_uint8korr_def x86_int8store_def korr2 korr4 korr8 stores
        del: le_store_simps)
qed

text \<open>
  The signed reads give the two's complement value of the bytes: the number they stand for, less
  two to the width when the highest bit is set. For three bytes the sign is extended by hand.
\<close>

theorem byte_order_signed:
  "sint (sint2korr A) = (if le_value 2 A < 2 ^ 15 then int (le_value 2 A) else int (le_value 2 A) - 2 ^ 16) \<and>
   sint (sint3korr A) = (if le_value 3 A < 2 ^ 23 then int (le_value 3 A) else int (le_value 3 A) - 2 ^ 24) \<and>
   sint (sint4korr A) = (if le_value 4 A < 2 ^ 31 then int (le_value 4 A) else int (le_value 4 A) - 2 ^ 32) \<and>
   sint (sint8korr A) = (if le_value 8 A < 2 ^ 63 then int (le_value 8 A) else int (le_value 8 A) - 2 ^ 64) \<and>
   int4net A = le_load 4 (\<lambda>i. A (3 - i))"
proof (intro conjI)
  show "sint (sint2korr A) = (if le_value 2 A < 2 ^ 15 then int (le_value 2 A) else int (le_value 2 A) - 2 ^ 16)"
    unfolding korr2 by (subst sint_load) simp_all
  show "sint (sint4korr A) = (if le_value 4 A < 2 ^ 31 then int (le_value 4 A) else int (le_value 4 A) - 2 ^ 32)"
    unfolding korr4 by (subst sint_load) simp_all
  show "sint (sint8korr A) = (if le_value 8 A < 2 ^ 63 then int (le_value 8 A) else int (le_value 8 A) - 2 ^ 64)"
    unfolding korr8 by (subst sint_load) simp_all
  show "sint (sint3korr A) = (if le_value 3 A < 2 ^ 23 then int (le_value 3 A) else int (le_value 3 A) - 2 ^ 24)"
    using le_value_less[of 3 A]
    by (simp add: sint3korr_load sint_value unat_of_nat del: le_value_numeral of_nat_add)
  show "int4net A = le_load 4 (\<lambda>i. A (3 - i))"
    using or_sum4[of "A 0" "A 1" "A 2" "A 3"] sum4[of "\<lambda>i. A (3 - i)", where 'a = 32]
    by (simp add: int4net_def ac_simps)
qed

text \<open>
  On machines with the high byte first, numbers survive the detour through memory, and the short
  and long formats are the portable ones read backwards.
\<close>

lemma high_byte_first:
  "be_float4get V (be_float4store T A) = V(0 := A 0, 1 := A 1, 2 := A 2, 3 := A 3)"
  "be_float8get V (be_float8store T A) =
     V(0 := A 0, 1 := A 1, 2 := A 2, 3 := A 3, 4 := A 4, 5 := A 5, 6 := A 6, 7 := A 7)"
  "word_order_doubleget V (word_order_doublestore T A) =
     V(0 := A 0, 1 := A 1, 2 := A 2, 3 := A 3, 4 := A 4, 5 := A 5, 6 := A 6, 7 := A 7)"
  "be_ushortget M = uint2korr (\<lambda>i. M (1 - i))" "be_shortget M = sint2korr (\<lambda>i. M (1 - i))"
  "be_ushortget (be_shortstore T v) = uint2korr (int2store T v)"
  "uint4korr (\<lambda>i. be_longget V (be_longstore T v) (3 - i)) = uint4korr (int4store T v)"
  by (simp_all add: be_float4get_def be_float4store_def be_float8get_def be_float8store_def
      word_order_doubleget_def word_order_doublestore_def be_ushortget_def be_shortget_def
      be_shortstore_def be_longget_def be_longstore_def uint2korr_def sint2korr_def int2store_def
      uint4korr_def int4store_def Let_def)

end
