(* ===== verification/MString.thy ===== *)
theory MString
  imports ByteOrder "HOL-Library.Monad_Syntax"
begin

text \<open>
  The inline functions of inc/mysql/m_string.h. \<open>skip_trailing_space\<close> finds the end of a string
  without its trailing spaces; a long string is read word by word where its addresses allow it.
  Memory is a partial map from addresses to bytes: a read outside the object is \<open>None\<close>, so that
  a result says that every read was inside. Shown: the function ends, reads nothing outside
  the string, and gives what the naive backward scan gives.
\<close>

type_synonym memory = "nat \<Rightarrow> 8 word option"

definition SIZEOF_INT :: nat where
  "SIZEOF_INT = 4"

definition SPACE_INT :: "32 word" where
  "SPACE_INT = 0x20202020"

definition space :: "8 word" where
  "space = 0x20"

text \<open>Reading an \<open>unsigned\<close> of four bytes, low byte first.\<close>

definition load_int :: "memory \<Rightarrow> nat \<Rightarrow> 32 word option" where
  "load_int m a = do {
     b0 \<leftarrow> m a; b1 \<leftarrow> m (a + 1); b2 \<leftarrow> m (a + 2); b3 \<leftarrow> m (a + 3);
     Some (le_load 4 (\<lambda>i. [b0, b1, b2, b3] ! i))
   }"

section \<open>The loops\<close>

text \<open>Down to \<open>lim\<close> while the byte before \<open>e\<close> is a space.\<close>

function byte_loop :: "memory \<Rightarrow> nat \<Rightarrow> nat \<Rightarrow> nat option" where
  "byte_loop m lim e =
     (if lim < e then do { c \<leftarrow> m (e - 1); if c = space then byte_loop m lim (e - 1) else Some e }
      else Some e)"
  by pat_completeness auto
termination by (relation "measure (\<lambda>(m, lim, e). e)") auto

function word_loop :: "memory \<Rightarrow> nat \<Rightarrow> nat \<Rightarrow> nat option" where
  "word_loop m lim e =
     (if lim < e then do {
        v \<leftarrow> load_int m (e - SIZEOF_INT);
        if v = SPACE_INT then word_loop m lim (e - SIZEOF_INT) else Some e
      } else Some e)"
  by pat_completeness auto
termination by (relation "measure (\<lambda>(m, lim, e). e)") (auto simp: SIZEOF_INT_def)

declare byte_loop.simps [simp del] word_loop.simps [simp del]

text \<open>
  \<open>debug\<close> says whether assertions are compiled in (inc/mysql/my_dbug.h); one that fails ends the program.
\<close>

definition skip_trailing_space :: "bool \<Rightarrow> memory \<Rightarrow> nat \<Rightarrow> nat \<Rightarrow> nat option" where
  "skip_trailing_space debug m ptr len = do {
     let e = ptr + len;
     e1 \<leftarrow> (if len > 20 then
             if debug \<and> \<not> ptr \<ge> SIZEOF_INT then None else
             let end_words = e div SIZEOF_INT * SIZEOF_INT;
                 start_words = (ptr + SIZEOF_INT - 1) div SIZEOF_INT * SIZEOF_INT
             in if end_words > ptr then do {
                  e0 \<leftarrow> byte_loop m end_words e;
                  c \<leftarrow> m (e0 - 1);
                  if c = space \<and> start_words < end_words then word_loop m start_words e0 else Some e0
                } else Some e
           else Some e);
     byte_loop m ptr e1
   }"

text \<open>\<open>lex_string_set\<close>: a string with its length, up to the terminator.\<close>

record lex_string =
  str :: string
  lex_length :: nat

definition lex_string_set :: "string \<Rightarrow> lex_string" where
  "lex_string_set c_str =
     \<lparr>str = c_str, lex_length = length (takeWhile (\<lambda>c. c \<noteq> CHR 0x00) c_str)\<rparr>"

section \<open>Words full of spaces\<close>

lemma low_digit: "a < 256 \<Longrightarrow> a + 256 * b = 32 + 256 * n \<Longrightarrow> a = 32 \<and> b = n" for a b n :: nat
proof -
  assume less: "a < 256" and eq: "a + 256 * b = 32 + 256 * n"
  then have "a = (32 + 256 * n) mod 256" by (metis mod_less mod_mult_self2)
  then have "a = 32" by simp
  with eq show ?thesis by simp
qed

lemma four_digits:
  assumes "a < 256" "b < 256" "c < 256"
  shows "a + 256 * b + 65536 * c + 16777216 * d = 0x20202020 \<longleftrightarrow> a = 32 \<and> b = 32 \<and> c = 32 \<and> d = (32::nat)"
proof
  assume "a + 256 * b + 65536 * c + 16777216 * d = 0x20202020"
  then have "a + 256 * (b + 256 * (c + 256 * d)) = 32 + 256 * (32 + 256 * (32 + 256 * 32))" by simp
  from low_digit[OF assms(1) this] have "a = 32" and b: "b + 256 * (c + 256 * d) = 32 + 256 * (32 + 256 * 32)" by auto
  moreover from low_digit[OF assms(2) b] have "b = 32" and c: "c + 256 * d = 32 + 256 * 32" by auto
  moreover from low_digit[OF assms(3) c] have "c = 32" "d = 32" by auto
  ultimately show "a = 32 \<and> b = 32 \<and> c = 32 \<and> d = 32" by blast
qed simp

lemma le_load_spaces:
  "le_load 4 A = SPACE_INT \<longleftrightarrow> A 0 = space \<and> A 1 = space \<and> A 2 = space \<and> A 3 = space"
proof -
  have "le_load 4 A = SPACE_INT \<longleftrightarrow> unat (le_load 4 A :: 32 word) = unat SPACE_INT"
    by (simp add: word_unat_eq_iff)
  also have "\<dots> \<longleftrightarrow> unat (A 0) + 256 * unat (A 1) + 65536 * unat (A 2) + 16777216 * unat (A 3) = 0x20202020"
    by (simp add: unat_le_load SPACE_INT_def)
  also have "\<dots> \<longleftrightarrow> unat (A 0) = 32 \<and> unat (A 1) = 32 \<and> unat (A 2) = 32 \<and> unat (A 3) = 32"
    using unsigned_less[of "A 0", where 'a = nat] unsigned_less[of "A 1", where 'a = nat]
      unsigned_less[of "A 2", where 'a = nat]
    by (intro four_digits) simp_all
  finally show ?thesis by (simp add: space_def word_unat_eq_iff)
qed

lemma all_less_4: "(\<forall>i < 4. P i) \<longleftrightarrow> P 0 \<and> P 1 \<and> P 2 \<and> P (3::nat)"
proof -
  have "{..<4} = {0, 1, 2, 3::nat}" by auto
  then show ?thesis by (metis insert_iff lessThan_iff empty_iff)
qed

lemma load_int_Some:
  "load_int m a = Some v \<Longrightarrow> v = SPACE_INT \<longleftrightarrow> (\<forall>i < 4. m (a + i) = Some space)"
  unfolding all_less_4 by (auto simp: load_int_def le_load_spaces bind_eq_Some_conv)

section \<open>What the loops skip\<close>

text \<open>The bytes from \<open>x\<close> up to \<open>y\<close> are spaces.\<close>

definition spaces :: "memory \<Rightarrow> nat \<Rightarrow> nat \<Rightarrow> bool" where
  "spaces m x y \<longleftrightarrow> (\<forall>a. x \<le> a \<and> a < y \<longrightarrow> m a = Some space)"

lemma spaces_refl [simp]: "spaces m x x"
  by (auto simp: spaces_def)

lemma spaces_trans: "spaces m x y \<Longrightarrow> spaces m y z \<Longrightarrow> spaces m x z"
  unfolding spaces_def by (meson not_less)

lemma spaces_last:
  assumes "m (e - 1) = Some space"
  shows "spaces m (e - 1) e"
  unfolding spaces_def
proof (intro allI impI)
  fix a assume "e - 1 \<le> a \<and> a < e"
  then have "a = e - 1" by linarith
  with assms show "m a = Some space" by simp
qed

text \<open>The bytes from \<open>x\<close> up to \<open>y\<close> can be read.\<close>

definition readable :: "memory \<Rightarrow> nat \<Rightarrow> nat \<Rightarrow> bool" where
  "readable m x y \<longleftrightarrow> (\<forall>a. x \<le> a \<and> a < y \<longrightarrow> (\<exists>b. m a = Some b))"

lemma readable_at: "readable m x y \<Longrightarrow> x \<le> a \<Longrightarrow> a < y \<Longrightarrow> \<exists>b. m a = Some b"
  by (simp add: readable_def)

lemma byte_loop_skip:
  assumes "readable m lim e" "lim \<le> e"
  shows "\<exists>e'. byte_loop m lim e = Some e' \<and> lim \<le> e' \<and> e' \<le> e \<and> spaces m e' e \<and>
    (lim < e' \<longrightarrow> m (e' - 1) \<noteq> Some space)"
  using assms
proof (induction m lim e rule: byte_loop.induct)
  case (1 m lim e)
  show ?case
  proof (cases "lim < e")
    case True
    then obtain c where c: "m (e - 1) = Some c"
      using readable_at[OF 1(2), of "e - 1"] by fastforce
    show ?thesis
    proof (cases "c = space")
      case sp: True
      have "readable m lim (e - 1)" using 1(2) by (auto simp: readable_def)
      moreover have "lim \<le> e - 1" using True by simp
      ultimately obtain e' where e': "byte_loop m lim (e - 1) = Some e'"
        "lim \<le> e'" "e' \<le> e - 1" "spaces m e' (e - 1)" "lim < e' \<longrightarrow> m (e' - 1) \<noteq> Some space"
        using 1(1)[OF True c sp] by blast
      moreover have "spaces m (e - 1) e" by (rule spaces_last) (use c sp in simp)
      ultimately show ?thesis
        using True c sp by (subst byte_loop.simps) (auto intro: spaces_trans)
    next
      case False
      with True c show ?thesis by (subst byte_loop.simps) auto
    qed
  next
    case False
    with 1(3) show ?thesis by (subst byte_loop.simps) simp
  qed
qed

lemma word_loop_skip:
  assumes "readable m lim e" "lim \<le> e" "4 dvd lim" "4 dvd e"
  shows "\<exists>e'. word_loop m lim e = Some e' \<and> lim \<le> e' \<and> e' \<le> e \<and> spaces m e' e"
  using assms
proof (induction m lim e rule: word_loop.induct)
  case (1 m lim e)
  show ?case
  proof (cases "lim < e")
    case True
    with 1(4,5) have far: "lim \<le> e - 4" "4 \<le> e" by (auto elim!: dvdE)
    have "\<exists>b. m (e - 4 + i) = Some b" if "i < 4" for i
      using readable_at[OF 1(2), of "e - 4 + i"] far that by simp
    from this[of 0] this[of 1] this[of 2] this[of 3] obtain v where v: "load_int m (e - 4) = Some v"
      by (auto simp: load_int_def)
    show ?thesis
    proof (cases "v = SPACE_INT")
      case sp: True
      have "readable m lim (e - 4)" using 1(2) by (auto simp: readable_def)
      with 1(1)[unfolded SIZEOF_INT_def, OF True v sp] far 1(4,5) obtain e' where e':
        "word_loop m lim (e - 4) = Some e'" "lim \<le> e'" "e' \<le> e - 4" "spaces m e' (e - 4)"
        by (auto simp: dvd_diff_nat)
      have "m (e - 4 + i) = Some space" if "i < 4" for i
        using load_int_Some[OF v] sp that by blast
      then have "spaces m (e - 4) e"
        unfolding spaces_def by (metis far(2) le_add_diff_inverse less_diff_conv2 add.commute le_add_diff_inverse2 nat_add_left_cancel_less)
      with e' show ?thesis
        using True v sp by (subst word_loop.simps) (auto simp: SIZEOF_INT_def intro: spaces_trans)
    next
      case False
      with True v show ?thesis by (subst word_loop.simps) (auto simp: SIZEOF_INT_def)
    qed
  next
    case False
    with 1(3) show ?thesis by (subst word_loop.simps) simp
  qed
qed

text \<open>Leaving out spaces at the end does not change what the backward scan finds.\<close>

lemma byte_loop_unique:
  assumes "byte_loop m lim e = Some x" "readable m lim e" "lim \<le> e"
    and "lim \<le> e'" "e' \<le> e" "spaces m e' e"
  shows "byte_loop m lim e' = Some x"
proof -
  have "readable m lim e'" using assms(2,5) by (auto simp: readable_def)
  from byte_loop_skip[OF this assms(4)] obtain y where y: "byte_loop m lim e' = Some y" "lim \<le> y" "y \<le> e'"
    "spaces m y e'" "lim < y \<longrightarrow> m (y - 1) \<noteq> Some space" by blast
  from byte_loop_skip[OF assms(2,3)] assms(1) have x: "lim \<le> x" "x \<le> e" "spaces m x e"
    "lim < x \<longrightarrow> m (x - 1) \<noteq> Some space" by auto
  have ye: "spaces m y e" using y(4) assms(6) by (rule spaces_trans)
  have "x = y"
  proof (rule linorder_cases)
    assume "x < y"
    then have "x \<le> y - 1 \<and> y - 1 < e" using y(3) assms(5) by linarith
    then have "m (y - 1) = Some space" using x(3) unfolding spaces_def by blast
    with \<open>x < y\<close> x(1) y(5) show ?thesis by simp
  next
    assume "y < x"
    then have "y \<le> x - 1 \<and> x - 1 < e" using x(2) by linarith
    then have "m (x - 1) = Some space" using ye unfolding spaces_def by blast
    with \<open>y < x\<close> y(2) x(4) show ?thesis by simp
  qed
  with y(1) show ?thesis by simp
qed

section \<open>Properties\<close>

text \<open>A string of bytes at an address, and nothing else.\<close>

definition string_at :: "nat \<Rightarrow> 8 word list \<Rightarrow> memory" where
  "string_at ptr bs a = (if ptr \<le> a \<and> a < ptr + length bs then Some (bs ! (a - ptr)) else None)"

lemma string_at_readable: "readable (string_at ptr bs) ptr (ptr + length bs)"
  by (simp add: readable_def string_at_def)

lemma byte_loop_string:
  "byte_loop (string_at ptr bs) ptr (ptr + length bs) =
     Some (ptr + length (dropWhile (\<lambda>b. b = space) (rev bs)))"
proof -
  have "byte_loop m ptr (ptr + length bs) = Some (ptr + length (dropWhile (\<lambda>b. b = space) (rev bs)))"
    if "\<And>i. i < length bs \<Longrightarrow> m (ptr + i) = Some (bs ! i)" for m
    using that
  proof (induction bs rule: rev_induct)
    case Nil
    then show ?case by (simp add: byte_loop.simps)
  next
    case (snoc b bs)
    have "m (ptr + length bs) = Some b" using snoc.prems[of "length bs"] by simp
    moreover have "byte_loop m ptr (ptr + length bs) = Some (ptr + length (dropWhile (\<lambda>b. b = space) (rev bs)))"
      using snoc.prems by (intro snoc.IH) (metis length_append_singleton less_SucI nth_append)
    ultimately show ?case by (subst byte_loop.simps) simp
  qed
  then show ?thesis by (simp add: string_at_def)
qed

text \<open>The part of a long string that is read by words: where it stops, only spaces follow.\<close>

definition skip_words :: "memory \<Rightarrow> nat \<Rightarrow> nat \<Rightarrow> nat option" where
  "skip_words m ptr e =
     (let end_words = e div SIZEOF_INT * SIZEOF_INT;
          start_words = (ptr + SIZEOF_INT - 1) div SIZEOF_INT * SIZEOF_INT
      in if end_words > ptr then do {
           e0 \<leftarrow> byte_loop m end_words e;
           c \<leftarrow> m (e0 - 1);
           if c = space \<and> start_words < end_words then word_loop m start_words e0 else Some e0
         } else Some e)"

lemma skip_words_spaces:
  assumes "readable m ptr e" "ptr \<le> e"
  shows "\<exists>e'. skip_words m ptr e = Some e' \<and> ptr \<le> e' \<and> e' \<le> e \<and> spaces m e' e"
proof -
  define ew sw where "ew = e div 4 * 4" and "sw = (ptr + 4 - 1) div 4 * 4"
  have sw: "ptr \<le> sw" "4 dvd sw" "4 dvd ew" "ew \<le> e" by (simp_all add: sw_def ew_def)
  show ?thesis
  proof (cases "ptr < ew")
    case False
    with assms(2) show ?thesis by (simp add: skip_words_def SIZEOF_INT_def ew_def)
  next
    case True
    have "readable m ew e" using assms(1) True by (auto simp: readable_def)
    from byte_loop_skip[OF this sw(4)] obtain e0 where e0: "byte_loop m ew e = Some e0" "ew \<le> e0" "e0 \<le> e"
      "spaces m e0 e" "ew < e0 \<longrightarrow> m (e0 - 1) \<noteq> Some space" by blast
    have "ptr \<le> e0 - 1" "e0 - 1 < e" using True e0(2,3) by linarith+
    then obtain c where c: "m (e0 - 1) = Some c" using readable_at[OF assms(1)] by blast
    have unfolded: "skip_words m ptr e = (if c = space \<and> sw < ew then word_loop m sw e0 else Some e0)"
      using True e0(1) c unfolding skip_words_def SIZEOF_INT_def Let_def ew_def[symmetric] sw_def[symmetric]
      by simp
    show ?thesis
    proof (cases "c = space \<and> sw < ew")
      case words: True
      then have "e0 = ew" using c e0(2,5) by auto
      moreover have "readable m sw ew" using assms(1) sw(1,4) by (auto simp: readable_def)
      ultimately obtain e' where "word_loop m sw e0 = Some e'" "sw \<le> e'" "e' \<le> e0" "spaces m e' e0"
        using word_loop_skip[of m sw ew] words sw(2,3) by auto
      with words True e0 c sw(1) show ?thesis
        unfolding unfolded by (auto intro: spaces_trans)
    next
      case False
      with True e0 c show ?thesis by (auto simp: unfolded)
    qed
  qed
qed

lemma skip_trailing_space_alt:
  "skip_trailing_space debug m ptr len =
     do { e \<leftarrow> (if len > 20 then if debug \<and> \<not> ptr \<ge> SIZEOF_INT then None else skip_words m ptr (ptr + len)
                else Some (ptr + len));
          byte_loop m ptr e }"
  by (simp add: skip_trailing_space_def skip_words_def Let_def)

text \<open>
  C32: the word-wise scan is the naive one. For every string at every address the function ends, reads
  no byte outside the string although it reads four at a time, and returns the address behind the
  last byte that is not a space (not that byte, as the comment on its result says), or the beginning of a
  string of spaces. The one exception is the assertion of builds for debugging, which fails for
  strings of more than 20 bytes at an address below 4.
\<close>

theorem skip_trailing_space_result:
  "skip_trailing_space debug (string_at ptr bs) ptr (length bs) =
     (if debug \<and> 20 < length bs \<and> ptr < SIZEOF_INT then None
      else Some (ptr + length (dropWhile (\<lambda>b. b = space) (rev bs))))"
proof (cases "length bs > 20")
  case False
  then show ?thesis by (simp add: skip_trailing_space_alt byte_loop_string)
next
  case True
  from skip_words_spaces[OF string_at_readable] obtain e' where
    "skip_words (string_at ptr bs) ptr (ptr + length bs) = Some e'" "ptr \<le> e'" "e' \<le> ptr + length bs"
    "spaces (string_at ptr bs) e' (ptr + length bs)" by (metis le_add1)
  moreover from this have "byte_loop (string_at ptr bs) ptr e' =
      Some (ptr + length (dropWhile (\<lambda>b. b = space) (rev bs)))"
    by (intro byte_loop_unique[OF byte_loop_string string_at_readable]) simp_all
  ultimately show ?thesis
    using True by (auto simp: skip_trailing_space_alt)
qed

end
