(* ===== verification/IoCache.thy ===== *)
theory IoCache
  imports Prelude "HOL-Library.Word" "HOL-Library.Monad_Syntax"
begin

text \<open>
  The macros on file caches (inc/mysql/my_sys.h, \<open>IO_CACHE\<close>): reading and writing a few bytes
  without a call when the buffer has them or has room, and calling the functions of the cache
  otherwise. Those functions, which are in the client library, are arguments of the macros.
  Shown: whatever the buffer holds, a sequence of reads gives the bytes of the file in order;
  \<open>my_b_tell\<close> is the offset of the next byte; writes that fit stay in the buffer.
\<close>

section \<open>The cache\<close>

text \<open>
  Addresses and offsets are numbers. \<open>current_is_write\<close> says where \<open>current_pos\<close> and
  \<open>current_end\<close> point: to the write pointers in a write cache, otherwise to the read pointers.
  The locks, the share and the callbacks are used by the client library only.
\<close>

record io_cache =
  pos_in_file :: nat
  end_of_file :: nat
  read_pos :: nat
  read_end :: nat
  buffer :: nat
  request_pos :: nat
  write_buffer :: nat
  append_read_pos :: nat
  write_pos :: nat
  write_end :: nat
  current_is_write :: bool
  disk_writes :: nat
  seek_not_done :: int
  cache_error :: int
  buffer_length :: nat
  read_length :: nat

type_synonym store = "nat \<Rightarrow> 8 word"

text \<open>A function of the cache that reads: its result, the bytes it delivers, the cache and the memory.\<close>

type_synonym reader = "io_cache \<Rightarrow> store \<Rightarrow> nat \<Rightarrow> int \<times> 8 word list \<times> io_cache \<times> store"

type_synonym writer = "io_cache \<Rightarrow> store \<Rightarrow> 8 word list \<Rightarrow> int \<times> io_cache \<times> store"

text \<open>\<open>memcpy\<close> out of the memory and into it.\<close>

definition load_bytes :: "store \<Rightarrow> nat \<Rightarrow> nat \<Rightarrow> 8 word list" where
  "load_bytes m a n = map (\<lambda>i. m (a + i)) [0..<n]"

definition store_bytes :: "store \<Rightarrow> nat \<Rightarrow> 8 word list \<Rightarrow> store" where
  "store_bytes m a bs = (\<lambda>x. if a \<le> x \<and> x < a + length bs then bs ! (x - a) else m x)"

section \<open>The macros\<close>

definition my_b_clear :: "io_cache \<Rightarrow> io_cache" where
  "my_b_clear info = info\<lparr>buffer := 0\<rparr>"

definition my_b_inited :: "io_cache \<Rightarrow> bool" where
  "my_b_inited info \<longleftrightarrow> buffer info \<noteq> 0"

definition my_b_EOF :: int where
  "my_b_EOF = - (2 ^ 31)"

definition my_b_read :: "reader \<Rightarrow> reader" where
  "my_b_read read_function info m Count =
     (if read_pos info + Count \<le> read_end info
      then (0, load_bytes m (read_pos info) Count, info\<lparr>read_pos := read_pos info + Count\<rparr>, m)
      else read_function info m Count)"

definition my_b_write :: "writer \<Rightarrow> writer" where
  "my_b_write write_function info m Buffer =
     (if write_pos info + length Buffer \<le> write_end info
      then (0, info\<lparr>write_pos := write_pos info + length Buffer\<rparr>, store_bytes m (write_pos info) Buffer)
      else write_function info m Buffer)"

text \<open>\<open>get\<close> is \<open>_my_b_get\<close>, which answers a byte or \<open>my_b_EOF\<close>.\<close>

definition my_b_get ::
  "(io_cache \<Rightarrow> store \<Rightarrow> int \<times> io_cache \<times> store) \<Rightarrow> io_cache \<Rightarrow> store \<Rightarrow> int \<times> io_cache \<times> store" where
  "my_b_get get info m =
     (if read_pos info \<noteq> read_end info
      then (uint (m (read_pos info)), info\<lparr>read_pos := read_pos info + 1\<rparr>, m)
      else get info m)"

text \<open>The result of the call that makes room is not looked at.\<close>

definition my_b_write_byte :: "writer \<Rightarrow> io_cache \<Rightarrow> store \<Rightarrow> 8 word \<Rightarrow> io_cache \<times> store" where
  "my_b_write_byte flush info m chr =
     (let (info1, m1) = (if write_pos info < write_end info then (info, m) else snd (flush info m []))
      in (info1\<lparr>write_pos := write_pos info1 + 1\<rparr>, m1(write_pos info1 := chr)))"

definition my_b_fill_cache :: "reader \<Rightarrow> io_cache \<Rightarrow> store \<Rightarrow> int \<times> 8 word list \<times> io_cache \<times> store" where
  "my_b_fill_cache read_function info m = read_function (info\<lparr>read_end := read_pos info\<rparr>) m 0"

definition current_pos :: "io_cache \<Rightarrow> nat" where
  "current_pos info = (if current_is_write info then write_pos info else read_pos info)"

definition current_end :: "io_cache \<Rightarrow> nat" where
  "current_end info = (if current_is_write info then write_end info else read_end info)"

definition my_b_tell :: "io_cache \<Rightarrow> nat" where
  "my_b_tell info = pos_in_file info + (current_pos info - request_pos info)"

definition my_b_get_buffer_start :: "io_cache \<Rightarrow> nat" where
  "my_b_get_buffer_start info = request_pos info"

definition my_b_get_bytes_in_buffer :: "io_cache \<Rightarrow> int" where
  "my_b_get_bytes_in_buffer info = int (read_end info) - int (my_b_get_buffer_start info)"

definition my_b_get_pos_in_file :: "io_cache \<Rightarrow> nat" where
  "my_b_get_pos_in_file info = pos_in_file info"

definition my_b_bytes_in_cache :: "io_cache \<Rightarrow> nat" where
  "my_b_bytes_in_cache info = current_end info - current_pos info"

section \<open>A read cache of a file\<close>

text \<open>
  The buffer holds the bytes of the file \<open>f\<close> from \<open>pos_in_file\<close> on, up to \<open>read_end\<close>; the next
  byte to read is one of them or the one behind.
\<close>

definition caches :: "8 word list \<Rightarrow> io_cache \<Rightarrow> store \<Rightarrow> bool" where
  "caches f info m \<longleftrightarrow>
     \<not> current_is_write info \<and> request_pos info = buffer info \<and>
     buffer info \<le> read_pos info \<and> read_pos info \<le> read_end info \<and>
     pos_in_file info + (read_end info - buffer info) \<le> length f \<and>
     (\<forall>i < read_end info - buffer info. m (buffer info + i) = f ! (pos_in_file info + i))"

text \<open>
  What the comment on \<open>read_function\<close> promises: called when the buffer has not all the bytes, it
  fetches them, and the cache stands behind them.
\<close>

definition fetches :: "8 word list \<Rightarrow> reader \<Rightarrow> bool" where
  "fetches f rf \<longleftrightarrow>
     (\<forall>info m n. caches f info m \<and> read_end info < read_pos info + n \<and> my_b_tell info + n \<le> length f \<longrightarrow>
        (\<exists>info' m'. rf info m n = (0, take n (drop (my_b_tell info) f), info', m') \<and>
           caches f info' m' \<and> my_b_tell info' = my_b_tell info + n))"

fun reads :: "reader \<Rightarrow> io_cache \<Rightarrow> store \<Rightarrow> nat list \<Rightarrow> (8 word list \<times> io_cache \<times> store) option" where
  "reads rf info m [] = Some ([], info, m)"
| "reads rf info m (n # ns) =
     (case my_b_read rf info m n of
        (r, bs, info1, m1) \<Rightarrow>
          if r \<noteq> 0 then None else do { (cs, s) \<leftarrow> reads rf info1 m1 ns; Some (bs @ cs, s) })"

lemma load_cached:
  assumes "caches f info m" "read_pos info + n \<le> read_end info"
  shows "load_bytes m (read_pos info) n = take n (drop (my_b_tell info) f)"
proof (rule nth_equalityI)
  show "length (load_bytes m (read_pos info) n) = length (take n (drop (my_b_tell info) f))"
    using assms by (auto simp: load_bytes_def caches_def my_b_tell_def current_pos_def min_def)
next
  fix i assume "i < length (load_bytes m (read_pos info) n)"
  then have i: "i < n" by (simp add: load_bytes_def)
  let ?d = "read_pos info - buffer info"
  have tell: "my_b_tell info = pos_in_file info + ?d"
    using assms(1) by (simp add: caches_def my_b_tell_def current_pos_def)
  have inside: "?d + i < read_end info - buffer info" and d: "buffer info + (?d + i) = read_pos info + i"
    and whole: "pos_in_file info + (?d + i) < length f"
    using assms i by (auto simp: caches_def)
  have "m (buffer info + (?d + i)) = f ! (pos_in_file info + (?d + i))"
    using assms(1) inside unfolding caches_def by blast
  then have "m (read_pos info + i) = f ! (pos_in_file info + ?d + i)"
    unfolding d by (simp only: add.assoc)
  moreover have "take n (drop (pos_in_file info + ?d) f) ! i = f ! (pos_in_file info + ?d + i)"
    using i whole by simp
  ultimately show "load_bytes m (read_pos info) n ! i = take n (drop (my_b_tell info) f) ! i"
    unfolding tell using i by (simp add: load_bytes_def)
qed

lemma my_b_read_cached:
  assumes "caches f info m" "fetches f rf" "my_b_tell info + n \<le> length f"
  shows "\<exists>info' m'. my_b_read rf info m n = (0, take n (drop (my_b_tell info) f), info', m') \<and>
    caches f info' m' \<and> my_b_tell info' = my_b_tell info + n"
proof (cases "read_pos info + n \<le> read_end info")
  case True
  with assms(1) load_cached[OF assms(1) True] show ?thesis
    by (auto simp: my_b_read_def caches_def my_b_tell_def current_pos_def)
next
  case False
  with assms show ?thesis by (simp add: my_b_read_def fetches_def)
qed

section \<open>Properties\<close>

text \<open>
  C33: reading through the cache is reading the file. Whatever part of the file the buffer holds and
  however the bytes asked for are split over calls, the calls succeed and deliver the bytes of the file
  in order from the offset \<open>my_b_tell\<close> gives, which moves by as many; the function of the cache is
  only relied on when the buffer has not enough.
\<close>

theorem my_b_reads_file:
  assumes "caches f info m" "fetches f rf" "my_b_tell info + sum_list ns \<le> length f"
  shows "\<exists>info' m'. reads rf info m ns = Some (take (sum_list ns) (drop (my_b_tell info) f), info', m') \<and>
    caches f info' m' \<and> my_b_tell info' = my_b_tell info + sum_list ns"
  using assms
proof (induction ns arbitrary: info m)
  case (Cons n ns)
  from Cons.prems obtain info1 m1 where one:
    "my_b_read rf info m n = (0, take n (drop (my_b_tell info) f), info1, m1)"
    "caches f info1 m1" "my_b_tell info1 = my_b_tell info + n"
    using my_b_read_cached[of f info m rf n] by auto
  moreover from Cons.IH[OF one(2) Cons.prems(2)] Cons.prems(3) one(3) obtain info' m' where
    "reads rf info1 m1 ns = Some (take (sum_list ns) (drop (my_b_tell info1) f), info', m')"
    "caches f info' m'" "my_b_tell info' = my_b_tell info1 + sum_list ns" by auto
  ultimately show ?case by (simp add: take_add add.commute)
qed simp

text \<open>A function that reads past the buffer and leaves it empty.\<close>

definition direct_read :: "8 word list \<Rightarrow> reader" where
  "direct_read f info m n = (0, take n (drop (my_b_tell info) f),
     info\<lparr>pos_in_file := my_b_tell info + n, read_pos := buffer info, read_end := buffer info\<rparr>, m)"

lemma direct_read_fetches: "fetches f (direct_read f)"
  by (auto simp: fetches_def direct_read_def caches_def my_b_tell_def current_pos_def)

definition sample_cache :: io_cache where
  "sample_cache =
     \<lparr>pos_in_file = 1, end_of_file = 5, read_pos = 100, read_end = 103, buffer = 100, request_pos = 100,
      write_buffer = 0, append_read_pos = 0, write_pos = 0, write_end = 0, current_is_write = False,
      disk_writes = 0, seek_not_done = 0, cache_error = 0, buffer_length = 8, read_length = 8\<rparr>"

theorem my_b_reads_file_witness:
  "\<exists>s. reads (direct_read [1, 2, 3, 4, 5]) sample_cache (store_bytes (\<lambda>_. 0) 100 [2, 3, 4]) [2, 2] =
     Some ([2, 3, 4, 5], s)"
proof -
  have "caches [1, 2, 3, 4, 5] sample_cache (store_bytes (\<lambda>_. 0) 100 [2, 3, 4])"
    by (simp add: caches_def sample_cache_def store_bytes_def less_Suc_eq numeral_3_eq_3 all_conj_distrib)
  from my_b_reads_file[OF this direct_read_fetches, of "[2, 2]"] show ?thesis
    by (auto simp: sample_cache_def my_b_tell_def current_pos_def)
qed

text \<open>Writes that fit go to the buffer one behind the other and call nothing.\<close>

lemma store_bytes_append:
  "store_bytes (store_bytes m a xs) (a + length xs) ys = store_bytes m a (xs @ ys)"
  by (auto simp: store_bytes_def fun_eq_iff nth_append)

lemma my_b_write_twice:
  assumes "write_pos info + length xs + length ys \<le> write_end info"
  shows "(case my_b_write wr info m xs of (r, info1, m1) \<Rightarrow> my_b_write wr info1 m1 ys) = my_b_write wr info m (xs @ ys)"
  using assms by (simp add: my_b_write_def store_bytes_append)

text \<open>A byte is a write of length one, as long as there is room.\<close>

lemma my_b_write_byte_room:
  assumes "write_pos info < write_end info"
  shows "my_b_write_byte flush info m chr = snd (my_b_write wr info m [chr])"
  using assms by (auto simp: my_b_write_byte_def my_b_write_def store_bytes_def fun_eq_iff)

text \<open>
  Without room the byte is written behind the buffer when the call that should make room fails and
  leaves the cache as it was.
\<close>

lemma my_b_write_byte_unchecked:
  assumes "write_pos info = write_end info" "flush info m [] = (-1, info, m)"
  shows "my_b_write_byte flush info m chr =
    (info\<lparr>write_pos := write_end info + 1\<rparr>, m(write_end info := chr))"
  using assms by (simp add: my_b_write_byte_def)

end
