(* ===== verification/MTime.thy ===== *)
theory MTime
  imports Util
begin

text \<open>
  Points in time for waits with a limit (inc/mysql/my_pthread.h): the macros \<open>set_timespec\<close>,
  \<open>set_timespec_nsec\<close> and \<open>cmp_timespec\<close>, for POSIX threads, for the older structure with
  \<open>ts_sec\<close>, and for Windows. \<open>my_getsystime\<close>, which counts in units of 100 ns, and the
  clocks of the systems are arguments. Shown: the limit is exact to the nanosecond, its fields are
  in range, and the comparison is the order of the times.
\<close>

section \<open>POSIX\<close>

definition set_timespec_nsec :: "64 word \<Rightarrow> 64 word \<Rightarrow> timespec" where
  "set_timespec_nsec systime NSEC =
     (let now = systime + NSEC div 100
      in \<lparr>tv_sec = now div 10000000, tv_nsec = now mod 10000000 * 100 + NSEC mod 100\<rparr>)"

definition set_timespec :: "64 word \<Rightarrow> 64 word \<Rightarrow> timespec" where
  "set_timespec systime SEC = set_timespec_nsec systime (SEC * 1000000000)"

definition cmp_timespec :: "timespec \<Rightarrow> timespec \<Rightarrow> int" where
  "cmp_timespec TS1 TS2 =
     (if sint (tv_sec TS1) > sint (tv_sec TS2) \<or>
         (tv_sec TS1 = tv_sec TS2 \<and> sint (tv_nsec TS1) > sint (tv_nsec TS2)) then 1
      else if sint (tv_sec TS1) < sint (tv_sec TS2) \<or>
         (tv_sec TS1 = tv_sec TS2 \<and> sint (tv_nsec TS1) < sint (tv_nsec TS2)) then -1 else 0)"

section \<open>The older structure\<close>

record timespec_ts =
  ts_sec :: "64 word"
  ts_nsec :: "64 word"

text \<open>This variant counts from the full second \<open>time(0)\<close>.\<close>

definition set_timespec_ts :: "64 word \<Rightarrow> 64 word \<Rightarrow> timespec_ts" where
  "set_timespec_ts time0 SEC = \<lparr>ts_sec = time0 + SEC, ts_nsec = 0\<rparr>"

definition set_timespec_nsec_ts :: "64 word \<Rightarrow> 64 word \<Rightarrow> timespec_ts" where
  "set_timespec_nsec_ts systime NSEC =
     (let now = systime + NSEC div 100
      in \<lparr>ts_sec = now div 10000000, ts_nsec = now mod 10000000 * 100 + NSEC mod 100\<rparr>)"

definition cmp_timespec_ts :: "timespec_ts \<Rightarrow> timespec_ts \<Rightarrow> int" where
  "cmp_timespec_ts TS1 TS2 =
     (if sint (ts_sec TS1) > sint (ts_sec TS2) \<or>
         (ts_sec TS1 = ts_sec TS2 \<and> sint (ts_nsec TS1) > sint (ts_nsec TS2)) then 1
      else if sint (ts_sec TS1) < sint (ts_sec TS2) \<or>
         (ts_sec TS1 = ts_sec TS2 \<and> sint (ts_nsec TS1) < sint (ts_nsec TS2)) then -1 else 0)"

section \<open>Windows\<close>

text \<open>The time in units of 100 ns, and the longest wait in milliseconds, a \<open>long\<close> of 32 bits.\<close>

record timespec_win =
  i64 :: "64 word"
  max_timeout_msec :: "32 word"

definition set_timespec_win :: "64 word \<Rightarrow> 64 word \<Rightarrow> timespec_win" where
  "set_timespec_win filetime SEC =
     \<lparr>i64 = filetime + SEC * 10000000, max_timeout_msec = ucast (SEC * 1000)\<rparr>"

definition set_timespec_nsec_win :: "64 word \<Rightarrow> 64 word \<Rightarrow> timespec_win" where
  "set_timespec_nsec_win filetime NSEC =
     \<lparr>i64 = filetime + NSEC div 100, max_timeout_msec = ucast (NSEC div 1000000)\<rparr>"

definition cmp_timespec_win :: "timespec_win \<Rightarrow> timespec_win \<Rightarrow> int" where
  "cmp_timespec_win TS1 TS2 =
     (if sint (i64 TS1) > sint (i64 TS2) then 1 else if sint (i64 TS1) < sint (i64 TS2) then -1 else 0)"

section \<open>The time a structure stands for\<close>

definition nanoseconds :: "timespec \<Rightarrow> nat" where
  "nanoseconds t = unat (tv_sec t) * 10 ^ 9 + unat (tv_nsec t)"

lemma set_timespec_nsec_fields:
  assumes "unat systime + unat NSEC div 100 < 2 ^ 64"
  defines "now \<equiv> unat systime + unat NSEC div 100"
  shows "unat (tv_sec (set_timespec_nsec systime NSEC)) = now div 10000000"
    and "unat (tv_nsec (set_timespec_nsec systime NSEC)) = now mod 10000000 * 100 + unat NSEC mod 100"
proof -
  have now: "unat (systime + NSEC div 100) = now"
    using assms by (simp add: unat_word_ariths unat_div_distrib)
  then show "unat (tv_sec (set_timespec_nsec systime NSEC)) = now div 10000000"
    by (simp add: set_timespec_nsec_def Let_def unat_div_distrib)
  have m: "now mod 10000000 < 10000000" "unat NSEC mod 100 < 100" by simp_all
  have "unat ((systime + NSEC div 100) mod 10000000) = now mod 10000000" "unat (NSEC mod 100) = unat NSEC mod 100"
    by (simp_all add: unat_mod_distrib now)
  with m show "unat (tv_nsec (set_timespec_nsec systime NSEC)) = now mod 10000000 * 100 + unat NSEC mod 100"
    by (simp add: set_timespec_nsec_def Let_def unat_word_ariths)
qed

text \<open>Proper times: no negative seconds, a nanosecond part below one second.\<close>

definition proper :: "timespec \<Rightarrow> bool" where
  "proper t \<longleftrightarrow> unat (tv_sec t) < 2 ^ 63 \<and> unat (tv_nsec t) < 10 ^ 9"

lemma sint_small:
  assumes "unat (x :: 64 word) < 2 ^ 63"
  shows "sint x = int (unat x)"
proof -
  have "int (unat x) < int (2 ^ 63)" using assms unfolding of_nat_less_iff .
  then have "int (unat x) < 2 ^ 63" by simp
  moreover have "- (2 ^ 63) \<le> int (unat x)" by (rule order_trans[of _ 0]) simp_all
  ultimately have "signed_take_bit 63 (int (unat x)) = int (unat x)" by (rule signed_take_bit_int_eq_self[rotated])
  then show ?thesis by (simp add: sint_uint)
qed

lemma lex_less: "s1 < s2 \<Longrightarrow> n1 < k \<Longrightarrow> s1 * k + n1 < s2 * k + n2" for s1 s2 n1 n2 k :: nat
proof -
  assume "s1 < s2" "n1 < k"
  moreover from this have "Suc s1 * k \<le> s2 * k" by (intro mult_le_mono1) simp
  ultimately show ?thesis by simp
qed

lemma lex_sgn:
  fixes s1 s2 n1 n2 k :: nat
  assumes "n1 < k" "n2 < k"
  shows "sgn (int (s1 * k + n1) - int (s2 * k + n2)) =
    (if s1 > s2 \<or> s1 = s2 \<and> n1 > n2 then 1 else if s1 < s2 \<or> s1 = s2 \<and> n1 < n2 then -1 else 0)"
proof (cases s1 s2 rule: linorder_cases)
  case less
  then have "int (s1 * k + n1) < int (s2 * k + n2)" using lex_less[OF less assms(1), of n2] by linarith
  with less show ?thesis by simp
next
  case greater
  then have "int (s1 * k + n1) > int (s2 * k + n2)" using lex_less[OF greater assms(2), of n1] by linarith
  with greater show ?thesis by simp
qed simp

lemma cmp_timespec_order:
  assumes "proper a" "proper b"
  shows "cmp_timespec a b = sgn (int (nanoseconds a) - int (nanoseconds b))"
proof -
  have s: "sint (tv_sec a) = int (unat (tv_sec a))" "sint (tv_sec b) = int (unat (tv_sec b))"
    "sint (tv_nsec a) = int (unat (tv_nsec a))" "sint (tv_nsec b) = int (unat (tv_nsec b))"
    using assms by (auto simp: proper_def simp del: of_nat_unat intro!: sint_small)
  have n: "unat (tv_nsec a) < 10 ^ 9" "unat (tv_nsec b) < 10 ^ 9"
    using assms by (simp_all add: proper_def)
  have eq: "tv_sec a = tv_sec b \<longleftrightarrow> unat (tv_sec a) = unat (tv_sec b)"
    by (simp add: word_unat_eq_iff)
  show ?thesis
    unfolding cmp_timespec_def s eq nanoseconds_def lex_sgn[OF n] by (simp only: of_nat_less_iff)
qed

section \<open>Properties\<close>

text \<open>
  The limit of a wait is exact. As long as the clock and the wait together do not exceed 64 bits of
  100 ns, the structure holds the clock's time plus the wait to the nanosecond, its nanoseconds are
  below one second, and comparing two limits of the same clock reading compares the waits.
\<close>

theorem set_timespec_nsec_exact:
  assumes "unat systime + unat x div 100 < 2 ^ 64" "unat systime + unat y div 100 < 2 ^ 64"
  shows "nanoseconds (set_timespec_nsec systime x) = unat systime * 100 + unat x \<and>
    unat (tv_nsec (set_timespec_nsec systime x)) < 10 ^ 9 \<and>
    cmp_timespec (set_timespec_nsec systime x) (set_timespec_nsec systime y) = sgn (int (unat x) - int (unat y))"
proof -
  have exact: "nanoseconds (set_timespec_nsec systime z) = unat systime * 100 + unat z"
    and ok: "proper (set_timespec_nsec systime z)" if z: "unat systime + unat z div 100 < 2 ^ 64" for z
  proof -
    let ?now = "unat systime + unat z div 100"
    have ten9: "10 ^ 9 = (1000000000::nat)" by simp
    have now: "?now div 10000000 * 10000000 + ?now mod 10000000 = ?now" by (rule div_mult_mod_eq)
    have z100: "unat z div 100 * 100 + unat z mod 100 = unat z" by (rule div_mult_mod_eq)
    show "nanoseconds (set_timespec_nsec systime z) = unat systime * 100 + unat z"
      unfolding nanoseconds_def set_timespec_nsec_fields[OF z] ten9 using now z100 by linarith
    have "?now mod 10000000 < 10000000" "unat z mod 100 < 100" by simp_all
    moreover have "?now div 10000000 < 2 ^ 63" using z by (simp add: less_mult_imp_div_less)
    ultimately show "proper (set_timespec_nsec systime z)"
      unfolding proper_def set_timespec_nsec_fields[OF z] ten9 by linarith
  qed
  show ?thesis
    using exact[OF assms(1)] exact[OF assms(2)] ok[OF assms(1)] cmp_timespec_order[OF ok[OF assms(1)] ok[OF assms(2)]]
    by (simp add: proper_def)
qed

theorem set_timespec_nsec_exact_witness:
  "nanoseconds (set_timespec_nsec 12345678901 1999999999) = 1236567890099 \<and>
    cmp_timespec (set_timespec_nsec 12345678901 1999999999) (set_timespec_nsec 12345678901 7) = 1"
  using set_timespec_nsec_exact[of 12345678901 1999999999 7] by simp

end
