(* ===== verification/Protocol.thy ===== *)
theory Protocol
  imports Prelude "HOL-Library.Word"
begin

text \<open>
  Numbers of the MySQL protocol (inc/mysql/mysql_com.h, inc/mysql/mysql.h, inc/mysql/sql_common.h)
  and of the client's errors (inc/mysql/errmsg.h): the flags of fields, of the server's state and
  of the capabilities of a client, the types of fields, the macros that test them, and the macro
  \<open>ER\<close> that looks an error message up. Tables of constants are lists of names and values.
\<close>

unbundle bit_operations_syntax

definition flag :: "(string \<times> 32 word) list \<Rightarrow> string \<Rightarrow> 32 word" where
  "flag fs n = (case map_of fs n of None \<Rightarrow> 0 | Some v \<Rightarrow> v)"

text \<open>Several flags in one word.\<close>

definition flags_of :: "(string \<times> 32 word) list \<Rightarrow> string list \<Rightarrow> 32 word" where
  "flags_of fs ns = foldr (\<lambda>n w. flag fs n OR w) ns 0"

section \<open>Fields\<close>

definition field_flags :: "(string \<times> 32 word) list" where
  "field_flags =
     [(''NOT_NULL_FLAG'', 1), (''PRI_KEY_FLAG'', 2), (''UNIQUE_KEY_FLAG'', 4),
      (''MULTIPLE_KEY_FLAG'', 8), (''BLOB_FLAG'', 16), (''UNSIGNED_FLAG'', 32),
      (''ZEROFILL_FLAG'', 64), (''BINARY_FLAG'', 128), (''ENUM_FLAG'', 256),
      (''AUTO_INCREMENT_FLAG'', 512), (''TIMESTAMP_FLAG'', 1024), (''SET_FLAG'', 2048),
      (''NO_DEFAULT_VALUE_FLAG'', 4096), (''ON_UPDATE_NOW_FLAG'', 8192), (''NUM_FLAG'', 32768),
      (''PART_KEY_FLAG'', 16384), (''GROUP_FLAG'', 32768), (''UNIQUE_FLAG'', 65536),
      (''BINCMP_FLAG'', 131072), (''GET_FIXED_FIELDS_FLAG'', push_bit 18 1), (''FIELD_IN_PART_FUNC_FLAG'', push_bit 19 1),
      (''FIELD_IN_ADD_INDEX'', push_bit 20 1), (''FIELD_IS_RENAMED'', push_bit 21 1)]"

datatype enum_field_types =
    MYSQL_TYPE_DECIMAL | MYSQL_TYPE_TINY | MYSQL_TYPE_SHORT | MYSQL_TYPE_LONG
  | MYSQL_TYPE_FLOAT | MYSQL_TYPE_DOUBLE | MYSQL_TYPE_NULL | MYSQL_TYPE_TIMESTAMP
  | MYSQL_TYPE_LONGLONG | MYSQL_TYPE_INT24 | MYSQL_TYPE_DATE | MYSQL_TYPE_TIME
  | MYSQL_TYPE_DATETIME | MYSQL_TYPE_YEAR | MYSQL_TYPE_NEWDATE | MYSQL_TYPE_VARCHAR
  | MYSQL_TYPE_BIT | MYSQL_TYPE_NEWDECIMAL | MYSQL_TYPE_ENUM | MYSQL_TYPE_SET
  | MYSQL_TYPE_TINY_BLOB | MYSQL_TYPE_MEDIUM_BLOB | MYSQL_TYPE_LONG_BLOB | MYSQL_TYPE_BLOB
  | MYSQL_TYPE_VAR_STRING | MYSQL_TYPE_STRING | MYSQL_TYPE_GEOMETRY

primrec field_type_value :: "enum_field_types \<Rightarrow> int" where
  "field_type_value MYSQL_TYPE_DECIMAL = 0"
| "field_type_value MYSQL_TYPE_TINY = 1"
| "field_type_value MYSQL_TYPE_SHORT = 2"
| "field_type_value MYSQL_TYPE_LONG = 3"
| "field_type_value MYSQL_TYPE_FLOAT = 4"
| "field_type_value MYSQL_TYPE_DOUBLE = 5"
| "field_type_value MYSQL_TYPE_NULL = 6"
| "field_type_value MYSQL_TYPE_TIMESTAMP = 7"
| "field_type_value MYSQL_TYPE_LONGLONG = 8"
| "field_type_value MYSQL_TYPE_INT24 = 9"
| "field_type_value MYSQL_TYPE_DATE = 10"
| "field_type_value MYSQL_TYPE_TIME = 11"
| "field_type_value MYSQL_TYPE_DATETIME = 12"
| "field_type_value MYSQL_TYPE_YEAR = 13"
| "field_type_value MYSQL_TYPE_NEWDATE = 14"
| "field_type_value MYSQL_TYPE_VARCHAR = 15"
| "field_type_value MYSQL_TYPE_BIT = 16"
| "field_type_value MYSQL_TYPE_NEWDECIMAL = 246"
| "field_type_value MYSQL_TYPE_ENUM = 247"
| "field_type_value MYSQL_TYPE_SET = 248"
| "field_type_value MYSQL_TYPE_TINY_BLOB = 249"
| "field_type_value MYSQL_TYPE_MEDIUM_BLOB = 250"
| "field_type_value MYSQL_TYPE_LONG_BLOB = 251"
| "field_type_value MYSQL_TYPE_BLOB = 252"
| "field_type_value MYSQL_TYPE_VAR_STRING = 253"
| "field_type_value MYSQL_TYPE_STRING = 254"
| "field_type_value MYSQL_TYPE_GEOMETRY = 255"

definition IS_PRI_KEY :: "32 word \<Rightarrow> bool" where
  "IS_PRI_KEY n \<longleftrightarrow> n AND flag field_flags ''PRI_KEY_FLAG'' \<noteq> 0"

definition IS_NOT_NULL :: "32 word \<Rightarrow> bool" where
  "IS_NOT_NULL n \<longleftrightarrow> n AND flag field_flags ''NOT_NULL_FLAG'' \<noteq> 0"

definition IS_BLOB :: "32 word \<Rightarrow> bool" where
  "IS_BLOB n \<longleftrightarrow> n AND flag field_flags ''BLOB_FLAG'' \<noteq> 0"

definition IS_NUM :: "enum_field_types \<Rightarrow> bool" where
  "IS_NUM t \<longleftrightarrow>
     (field_type_value t \<le> field_type_value MYSQL_TYPE_INT24 \<and> t \<noteq> MYSQL_TYPE_TIMESTAMP) \<or>
     t = MYSQL_TYPE_YEAR \<or> t = MYSQL_TYPE_NEWDECIMAL"

definition IS_LONGDATA :: "enum_field_types \<Rightarrow> bool" where
  "IS_LONGDATA t \<longleftrightarrow>
     field_type_value t \<ge> field_type_value MYSQL_TYPE_TINY_BLOB \<and>
     field_type_value t \<le> field_type_value MYSQL_TYPE_STRING"

section \<open>Capabilities and status\<close>

definition refresh_flags :: "(string \<times> 32 word) list" where
  "refresh_flags =
     [(''REFRESH_GRANT'', 1), (''REFRESH_LOG'', 2), (''REFRESH_TABLES'', 4),
      (''REFRESH_HOSTS'', 8), (''REFRESH_STATUS'', 16), (''REFRESH_THREADS'', 32),
      (''REFRESH_SLAVE'', 64), (''REFRESH_MASTER'', 128), (''REFRESH_ERROR_LOG'', 256),
      (''REFRESH_ENGINE_LOG'', 512), (''REFRESH_BINARY_LOG'', 1024), (''REFRESH_RELAY_LOG'', 2048),
      (''REFRESH_GENERAL_LOG'', 4096), (''REFRESH_SLOW_LOG'', 8192), (''REFRESH_READ_LOCK'', 16384),
      (''REFRESH_FAST'', 32768), (''REFRESH_QUERY_CACHE'', 65536), (''REFRESH_QUERY_CACHE_FREE'', 0x20000),
      (''REFRESH_DES_KEY_FILE'', 0x40000), (''REFRESH_USER_RESOURCES'', 0x80000)]"

definition client_flags :: "(string \<times> 32 word) list" where
  "client_flags =
     [(''CLIENT_LONG_PASSWORD'', 1), (''CLIENT_FOUND_ROWS'', 2), (''CLIENT_LONG_FLAG'', 4),
      (''CLIENT_CONNECT_WITH_DB'', 8), (''CLIENT_NO_SCHEMA'', 16), (''CLIENT_COMPRESS'', 32),
      (''CLIENT_ODBC'', 64), (''CLIENT_LOCAL_FILES'', 128), (''CLIENT_IGNORE_SPACE'', 256),
      (''CLIENT_PROTOCOL_41'', 512), (''CLIENT_INTERACTIVE'', 1024), (''CLIENT_SSL'', 2048),
      (''CLIENT_IGNORE_SIGPIPE'', 4096), (''CLIENT_TRANSACTIONS'', 8192), (''CLIENT_RESERVED'', 16384),
      (''CLIENT_SECURE_CONNECTION'', 32768), (''CLIENT_MULTI_STATEMENTS'', push_bit 16 1), (''CLIENT_MULTI_RESULTS'', push_bit 17 1),
      (''CLIENT_PS_MULTI_RESULTS'', push_bit 18 1), (''CLIENT_PLUGIN_AUTH'', push_bit 19 1), (''CLIENT_SSL_VERIFY_SERVER_CERT'', push_bit 30 1),
      (''CLIENT_REMEMBER_OPTIONS'', push_bit 31 1)]"

definition CLIENT_ALL_FLAGS :: "32 word" where
  "CLIENT_ALL_FLAGS = flags_of client_flags
     [''CLIENT_LONG_PASSWORD'', ''CLIENT_FOUND_ROWS'', ''CLIENT_LONG_FLAG'', ''CLIENT_CONNECT_WITH_DB'',
      ''CLIENT_NO_SCHEMA'', ''CLIENT_COMPRESS'', ''CLIENT_ODBC'', ''CLIENT_LOCAL_FILES'',
      ''CLIENT_IGNORE_SPACE'', ''CLIENT_PROTOCOL_41'', ''CLIENT_INTERACTIVE'', ''CLIENT_SSL'',
      ''CLIENT_IGNORE_SIGPIPE'', ''CLIENT_TRANSACTIONS'', ''CLIENT_RESERVED'', ''CLIENT_SECURE_CONNECTION'',
      ''CLIENT_MULTI_STATEMENTS'', ''CLIENT_MULTI_RESULTS'', ''CLIENT_PS_MULTI_RESULTS'', ''CLIENT_SSL_VERIFY_SERVER_CERT'',
      ''CLIENT_REMEMBER_OPTIONS'', ''CLIENT_PLUGIN_AUTH'']"

definition CLIENT_BASIC_FLAGS :: "32 word" where
  "CLIENT_BASIC_FLAGS =
     ((CLIENT_ALL_FLAGS AND NOT (flag client_flags ''CLIENT_SSL''))
        AND NOT (flag client_flags ''CLIENT_COMPRESS''))
        AND NOT (flag client_flags ''CLIENT_SSL_VERIFY_SERVER_CERT'')"

definition protocol_41 :: "32 word \<Rightarrow> bool" where
  "protocol_41 server_capabilities \<longleftrightarrow>
     server_capabilities AND flag client_flags ''CLIENT_PROTOCOL_41'' \<noteq> 0"

definition server_flags :: "(string \<times> 32 word) list" where
  "server_flags =
     [(''SERVER_STATUS_IN_TRANS'', 1), (''SERVER_STATUS_AUTOCOMMIT'', 2), (''SERVER_MORE_RESULTS_EXISTS'', 8),
      (''SERVER_QUERY_NO_GOOD_INDEX_USED'', 16), (''SERVER_QUERY_NO_INDEX_USED'', 32), (''SERVER_STATUS_CURSOR_EXISTS'', 64),
      (''SERVER_STATUS_LAST_ROW_SENT'', 128), (''SERVER_STATUS_DB_DROPPED'', 256), (''SERVER_STATUS_NO_BACKSLASH_ESCAPES'', 512),
      (''SERVER_STATUS_METADATA_CHANGED'', 1024), (''SERVER_QUERY_WAS_SLOW'', 2048), (''SERVER_PS_OUT_PARAMS'', 4096)]"

definition SERVER_STATUS_CLEAR_SET :: "32 word" where
  "SERVER_STATUS_CLEAR_SET = flags_of server_flags
     [''SERVER_QUERY_NO_GOOD_INDEX_USED'', ''SERVER_QUERY_NO_INDEX_USED'', ''SERVER_MORE_RESULTS_EXISTS'', ''SERVER_STATUS_METADATA_CHANGED'',
      ''SERVER_QUERY_WAS_SLOW'', ''SERVER_STATUS_DB_DROPPED'', ''SERVER_STATUS_CURSOR_EXISTS'', ''SERVER_STATUS_LAST_ROW_SENT'']"

section \<open>Client errors\<close>

definition client_error_codes :: "(string \<times> int) list" where
  "client_error_codes =
     [(''CR_UNKNOWN_ERROR'', 2000), (''CR_SOCKET_CREATE_ERROR'', 2001), (''CR_CONNECTION_ERROR'', 2002),
      (''CR_CONN_HOST_ERROR'', 2003), (''CR_IPSOCK_ERROR'', 2004), (''CR_UNKNOWN_HOST'', 2005),
      (''CR_SERVER_GONE_ERROR'', 2006), (''CR_VERSION_ERROR'', 2007), (''CR_OUT_OF_MEMORY'', 2008),
      (''CR_WRONG_HOST_INFO'', 2009), (''CR_LOCALHOST_CONNECTION'', 2010), (''CR_TCP_CONNECTION'', 2011),
      (''CR_SERVER_HANDSHAKE_ERR'', 2012), (''CR_SERVER_LOST'', 2013), (''CR_COMMANDS_OUT_OF_SYNC'', 2014),
      (''CR_NAMEDPIPE_CONNECTION'', 2015), (''CR_NAMEDPIPEWAIT_ERROR'', 2016), (''CR_NAMEDPIPEOPEN_ERROR'', 2017),
      (''CR_NAMEDPIPESETSTATE_ERROR'', 2018), (''CR_CANT_READ_CHARSET'', 2019), (''CR_NET_PACKET_TOO_LARGE'', 2020),
      (''CR_EMBEDDED_CONNECTION'', 2021), (''CR_PROBE_SLAVE_STATUS'', 2022), (''CR_PROBE_SLAVE_HOSTS'', 2023),
      (''CR_PROBE_SLAVE_CONNECT'', 2024), (''CR_PROBE_MASTER_CONNECT'', 2025), (''CR_SSL_CONNECTION_ERROR'', 2026),
      (''CR_MALFORMED_PACKET'', 2027), (''CR_WRONG_LICENSE'', 2028), (''CR_NULL_POINTER'', 2029),
      (''CR_NO_PREPARE_STMT'', 2030), (''CR_PARAMS_NOT_BOUND'', 2031), (''CR_DATA_TRUNCATED'', 2032),
      (''CR_NO_PARAMETERS_EXISTS'', 2033), (''CR_INVALID_PARAMETER_NO'', 2034), (''CR_INVALID_BUFFER_USE'', 2035),
      (''CR_UNSUPPORTED_PARAM_TYPE'', 2036), (''CR_SHARED_MEMORY_CONNECTION'', 2037), (''CR_SHARED_MEMORY_CONNECT_REQUEST_ERROR'', 2038),
      (''CR_SHARED_MEMORY_CONNECT_ANSWER_ERROR'', 2039), (''CR_SHARED_MEMORY_CONNECT_FILE_MAP_ERROR'', 2040), (''CR_SHARED_MEMORY_CONNECT_MAP_ERROR'', 2041),
      (''CR_SHARED_MEMORY_FILE_MAP_ERROR'', 2042), (''CR_SHARED_MEMORY_MAP_ERROR'', 2043), (''CR_SHARED_MEMORY_EVENT_ERROR'', 2044),
      (''CR_SHARED_MEMORY_CONNECT_ABANDONED_ERROR'', 2045), (''CR_SHARED_MEMORY_CONNECT_SET_ERROR'', 2046), (''CR_CONN_UNKNOW_PROTOCOL'', 2047),
      (''CR_INVALID_CONN_HANDLE'', 2048), (''CR_SECURE_AUTH'', 2049), (''CR_FETCH_CANCELED'', 2050),
      (''CR_NO_DATA'', 2051), (''CR_NO_STMT_METADATA'', 2052), (''CR_NO_RESULT_SET'', 2053),
      (''CR_NOT_IMPLEMENTED'', 2054), (''CR_SERVER_LOST_EXTENDED'', 2055), (''CR_STMT_CLOSED'', 2056),
      (''CR_NEW_STMT_METADATA'', 2057), (''CR_ALREADY_CONNECTED'', 2058), (''CR_AUTH_PLUGIN_CANNOT_LOAD'', 2059)]"

definition CR_ERROR_FIRST :: int where
  "CR_ERROR_FIRST = 2000"

definition CR_ERROR_LAST :: int where
  "CR_ERROR_LAST = 2059"

definition CR_UNKNOWN_ERROR :: int where
  "CR_UNKNOWN_ERROR = 2000"

text \<open>A read of the array \<open>client_errors\<close>; outside of it the result is not defined.\<close>

definition read_error :: "string list \<Rightarrow> int \<Rightarrow> string option" where
  "read_error client_errors i =
     (if 0 \<le> i \<and> nat i < length client_errors then Some (client_errors ! nat i) else None)"

definition ER :: "string list \<Rightarrow> int \<Rightarrow> string option" where
  "ER client_errors X =
     (if X \<ge> CR_ERROR_FIRST \<and> X \<le> CR_ERROR_LAST then read_error client_errors (X - CR_ERROR_FIRST)
      else read_error client_errors CR_UNKNOWN_ERROR)"

section \<open>Properties\<close>

lemma client_flags_bits:
  "map snd client_flags = map (\<lambda>k. push_bit k 1) ([0..<20] @ [30, 31])"
  by (simp add: client_flags_def upt_rec)

lemma all_flags_value: "CLIENT_ALL_FLAGS = 0xC00FFFFF"
  by (simp add: CLIENT_ALL_FLAGS_def flags_of_def flag_def client_flags_def)

lemma basic_flags_value: "CLIENT_BASIC_FLAGS = 0x800FF7DF"
  by (simp add: CLIENT_BASIC_FLAGS_def all_flags_value flag_def client_flags_def)

text \<open>
  Every capability of a client is one bit of its own; \<open>CLIENT_ALL_FLAGS\<close> has exactly these bits, and
  \<open>CLIENT_BASIC_FLAGS\<close> all of them but the three that depend on how the library was built.
\<close>

theorem capability_flags:
  "map snd client_flags = map (\<lambda>k. push_bit k 1) ([0..<20] @ [30, 31]) \<and>
   CLIENT_ALL_FLAGS = foldr (OR) (map snd client_flags) 0 \<and>
   CLIENT_BASIC_FLAGS = foldr (OR) (map snd (filter (\<lambda>(n, v).
      n \<notin> {''CLIENT_SSL'', ''CLIENT_COMPRESS'', ''CLIENT_SSL_VERIFY_SERVER_CERT''}) client_flags)) 0"
proof -
  have "CLIENT_ALL_FLAGS = foldr (OR) (map snd client_flags) 0"
    by (simp add: all_flags_value client_flags_def)
  moreover have "CLIENT_BASIC_FLAGS = foldr (OR) (map snd (filter (\<lambda>(n, v).
      n \<notin> {''CLIENT_SSL'', ''CLIENT_COMPRESS'', ''CLIENT_SSL_VERIFY_SERVER_CERT''}) client_flags)) 0"
    by (simp add: basic_flags_value client_flags_def)
  ultimately show ?thesis using client_flags_bits by blast
qed

text \<open>The flags of fields are single bits too, but \<open>NUM_FLAG\<close> and \<open>GROUP_FLAG\<close> are the same one.\<close>

lemma field_flags_bits:
  "map snd field_flags = map (\<lambda>k. push_bit k 1) ([0..<14] @ [15, 14, 15] @ [16..<22])"
  by (simp add: field_flags_def upt_rec)

lemma server_flags_bits:
  "map snd server_flags = map (\<lambda>k. push_bit k 1) ([0, 1] @ [3..<13])"
  by (simp add: server_flags_def upt_rec)

text \<open>A new statement keeps the transaction and the mode of the session.\<close>

lemma clear_set_keeps:
  "SERVER_STATUS_CLEAR_SET AND flags_of server_flags [''SERVER_STATUS_IN_TRANS'', ''SERVER_STATUS_AUTOCOMMIT'',
     ''SERVER_STATUS_NO_BACKSLASH_ESCAPES'', ''SERVER_PS_OUT_PARAMS''] = 0"
  by (simp add: SERVER_STATUS_CLEAR_SET_def flags_of_def flag_def server_flags_def)

lemma client_error_codes_consecutive: "map snd client_error_codes = [CR_ERROR_FIRST..CR_ERROR_LAST]"
  by (simp add: client_error_codes_def CR_ERROR_FIRST_def CR_ERROR_LAST_def upto_rec1)

text \<open>
  The fallback of \<open>ER\<close> reads outside the table of messages. The table has one entry per code from
  \<open>CR_ERROR_FIRST\<close> to \<open>CR_ERROR_LAST\<close>; a code in between gives its message, and every other code uses
  the number of the unknown error, 2000, as an index, far behind the end.
\<close>

theorem ER_reads_outside:
  assumes "length client_errors = length client_error_codes"
  shows "ER client_errors X =
    (if X \<in> snd ` set client_error_codes then Some (client_errors ! nat (X - CR_ERROR_FIRST)) else None)"
proof -
  have "length (map snd client_error_codes) = 60"
    unfolding client_error_codes_consecutive by (simp add: CR_ERROR_FIRST_def CR_ERROR_LAST_def)
  then have len: "length client_errors = 60" using assms by simp
  have "snd ` set client_error_codes = {CR_ERROR_FIRST..CR_ERROR_LAST}"
    using client_error_codes_consecutive by (metis list.set_map set_upto)
  with len show ?thesis
    by (auto simp: ER_def read_error_def CR_ERROR_FIRST_def CR_ERROR_LAST_def CR_UNKNOWN_ERROR_def)
qed

theorem ER_reads_outside_witness:
  "ER (map fst client_error_codes) 2006 = Some ''CR_SERVER_GONE_ERROR'' \<and> ER (map fst client_error_codes) 1045 = None"
proof -
  have codes: "snd ` set client_error_codes = {CR_ERROR_FIRST..CR_ERROR_LAST}"
    using client_error_codes_consecutive by (metis list.set_map set_upto)
  have "map fst client_error_codes ! nat (2006 - CR_ERROR_FIRST) = ''CR_SERVER_GONE_ERROR''"
    by (simp add: client_error_codes_def CR_ERROR_FIRST_def)
  with ER_reads_outside[of "map fst client_error_codes"] show ?thesis
    unfolding codes by (simp add: CR_ERROR_FIRST_def CR_ERROR_LAST_def)
qed

text \<open>Which types of fields are numbers, and which may be sent in pieces.\<close>

lemma field_types:
  "IS_NUM t \<Longrightarrow> \<not> IS_LONGDATA t"
  "IS_NUM t \<longleftrightarrow> t \<in> {MYSQL_TYPE_DECIMAL, MYSQL_TYPE_TINY, MYSQL_TYPE_SHORT, MYSQL_TYPE_LONG, MYSQL_TYPE_FLOAT,
     MYSQL_TYPE_DOUBLE, MYSQL_TYPE_NULL, MYSQL_TYPE_LONGLONG, MYSQL_TYPE_INT24, MYSQL_TYPE_YEAR, MYSQL_TYPE_NEWDECIMAL}"
  by (cases t; simp add: IS_NUM_def IS_LONGDATA_def)+

end
