(* ===== verification/Charset.thy ===== *)
theory Charset
  imports Prelude "HOL-Library.Word"
begin

text \<open>
  The macros and inline functions on character sets (inc/mysql/m_ctype.h) that have code of their
  own: tests of a character by a table of classes, conversion by tables, and the table of
  contractions. The tables of a character set are data of the client library and are arguments.
  Shown: the classes the combined tests stand for, and that for the characters contractions are
  made of the weights and the marks lie apart in the table.
\<close>

unbundle bit_operations_syntax

text \<open>\<open>contractions\<close> is the table as bytes, \<open>None\<close> when there is none.\<close>

record charset =
  ctype :: "nat \<Rightarrow> 8 word"
  to_lower :: "nat \<Rightarrow> 8 word"
  to_upper :: "nat \<Rightarrow> 8 word"
  contractions :: "(nat \<Rightarrow> 8 word) option"

section \<open>Classes\<close>

definition MY_U :: "8 word" where "MY_U = 0x01"

definition MY_L :: "8 word" where "MY_L = 0x02"

definition MY_NMR :: "8 word" where "MY_NMR = 0x04"

definition MY_SPC :: "8 word" where "MY_SPC = 0x08"

definition MY_PNT :: "8 word" where "MY_PNT = 0x10"

definition MY_CTR :: "8 word" where "MY_CTR = 0x20"

definition MY_B :: "8 word" where "MY_B = 0x40"

definition MY_X :: "8 word" where "MY_X = 0x80"

lemmas class_defs = MY_U_def MY_L_def MY_NMR_def MY_SPC_def MY_PNT_def MY_CTR_def MY_B_def MY_X_def

text \<open>\<open>((s)->ctype+1)[(uchar) (c)]\<close>: the first entry of the table is for the end of a file.\<close>

definition class_of :: "charset \<Rightarrow> 8 word \<Rightarrow> 8 word" where
  "class_of s c = ctype s (1 + unat c)"

definition my_isascii :: "32 word \<Rightarrow> bool" where
  "my_isascii c \<longleftrightarrow> c AND NOT 0x7F = 0"

definition my_toascii :: "32 word \<Rightarrow> 32 word" where
  "my_toascii c = c AND 0x7F"

definition my_tocntrl :: "32 word \<Rightarrow> 32 word" where
  "my_tocntrl c = c AND 31"

definition my_toprint :: "32 word \<Rightarrow> 32 word" where
  "my_toprint c = c OR 64"

definition my_toupper :: "charset \<Rightarrow> 8 word \<Rightarrow> 8 word" where
  "my_toupper s c = to_upper s (unat c)"

definition my_tolower :: "charset \<Rightarrow> 8 word \<Rightarrow> 8 word" where
  "my_tolower s c = to_lower s (unat c)"

definition my_isalpha :: "charset \<Rightarrow> 8 word \<Rightarrow> bool" where
  "my_isalpha s c \<longleftrightarrow> class_of s c AND (MY_U OR MY_L) \<noteq> 0"

definition my_isupper :: "charset \<Rightarrow> 8 word \<Rightarrow> bool" where
  "my_isupper s c \<longleftrightarrow> class_of s c AND MY_U \<noteq> 0"

definition my_islower :: "charset \<Rightarrow> 8 word \<Rightarrow> bool" where
  "my_islower s c \<longleftrightarrow> class_of s c AND MY_L \<noteq> 0"

definition my_isdigit :: "charset \<Rightarrow> 8 word \<Rightarrow> bool" where
  "my_isdigit s c \<longleftrightarrow> class_of s c AND MY_NMR \<noteq> 0"

definition my_isxdigit :: "charset \<Rightarrow> 8 word \<Rightarrow> bool" where
  "my_isxdigit s c \<longleftrightarrow> class_of s c AND MY_X \<noteq> 0"

definition my_isalnum :: "charset \<Rightarrow> 8 word \<Rightarrow> bool" where
  "my_isalnum s c \<longleftrightarrow> class_of s c AND (MY_U OR MY_L OR MY_NMR) \<noteq> 0"

definition my_isspace :: "charset \<Rightarrow> 8 word \<Rightarrow> bool" where
  "my_isspace s c \<longleftrightarrow> class_of s c AND MY_SPC \<noteq> 0"

definition my_ispunct :: "charset \<Rightarrow> 8 word \<Rightarrow> bool" where
  "my_ispunct s c \<longleftrightarrow> class_of s c AND MY_PNT \<noteq> 0"

definition my_isprint :: "charset \<Rightarrow> 8 word \<Rightarrow> bool" where
  "my_isprint s c \<longleftrightarrow> class_of s c AND (MY_PNT OR MY_U OR MY_L OR MY_NMR OR MY_B) \<noteq> 0"

definition my_isgraph :: "charset \<Rightarrow> 8 word \<Rightarrow> bool" where
  "my_isgraph s c \<longleftrightarrow> class_of s c AND (MY_PNT OR MY_U OR MY_L OR MY_NMR) \<noteq> 0"

definition my_iscntrl :: "charset \<Rightarrow> 8 word \<Rightarrow> bool" where
  "my_iscntrl s c \<longleftrightarrow> class_of s c AND MY_CTR \<noteq> 0"

definition my_isvar :: "charset \<Rightarrow> 8 word \<Rightarrow> bool" where
  "my_isvar s c \<longleftrightarrow> my_isalnum s c \<or> c = 0x5F"

definition my_isvar_start :: "charset \<Rightarrow> 8 word \<Rightarrow> bool" where
  "my_isvar_start s c \<longleftrightarrow> my_isalpha s c \<or> c = 0x5F"

section \<open>Contractions\<close>

text \<open>
  The table has 64 by 64 weights of two bytes for pairs of characters from 64 to 127, followed by a
  mark for each of the 256 low bytes. A wide character is 64 bits.
\<close>

definition my_cs_have_contractions :: "charset \<Rightarrow> bool" where
  "my_cs_have_contractions cs \<longleftrightarrow> contractions cs \<noteq> None"

definition mark_at :: "64 word \<Rightarrow> nat" where
  "mark_at wc = 0x40 * 0x40 * 2 + unat (wc AND 0xFF)"

definition my_cs_can_be_contraction_head :: "charset \<Rightarrow> 64 word \<Rightarrow> 8 word option" where
  "my_cs_can_be_contraction_head cs wc = map_option (\<lambda>t. t (mark_at wc)) (contractions cs)"

definition my_cs_can_be_contraction_tail :: "charset \<Rightarrow> 64 word \<Rightarrow> 8 word option" where
  "my_cs_can_be_contraction_tail cs wc = map_option (\<lambda>t. t (mark_at wc)) (contractions cs)"

text \<open>The address of a weight, as an index of the array of 16-bit weights.\<close>

definition my_cs_contraction2_weight :: "64 word \<Rightarrow> 64 word \<Rightarrow> 64 word" where
  "my_cs_contraction2_weight wc1 wc2 = (wc1 - 0x40) * 0x40 + wc2 - 0x40"

section \<open>Properties\<close>

lemma and_or_nonzero: "x AND (a OR b) \<noteq> 0 \<longleftrightarrow> x AND a \<noteq> 0 \<or> x AND b \<noteq> 0" for x a b :: "8 word"
  by (simp add: bit.conj_disj_distrib or_eq_0_iff)

lemma combined_classes:
  "my_isalpha s c \<longleftrightarrow> my_isupper s c \<or> my_islower s c"
  "my_isalnum s c \<longleftrightarrow> my_isalpha s c \<or> my_isdigit s c"
  "my_isgraph s c \<longleftrightarrow> my_isalnum s c \<or> my_ispunct s c"
  "my_isprint s c \<longleftrightarrow> my_isgraph s c \<or> class_of s c AND MY_B \<noteq> 0"
  by (auto simp: my_isalpha_def my_isupper_def my_islower_def my_isalnum_def my_isdigit_def my_isgraph_def
      my_ispunct_def my_isprint_def and_or_nonzero)

text \<open>
  Two characters from 64 to 127 have a weight of their own, and its two bytes lie in front of every mark.
\<close>

lemma contraction2_weight:
  assumes "0x40 \<le> a" "a < 0x80" "0x40 \<le> b" "b < 0x80"
  shows "unat (my_cs_contraction2_weight a b) = (unat a - 64) * 64 + (unat b - 64)"
proof -
  have u: "64 \<le> unat a" "unat a < 128" "64 \<le> unat b" "unat b < 128"
    using assms by (simp_all add: word_le_nat_alt word_less_nat_alt)
  define k where "k = (unat a - 64) * 64 + (unat b - 64)"
  have "my_cs_contraction2_weight a b = of_nat k"
    using u by (simp add: my_cs_contraction2_weight_def k_def of_nat_diff algebra_simps)
  moreover have "k < 4096" unfolding k_def using u by linarith
  ultimately show ?thesis unfolding k_def[symmetric] by (simp add: unat_of_nat)
qed

lemma digits64:
  fixes x x' y y' :: nat
  assumes "y < 64" "y' < 64"
  shows "x * 64 + y = x' * 64 + y' \<longleftrightarrow> x = x' \<and> y = y'"
proof
  assume eq: "x * 64 + y = x' * 64 + y'"
  have "(x * 64 + y) div 64 = x" "(x' * 64 + y') div 64 = x'" using assms by simp_all
  with eq have "x = x'" by simp
  with eq show "x = x' \<and> y = y'" by simp
qed simp

theorem contraction_weights_apart:
  assumes "0x40 \<le> a" "a < 0x80" "0x40 \<le> b" "b < 0x80" "0x40 \<le> c" "c < 0x80" "0x40 \<le> d" "d < 0x80"
  shows "(my_cs_contraction2_weight a b = my_cs_contraction2_weight c d \<longleftrightarrow> a = c \<and> b = d) \<and>
    2 * unat (my_cs_contraction2_weight a b) + 1 < mark_at wc"
proof -
  have u: "64 \<le> unat a" "unat a < 128" "64 \<le> unat b" "unat b < 128"
    "64 \<le> unat c" "unat c < 128" "64 \<le> unat d" "unat d < 128"
    using assms by (simp_all add: word_le_nat_alt word_less_nat_alt)
  note w = contraction2_weight[OF assms(1-4)] contraction2_weight[OF assms(5-8)]
  have "(unat a - 64) * 64 + (unat b - 64) = (unat c - 64) * 64 + (unat d - 64) \<longleftrightarrow>
      unat a = unat c \<and> unat b = unat d"
    using digits64[of "unat b - 64" "unat d - 64" "unat a - 64" "unat c - 64"] u by auto
  moreover have "(unat a - 64) * 64 + (unat b - 64) < 4096" using u by linarith
  ultimately show ?thesis
    unfolding word_unat_eq_iff w mark_at_def by simp
qed

end
