(* ===== verification/Counter.thy ===== *)
theory Counter
  imports Prelude
begin

text \<open>
  The shared counters of inc/mysql/my_pthread.h: the macros \<open>thread_safe_...\<close>, which change a
  counter under a mutex, and \<open>statistic_...\<close>, which do so only when SAFE_STATISTICS is defined. A macro
  is the sequence of the machine's steps it expands to, and any number of threads run sequences of
  macros in every possible order of steps.

  Shown: with the mutex no change is lost, whatever the order, and the threads can always go on;
  without it an increment can be lost, as the comment in the header says.
\<close>

section \<open>The macros\<close>

text \<open>
  \<open>V += C\<close> is three steps: the thread loads \<open>V\<close> into a register, adds, and stores. The mutex is the
  second argument of the macros.
\<close>

datatype instr = I_lock | I_unlock | I_load | I_add "64 word" | I_store

definition thread_safe_increment :: "instr list" where
  "thread_safe_increment = [I_lock, I_load, I_add 1, I_store, I_unlock]"

definition thread_safe_decrement :: "instr list" where
  "thread_safe_decrement = [I_lock, I_load, I_add (- 1), I_store, I_unlock]"

definition thread_safe_add :: "64 word \<Rightarrow> instr list" where
  "thread_safe_add C = [I_lock, I_load, I_add C, I_store, I_unlock]"

definition thread_safe_sub :: "64 word \<Rightarrow> instr list" where
  "thread_safe_sub C = [I_lock, I_load, I_add (- C), I_store, I_unlock]"

text \<open>The argument says whether SAFE_STATISTICS is defined.\<close>

definition statistic_increment :: "bool \<Rightarrow> instr list" where
  "statistic_increment safe = (if safe then thread_safe_increment else [I_load, I_add 1, I_store])"

definition statistic_decrement :: "bool \<Rightarrow> instr list" where
  "statistic_decrement safe = (if safe then thread_safe_decrement else [I_load, I_add (- 1), I_store])"

definition statistic_add :: "bool \<Rightarrow> 64 word \<Rightarrow> instr list" where
  "statistic_add safe C = (if safe then thread_safe_add C else [I_load, I_add C, I_store])"

definition statistic_sub :: "bool \<Rightarrow> 64 word \<Rightarrow> instr list" where
  "statistic_sub safe C = (if safe then thread_safe_sub C else [I_load, I_add (- C), I_store])"

text \<open>The four changes, and what each adds.\<close>

datatype change = Increment | Decrement | Add "64 word" | Sub "64 word"

fun thread_safe :: "change \<Rightarrow> instr list" where
  "thread_safe Increment = thread_safe_increment"
| "thread_safe Decrement = thread_safe_decrement"
| "thread_safe (Add C) = thread_safe_add C"
| "thread_safe (Sub C) = thread_safe_sub C"

fun statistic :: "bool \<Rightarrow> change \<Rightarrow> instr list" where
  "statistic safe Increment = statistic_increment safe"
| "statistic safe Decrement = statistic_decrement safe"
| "statistic safe (Add C) = statistic_add safe C"
| "statistic safe (Sub C) = statistic_sub safe C"

fun adds :: "change \<Rightarrow> 64 word" where
  "adds Increment = 1"
| "adds Decrement = - 1"
| "adds (Add C) = C"
| "adds (Sub C) = - C"

lemmas macro_defs =
  thread_safe_increment_def thread_safe_decrement_def thread_safe_add_def thread_safe_sub_def
  statistic_increment_def statistic_decrement_def statistic_add_def statistic_sub_def

section \<open>Threads\<close>

text \<open>The counter, whether the mutex is taken, and for each thread its register and what it has left to do.\<close>

record counter =
  V :: "64 word"
  L :: bool
  threads :: "(64 word \<times> instr list) list"

text \<open>One step of a thread; a thread that waits for the mutex has none.\<close>

fun exec_instr :: "instr \<Rightarrow> 64 word \<Rightarrow> counter \<Rightarrow> (64 word \<times> counter) option" where
  "exec_instr I_lock r c = (if L c then None else Some (r, c\<lparr>L := True\<rparr>))"
| "exec_instr I_unlock r c = Some (r, c\<lparr>L := False\<rparr>)"
| "exec_instr I_load r c = Some (V c, c)"
| "exec_instr (I_add d) r c = Some (r + d, c)"
| "exec_instr I_store r c = Some (r, c\<lparr>V := r\<rparr>)"

inductive counter_step :: "counter \<Rightarrow> counter \<Rightarrow> bool" where
  "i < length (threads c) \<Longrightarrow> threads c ! i = (r, x # rest) \<Longrightarrow> exec_instr x r c = Some (r', c') \<Longrightarrow>
   counter_step c (c'\<lparr>threads := (threads c)[i := (r', rest)]\<rparr>)"

text \<open>The run of a schedule, which names the thread of each step.\<close>

fun run_schedule :: "nat list \<Rightarrow> counter \<Rightarrow> counter option" where
  "run_schedule [] c = Some c"
| "run_schedule (i # is) c =
     (if i < length (threads c)
      then (case threads c ! i of
              (r, []) \<Rightarrow> None
            | (r, x # rest) \<Rightarrow> (case exec_instr x r c of
                None \<Rightarrow> None
              | Some (r', c') \<Rightarrow> run_schedule is (c'\<lparr>threads := (threads c)[i := (r', rest)]\<rparr>)))
      else None)"

lemma run_schedule_steps:
  "run_schedule is c = Some c' \<Longrightarrow> (counter_step ^^ length is) c c'"
proof (induction "is" c rule: run_schedule.induct)
  case (2 i "is" c)
  then obtain r x rest r' d where step: "i < length (threads c)" "threads c ! i = (r, x # rest)"
      "exec_instr x r c = Some (r', d)"
      "run_schedule is (d\<lparr>threads := (threads c)[i := (r', rest)]\<rparr>) = Some c'"
    by (auto split: if_splits prod.splits list.splits option.splits)
  then have "counter_step c (d\<lparr>threads := (threads c)[i := (r', rest)]\<rparr>)"
    by (intro counter_step.intros)
  moreover have "(counter_step ^^ length is) (d\<lparr>threads := (threads c)[i := (r', rest)]\<rparr>) c'"
    using 2(1) [OF step(1) step(2) [symmetric]] step by simp
  ultimately show ?case by (metis length_Cons relpowp_Suc_I2)
qed simp

text \<open>Each thread has a list of changes to make, with the macros \<open>f\<close>.\<close>

definition counter_start :: "(change \<Rightarrow> instr list) \<Rightarrow> 64 word \<Rightarrow> change list list \<Rightarrow> counter" where
  "counter_start f v progs = \<lparr>V = v, L = False, threads = map (\<lambda>cs. (0, concat (map f cs))) progs\<rparr>"

text \<open>What is left to be added by a thread, and by all of them.\<close>

fun left_to_add :: "instr list \<Rightarrow> 64 word" where
  "left_to_add [] = 0"
| "left_to_add (I_add d # xs) = d + left_to_add xs"
| "left_to_add (_ # xs) = left_to_add xs"

definition all_left :: "counter \<Rightarrow> 64 word" where
  "all_left c = sum_list (map (left_to_add \<circ> snd) (threads c))"

text \<open>A sequence of the macros that take the mutex.\<close>

inductive safe_code :: "instr list \<Rightarrow> bool" where
  "safe_code []"
| "safe_code xs \<Longrightarrow> safe_code (I_lock # I_load # I_add d # I_store # I_unlock # xs)"

section \<open>With the mutex\<close>

text \<open>
  The invariant. While the mutex is free, every thread is between two macros and the counter and
  what is left make the amount. While it is taken, exactly one thread is inside a macro, at one of
  four places; between its addition and its store the register stands for the counter.
\<close>

definition inside :: "64 word \<Rightarrow> counter \<Rightarrow> 64 word \<times> instr list \<Rightarrow> bool" where
  "inside amount c t \<longleftrightarrow> (\<exists>r xs d. safe_code xs \<and>
     (t = (r, [I_load, I_add d, I_store, I_unlock] @ xs) \<and> V c + all_left c = amount \<or>
      t = (r, [I_add d, I_store, I_unlock] @ xs) \<and> r = V c \<and> V c + all_left c = amount \<or>
      t = (r, [I_store, I_unlock] @ xs) \<and> r + all_left c = amount \<or>
      t = (r, [I_unlock] @ xs) \<and> V c + all_left c = amount))"

definition counter_inv :: "64 word \<Rightarrow> counter \<Rightarrow> bool" where
  "counter_inv amount c \<longleftrightarrow>
     (if L c
      then \<exists>i < length (threads c). inside amount c (threads c ! i) \<and>
             (\<forall>j < length (threads c). j \<noteq> i \<longrightarrow> safe_code (snd (threads c ! j)))
      else V c + all_left c = amount \<and> (\<forall>j < length (threads c). safe_code (snd (threads c ! j))))"

lemma sum_list_update_group:
  fixes xs :: "'a :: ab_group_add list"
  shows "i < length xs \<Longrightarrow> sum_list (xs[i := x]) = sum_list xs - xs ! i + x"
  by (induction xs arbitrary: i) (auto split: nat.splits)

lemma all_left_update:
  assumes "i < length (threads c)" "threads c' = (threads c)[i := t]"
  shows "all_left c' = all_left c - left_to_add (snd (threads c ! i)) + left_to_add (snd t)"
  using assms by (simp add: all_left_def map_update sum_list_update_group)

inductive_cases safe_code_Cons: "safe_code (x # xs)"

lemma counter_inv_step:
  assumes "counter_step c c1" and inv: "counter_inv amount c"
  shows "counter_inv amount c1"
  using assms(1)
proof cases
  case (1 i r x rest r' c')
  have left: "all_left c1 = all_left c - left_to_add (x # rest) + left_to_add rest"
    using all_left_update [of i c c1 "(r', rest)"] 1 by simp
  show ?thesis
  proof (cases "L c")
    case False
    then have "safe_code (x # rest)" "V c + all_left c = amount"
        "\<forall>j < length (threads c). safe_code (snd (threads c ! j))"
      using inv 1(2,3) by (auto simp: counter_inv_def)
    then show ?thesis
      using 1 False left
      by (elim safe_code_Cons) (auto simp: counter_inv_def inside_def nth_list_update intro!: exI [of _ i])
  next
    case True
    then obtain j where j: "j < length (threads c)" "inside amount c (threads c ! j)"
        "\<forall>k < length (threads c). k \<noteq> j \<longrightarrow> safe_code (snd (threads c ! k))"
      using inv by (auto simp: counter_inv_def)
    have "i = j"
    proof (rule ccontr)
      assume "i \<noteq> j"
      then have "safe_code (x # rest)" using j(3) 1(2,3) by fastforce
      then show False using 1(4) True by (elim safe_code_Cons) simp
    qed
    with j 1 True left show ?thesis
      by (auto simp: counter_inv_def inside_def nth_list_update intro!: exI [of _ j])
  qed
qed

lemma safe_code_calls: "safe_code (concat (map thread_safe cs))"
proof (induction cs)
  case (Cons x cs)
  then show ?case by (cases x) (auto simp: macro_defs intro: safe_code.intros)
qed (simp add: safe_code.intros)

lemma left_calls: "left_to_add (concat (map thread_safe cs)) = sum_list (map adds cs)"
proof (induction cs)
  case (Cons x cs)
  then show ?case by (cases x) (auto simp: macro_defs)
qed simp

lemma counter_inv_start:
  "counter_inv (v + sum_list (map adds (concat progs))) (counter_start thread_safe v progs)"
proof -
  have "all_left (counter_start thread_safe v progs) = sum_list (map adds (concat progs))"
    by (induction progs) (simp_all add: all_left_def counter_start_def left_calls)
  then show ?thesis
    by (simp add: counter_inv_def counter_start_def safe_code_calls all_left_def)
qed

text \<open>The steps left are counted down, so a run of all of them is a run to the end.\<close>

definition steps_left :: "counter \<Rightarrow> nat" where
  "steps_left c = sum_list (map (length \<circ> snd) (threads c))"

lemma steps_left_step:
  assumes "counter_step c c'"
  shows "steps_left c = Suc (steps_left c')"
  using assms
proof cases
  case (1 i r x rest r' c'')
  let ?l = "map (length \<circ> snd) (threads c)"
  have "?l ! i \<le> sum_list ?l" by (rule elem_le_sum_list) (use 1 in simp)
  then show ?thesis using 1 by (simp add: steps_left_def map_update sum_list_update)
qed

lemma steps_left_start: "steps_left (counter_start thread_safe v progs) = 5 * length (concat progs)"
proof -
  have one: "length (thread_safe x) = 5" for x by (cases x) (simp_all add: macro_defs)
  have "length (concat (map thread_safe cs)) = 5 * length cs" for cs
    by (induction cs) (simp_all add: one)
  then show ?thesis by (induction progs) (simp_all add: steps_left_def counter_start_def)
qed

lemma counter_run:
  assumes "(counter_step ^^ n) c c'" and "counter_inv amount c"
  shows "counter_inv amount c' \<and> steps_left c = n + steps_left c'"
  using assms(1)
proof (induction n arbitrary: c')
  case (Suc n)
  then obtain d where "(counter_step ^^ n) c d" "counter_step d c'" by auto
  with Suc.IH [of d] show ?case
    by (auto dest: counter_inv_step steps_left_step)
qed (use assms(2) in simp)

text \<open>While anything is left, some thread can move: the one inside, or any when the mutex is free.\<close>

lemma counter_progress:
  assumes "counter_inv amount c" and "steps_left c \<noteq> 0"
  shows "\<exists>c'. counter_step c c'"
proof -
  obtain i r x rest where i: "i < length (threads c)" "threads c ! i = (r, x # rest)" and
    free: "L c \<longrightarrow> x \<noteq> I_lock"
  proof (cases "L c")
    case True
    then show ?thesis using assms(1) that by (auto simp: counter_inv_def inside_def)
  next
    case False
    obtain t where "t \<in> set (threads c)" "snd t \<noteq> []"
      using assms(2) by (auto simp: steps_left_def)
    then show ?thesis using False that by (metis in_set_conv_nth list.exhaust prod.collapse)
  qed
  obtain r' c' where "exec_instr x r c = Some (r', c')"
    using free by (cases x) auto
  with i show ?thesis by (metis counter_step.intros)
qed

section \<open>Properties\<close>

text \<open>
  C30: Any number of threads change one counter with the \<open>thread_safe\<close> macros, each thread any list of
  changes, with the steps of the threads in any order. Some thread can always go on until five
  steps for every call have been made, and then the counter is its first value with all the
  changes made to it, in 64-bit arithmetic: none is lost.
\<close>

theorem thread_safe_exact:
  assumes "(counter_step ^^ n) (counter_start thread_safe v progs) c"
  shows "(n < 5 * length (concat progs) \<longrightarrow> (\<exists>c'. counter_step c c')) \<and>
    n \<le> 5 * length (concat progs) \<and>
    (n = 5 * length (concat progs) \<longrightarrow> V c = v + sum_list (map adds (concat progs)))"
proof -
  from counter_run [OF assms counter_inv_start]
  have inv: "counter_inv (v + sum_list (map adds (concat progs))) c"
    and steps: "5 * length (concat progs) = n + steps_left c"
    by (simp_all add: steps_left_start)
  have "V c = v + sum_list (map adds (concat progs))" if "steps_left c = 0"
  proof -
    have nil: "i < length (threads c) \<Longrightarrow> snd (threads c ! i) = []" for i
      using that nth_mem [of i "threads c"] by (auto simp: steps_left_def)
    then have "\<not> L c"
      using inv by (fastforce simp: counter_inv_def inside_def)
    moreover have "left_to_add (snd t) = 0" if "t \<in> set (threads c)" for t
      using that nil by (auto simp: in_set_conv_nth)
    then have "all_left c = 0"
      by (simp add: all_left_def cong: map_cong)
    ultimately show ?thesis using inv by (simp add: counter_inv_def)
  qed
  with counter_progress [OF inv] steps show ?thesis by auto
qed

theorem thread_safe_exact_witness:
  "\<exists>c. run_schedule [1, 1, 1, 1, 1, 0, 0, 0, 0, 0] (counter_start thread_safe 7 [[Increment], [Sub 3]]) = Some c \<and> V c = 5"
proof -
  let ?s = "[1, 1, 1, 1, 1, 0, 0, 0, 0, 0] :: nat list"
  let ?c = "counter_start thread_safe 7 [[Increment], [Sub 3]]"
  obtain c where run: "run_schedule ?s ?c = Some c"
    by (simp add: counter_start_def macro_defs)
  show ?thesis
    using thread_safe_exact [OF run_schedule_steps [OF run]] run by simp
qed

text \<open>
  Without the mutex an increment can be lost: both threads load the counter before either stores.
\<close>

theorem statistic_increment_loses:
  "\<exists>c. run_schedule [0, 1, 0, 0, 1, 1] (counter_start (statistic False) v [[Increment], [Increment]]) = Some c \<and>
     (\<forall>t \<in> set (threads c). snd t = []) \<and> V c = v + 1"
  by (simp add: counter_start_def macro_defs)

text \<open>With SAFE_STATISTICS the \<open>statistic\<close> macros are the safe ones.\<close>

lemma statistic_safe: "statistic True = thread_safe"
proof
  show "statistic True x = thread_safe x" for x by (cases x) (simp_all add: macro_defs)
qed

end
