(* ===== verification/Macros.thy ===== *)
theory Macros
  imports Prelude "HOL-Library.Word"
begin

text \<open>
  Macros of the client headers with a small computation of their own: alignment, comparisons and bits
  of inc/mysql/my_global.h, two-byte characters of m_ctype.h, the kinds of files of my_dir.h, the
  decimals of decimal.h, and the dynamic arrays and memory roots of my_sys.h.

  Shown: alignment gives the least multiple that is not smaller, and wraps to zero at the end of the
  address space; the two ways to write a two-byte character give the same bytes; a file has at most
  one kind; elements of a dynamic array lie apart while their offsets fit in 32 bits.
\<close>

unbundle bit_operations_syntax

section \<open>Alignment\<close>

text \<open>The type is \<open>size_t\<close>.\<close>

definition MY_ALIGN :: "64 word \<Rightarrow> 64 word \<Rightarrow> 64 word" where
  "MY_ALIGN A L = (A + L - 1) AND NOT (L - 1)"

definition ALIGN_SIZE :: "64 word \<Rightarrow> 64 word" where
  "ALIGN_SIZE A = MY_ALIGN A 8"

lemma and_not_mask: "x AND NOT (mask k) = push_bit k (drop_bit k x)" for x :: "'a :: len word"
  by (rule bit_word_eqI) (auto simp: bit_simps)

lemma unat_and_not_mask: "unat (x AND NOT (mask k)) = unat x div 2 ^ k * 2 ^ k" for x :: "'a :: len word"
proof -
  have "unat x div 2 ^ k * 2 ^ k \<le> unat x" by simp
  then have "unat x div 2 ^ k * 2 ^ k < 2 ^ LENGTH('a)" using unsigned_less [of x] by (rule le_less_trans)
  then show ?thesis
    unfolding and_not_mask
    by (simp only: unsigned_push_bit_eq unsigned_drop_bit_eq) (simp add: take_bit_nat_eq_self
        push_bit_eq_mult drop_bit_eq_div)
qed

lemma unat_low_mask:
  assumes "k < 64"
  shows "unat (mask k :: 64 word) = 2 ^ k - 1"
proof -
  have "unat (mask k :: 64 word) = mask k"
    using assms by (intro bit_eqI) (auto simp: bit_unsigned_iff bit_mask_iff)
  then show ?thesis by (simp add: mask_eq_exp_minus_1)
qed

lemma MY_ALIGN_mask: "MY_ALIGN A (2 ^ k) = (A + mask k) AND NOT (mask k)"
  by (simp add: MY_ALIGN_def mask_eq_exp_minus_1 add_diff_eq)

text \<open>Rounding up by division, on natural numbers.\<close>

lemma round_up:
  fixes a d :: nat
  assumes "0 < d"
  shows "a \<le> (a + d - 1) div d * d" and "a \<le> d * q \<Longrightarrow> (a + d - 1) div d * d \<le> d * q"
proof -
  have "a + d - 1 = (a + d - 1) div d * d + (a + d - 1) mod d" by simp
  moreover have "(a + d - 1) mod d < d" using assms by simp
  ultimately show "a \<le> (a + d - 1) div d * d" by linarith
  assume "a \<le> d * q"
  then have "a + d - 1 < d * Suc q" using assms by simp
  then have "(a + d - 1) div d < Suc q" using assms by (simp add: div_less_iff_less_mult mult.commute)
  then show "(a + d - 1) div d * d \<le> d * q" by (simp add: mult.commute)
qed

lemma unat_MY_ALIGN:
  assumes "k < 64" and "unat A + 2 ^ k \<le> 2 ^ 64"
  shows "unat (MY_ALIGN A (2 ^ k)) = (unat A + 2 ^ k - 1) div 2 ^ k * 2 ^ k"
proof -
  have "unat (A + mask k) = unat A + 2 ^ k - 1"
    using assms by (simp add: unat_plus_if_size word_size unat_low_mask)
  then show ?thesis by (simp add: MY_ALIGN_mask unat_and_not_mask)
qed

text \<open>For a power of two the result is the least multiple of it that is not smaller than the argument.\<close>

theorem MY_ALIGN_least:
  assumes "k < 64" and "unat A + 2 ^ k \<le> 2 ^ 64"
  shows "2 ^ k dvd unat (MY_ALIGN A (2 ^ k)) \<and> A \<le> MY_ALIGN A (2 ^ k) \<and>
    (\<forall>m. 2 ^ k dvd m \<longrightarrow> unat A \<le> m \<longrightarrow> unat (MY_ALIGN A (2 ^ k)) \<le> m)"
  using round_up [of "2 ^ k" "unat A"] by (auto simp: unat_MY_ALIGN [OF assms] word_le_nat_alt elim!: dvdE)

text \<open>Behind the last multiple the sum wraps, and the result is zero.\<close>

theorem MY_ALIGN_wraps:
  assumes "0 < k" "k < 64" and "2 ^ 64 - 2 ^ k < unat A"
  shows "MY_ALIGN A (2 ^ k) = 0"
proof -
  have "(2 :: nat) ^ k \<le> 2 ^ 64" using assms(2) by (intro power_increasing) simp_all
  moreover have "unat A < 2 ^ 64" using unsigned_less [of A] by simp
  ultimately have "unat (A + mask k) < 2 ^ k"
    using assms(2,3) by (simp add: unat_plus_if_size word_size unat_low_mask) linarith
  then have "unat ((A + mask k) AND NOT (mask k)) = 0" by (simp add: unat_and_not_mask)
  then show ?thesis by (simp only: unat_eq_0 MY_ALIGN_mask)
qed

section \<open>Comparisons and bits\<close>

text \<open>The macros work on any number type; the model is on \<open>int\<close>. Those that assign return the new value of their first argument.\<close>

definition swap_variables :: "'a \<Rightarrow> 'a \<Rightarrow> 'a \<times> 'a" where
  "swap_variables a b = (let dummy = a; a = b; b = dummy in (a, b))"

definition test :: "int \<Rightarrow> int" where
  "test a = (if a \<noteq> 0 then 1 else 0)"

definition set_if_bigger :: "int \<Rightarrow> int \<Rightarrow> int" where
  "set_if_bigger a b = (if a < b then b else a)"

definition set_if_smaller :: "int \<Rightarrow> int \<Rightarrow> int" where
  "set_if_smaller a b = (if b < a then b else a)"

definition test_all_bits :: "64 word \<Rightarrow> 64 word \<Rightarrow> bool" where
  "test_all_bits a b \<longleftrightarrow> a AND b = b"

definition max_macro :: "int \<Rightarrow> int \<Rightarrow> int" where
  "max_macro a b = (if b < a then a else b)"

definition min_macro :: "int \<Rightarrow> int \<Rightarrow> int" where
  "min_macro a b = (if a < b then a else b)"

lemma set_if_bounds:
  "set_if_bigger a b = max_macro a b" "set_if_smaller a b = min_macro a b"
  "min_macro a b \<le> max_macro a b" "min_macro a b + max_macro a b = a + b"
  by (auto simp: set_if_bigger_def set_if_smaller_def max_macro_def min_macro_def)

lemma test_all_bits_subset: "test_all_bits a b \<longleftrightarrow> (\<forall>n. bit b n \<longrightarrow> bit a n)"
proof
  assume "test_all_bits a b"
  then show "\<forall>n. bit b n \<longrightarrow> bit a n" by (metis test_all_bits_def bit_and_iff)
next
  assume "\<forall>n. bit b n \<longrightarrow> bit a n"
  then show "test_all_bits a b" unfolding test_all_bits_def by (intro bit_word_eqI) (auto simp: bit_and_iff)
qed

section \<open>Two-byte characters\<close>

text \<open>
  The tables of the character sets hold \<open>MB2 code\<close>, which \<open>MY_PUT_MB2\<close> writes to a buffer. On i386 the
  code is swapped in the table and written as one 16-bit integer, low byte first; elsewhere it is
  written byte by byte.
\<close>

definition MB2 :: "bool \<Rightarrow> 16 word \<Rightarrow> 16 word" where
  "MB2 i386 x = (if i386 then drop_bit 8 x + push_bit 8 (x AND 0xFF) else x)"

definition MY_PUT_MB2 :: "bool \<Rightarrow> 16 word \<Rightarrow> 8 word \<times> 8 word" where
  "MY_PUT_MB2 i386 code =
     (if i386 then (ucast code, ucast (drop_bit 8 code)) else (ucast (drop_bit 8 code), ucast (code AND 0xFF)))"

definition MY_CS_TOOSMALLN :: "int \<Rightarrow> int" where
  "MY_CS_TOOSMALLN n = - 100 - n"

text \<open>Both ways give the bytes of the code, high byte first.\<close>

theorem MY_PUT_MB2_same: "MY_PUT_MB2 True (MB2 True code) = MY_PUT_MB2 False (MB2 False code)"
proof -
  have disjoint: "drop_bit 8 code + push_bit 8 (code AND 0xFF) = drop_bit 8 code OR push_bit 8 (code AND 0xFF)"
    by (rule disjunctive_add) (auto simp: bit_simps dest: bit_imp_le_length)
  have ff: "bit (0xFF :: 16 word) n \<longleftrightarrow> n < 8" for n
    using bit_mask_iff [of 8 n, where 'a = "16 word"] by (auto simp: mask_eq_exp_minus_1)
  have "ucast (drop_bit 8 code OR push_bit 8 (code AND 0xFF)) = (ucast (drop_bit 8 code) :: 8 word)"
    by (rule bit_word_eqI) (auto simp: bit_simps)
  moreover have "ucast (drop_bit 8 (drop_bit 8 code OR push_bit 8 (code AND 0xFF))) = (ucast (code AND 0xFF) :: 8 word)"
    by (rule bit_word_eqI) (auto simp: bit_simps ff dest: bit_imp_le_length)
  ultimately show ?thesis unfolding MY_PUT_MB2_def MB2_def if_True if_False disjoint by (simp only: )
qed

section \<open>Kinds of files\<close>

text \<open>The numbers of sys/stat.h on Linux.\<close>

definition MY_S_IFMT :: "32 word" where "MY_S_IFMT = 0xF000"

definition MY_S_ISDIR :: "32 word \<Rightarrow> bool" where "MY_S_ISDIR m \<longleftrightarrow> m AND MY_S_IFMT = 0x4000"

definition MY_S_ISCHR :: "32 word \<Rightarrow> bool" where "MY_S_ISCHR m \<longleftrightarrow> m AND MY_S_IFMT = 0x2000"

definition MY_S_ISBLK :: "32 word \<Rightarrow> bool" where "MY_S_ISBLK m \<longleftrightarrow> m AND MY_S_IFMT = 0x6000"

definition MY_S_ISREG :: "32 word \<Rightarrow> bool" where "MY_S_ISREG m \<longleftrightarrow> m AND MY_S_IFMT = 0x8000"

definition MY_S_ISFIFO :: "32 word \<Rightarrow> bool" where "MY_S_ISFIFO m \<longleftrightarrow> m AND MY_S_IFMT = 0x1000"

lemmas kind_defs = MY_S_ISDIR_def MY_S_ISCHR_def MY_S_ISBLK_def MY_S_ISREG_def MY_S_ISFIFO_def

text \<open>Not one bit of the mode alone decides: a block device has the bits of a directory and of a character device.\<close>

lemma one_kind:
  "length (filter (\<lambda>f. f m) [MY_S_ISDIR, MY_S_ISCHR, MY_S_ISBLK, MY_S_ISREG, MY_S_ISFIFO]) \<le> 1"
  by (auto simp: kind_defs)

section \<open>Decimals\<close>

record decimal_t =
  intg :: int
  frac :: int
  dlen :: int
  dsign :: bool
  dbuf :: "int list"

text \<open>The buffer has at least one element.\<close>

definition decimal_make_zero :: "decimal_t \<Rightarrow> decimal_t" where
  "decimal_make_zero dec = dec\<lparr>dbuf := (dbuf dec)[0 := 0], intg := 1, frac := 0, dsign := False\<rparr>"

definition decimal_string_size :: "decimal_t \<Rightarrow> int" where
  "decimal_string_size dec = (if intg dec \<noteq> 0 then intg dec else 1) + frac dec + (if 0 < frac dec then 1 else 0) + 2"

definition decimal_neg :: "decimal_t \<Rightarrow> decimal_t" where
  "decimal_neg dec = dec\<lparr>dsign := \<not> dsign dec\<rparr>"

text \<open>
  The size is enough for the plain rendering: a sign, the digits before the point or a zero, the
  point and the digits behind it when there are any, and the terminator.
\<close>

lemma decimal_string_size_enough:
  fixes before behind :: string
  assumes "int (length before) = intg dec" and "int (length behind) = frac dec"
  shows "int (length ((if dsign dec then ''-'' else []) @ (if before = [] then ''0'' else before) @
      (if behind = [] then [] else ''.'' @ behind) @ [NUL])) \<le> decimal_string_size dec"
  using assms by (cases behind) (auto simp: decimal_string_size_def)

lemma decimal_neg_neg: "decimal_neg (decimal_neg dec) = dec"
  by (simp add: decimal_neg_def)

lemma decimal_string_size_zero: "decimal_string_size (decimal_make_zero dec) = 3"
  by (simp add: decimal_string_size_def decimal_make_zero_def)

section \<open>Dynamic arrays and memory roots\<close>

record dynamic_array =
  dbuffer :: "64 word"
  elements :: "32 word"
  max_element :: "32 word"
  alloc_increment :: "32 word"
  size_of_element :: "32 word"

text \<open>The offset is a product of two \<open>uint\<close>, so it is taken modulo two to the power of 32.\<close>

definition dynamic_array_ptr :: "dynamic_array \<Rightarrow> 32 word \<Rightarrow> 64 word" where
  "dynamic_array_ptr a i = dbuffer a + ucast (i * size_of_element a)"

definition reset_dynamic :: "dynamic_array \<Rightarrow> dynamic_array" where
  "reset_dynamic a = a\<lparr>elements := 0\<rparr>"

text \<open>
  While the product fits, the element is where the array says; behind that the addresses start
  again at the beginning of the buffer.
\<close>

theorem dynamic_array_ptr_exact:
  assumes "unat i * unat (size_of_element a) < 2 ^ 32"
  shows "dynamic_array_ptr a i = dbuffer a + of_nat (unat i * unat (size_of_element a))"
proof -
  have "unat (i * size_of_element a) = unat i * unat (size_of_element a)"
    using assms by (simp add: unat_word_ariths)
  moreover have "ucast x = (of_nat (unat x) :: 64 word)" for x :: "32 word"
    by simp
  ultimately show ?thesis by (simp only: dynamic_array_ptr_def)
qed

lemma dynamic_array_ptr_wraps:
  "dynamic_array_ptr (a\<lparr>size_of_element := 0x10000\<rparr>) 0x10000 = dbuffer a"
  by (simp add: dynamic_array_ptr_def)

record mem_root =
  free_blocks :: "64 word"
  used_blocks :: "64 word"
  pre_alloc :: "64 word"
  min_malloc :: "64 word"
  block_size :: "64 word"
  block_num :: "32 word"
  first_block_usage :: "32 word"

definition alloc_root_inited :: "mem_root \<Rightarrow> bool" where
  "alloc_root_inited A \<longleftrightarrow> min_malloc A \<noteq> 0"

definition clear_alloc_root :: "mem_root \<Rightarrow> mem_root" where
  "clear_alloc_root A = A\<lparr>free_blocks := 0, used_blocks := 0, pre_alloc := 0, min_malloc := 0\<rparr>"

lemma clear_alloc_root_inited: "\<not> alloc_root_inited (clear_alloc_root A)"
  by (simp add: alloc_root_inited_def clear_alloc_root_def)

end
