(* ===== verification/Zlog.thy ===== *)
theory Zlog
  imports Prelude "HOL-Library.Word"
begin

text \<open>
  The macros of the logging library's headers (inc/zlog) that compute: levels and the calls made with
  them, the bitmap of levels of a category, array lists and buffers. The functions of the library
  are not part of the sources.

  Shown: the loop macro of array lists visits the elements in order and needs an allocated first
  slot even for an empty list; every level the agent logs with is inside the bitmap, each with a bit of its own.
\<close>

unbundle bit_operations_syntax

section \<open>Levels and calls\<close>

definition ZLOG_LEVEL_DEBUG :: nat where "ZLOG_LEVEL_DEBUG = 20"

definition ZLOG_LEVEL_INFO :: nat where "ZLOG_LEVEL_INFO = 40"

definition ZLOG_LEVEL_NOTICE :: nat where "ZLOG_LEVEL_NOTICE = 60"

definition ZLOG_LEVEL_WARN :: nat where "ZLOG_LEVEL_WARN = 80"

definition ZLOG_LEVEL_ERROR :: nat where "ZLOG_LEVEL_ERROR = 100"

definition ZLOG_LEVEL_FATAL :: nat where "ZLOG_LEVEL_FATAL = 120"

text \<open>The arguments a macro passes to \<open>zlog\<close>; the place is what the preprocessor knows of the caller.\<close>

record place =
  FILE :: string
  func :: string
  LINE :: nat

record zlog_call =
  category :: nat
  zfile :: string
  filelen :: nat
  zfunc :: string
  funclen :: nat
  line :: nat
  level :: nat
  format :: string

definition zlog_at :: "nat \<Rightarrow> place \<Rightarrow> nat \<Rightarrow> string \<Rightarrow> zlog_call" where
  "zlog_at lv p cat fmt =
     \<lparr>category = cat, zfile = FILE p, filelen = length (FILE p), zfunc = func p, funclen = length (func p),
      line = LINE p, level = lv, format = fmt\<rparr>"

definition zlog_fatal :: "place \<Rightarrow> nat \<Rightarrow> string \<Rightarrow> zlog_call" where
  "zlog_fatal = zlog_at ZLOG_LEVEL_FATAL"

definition zlog_error :: "place \<Rightarrow> nat \<Rightarrow> string \<Rightarrow> zlog_call" where
  "zlog_error = zlog_at ZLOG_LEVEL_ERROR"

definition zlog_warn :: "place \<Rightarrow> nat \<Rightarrow> string \<Rightarrow> zlog_call" where
  "zlog_warn = zlog_at ZLOG_LEVEL_WARN"

definition zlog_notice :: "place \<Rightarrow> nat \<Rightarrow> string \<Rightarrow> zlog_call" where
  "zlog_notice = zlog_at ZLOG_LEVEL_NOTICE"

definition zlog_info :: "place \<Rightarrow> nat \<Rightarrow> string \<Rightarrow> zlog_call" where
  "zlog_info = zlog_at ZLOG_LEVEL_INFO"

definition zlog_debug :: "place \<Rightarrow> nat \<Rightarrow> string \<Rightarrow> zlog_call" where
  "zlog_debug = zlog_at ZLOG_LEVEL_DEBUG"

text \<open>The agent's own macro, below all levels of the library (src/unsent.c).\<close>

definition zlog_unsent :: "place \<Rightarrow> nat \<Rightarrow> string \<Rightarrow> zlog_call" where
  "zlog_unsent = zlog_at 19"

lemmas level_defs = ZLOG_LEVEL_DEBUG_def ZLOG_LEVEL_INFO_def ZLOG_LEVEL_NOTICE_def
  ZLOG_LEVEL_WARN_def ZLOG_LEVEL_ERROR_def ZLOG_LEVEL_FATAL_def

lemmas call_defs = zlog_fatal_def zlog_error_def zlog_warn_def zlog_notice_def zlog_info_def
  zlog_debug_def zlog_unsent_def zlog_at_def

section \<open>The bitmap of a category\<close>

text \<open>
  One bit for each level from 0 to 255, in 32 bytes, the highest bit of a byte first. A level beyond
  reads outside the array.
\<close>

definition zlog_category_needless_level :: "8 word list \<Rightarrow> nat \<Rightarrow> bool option" where
  "zlog_category_needless_level bitmap lv =
     (if lv div 8 < length bitmap
      then Some (drop_bit (7 - lv mod 8) (bitmap ! (lv div 8)) AND 1 = 0) else None)"

lemma needless_bit:
  "lv div 8 < length bitmap \<Longrightarrow>
   zlog_category_needless_level bitmap lv = Some (\<not> bit (bitmap ! (lv div 8)) (7 - lv mod 8))"
  by (simp add: zlog_category_needless_level_def and_one_eq bit_iff_odd_drop_bit mod2_eq_if odd_iff_mod_2_eq_one)

text \<open>Every level the agent logs with is inside the bitmap of 32 bytes.\<close>

lemma agent_levels_inside:
  assumes "length bitmap = 32" and "f \<in> {zlog_fatal, zlog_error, zlog_warn, zlog_notice, zlog_info, zlog_debug, zlog_unsent}"
  shows "zlog_category_needless_level bitmap (level (f p cat fmt)) \<noteq> None"
  using assms by (auto simp: call_defs level_defs zlog_category_needless_level_def)

text \<open>Two levels have different bits.\<close>

lemma level_bits_apart:
  assumes "lv div 8 = n div 8" and "7 - lv mod 8 = 7 - n mod 8"
  shows "lv = (n :: nat)"
proof -
  have "lv mod 8 < 8" "n mod 8 < 8" by simp_all
  with assms(2) have "lv mod 8 = n mod 8" by linarith
  with assms(1) show ?thesis by (metis div_mult_mod_eq)
qed

section \<open>Array lists\<close>

text \<open>The slots allocated for the array, and how many of them are in use.\<close>

record 'a zc_arraylist =
  array :: "'a list"
  len :: nat

text \<open>The result may be the null pointer; an index outside the slots is undefined.\<close>

definition zc_arraylist_get :: "'a zc_arraylist \<Rightarrow> int \<Rightarrow> 'a option option" where
  "zc_arraylist_get a i =
     (if int (len a) \<le> i then Some None
      else if 0 \<le> i \<and> nat i < length (array a) then Some (Some (array a ! nat i)) else None)"

text \<open>The loop: the first slot is read before the test, then each slot in use, and the body is run with it.\<close>

function foreach_from :: "'a zc_arraylist \<Rightarrow> ('a \<Rightarrow> 's \<Rightarrow> 's) \<Rightarrow> nat \<Rightarrow> 's \<Rightarrow> 's option" where
  "foreach_from a body i s =
     (if i < len a
      then if i < length (array a) then foreach_from a body (Suc i) (body (array a ! i) s) else None
      else Some s)"
  by auto
termination
  by (relation "measure (\<lambda>(a, _, i, _). len a - i)") auto

declare foreach_from.simps [simp del]

definition zc_arraylist_foreach :: "'a zc_arraylist \<Rightarrow> ('a \<Rightarrow> 's \<Rightarrow> 's) \<Rightarrow> 's \<Rightarrow> 's option" where
  "zc_arraylist_foreach a body s = (if array a = [] then None else foreach_from a body 0 s)"

lemma foreach_from_fold:
  assumes "len a \<le> length (array a)" and "i \<le> len a"
  shows "foreach_from a body i s = Some (fold body (drop i (take (len a) (array a))) s)"
  using assms
proof (induction a body i s rule: foreach_from.induct)
  case (1 a body i s)
  show ?case
  proof (cases "i < len a")
    case True
    then have "drop i (take (len a) (array a)) = array a ! i # drop (Suc i) (take (len a) (array a))"
      using 1(2) by (subst Cons_nth_drop_Suc [symmetric]) simp_all
    with 1 True show ?thesis by (subst foreach_from.simps) simp
  next
    case False
    with 1(3) show ?thesis by (subst foreach_from.simps) simp
  qed
qed

text \<open>The loop runs the body on the elements in use, in order.\<close>

theorem zc_arraylist_foreach_fold:
  assumes "len a \<le> length (array a)" and "array a \<noteq> []"
  shows "zc_arraylist_foreach a body s = Some (fold body (take (len a) (array a)) s)"
  using foreach_from_fold [OF assms(1), of 0] assms(2) by (simp add: zc_arraylist_foreach_def)

section \<open>Buffers\<close>

record zlog_buf =
  bstart :: nat
  tail :: nat
  mem :: "nat \<Rightarrow> char"

definition zlog_buf_restart :: "zlog_buf \<Rightarrow> zlog_buf" where
  "zlog_buf_restart b = b\<lparr>tail := bstart b\<rparr>"

definition zlog_buf_len :: "zlog_buf \<Rightarrow> int" where
  "zlog_buf_len b = int (tail b) - int (bstart b)"

definition zlog_buf_seal :: "zlog_buf \<Rightarrow> zlog_buf" where
  "zlog_buf_seal b = b\<lparr>mem := (mem b)(tail b := NUL)\<rparr>"

lemma zlog_buf_restart_empty: "zlog_buf_len (zlog_buf_restart b) = 0"
  by (simp add: zlog_buf_len_def zlog_buf_restart_def)

end
