(* ===== verification/Spec2Isabelle.thy ===== *)
theory Spec2Isabelle
  imports Agent Restart Overdue Sharing PoolRace GatherRace PsiFile PsiThread MString IoCache MTime Protocol Charset
    Counter Macros ErrorTables Zlog
begin

text \<open>
  The monitoring agent of this repository (src/src, src/inc) watches a machine and its MySQL
  servers, writes what it sees as JSON into packets and posts them to a gate. This development
  models its C sources and the executable parts of the MySQL client headers shipped with them.

  \<^bold>\<open>The program.\<close> \<open>main\<close> (agent.c) becomes a daemon (daemon.c), collects the metadata of the machine
  (metadata.c), reads the configuration and loads a plugin for every active section (sparser.c),
  finds the numbers of plugins that were registered before in the directory \<open>res\<close>, starts two
  routines and the plugins, and then pings the routines for ever. A routine (routine.c) is a thread
  that runs its task once per ping. The scheduler (scheduler.c) pings the plugins that are due; the
  storage (storage.c) posts the packets that are ready through the sender (sender.c). A plugin
  (plugin.c) prepares its module, registers at the gate, and then gathers: it takes a packet
  (packet.c) from the storage, lets its module (plugins/os.c, plugins/mysql.c) append a record, and
  hands the packet over when its time is over. unsent.c manages files of packets that were not sent.

  \<^bold>\<open>Theories.\<close> Each opens with what it holds.
  \<^item> \<open>Prelude\<close>, \<open>Scan\<close>, \<open>Cfloat\<close>, \<open>Json\<close>: what the sources use of C and its library: character
    buffers and \<open>snprintf\<close>, decimal conversions, \<open>sscanf\<close> directives, single-precision constants,
    and JSON as the language the texts should belong to; the sources escape nothing, so they belong to it
    when no string in them needs an escape (\<open>jrender_plain\<close>).
  \<^item> \<open>Util\<close>, \<open>Sleep\<close>, \<open>Packet\<close>, \<open>Gather\<close>: the clock and the machine, the pause, packets with rollback, and
    \<open>packet_gather\<close>. The locale \<open>gatherer\<close> states what \<open>packet_gather\<close> needs from a gathering
    function; every section of both modules satisfies it.
  \<^item> \<open>Sender\<close>, \<open>Unsent\<close>, \<open>Storage\<close>: handles and requests, and the linked list of packets in an
    explicit heap. The locale \<open>packet_pool\<close> is what plugins rely on, interpreted on \<open>get_packet\<close>.
    \<open>PoolRace\<close> runs \<open>get_packet\<close> in several threads, one step per access to the shared list.
    \<open>Sharing\<close> runs the tasks of all plugins and the storage on one list; its locale \<open>link_keeper\<close> is what the
    list needs from a gathering function, interpreted on both modules.
  \<^item> \<open>Plugin\<close>, \<open>Sparser\<close>, \<open>OsPlugin\<close>, \<open>MysqlPlugin\<close>: the life of a plugin, the configuration
    parser, and the two modules. \<open>GatherRace\<close> runs \<open>plugin_gather\<close> in two threads on one plugin, one
    step per access to the packet in progress.
  \<^item> \<open>Routine\<close>, \<open>Scheduler\<close>, \<open>Metadata\<close>, \<open>Daemon\<close>, \<open>Agent\<close>: threads, the round of the scheduler,
    and the start of the program. The handshake of a routine and its caller is the step relation
    \<open>hs_step\<close>, one step per call of a pthread function and one per spurious return of a wait.
    \<open>Overdue\<close> adds the clock and the moment \<open>due\<close> is written. \<open>Restart\<close> adds the stop and the restart: the
    cancelled thread goes on beside the new one until it reaches a point where it may be cancelled.
  \<^item> \<open>Psi\<close>, \<open>PsiFile\<close>, \<open>PsiThread\<close>: the instrumented files, locks, conditions and threads of
    inc/mysql/mysql/psi. A run is the list of calls made; the locale \<open>instrumented\<close> is the contract of
    a wrapper, interpreted on every one of them.
  \<^item> \<open>ByteOrder\<close>: the macros of inc/mysql/my_global.h that read and store integers. \<open>MString\<close>: the inline
    functions of inc/mysql/m_string.h. \<open>IoCache\<close>: the macros on file caches of inc/mysql/my_sys.h. \<open>MTime\<close>:
    the time limits of inc/mysql/my_pthread.h. \<open>Protocol\<close>: flags, field types and client errors of
    inc/mysql/mysql_com.h, mysql.h and errmsg.h. \<open>Charset\<close>: character classes and contractions of
    inc/mysql/m_ctype.h. \<open>Counter\<close>: the shared counters of inc/mysql/my_pthread.h, run by any number of
    threads. \<open>Macros\<close>: alignment, bits, two-byte characters, kinds of files, decimals and dynamic arrays.
    \<open>ErrorTables\<close>: inc/mysql/mysqld_error.h, mysqld_ername.h and sql_state.h. \<open>Zlog\<close>: the macros of inc/zlog.
  \<^item> This theory: the properties that span components.

  \<^bold>\<open>State and operations.\<close> A structure of the sources is a record with its fields, an enumeration a
  datatype, an integer whose width matters a word; a function of the sources has a definition with
  its name. \<open>machine\<close> (Util) is the part of the world the agent changes or reads: the readings of
  the clock, the outcome of allocations, the answers of the gate and the requests sent, the files. An
  observation record (\<open>os_obs\<close>, \<open>mysql_obs\<close>, \<open>meta_obs\<close>, \<open>daemon_obs\<close>, \<open>boot_obs\<close>) holds what system
  calls, commands and queries answer; libraries outside the sources (libcurl, the MySQL client,
  \<open>dlopen\<close>, pthread) enter only by such arguments and by named hypotheses. Undefined behaviour and a
  spin nobody ends are the value \<^const>\<open>None\<close>, so a theorem with a \<^const>\<open>Some\<close> result also says that
  the run is defined and returns.

  \<^bold>\<open>What is shown.\<close>
  \<^item> Packets: an append within the bound is exact, one beyond it is followed by undefined behaviour;
    rollback restores the text; expiry happens after seven seconds.
  \<^item> Plugins: what a round adds to a packet for every code of a module; the text handed over is the
    JSON document of the records; registration; invariants of all runs of the tasks. Two threads that
    gather for one plugin, as after a restart, can reach a null pointer or spoil a closed document.
  \<^item> Modules: for every observation they can report (arrays and scanned strings within their bounds) they
    write exactly the JSON members of their sections; alerts of a MySQL server alternate, and a server
    that goes away is reported in whatever state the packet is; and the inputs on which they are undefined.
  \<^item> Storage and sender: \<open>storage_main\<close> refines a fold over the list of packets, sends in order, stops at
    the first failure; \<open>get_packet\<close> keeps packets in use; the back-off sequence; which handle and text
    a request carries, and that an answer with a body makes \<open>post\<close> fail. With several threads a packet
    is given to one caller only, but a new packet can be lost from the list. Whatever the tasks of the plugins
    and the storage do one after the other, the list stays well formed; freeing it ends, and the
    finalisation of the storage returns when the join of its thread does.
  \<^item> Parser and start: writing a configuration and reading it back; what a full array or an unreadable
    file does; a target keeps its number over a restart of the agent; the main loop does not end.
  \<^item> Routines: mutual exclusion, at most one run per ping and spurious return, a ping of a waiting thread
    can always complete; the scheduler pings exactly the plugins that are due. A spurious return of the wait
    for the start can lose a ping, and one of the wait for a ping can stall the routine. A routine
    stays due until its task has ended, so a slow one is restarted. Restarts: still at most one run per
    ping and spurious return, and all guarantees again when the cancelled thread ended in time; otherwise
    two threads can run the task together, and a restart of a waiting thread can block its caller for
    ever. The pause asks for a proper time for every number from zero on that fits, whatever the rounding does.
  \<^item> Client headers: a wrapper returns what the wrapped function returns, makes that one call and
    closes the waits it opens; streams and mutexes give back what they took; stores are read back,
    the x86 macros agree with the portable ones, and signed reads are two's complement; the word-wise
    scan for trailing spaces is the naive one and stays inside the string; reading through a cache is
    reading the file; limits of waits are exact; the fallback of \<open>ER\<close> reads outside its table; the three tables of
    server errors agree; counters under their mutex lose no change, in whatever order the threads run,
    and the others can; alignment gives the least multiple.

  \<^bold>\<open>Loops.\<close> Loops over lists and strings are structural recursion. The loops over the linked list are
  \<open>partial_function (option)\<close>, with theorems that they return on every list without a cycle, which the
  invariant provides. \<open>skip_until\<close> and \<open>sparse_loop\<close> recurse over the lines left of the file.
  \<open>agent_turns\<close> counts the turns of the main loop, and the theorem holds for every count. The loops of
  \<open>skip_trailing_space\<close> end because the address falls.

  \<^bold>\<open>Not modelled.\<close> Log output; the text of the shell commands; the JVM plugin, which is not compiled
  (plugins/jvm._c); of the vendored headers the declarations of library functions and the macros that
  choose between platforms or only forward a call; the generated documentation and the packages.
\<close>

section \<open>From an observation to a request\<close>

text \<open>A ready packet whose request is made by the next round of the storage.\<close>

lemma storage_main_posts:
  assumes "senders_ready sn" "storage_inv s as" "all_sendable s as" "readable_replies w"
    and "\<forall>n url body. transfer_ok (net w n url body)"
    and "a \<in> set as" "heap s a = Some k" "pstate k = READY"
  shows "\<exists>s' w' k'. storage_main sn s w = Some (0, s', w') \<and> request k \<in> set (sent w') \<and>
    heap s' a = Some k' \<and> pstate k' = DONE"
proof -
  have "distinct as"
    using assms(2) by (auto simp: storage_inv_def chain_distinct)
  then obtain r s' w' ks where run: "storage_main sn s w = Some (r, s', w')" "readies s as = ks"
      "sent_prefix s w ks [] r s' w'"
    using send_list_sends[OF assms(1) _ assms(3,4)] assms(5)
    unfolding storage_main_send_list[OF assms(2)] by fastforce
  have "a \<in> set ks"
    using assms(6-8) unfolding run(2)[symmetric] by (auto simp: readies_def)
  with run(3) assms(7) have "r = 0" "request k \<in> set (sent w')"
    "\<exists>k'. heap s' a = Some k' \<and> pstate k' = DONE"
    by (force simp: sent_prefix_def)+
  with run(1) show ?thesis by blast
qed

text \<open>
  C1: from the system to the server. When the packet of the operating-system plugin has lived its time,
  what is observed can be reported (arrays and scanned strings within their bounds) and has room in the
  packet, and the gate accepts what is sent, the round that closes the packet and the next round of
  the storage together post a request to the metrics address whose body is the JSON document of all the
  packet's records, the last one holding what was just observed.
\<close>

theorem os_document_is_sent:
  fixes p :: "'m plugin"
  assumes os: "gather p (Suc (readings w)) = os_gather ob" "os_ok ob" "os_members ob \<noteq> []"
    and pack: "working p = Some a" "storage_inv s as" "a \<in> set as" "heap s a = Some k" "ptype k = METRIC"
      "opens md (tid p) (json_records rs) k"
      "room k (head_room md (tid p) k + (50 + all_need (os_specs ob :: (string \<times> 'm gspec) list) (module p)))"
    and old: "is_expired (epoch_of (clock w (Suc (readings w))))
      (if rs = [] then epoch_of (clock w (readings w)) else started k)"
    and others: "\<forall>b \<in> set as. b \<noteq> a \<longrightarrow> (\<exists>q. heap s b = Some q \<and> (pstate q = READY \<longrightarrow> sendable q))"
    and net: "senders_ready sn" "readable_replies w" "\<forall>n url body. transfer_ok (net w n url body)"
  defines "doc \<equiv> jshow (doc_json md (tid p) (rs @ [(epoch_of (clock w (readings w)), os_members ob)]))"
  assumes chars: "NUL \<notin> set doc"
  shows "\<exists>p' s1 w1 s2 w2. plugin_gather md p s w = Some (0, p', s1, w1) \<and>
    storage_main sn s1 w1 = Some (0, s2, w2) \<and> (URL METRIC, doc) \<in> set (sent w2)"
proof -
  have g: "gatherer (gather p (Suc (readings w))) (os_spec ob)"
    unfolding os(1) using os(2) by (rule os_gatherer)
  have room: "room k (head_room md (tid p) k + (50 + g_need (os_spec ob) (module p)))"
    using pack(7) by (simp add: os_spec_def)
  have spec: "g_code (os_spec ob) (module p) = ENONE" "g_out (os_spec ob) (module p) = jmembers (os_members ob)"
    using os(3) by (simp_all add: os_spec_def code_of_def)
  obtain k' where run: "plugin_gather md p s w = Some (0, p\<lparr>task := next_task ENONE (task p),
        module := g_upd (os_spec ob) (module p), working := None\<rparr>, set_packet a k' s, w\<lparr>readings := readings w + 2\<rparr>)"
    and k': "pstate k' = READY" "pkt_ok k'" "control k' = control k" "ptext k' = doc"
    using plugin_gather_expires[OF pack(1,4,6) g room spec old] unfolding doc_def by blast
  let ?s1 = "set_packet a k' s" and ?w1 = "w\<lparr>readings := readings w + 2\<rparr>"
  have ctl: "pnext k' = pnext k" "spin k' = 0" "ptype k' = METRIC"
    using k'(3) pack(2,4,5) by (auto simp: control_def storage_inv_def)
  have inv: "storage_inv ?s1 as"
    using storage_inv_upd[OF pack(2,4) ctl(1,2)] .
  have "all_sendable ?s1 as"
    using others k' chars ctl(2) by (auto simp: all_sendable_def sendable_def)
  moreover have "readable_replies ?w1"
    using net(2) by (simp add: readable_replies_def)
  moreover have "\<forall>n url body. transfer_ok (net ?w1 n url body)"
    using net(3) by simp
  moreover have "heap ?s1 a = Some k'" by simp
  ultimately obtain s2 w2 where "storage_main sn ?s1 ?w1 = Some (0, s2, w2)" "request k' \<in> set (sent w2)"
    using storage_main_posts[OF net(1) inv _ _ _ pack(3) _ k'(1)] by blast
  with run ctl(3) k'(4) show ?thesis
    by (auto simp: request_def)
qed

lemma sample_doc_chars:
  "NUL \<notin> set (jshow (doc_json sample_metadata 5 [(epoch_of \<lparr>tv_sec = 1000, tv_nsec = 0\<rparr>, os_members sample_obs)]))"
proof -
  have "NUL \<notin> set (show_ull t)" for t
    using show_nat_digits[of NUL "unat t"] by (auto simp: show_ull_def is_digit_def simp del: show_nat.simps)
  moreover have "jshow (doc_json sample_metadata 5 [(b, os_members sample_obs)]) =
      metric_head sample_metadata 5 @ stamp_text b @ ''\"values\":{'' @ jmembers (os_members sample_obs) @ ''}}]}''" for b
    unfolding doc_text_json[symmetric] by (simp add: doc_text_def json_records_def record_text_def)
  ultimately show ?thesis
    by (simp add: sample_obs_text metric_head_def stamp_text_def sample_metadata_def)
qed

theorem os_document_is_sent_witness:
  "\<exists>p' s1 w1 s2 w2. plugin_gather sample_metadata (sample_plugin\<lparr>gather := (\<lambda>_. os_gather sample_obs)\<rparr>)
      sample_storage1 late_machine = Some (0, p', s1, w1) \<and>
    storage_main sample_senders s1 w1 = Some (0, s2, w2) \<and>
    (URL METRIC, jshow (doc_json sample_metadata 5
       [(epoch_of \<lparr>tv_sec = 1000, tv_nsec = 0\<rparr>, os_members sample_obs)])) \<in> set (sent w2)"
proof -
  let ?p = "sample_plugin\<lparr>gather := (\<lambda>_. os_gather sample_obs)\<rparr>"
  let ?k = "new_packet METRIC None"
  have late: "clock late_machine 0 = \<lparr>tv_sec = 1000, tv_nsec = 0\<rparr>" "readings late_machine = 0"
    by (simp_all add: late_machine_def)
  have "all_need (os_specs sample_obs) (0 :: nat) \<le> 1000"
    by (rule sample_obs_need)
  then have room: "room ?k (head_room sample_metadata (tid ?p) ?k +
      (50 + all_need (os_specs sample_obs :: (string \<times> nat gspec) list) (module ?p)))"
    by (simp add: room_def head_room_def new_packet_def metric_head_def sample_metadata_def PKTSZ_def
        show_ull_def show_nat.simps)
  have time: "is_expired (epoch_of (clock late_machine (Suc (readings late_machine))))
      (if ([] :: (epoch_t \<times> (string \<times> json) list) list) = []
       then epoch_of (clock late_machine (readings late_machine)) else started ?k)"
    by (simp add: is_expired_def late_machine_def epoch_of_def PACKET_EXP_thousandths_def MSPS_def NSPMS_def)
  have start: "opens sample_metadata (tid ?p) (json_records []) ?k"
    using sample_start by (simp add: json_records_def)
  have others: "\<forall>b \<in> set [0, 1]. b \<noteq> 1 \<longrightarrow>
      (\<exists>q. heap sample_storage1 b = Some q \<and> (pstate q = READY \<longrightarrow> sendable q))"
    by (simp add: sample_storage1_def sendable_def)
  have ok: "readable_replies late_machine" "\<forall>n url body. transfer_ok (net late_machine n url body)"
    using sample_readable by (simp_all add: late_machine_def readable_replies_def transfer_ok_def)
  have members: "os_members sample_obs \<noteq> []"
    by (simp add: os_members_def sample_obs_def)
  have chars: "NUL \<notin> set (jshow (doc_json sample_metadata (tid ?p)
      ([] @ [(epoch_of (clock late_machine (readings late_machine)), os_members sample_obs)])))"
    using sample_doc_chars by (simp add: late)
  have w: "working ?p = Some 1" "(1 :: addr) \<in> set [0, 1]" "ptype ?k = METRIC"
      "gather ?p (Suc (readings late_machine)) = os_gather sample_obs"
    by (simp_all add: new_packet_def)
  from os_document_is_sent[OF w(4) sample_obs_ok members w(1) sample_storage1_facts(1) w(2)
      sample_storage1_facts(2) w(3) start room time others sample_senders_ready ok chars]
  show ?thesis by (simp add: late)
qed

section \<open>When the database goes away\<close>

text \<open>The contract of the MySQL module while its server does not answer.\<close>

definition down_spec :: "mysql_module gspec" where
  "down_spec = \<lparr>g_code = (\<lambda>m. if on m then EPLUGDOWN else ENODATA), g_out = (\<lambda>_. []),
     g_upd = (\<lambda>m. m\<lparr>on := False\<rparr>), g_need = (\<lambda>_. 0)\<rparr>"

lemma mysql_down_gatherer:
  assumes "\<not> q_ping ob"
  shows "gatherer (mysql_gather ob) down_spec"
proof
  fix m :: mysql_module and p :: packet
  assume "pkt_ok p"
  moreover have "\<not> on m \<Longrightarrow> m\<lparr>on := False\<rparr> = m" by (cases m) simp
  ultimately show "\<exists>q. mysql_gather ob m p = Some (g_code down_spec m, g_upd down_spec m, q) \<and>
      wrote (g_out down_spec m) p q"
    using assms by (auto simp: mysql_gather_def down_spec_def wrote_refl)
qed (simp add: down_spec_def)

lemma alert_posts:
  assumes "oob p = None" "malloc_ok w (readings w)" "senders_ready sn" "readable_replies w"
    and "length (alert_text md (tid p) stat) < PKTSZ" "NUL \<notin> set (alert_text md (tid p) stat)"
  shows "\<exists>r p' w'. plugin_alert md sn stat p w = Some (r, p', w') \<and>
    sent w' = sent w @ [(URL ALERT, alert_text md (tid p) stat)] \<and>
    task p' = (if r = 0 then Gather else task p)"
proof -
  let ?k = "(new_packet ALERT None)\<lparr>pstate := READY\<rparr>" and ?s = "alert_text md (tid p) stat"
  let ?w = "w\<lparr>readings := Suc (readings w)\<rparr>"
  have "room ?k (length ?s)"
    using assms(5) by (simp add: room_def new_packet_def)
  then obtain k1 where k1: "packet_append ?s ?k = Some k1" "wrote ?s ?k k1"
    by (rule packet_append_wrote)
  have "ptext ?k = []" by (simp add: ptext_def new_packet_def)
  then have f: "ptext k1 = ?s" "pstate k1 = READY" "sendable k1" "ptype k1 = ALERT"
    using wrote_fields[OF k1(2)] assms(6) by (simp_all add: sendable_def new_packet_def)
  have "readable_replies ?w" using assms(4) by (simp add: readable_replies_def)
  from post_sendable[OF assms(3) f(2,3) this] obtain r n w' where
    "post sn k1 ?w = Some (r, k1\<lparr>attempt := Suc (attempt k1), response := n\<rparr>, w')"
    "sent w' = sent ?w @ [request k1]"
    by metis
  with k1(1) f(1,4) assms(1,2) show ?thesis
    by (auto simp: plugin_alert_def packet_alloc_type request_def)
qed

text \<open>
  The plugin can make a round: it has no packet and the storage gives it one, or its packet, new or
  with the records \<open>recs\<close>, has room for an empty record.
\<close>

definition round_fits :: "metadata \<Rightarrow> 'm plugin \<Rightarrow> storage \<Rightarrow> string list \<Rightarrow> bool" where
  "round_fits md p s recs \<longleftrightarrow>
     (case working p of
        None \<Rightarrow> recs = [] \<and> pool_inv s \<and> length (metric_head md (tid p)) + 50 < PKTSZ
      | Some a \<Rightarrow> (\<exists>k. heap s a = Some k \<and> opens md (tid p) recs k \<and> room k (head_room md (tid p) k + 50)))"

lemma down_round:
  fixes p :: "mysql_module plugin"
  assumes my: "\<forall>n > readings w. gather p n = mysql_gather (ob n) \<and> \<not> q_ping (ob n)" "on (module p)"
    and pack: "round_fits md p s recs" and mem: "\<forall>n. malloc_ok w n"
  shows "\<exists>a k1 s1 m expired. plugin_gather md p s w =
      Some (0, p\<lparr>task := Alert_down, module := (module p)\<lparr>on := False\<rparr>, working := if expired then None else Some a\<rparr>,
        s1, w\<lparr>readings := m\<rparr>) \<and>
    (working p = None \<or> working p = Some a) \<and> heap s1 a = Some k1 \<and> after_round md (tid p) expired recs k1"
proof -
  have code: "g_code down_spec (module p) = EPLUGDOWN" "g_need down_spec (module p) = 0"
    "g_upd down_spec (module p) = (module p)\<lparr>on := False\<rparr>"
    using my(2) by (simp_all add: down_spec_def)
  have g: "\<forall>n > readings w. gatherer (gather p n) down_spec"
    using my(1) mysql_down_gatherer by auto
  have codes: "g_code down_spec (module p) \<in> plugin_codes" by (simp add: code plugin_codes_def)
  have task: "next_task EPLUGDOWN t = Alert_down" "add_record EPLUGDOWN r recs = recs" for t r
    by (simp_all add: next_task_def gather_codes add_record_def)
  show ?thesis
  proof (cases "working p")
    case None
    with pack have "recs = []" "pool_inv s" "length (metric_head md (tid p)) + 50 < PKTSZ"
      by (simp_all add: round_fits_def)
    with plugin_gather_opens[OF None _ mem, of s "\<lambda>_. down_spec" md] g codes obtain a k' p' s' w' b m expired where
      run: "plugin_gather md p s w = Some (0, p', s', w')" "w' = w\<lparr>readings := m\<rparr>"
      and k': "after_round md (tid p) expired (add_record (g_code down_spec (module p))
          (record_text b (g_out down_spec (module p))) []) k'" "heap s' a = Some k'"
      and p': "p' = p\<lparr>task := next_task (g_code down_spec (module p)) (task p), module := g_upd down_spec (module p),
          working := if expired then None else Some a\<rparr>"
      by (auto simp: code)
    from k'(1) have "after_round md (tid p) expired recs k'"
      unfolding code by (simp add: add_record_def gather_codes \<open>recs = []\<close>)
    with run k'(2) show ?thesis
      unfolding p' code task None by blast
  next
    case (Some a)
    with pack obtain k where k: "heap s a = Some k" "opens md (tid p) recs k"
      "room k (head_room md (tid p) k + (50 + g_need down_spec (module p)))"
      by (auto simp: round_fits_def code)
    from gather_into_round[OF k(2) _ codes k(3), of w a s] g Some k(1) show ?thesis
      unfolding code task by (fastforce simp: plugin_gather_def)
  qed
qed

text \<open>
  C2: a server that disappears is reported, whatever the packet of its plugin is in the middle of: none,
  a new one, one with records, and also one whose time is over. When the server does not answer the ping of
  a round and answered before, and memory does not run out, the round rolls the packet back to the records
  it had, or hands it over with just these when its time is over; it makes the alert the next
  task, and the module remembers that the server is gone. The alert posts the status \<open>down\<close> for
  the target, and stays the task until the gate has accepted it.
\<close>

theorem mysql_down_is_alerted:
  assumes my: "\<forall>n > readings w. gather p n = mysql_gather (ob n) \<and> \<not> q_ping (ob n)" "on (module p)"
    and pack: "round_fits md p s recs"
    and net: "oob p = None" "\<forall>n. malloc_ok w n" "senders_ready sn" "readable_replies w"
    and msg: "length (alert_text md (tid p) ''down'') < PKTSZ" "NUL \<notin> set (alert_text md (tid p) ''down'')"
  shows "\<exists>a k1 p1 s1 w1 r p2 w2 expired. plugin_gather md p s w = Some (0, p1, s1, w1) \<and>
    (working p = None \<or> working p = Some a) \<and> heap s1 a = Some k1 \<and> after_round md (tid p) expired recs k1 \<and>
    task p1 = Alert_down \<and> \<not> on (module p1) \<and>
    plugin_task md sn p1 s1 w1 = Some (r, p2, s1, w2) \<and>
    sent w2 = sent w @ [(URL ALERT, alert_text md (tid p) ''down'')] \<and>
    task p2 = (if r = 0 then Gather else Alert_down)"
proof -
  obtain a k1 s1 m expired where run: "plugin_gather md p s w =
      Some (0, p\<lparr>task := Alert_down, module := (module p)\<lparr>on := False\<rparr>, working := if expired then None else Some a\<rparr>,
        s1, w\<lparr>readings := m\<rparr>)"
    and k1: "working p = None \<or> working p = Some a" "heap s1 a = Some k1" "after_round md (tid p) expired recs k1"
    using down_round[OF my pack net(2)] by blast
  let ?p1 = "p\<lparr>task := Alert_down, module := (module p)\<lparr>on := False\<rparr>, working := if expired then None else Some a\<rparr>"
  obtain r p2 w2 where "plugin_alert md sn ''down'' ?p1 (w\<lparr>readings := m\<rparr>) = Some (r, p2, w2)"
    "sent w2 = sent w @ [(URL ALERT, alert_text md (tid p) ''down'')]"
    "task p2 = (if r = 0 then Gather else Alert_down)"
    using alert_posts[of ?p1 "w\<lparr>readings := m\<rparr>" sn md "''down''"] net msg by (auto simp: readable_replies_def)
  moreover from this have "plugin_task md sn ?p1 s1 (w\<lparr>readings := m\<rparr>) = Some (r, p2, s1, w2)"
    by (simp add: plugin_task_def plugin_alert_down_def)
  moreover have "task ?p1 = Alert_down" "\<not> on (module ?p1)" by simp_all
  ultimately show ?thesis using run k1 by blast
qed

text \<open>The plugin of a database, with one record in its packet.\<close>

definition mysql_plugin :: "mysql_module plugin" where
  "mysql_plugin =
     \<lparr>ptick = MYSQL_TICK, task = Gather, tid = 5, tip = None, target_type = ''mysql_ubuntu_1.0'', working = Some 0,
      oob = None, prep = None, fini = None, gather = (\<lambda>_. mysql_gather (sample_mysql_obs\<lparr>q_ping := False\<rparr>)),
      cmp = mysql_module_cmp, module_size = mysql_size, module_bytes = (\<lambda>_. []), module = sample_mysql\<rparr>"

definition one_record :: packet where
  "one_record = (let s = metric_head sample_metadata 5 @ ''{}'' in
     \<lparr>started = 1000000, ptype = METRIC, pstate = WROTE, response = 0, psize = length s, rollback_point = length s,
      attempt = 0, payload = write_str (\<lambda>_. NUL) 0 s, spin = 0, pnext = None\<rparr>)"

lemma one_record_carries: "carries sample_metadata 5 [''{}''] one_record"
proof -
  let ?s = "metric_head sample_metadata 5 @ ''{}''"
  have "length (metric_head sample_metadata 5) < 100"
    by (simp add: metric_head_def sample_metadata_def show_ull_def show_nat.simps)
  moreover have "text_of (write_str (\<lambda>_. NUL) 0 ?s) (length ?s) = ?s"
    by (rule nth_equalityI) (simp_all add: write_str_def)
  moreover have "write_str (\<lambda>_. NUL) 0 ?s (length ?s) = NUL"
    by (simp add: write_str_def)
  ultimately show ?thesis
    unfolding carries_def one_record_def pkt_ok_def ptext_def Let_def by (simp add: PKTSZ_def)
qed

theorem mysql_down_is_alerted_witness:
  "\<exists>p1 s1 w1 r p2 w2. plugin_gather sample_metadata mysql_plugin
      (sample_storage1\<lparr>heap := [0 \<mapsto> one_record]\<rparr>) sample_machine = Some (0, p1, s1, w1) \<and>
    \<not> on (module p1) \<and> plugin_task sample_metadata sample_senders p1 s1 w1 = Some (r, p2, s1, w2) \<and>
    sent w2 = [(URL ALERT, alert_text sample_metadata 5 ''down'')]"
proof -
  have msg: "length (alert_text sample_metadata (tid mysql_plugin) ''down'') < PKTSZ"
    "NUL \<notin> set (alert_text sample_metadata (tid mysql_plugin) ''down'')"
    by (simp_all add: alert_text_def sample_metadata_def mysql_plugin_def show_ull_def show_nat.simps
        digit_values PKTSZ_def)
  have k: "room one_record 50" "started one_record = 1000000"
    by (simp_all add: one_record_def room_def metric_head_def sample_metadata_def show_ull_def show_nat.simps
        PKTSZ_def Let_def)
  have carry: "carries sample_metadata (tid mysql_plugin) [''{}''] one_record"
    using one_record_carries by (simp add: mysql_plugin_def)
  have p: "\<forall>n > readings sample_machine. gather mysql_plugin n = mysql_gather (sample_mysql_obs\<lparr>q_ping := False\<rparr>) \<and>
      \<not> q_ping (sample_mysql_obs\<lparr>q_ping := False\<rparr>)" "on (module mysql_plugin)" "working mysql_plugin = Some 0"
    "oob mysql_plugin = None" "tid mysql_plugin = 5"
    by (simp_all add: mysql_plugin_def sample_mysql_def)
  have fits: "round_fits sample_metadata mysql_plugin (sample_storage1\<lparr>heap := [0 \<mapsto> one_record]\<rparr>) [''{}'']"
    using carry k by (auto simp: round_fits_def p(3) opens_def head_room_def carries_def)
  have m: "\<forall>n. malloc_ok sample_machine n" by simp
  from mysql_down_is_alerted[OF p(1,2) fits p(4) m sample_senders_ready sample_readable msg]
  show ?thesis unfolding p(5) sample_machine_simps(5) append_Nil by blast
qed

section \<open>Registered once\<close>

text \<open>
  C3: a target keeps its number over a restart of the agent. After a registration that succeeded, an agent
  that starts later with a plugin of the same type whose module agrees reads the number back from the
  file, gives it to the first such plugin and to no other, removes the file, and the plugin's
  next registration asks the server for this number again.
\<close>

theorem registration_survives_restart:
  fixes p :: "'m plugin" and q :: "'n plugin"
  assumes regr: "plugin_regr md sn p w = Some (0, p', w')" "regr_fits md p" "regr_pending md p" "\<forall>n. malloc_ok w n"
      "senders_ready sn" "readable_replies w" "\<forall>t. creatable w (res_name t)" "tid p' \<noteq> 0"
    and named: "length (target_type p) < BFSZ" "NUL \<notin> set (target_type p)"
      "module_size p < 2 ^ 31" "length (module_bytes p (module p)) = module_size p"
    and later: "files v = files w'" "\<forall>n. malloc_ok v n" "readable_replies v" "\<forall>t. creatable v (res_name t)"
    and same: "target_type q = target_type p" "cmp q (module_bytes p (module p)) (module q) (module_size p) = 0"
      "regr_fits md q" "oob q = None"
    and before: "\<forall>x \<in> set xs. \<not> (target_type x = target_type p \<and>
           cmp x (module_bytes p (module p)) (module x) (module_size p) = 0)"
  shows "\<exists>v1 r q' v2. restore_file (show_ull (tid p')) (xs @ q # ys) v = Some (xs @ q\<lparr>tid := tid p'\<rparr> # ys, v1) \<and>
    files v1 (res_name (tid p')) = None \<and>
    plugin_regr md sn (q\<lparr>tid := tid p'\<rparr>) v1 = Some (r, q', v2) \<and>
    sent v2 = sent v1 @ [(URL REGISTER, jshow (regr_json md q (tid p')))]"
proof -
  let ?t = "tid p'"
  have saved: "files v (res_name ?t) = Some (res_contents p)"
    using plugin_regr_sends[OF regr(2-7)] regr(1) later(1) by auto
  have "malloc_ok v (readings v)" using later(2) by simp
  from restore_file_back[OF saved this named same(1,2) before, of ys] obtain v1 where
    v1: "restore_file (show_ull ?t) (xs @ q # ys) v = Some (xs @ q\<lparr>tid := ?t\<rparr> # ys, v1)"
      "files v1 = (files v)(res_name ?t := None)"
      "malloc_ok v1 = malloc_ok v" "net v1 = net v" "creatable v1 = creatable v"
    by blast
  let ?q = "q\<lparr>tid := ?t\<rparr>"
  have "regr_fits md ?q" "regr_pending md ?q" "\<forall>n. malloc_ok v1 n" "readable_replies v1" "\<forall>t. creatable v1 (res_name t)"
    using same(3,4) later(2-4) v1(3-5) by (simp_all add: regr_pending_def readable_replies_def)
  from plugin_regr_sends[OF this(1-3) regr(5) this(4,5)] obtain r q' v2 where
    "plugin_regr md sn ?q v1 = Some (r, q', v2)"
    "sent v2 = sent v1 @ [(URL REGISTER, regr_text md ?q (regr_number ?q v1))]" by blast
  moreover have "regr_number ?q v1 = ?t" using regr(8) by (simp add: regr_number_def)
  moreover have "regr_text md ?q ?t = jshow (regr_json md q ?t)"
    unfolding regr_text_json by (simp add: regr_json_def)
  ultimately show ?thesis using v1(1,2) by (metis fun_upd_same)
qed

theorem registration_survives_restart_witness:
  "\<exists>p' w' v1 r q' v2. let p = fresh_plugin\<lparr>task := Regr\<rparr> in
    plugin_regr sample_metadata sample_senders p sample_machine = Some (0, p', w') \<and>
    restore_file (show_ull (tid p')) [p] (sample_machine\<lparr>files := files w'\<rparr>) = Some ([p\<lparr>tid := tid p'\<rparr>], v1) \<and>
    plugin_regr sample_metadata sample_senders (p\<lparr>tid := tid p'\<rparr>) v1 = Some (r, q', v2) \<and>
    sent v2 = sent v1 @ [(URL REGISTER, jshow (regr_json sample_metadata p (tid p')))]"
proof -
  let ?p = "fresh_plugin\<lparr>task := Regr\<rparr>" and ?w = sample_machine
  have w: "\<forall>n. malloc_ok ?w n" "\<forall>t. creatable ?w (res_name t)" "\<forall>n url body. transfer_ok (net ?w n url body)"
    by (simp_all add: transfer_ok_def)
  have number: "regr_number ?p ?w \<noteq> 0"
    by (simp add: regr_number_def fresh_plugin_def sample_plugin_def fresh_number_def fresh_id_def
        epoch_time_def epoch_of_def MSPS_def NSPMS_def)
  obtain p' w' where run: "plugin_regr sample_metadata sample_senders ?p ?w = Some (0, p', w')"
    and p': "p' = ?p\<lparr>tid := regr_number ?p ?w, oob := None, task := Gather\<rparr>"
    using plugin_regr_sends[OF fresh_plugin_facts w(1) sample_senders_ready sample_readable w(2)] w(3) by auto
  let ?v = "sample_machine\<lparr>files := files w'\<rparr>"
  have v: "files ?v = files w'" "\<forall>n. malloc_ok ?v n" "readable_replies ?v" "\<forall>t. creatable ?v (res_name t)"
    using sample_readable by (simp_all add: readable_replies_def)
  have p: "length (target_type ?p) < BFSZ" "NUL \<notin> set (target_type ?p)" "module_size ?p < 2 ^ 31"
    "length (module_bytes ?p (module ?p)) = module_size ?p" "oob ?p = None"
    "cmp ?p (module_bytes ?p (module ?p)) (module ?p) (module_size ?p) = 0"
    by (simp_all add: fresh_plugin_def sample_plugin_def BFSZ_def)
  have t: "tid p' \<noteq> 0" using number by (simp add: p')
  from registration_survives_restart[OF run fresh_plugin_facts w(1) sample_senders_ready sample_readable w(2) t
      p(1-4) v refl p(6) fresh_plugin_facts(1) p(5), of "[]" "[]"] run
  show ?thesis unfolding Let_def by (metis append_Nil empty_iff list.set(1))
qed

section \<open>A round that takes too long\<close>

text \<open>
  C4: a slow round is started a second time beside itself. Take a plugin that waits for a ping and is
  due, and any course of events up to a moment in which its next task runs and the caller of the
  ping is back. The ping mutex is then taken, so another ping fails; and \<open>due\<close> is only written
  when the task has ended, so the plugin is still due. A round of the scheduler in that moment therefore
  pings it in vain and restarts it, and from there steps lead to a state in which the cancelled thread and
  the new one both run the task.
\<close>

theorem slow_gather_runs_twice:
  assumes waits: "td_reach s0" "thread (hsk s0) = T_wait" "next_due s0 \<le> now s0"
    and busy: "td_step\<^sup>*\<^sup>* s0 s" "thread (hsk s) = T_task" "runs (hsk s) = Suc (runs (hsk s0))"
      "caller (hsk s) = caller_pc.Idle"
    and entry: "reached es i" "es ! i = Some (r, p)" "alive r" "due r = next_due s" "task p = Gather"
    and clock: "now s \<le> epoch_of (clock w (readings w + length (filter is_alive (take i es))))"
    and ping: "ping_ok an i \<longrightarrow> (\<exists>h'. hs_step (hsk s) h' \<and> caller h' = P_signal)"
  shows "\<exists>acts es1 w' s'. scheduler_main an (int (length es)) es w = (acts, es1, w') \<and>
    Ping i \<in> set acts \<and> Restart i \<in> set acts \<and>
    rs_step\<^sup>*\<^sup>* \<lparr>hs = hsk s, olds = [], on_flag = True, rpc = R_none\<rparr> s' \<and>
    thread (hs s') = T_task \<and> T_task \<in> set (olds s')"
proof -
  have "hs_reach (hsk s)" using td_reach_hs[OF td_reach_steps[OF busy(1) waits(1)]] .
  then have "ping_me (hsk s)"
    using hs_reach_inv busy(2) by (simp add: hs_inv_def thread_holds_def)
  then have "\<not> (\<exists>h'. hs_step (hsk s) h' \<and> caller h' = P_signal)"
    using busy(2,4) by (auto elim!: hs_step.cases)
  with ping have fails: "\<not> ping_ok an i" by blast
  have "thread (hsk s0) \<noteq> T_task" using waits(2) by simp
  from overdue_during_task(2)[OF this waits(3) busy(1-3)] clock have "due_now es w i"
    using entry(2-4) by (auto simp: due_now_def intro: order_trans)
  moreover obtain acts es' w' where run: "scheduler_loop an 0 es w = (acts, es', w')" by (rule prod_cases3)
  moreover have "stuck_now an es w 0 i"
    using \<open>due_now es w i\<close> entry fails by (simp add: stuck_now_def)
  ultimately have "Ping i \<in> set acts" "Restart i \<in> set acts"
    using scheduler_loop_acts[OF run] entry(1) by simp_all
  moreover have "scheduler_main an (int (length es)) es w = (acts, es', w')"
    using run by (simp add: scheduler_main_def)
  moreover obtain s' where "rs_step\<^sup>*\<^sup>* \<lparr>hs = hsk s, olds = [], on_flag = True, rpc = R_none\<rparr> s'"
    "thread (hs s') = T_task" "T_task \<in> set (olds s')"
    using restart_two_tasks[of "\<lparr>hs = hsk s, olds = [], on_flag = True, rpc = R_none\<rparr>"] busy(2,4) by auto
  ultimately show ?thesis by blast
qed

theorem slow_gather_runs_twice_witness:
  "\<exists>acts es1 w' s. scheduler_main \<lparr>ping_ok = (\<lambda>_. False), sync_ok = (\<lambda>_. True)\<rparr> (int (length sample_table))
      sample_table sample_machine = (acts, es1, w') \<and> Restart 0 \<in> set acts \<and>
    rs_reach s \<and> thread (hs s) = T_task \<and> T_task \<in> set (olds s)"
proof -
  obtain s0 s where s: "td_reach s0" "thread (hsk s0) = T_wait" "next_due s0 \<le> now s0" "td_step\<^sup>*\<^sup>* s0 s"
    "thread (hsk s) = T_task" "runs (hsk s) = Suc (runs (hsk s0))" "caller (hsk s) = caller_pc.Idle"
    "next_due s = 0" "now s = 1000" using td_working[of 1000] by blast
  then have reach: "hs_reach (hsk s)" using td_reach_hs td_reach_steps by blast
  have entry: "reached sample_table 0"
    "sample_table ! 0 = Some (\<lparr>alive = True, rtick = (3600, 0), due = 0\<rparr>, sample_plugin)" "task sample_plugin = Gather"
    by (simp_all add: reached_def sample_table_def)
  have due: "alive \<lparr>alive = True, rtick = (3600, 0), due = 0\<rparr>"
    "due \<lparr>alive = True, rtick = (3600, 0), due = 0\<rparr> = next_due s"
    "now s \<le> epoch_of (clock sample_machine (readings sample_machine + length (filter is_alive (take 0 sample_table))))"
    by (simp_all add: s(8,9) epoch_of_def MSPS_def NSPMS_def)
  from slow_gather_runs_twice[OF s(1-7) entry(1,2) due(1,2) entry(3) due(3),
      of "\<lparr>ping_ok = (\<lambda>_. False), sync_ok = (\<lambda>_. True)\<rparr>"]
  show ?thesis using rs_reach_steps[OF _ hs_reach_rs[OF reach]] by fastforce
qed

section \<open>The ticks\<close>

text \<open>
  The ticks are the single-precision constants nearest to their decimal literals, and the
  time to the next run they stand for, the product with 1000 rounded in single precision and
  cut, is exactly 2977, 4973, 530 and 21000 milliseconds.
\<close>

theorem ticks_in_milliseconds:
  "nearest OS_TICK 2977 1000 \<and> tick_ms OS_TICK = 2977 \<and>
   nearest MYSQL_TICK 4973 1000 \<and> tick_ms MYSQL_TICK = 4973 \<and>
   nearest SCHEDULER_TICK 53 100 \<and> tick_ms SCHEDULER_TICK = 530 \<and>
   tick_ms (STORAGE_TICK, 0) = 21000"
proof -
  note compute = tick_ms_def nearest_def round_bits_def round_quot_def excess_0 excess_Suc
  have "nearest OS_TICK 2977 1000" "tick_ms OS_TICK = 2977"
    by (simp_all add: OS_TICK_def compute)
  moreover have "nearest MYSQL_TICK 4973 1000" "tick_ms MYSQL_TICK = 4973"
    by (simp_all add: MYSQL_TICK_def compute)
  moreover have "nearest SCHEDULER_TICK 53 100" "tick_ms SCHEDULER_TICK = 530"
    by (simp_all add: SCHEDULER_TICK_def compute)
  moreover have "tick_ms (STORAGE_TICK, 0) = 21000"
    by (simp add: STORAGE_TICK_def compute)
  ultimately show ?thesis by blast
qed

end
